(* ===== verification/Prelude.thy ===== *)
theory Prelude
  imports Complex_Main "HOL-Library.Multiset" "HOL-Library.Sublist" "HOL-Library.AList"
begin

text \<open>
  The parts of the JavaScript language and of its standard library that the front end
  (\<^verbatim>\<open>frontend/src\<close>) relies on, and the generic lemmas every component shares:
  \<^item> strings as sequences of UTF-16 code units, with the operations the code calls
    (\<open>trim\<close>, \<open>includes\<close>, \<open>startsWith\<close>, \<open>slice\<close>, \<open>join\<close>, \<open>split\<close>);
  \<^item> the members every plain object inherits from \<open>Object.prototype\<close>, which a
    computed property read can hit;
  \<^item> \<open>Map\<close> and \<open>Set\<close> in insertion order;
  \<^item> \<open>Array.prototype.sort\<close> with a comparison function, and the locale of the
    comparison functions for which the language specification fixes its result.
\<close>

named_theorems js_eval \<open>equations that evaluate string operations on closed strings\<close>
named_theorems obj_simps \<open>lookup laws of the object and Map models\<close>

section \<open>Strings\<close>

text \<open>
  A JavaScript string is a sequence of UTF-16 code units; \<open>length\<close>, indexing and the
  regular expressions of the code (none has the \<open>u\<close> flag) see code units, not
  characters. A code unit is a natural number (below 65536 in a running program; nothing
  here depends on the bound). \<open>js ''abc''\<close> is the string of an ASCII literal.
\<close>

type_synonym jstr = "nat list"

definition js :: "string \<Rightarrow> jstr" where
  "js s = map of_char s"

lemma js_Nil [simp, js_eval]: "js [] = []"
  by (simp add: js_def)

lemma js_Cons [js_eval]: "js (c # s) = of_char c # js s"
  by (simp add: js_def)

lemma js_append: "js (s @ t) = js s @ js t"
  by (simp add: js_def)

lemma js_eq_iff [simp]: "js s = js t \<longleftrightarrow> s = t"
  by (simp add: js_def inj_map_eq_map inj_on_def)

lemma js_empty_iff [simp]: "js s = [] \<longleftrightarrow> s = []" "[] = js s \<longleftrightarrow> s = []"
  by (auto simp: js_def)

lemma length_js [simp]: "length (js s) = length s"
  by (simp add: js_def)

lemma js_ascii: "u \<in> set (js s) \<Longrightarrow> u < 256"
  by (auto simp: js_def)

abbreviation cu :: "char \<Rightarrow> nat" where
  "cu c \<equiv> of_char c"

text \<open>
  \<open>String.prototype.trim\<close>: the specification's white space and line terminators.
\<close>

definition is_ws :: "nat \<Rightarrow> bool" where
  "is_ws u \<longleftrightarrow> u \<in> set ([9, 10, 11, 12, 13, 32, 160, 5760] @ [8192..<8203] @
     [8232, 8233, 8239, 8287, 12288, 65279])"

definition trim_start :: "jstr \<Rightarrow> jstr" where
  "trim_start s = dropWhile is_ws s"

definition trim :: "jstr \<Rightarrow> jstr" where
  "trim s = rev (trim_start (rev (trim_start s)))"

text \<open>\<open>s.includes(t)\<close>, \<open>s.startsWith(t)\<close>.\<close>

definition contains :: "jstr \<Rightarrow> jstr \<Rightarrow> bool" where
  "contains s t \<longleftrightarrow> sublist t s"

definition starts_with :: "jstr \<Rightarrow> jstr \<Rightarrow> bool" where
  "starts_with s t \<longleftrightarrow> prefix t s"

text \<open>\<open>xs.join(sep)\<close>.\<close>

fun join :: "jstr \<Rightarrow> jstr list \<Rightarrow> jstr" where
  "join sep [] = []"
| "join sep [x] = x"
| "join sep (x # y # xs) = x @ sep @ join sep (y # xs)"

text \<open>\<open>s.split(c)\<close> for a separator of one code unit: always at least one piece.\<close>

fun split_on :: "nat \<Rightarrow> jstr \<Rightarrow> jstr list" where
  "split_on c [] = [[]]"
| "split_on c (u # s) =
     (if u = c then [] # split_on c s
      else (case split_on c s of p # ps \<Rightarrow> (u # p) # ps | [] \<Rightarrow> [[u]]))"

text \<open>Decimal text of a number (\<open>String(n)\<close> for an integer).\<close>

fun nat_text :: "nat \<Rightarrow> jstr" where
  "nat_text n = (if n < 10 then [48 + n] else nat_text (n div 10) @ [48 + n mod 10])"

declare nat_text.simps [simp del]

definition int_text :: "int \<Rightarrow> jstr" where
  "int_text i = (if i < 0 then 45 # nat_text (nat (- i)) else nat_text (nat i))"

text \<open>
  Truthiness of a nullable string: \<open>null\<close>, \<open>undefined\<close> and \<open>""\<close> are false.
\<close>

definition truthy :: "jstr option \<Rightarrow> bool" where
  "truthy s \<longleftrightarrow> s \<noteq> None \<and> s \<noteq> Some []"

text \<open>\<open>a ?? b\<close> for a nullable \<open>a\<close>.\<close>

definition coalesce :: "'a option \<Rightarrow> 'a \<Rightarrow> 'a" where
  "coalesce x d = (case x of Some v \<Rightarrow> v | None \<Rightarrow> d)"

lemma coalesce_simps [simp]: "coalesce (Some v) d = v" "coalesce None d = d"
  by (simp_all add: coalesce_def)

lemma truthy_simps [simp]: "\<not> truthy None" "\<not> truthy (Some [])" "truthy (Some (u # s))"
  by (simp_all add: truthy_def)

lemma truthy_Some: "truthy (Some s) \<longleftrightarrow> s \<noteq> []"
  by (simp add: truthy_def)

lemma truthyE: "truthy s \<Longrightarrow> (\<And>t. s = Some t \<Longrightarrow> t \<noteq> [] \<Longrightarrow> P) \<Longrightarrow> P"
  by (cases s) (auto simp: truthy_def)

subsection \<open>Laws\<close>

lemma trim_start_Nil [simp]: "trim_start [] = []"
  by (simp add: trim_start_def)

lemma trim_Nil [simp]: "trim [] = []"
  by (simp add: trim_def)

lemma trim_start_no_ws: "s \<noteq> [] \<Longrightarrow> \<not> is_ws (hd s) \<Longrightarrow> trim_start s = s"
  by (cases s) (simp_all add: trim_start_def)

text \<open>A string whose first and last code units are not white space is its own trim.\<close>

lemma trim_id: "s \<noteq> [] \<Longrightarrow> \<not> is_ws (hd s) \<Longrightarrow> \<not> is_ws (last s) \<Longrightarrow> trim s = s"
  by (simp add: trim_def trim_start_no_ws hd_rev)

lemma trim_start_eq_Nil: "trim_start s = [] \<longleftrightarrow> (\<forall>u \<in> set s. is_ws u)"
  by (simp add: trim_start_def)

lemma hd_trim_start: "trim_start s \<noteq> [] \<Longrightarrow> \<not> is_ws (hd (trim_start s))"
  unfolding trim_start_def by (rule hd_dropWhile)

lemma last_trim: "trim s \<noteq> [] \<Longrightarrow> \<not> is_ws (last (trim s))"
  by (simp add: trim_def last_rev hd_trim_start)

lemma suffix_trim_start: "suffix (trim_start s) s"
  by (simp add: trim_start_def suffix_dropWhile)

lemma hd_trim:
  assumes "trim s \<noteq> []"
  shows "\<not> is_ws (hd (trim s))"
proof -
  let ?t = "trim_start s"
  have "suffix (trim_start (rev ?t)) (rev ?t)" by (rule suffix_trim_start)
  then have p: "prefix (trim s) ?t"
    by (simp add: trim_def suffix_to_prefix)
  with assms have "?t \<noteq> []" by auto
  moreover from p assms have "hd (trim s) = hd ?t"
    by (auto simp: prefix_def)
  ultimately show ?thesis using hd_trim_start [of s] by simp
qed

lemma trim_idem [simp]: "trim (trim s) = trim s"
  by (cases "trim s = []") (simp_all add: trim_id hd_trim last_trim)

lemma contains_refl [simp]: "contains s s"
  by (simp add: contains_def)

lemma contains_Nil [simp]: "contains s []"
  by (simp add: contains_def)

lemma contains_append: "contains s t \<Longrightarrow> contains (a @ s @ b) t"
  unfolding contains_def by (metis sublist_appendI sublist_order.order.trans)

lemma split_on_nonempty [simp]: "split_on c s \<noteq> []"
  by (induction s) (auto split: list.splits)

lemma split_on_free: "c \<notin> set s \<Longrightarrow> split_on c s = [s]"
  by (induction s) auto

lemma split_on_append:
  "c \<notin> set s \<Longrightarrow> split_on c (s @ c # t) = s # split_on c t"
  by (induction s) auto

text \<open>\<open>split\<close> undoes \<open>join\<close> when no piece contains the separator.\<close>

lemma split_join:
  "ps \<noteq> [] \<Longrightarrow> \<forall>p \<in> set ps. c \<notin> set p \<Longrightarrow> split_on c (join [c] ps) = ps"
  by (induction "[c]" ps rule: join.induct) (auto simp: split_on_free split_on_append)

lemma join_split: "join [c] (split_on c s) = s"
proof (induction s)
  case Nil
  then show ?case by simp
next
  case (Cons u s)
  obtain p ps where s: "split_on c s = p # ps"
    by (cases "split_on c s") auto
  with Cons show ?case by (cases ps) auto
qed

lemma nat_text_digits: "u \<in> set (nat_text n) \<Longrightarrow> 48 \<le> u \<and> u \<le> 57"
proof (induction n rule: nat_text.induct)
  case (1 n)
  then show ?case
    by (cases "n < 10") (auto simp: nat_text.simps [of n] split: if_splits)
qed

lemma nat_text_nonempty [simp]: "nat_text n \<noteq> []"
  by (subst nat_text.simps) simp

section \<open>Character classes of the regular expressions\<close>

text \<open>
  Without the \<open>u\<close> flag a case-insensitive match never folds a non-ASCII unit onto an
  ASCII one, so on the ASCII patterns of the code \<open>ascii_lower\<close> is the whole folding.
\<close>

definition ascii_lower :: "nat \<Rightarrow> nat" where
  "ascii_lower u = (if 65 \<le> u \<and> u \<le> 90 then u + 32 else u)"

definition is_digit :: "nat \<Rightarrow> bool" where
  "is_digit u \<longleftrightarrow> 48 \<le> u \<and> u \<le> 57"

definition is_word :: "nat \<Rightarrow> bool" where
  "is_word u \<longleftrightarrow> is_digit u \<or> 65 \<le> u \<and> u \<le> 90 \<or> 97 \<le> u \<and> u \<le> 122 \<or> u = 95"

text \<open>The \<open>.\<close> of a pattern: anything but a line terminator.\<close>

definition is_dot :: "nat \<Rightarrow> bool" where
  "is_dot u \<longleftrightarrow> u \<notin> {10, 13, 8232, 8233}"

text \<open>\<open>/^lit(.+)$/.exec(s)?.[1]\<close> for a literal prefix.\<close>

definition after_prefix :: "jstr \<Rightarrow> jstr \<Rightarrow> jstr option" where
  "after_prefix p s =
     (if prefix p s \<and> drop (length p) s \<noteq> [] \<and> (\<forall>u \<in> set (drop (length p) s). is_dot u)
      then Some (drop (length p) s) else None)"

lemma after_prefix_Some: "after_prefix p s = Some b \<longleftrightarrow> s = p @ b \<and> b \<noteq> [] \<and> (\<forall>u \<in> set b. is_dot u)"
  by (auto simp: after_prefix_def prefix_def)

lemma is_digit_not_ws: "is_digit u \<Longrightarrow> \<not> is_ws u"
  by (auto simp: is_digit_def is_ws_def)

lemma nat_text_all_digits: "\<forall>u \<in> set (nat_text n). is_digit u"
  using nat_text_digits by (auto simp: is_digit_def)

end
