(* ===== verification/Js_Collections.thy ===== *)
theory Js_Collections
  imports Prelude
begin

text \<open>
  Plain objects used as dictionaries, \<open>Map\<close> and \<open>Set\<close>.

  An object literal \<open>{}\<close> inherits from \<open>Object.prototype\<close>: a computed read
  \<open>o[k]\<close> and the operator \<open>k in o\<close> also find the members listed in
  \<open>proto_names\<close>. The code tallies into plain objects
  (\<open>counts[key] = (counts[key] ?? 0) + 1\<close>), so for such a key the first read gives an
  inherited function or object, and adding 1 to it gives a string: \<open>Garbled\<close>.
\<close>

section \<open>Objects and the members they inherit\<close>

definition proto_names :: "jstr list" where
  "proto_names = map js [''constructor'', ''__defineGetter__'', ''__defineSetter__'',
     ''hasOwnProperty'', ''__lookupGetter__'', ''__lookupSetter__'', ''isPrototypeOf'',
     ''propertyIsEnumerable'', ''toString'', ''valueOf'', ''__proto__'', ''toLocaleString'']"

definition inherited :: "jstr \<Rightarrow> bool" where
  "inherited k \<longleftrightarrow> k \<in> set proto_names"

text \<open>\<open>k in o\<close> for an object whose own keys are \<open>ks\<close>.\<close>

definition in_object :: "jstr \<Rightarrow> jstr list \<Rightarrow> bool" where
  "in_object k ks \<longleftrightarrow> k \<in> set ks \<or> inherited k"

text \<open>
  The value of \<open>TABLE[k]\<close> on a constant table of strings: an own entry, a member inherited
  from \<open>Object.prototype\<close>, or \<open>undefined\<close>.
\<close>

datatype jsval = Text jstr | Inherited jstr

definition table_get :: "(jstr \<times> jstr) list \<Rightarrow> jstr \<Rightarrow> jsval option" where
  "table_get t k = (case map_of t k of
     Some v \<Rightarrow> Some (Text v)
   | None \<Rightarrow> if inherited k then Some (Inherited k) else None)"

lemma table_get_own [obj_simps]: "map_of t k = Some v \<Longrightarrow> table_get t k = Some (Text v)"
  by (simp add: table_get_def)

lemma table_get_other [obj_simps]:
  "map_of t k = None \<Longrightarrow> \<not> inherited k \<Longrightarrow> table_get t k = None"
  by (simp add: table_get_def)

section \<open>Tallies in a plain object\<close>

datatype cell = Count nat | Garbled

type_synonym tally = "(jstr \<times> cell) list"

definition tally_get :: "tally \<Rightarrow> jstr \<Rightarrow> cell option" where
  "tally_get t k = (case map_of t k of
     Some c \<Rightarrow> Some c
   | None \<Rightarrow> if inherited k then Some Garbled else None)"

definition bump :: "cell option \<Rightarrow> cell" where
  "bump c = (case c of None \<Rightarrow> Count 1 | Some (Count n) \<Rightarrow> Count (Suc n) | Some Garbled \<Rightarrow> Garbled)"

definition tally_bump :: "tally \<Rightarrow> jstr \<Rightarrow> tally" where
  "tally_bump t k = AList.update k (bump (tally_get t k)) t"

lemma tally_get_bump:
  "tally_get (tally_bump t k) k' = (if k' = k then Some (bump (tally_get t k)) else tally_get t k')"
  by (simp add: tally_bump_def tally_get_def update_conv')

text \<open>Counting a whole list of keys into an object.\<close>

definition tally_all :: "jstr list \<Rightarrow> tally \<Rightarrow> tally" where
  "tally_all ks t = fold (\<lambda>k t. tally_bump t k) ks t"

lemma tally_all_simps [simp]:
  "tally_all [] t = t" "tally_all (k # ks) t = tally_all ks (tally_bump t k)"
  "tally_all (ks @ ks') t = tally_all ks' (tally_all ks t)"
  by (simp_all add: tally_all_def)

definition plus_cell :: "nat \<Rightarrow> cell option \<Rightarrow> cell option" where
  "plus_cell n c = (if n = 0 then c else
     (case c of None \<Rightarrow> Some (Count n) | Some (Count m) \<Rightarrow> Some (Count (m + n))
      | Some Garbled \<Rightarrow> Some Garbled))"

lemma plus_cell_0 [simp]: "plus_cell 0 c = c"
  by (simp add: plus_cell_def)

lemma plus_cell_bump: "plus_cell n (Some (bump c)) = plus_cell (Suc n) c"
  by (auto simp: plus_cell_def bump_def split: option.splits cell.splits)

lemma tally_get_all: "tally_get (tally_all ks t) k = plus_cell (count_list ks k) (tally_get t k)"
  by (induction ks arbitrary: t) (auto simp: tally_get_bump plus_cell_bump)

text \<open>
  The tally of a list in a fresh object: the number of occurrences, for every key that is
  not the name of an inherited member.
\<close>

lemma tally_fresh:
  "\<not> inherited k \<Longrightarrow> tally_get (tally_all ks []) k =
     (if count_list ks k = 0 then None else Some (Count (count_list ks k)))"
  by (simp add: tally_get_all) (simp add: tally_get_def plus_cell_def)

lemma tally_fresh_inherited:
  "inherited k \<Longrightarrow> tally_get (tally_all ks []) k = Some Garbled"
  by (simp add: tally_get_all) (simp add: tally_get_def plus_cell_def)

text \<open>\<open>counts[k] ?? 0\<close>, the way a page reads a tally.\<close>

definition tally_or0 :: "tally \<Rightarrow> jstr \<Rightarrow> cell" where
  "tally_or0 t k = coalesce (tally_get t k) (Count 0)"

lemma tally_or0_fresh: "\<not> inherited k \<Longrightarrow> tally_or0 (tally_all ks []) k = Count (count_list ks k)"
  by (simp add: tally_or0_def tally_fresh)

lemma count_list_map: "count_list (map f xs) k = length (filter (\<lambda>x. f x = k) xs)"
  by (induction xs) auto

lemma count_list_map_filter:
  "count_list (List.map_filter f xs) k = length (filter (\<lambda>x. f x = Some k) xs)"
  by (induction xs) (auto simp: map_filter_simps split: option.splits)

section \<open>Map and Set in insertion order\<close>

text \<open>
  \<open>Map.prototype.set\<close> overwrites in place and appends a new key: \<open>AList.update\<close>.
  \<open>Set.prototype.add\<close> appends a new element and ignores a present one.
\<close>

definition set_add :: "'a \<Rightarrow> 'a list \<Rightarrow> 'a list" where
  "set_add x s = (if x \<in> set s then s else s @ [x])"

definition set_of_list :: "'a list \<Rightarrow> 'a list" where
  "set_of_list xs = fold set_add xs []"

text \<open>\<open>Set.prototype.delete\<close> reports whether the element was present.\<close>

definition set_delete :: "'a \<Rightarrow> 'a list \<Rightarrow> bool \<times> 'a list" where
  "set_delete x s = (x \<in> set s, filter (\<lambda>y. y \<noteq> x) s)"

lemma set_set_add [simp]: "set (set_add x s) = insert x (set s)"
  by (auto simp: set_add_def)

lemma distinct_set_add [simp]: "distinct (set_add x s) \<longleftrightarrow> distinct s"
  by (simp add: set_add_def)

lemma set_fold_add: "set (fold set_add xs s) = set xs \<union> set s"
  by (induction xs arbitrary: s) auto

lemma distinct_fold_add: "distinct s \<Longrightarrow> distinct (fold set_add xs s)"
  by (induction xs arbitrary: s) auto

lemma set_set_of_list [simp]: "set (set_of_list xs) = set xs"
  by (simp add: set_of_list_def set_fold_add)

lemma distinct_set_of_list [simp]: "distinct (set_of_list xs)"
  by (simp add: set_of_list_def distinct_fold_add)

lemma set_of_list_snoc: "set_of_list (xs @ [x]) = set_add x (set_of_list xs)"
  by (simp add: set_of_list_def)

text \<open>First-seen order: every element stands where its first occurrence stands.\<close>

lemma fold_set_add_prefix: "\<exists>t. fold set_add xs s = s @ t"
proof (induction xs arbitrary: s)
  case Nil
  then show ?case by simp
next
  case (Cons x xs)
  obtain t where t: "fold set_add xs (set_add x s) = set_add x s @ t" using Cons by blast
  have "\<exists>u. set_add x s = s @ u" by (simp add: set_add_def)
  with t show ?case by auto
qed

lemma set_of_list_Nil [simp]: "set_of_list [] = []"
  by (simp add: set_of_list_def)

lemma set_of_list_eq_Nil [simp]: "set_of_list xs = [] \<longleftrightarrow> xs = []"
  by (metis set_empty set_set_of_list)

lemma hd_set_of_list: "xs \<noteq> [] \<Longrightarrow> hd (set_of_list xs) = hd xs"
  using fold_set_add_prefix [of "tl xs" "[hd xs]"]
  by (cases xs) (auto simp: set_of_list_def set_add_def)

end
