(* ===== verification/Search_Params.thy ===== *)
theory Search_Params
  imports Js_Collections
begin

text \<open>
  \<open>URLSearchParams\<close>: the query of a URL as a list of names and values, with the operations
  the pages use, and the contract (a map from names to lists of values) their lemmas rest on.
\<close>

section \<open>The operations\<close>

type_synonym params = "(jstr \<times> jstr) list"

definition sp_get_all :: "params \<Rightarrow> jstr \<Rightarrow> jstr list" where
  "sp_get_all p k = map snd (filter (\<lambda>e. fst e = k) p)"

definition sp_get :: "params \<Rightarrow> jstr \<Rightarrow> jstr option" where
  "sp_get p k = map_of p k"

definition sp_delete :: "params \<Rightarrow> jstr \<Rightarrow> params" where
  "sp_delete p k = filter (\<lambda>e. fst e \<noteq> k) p"

definition sp_append :: "params \<Rightarrow> jstr \<Rightarrow> jstr \<Rightarrow> params" where
  "sp_append p k v = p @ [(k, v)]"

text \<open>\<open>set\<close> overwrites the first value in place and drops the others, or appends.\<close>

fun sp_set :: "params \<Rightarrow> jstr \<Rightarrow> jstr \<Rightarrow> params" where
  "sp_set [] k v = [(k, v)]"
| "sp_set (e # p) k v = (if fst e = k then (k, v) # sp_delete p k else e # sp_set p k v)"

section \<open>The contract\<close>

locale multimap =
  fixes get_all :: "'m \<Rightarrow> jstr \<Rightarrow> jstr list"
    and del :: "'m \<Rightarrow> jstr \<Rightarrow> 'm"
    and app :: "'m \<Rightarrow> jstr \<Rightarrow> jstr \<Rightarrow> 'm"
  assumes get_del: "get_all (del m k) k' = (if k' = k then [] else get_all m k')"
    and get_app: "get_all (app m k v) k' = (if k' = k then get_all m k' @ [v] else get_all m k')"
begin

lemma get_appends:
  "get_all (fold (\<lambda>v m. app m k v) vs m) k' = (if k' = k then get_all m k' @ vs else get_all m k')"
  by (induction vs arbitrary: m) (auto simp: get_app)

text \<open>Deleting a name and appending values replaces its values and touches nothing else.\<close>

lemma get_replace:
  "get_all (fold (\<lambda>v m. app m k v) vs (del m k)) k' = (if k' = k then vs else get_all m k')"
  by (simp add: get_appends get_del)

text \<open>A patch of several distinct names.\<close>

lemma get_patch:
  "distinct (map fst ps) \<Longrightarrow>
   get_all (fold (\<lambda>(k, vs) m. fold (\<lambda>v m. app m k v) vs (del m k)) ps m) k' =
     (case map_of ps k' of Some vs \<Rightarrow> vs | None \<Rightarrow> get_all m k')"
proof (induction ps arbitrary: m)
  case (Cons e ps)
  obtain k vs where e: "e = (k, vs)" by (cases e)
  with Cons have "map_of ps k = None" by (auto simp: map_of_eq_None_iff)
  with Cons e show ?case by (auto simp: get_replace split: option.splits)
qed simp

end

interpretation sp: multimap sp_get_all sp_delete sp_append
  by unfold_locales (auto simp: sp_get_all_def sp_delete_def sp_append_def intro!: arg_cong [where f = "map snd"] filter_cong)

section \<open>Laws of the other readers\<close>

lemma sp_get_hd: "sp_get p k = (case sp_get_all p k of [] \<Rightarrow> None | v # _ \<Rightarrow> Some v)"
  by (induction p) (auto simp: sp_get_def sp_get_all_def)

lemma sp_get_all_set: "sp_get_all (sp_set p k v) k' = (if k' = k then [v] else sp_get_all p k')"
proof (induction p)
  case Nil
  then show ?case by (simp add: sp_get_all_def)
next
  case (Cons e p)
  then show ?case using sp.get_del [of p k k'] by (auto simp: sp_get_all_def)
qed

lemma sp_get_all_Cons: "sp_get_all (e # p) k = (if fst e = k then [snd e] else []) @ sp_get_all p k"
  by (simp add: sp_get_all_def)

lemma sp_get_all_Nil [simp]: "sp_get_all [] k = []"
  by (simp add: sp_get_all_def)

section \<open>Patching the URL\<close>

text \<open>
  The loop of \<open>updateFilters\<close>: a patch maps a name to one nullable text or to several texts;
  each name is deleted and its non-empty values appended.
\<close>

datatype patch_value = One "jstr option" | Several "jstr list"

definition patch_texts :: "patch_value \<Rightarrow> jstr list" where
  "patch_texts v =
     map the (filter (\<lambda>x. x \<noteq> None \<and> x \<noteq> Some []) (case v of One x \<Rightarrow> [x] | Several xs \<Rightarrow> map Some xs))"

definition apply_patch :: "(jstr \<times> patch_value) list \<Rightarrow> params \<Rightarrow> params" where
  "apply_patch patch p =
     fold (\<lambda>(k, v) p. fold (\<lambda>x p. sp_append p k x) (patch_texts v) (sp_delete p k)) patch p"

lemma patch_texts_simps [simp]:
  "patch_texts (One None) = []" "patch_texts (One (Some [])) = []"
  "s \<noteq> [] \<Longrightarrow> patch_texts (One (Some s)) = [s]"
  "patch_texts (Several xs) = filter (\<lambda>x. x \<noteq> []) xs"
  by (induction xs) (auto simp: patch_texts_def)

lemma get_all_patch:
  "distinct (map fst patch) \<Longrightarrow> sp_get_all (apply_patch patch p) k =
     (case map_of patch k of Some v \<Rightarrow> patch_texts v | None \<Rightarrow> sp_get_all p k)"
proof -
  assume d: "distinct (map fst patch)"
  let ?ps = "map (\<lambda>(k, v). (k, patch_texts v)) patch"
  have "apply_patch patch p = fold (\<lambda>(k, vs) m. fold (\<lambda>v m. sp_append m k v) vs (sp_delete m k)) ?ps p"
    by (simp add: apply_patch_def fold_map comp_def split_def)
  moreover have "distinct (map fst ?ps)" using d by (simp add: split_def comp_def)
  moreover have "map_of ?ps k = map_option patch_texts (map_of patch k)"
    by (simp add: map_of_map)
  ultimately show ?thesis by (simp add: sp.get_patch split: option.splits)
qed

end
