(* ===== verification/Js_Sort.thy ===== *)
theory Js_Sort
  imports Js_Collections
begin

text \<open>
  \<open>Array.prototype.sort(cmp)\<close>. The language specification makes it stable, and fixes its
  result only for a consistent comparison function: the locale \<open>comparator\<close> states that
  consistency, and \<open>js_sort_unique\<close> shows that any stable sort then gives the list that
  \<open>js_sort\<close> computes. A comparison result is modelled by an integer, of which only the
  sign matters; the code's \<open>NaN\<close> results count as 0, as the specification says.
\<close>

section \<open>The sort\<close>

fun js_insert :: "('a \<Rightarrow> 'a \<Rightarrow> int) \<Rightarrow> 'a \<Rightarrow> 'a list \<Rightarrow> 'a list" where
  "js_insert cmp x [] = [x]"
| "js_insert cmp x (y # ys) = (if cmp x y \<le> 0 then x # y # ys else y # js_insert cmp x ys)"

definition js_sort :: "('a \<Rightarrow> 'a \<Rightarrow> int) \<Rightarrow> 'a list \<Rightarrow> 'a list" where
  "js_sort cmp xs = foldr (js_insert cmp) xs []"

lemma js_sort_simps [simp]:
  "js_sort cmp [] = []" "js_sort cmp (x # xs) = js_insert cmp x (js_sort cmp xs)"
  by (simp_all add: js_sort_def)

lemma mset_js_insert [simp]: "mset (js_insert cmp x ys) = add_mset x (mset ys)"
  by (induction ys) auto

lemma mset_js_sort [simp]: "mset (js_sort cmp xs) = mset xs"
  by (induction xs) auto

lemma set_js_insert [simp]: "set (js_insert cmp x ys) = insert x (set ys)"
  by (induction ys) auto

lemma set_js_sort [simp]: "set (js_sort cmp xs) = set xs"
  by (induction xs) auto

lemma length_js_sort [simp]: "length (js_sort cmp xs) = length xs"
  by (metis mset_js_sort size_mset)

lemma distinct_js_sort [simp]: "distinct (js_sort cmp xs) \<longleftrightarrow> distinct xs"
  by (rule mset_eq_imp_distinct_iff) simp

text \<open>Only the comparisons between elements of the list matter.\<close>

lemma js_insert_cong:
  "\<forall>y \<in> set ys. cmp x y = cmp' x y \<Longrightarrow> js_insert cmp x ys = js_insert cmp' x ys"
  by (induction ys) auto

lemma js_sort_cong:
  "\<forall>x \<in> set xs. \<forall>y \<in> set xs. cmp x y = cmp' x y \<Longrightarrow> js_sort cmp xs = js_sort cmp' xs"
  by (induction xs) (auto intro: js_insert_cong)

section \<open>Consistent comparison functions\<close>

locale comparator =
  fixes cmp :: "'a \<Rightarrow> 'a \<Rightarrow> int"
  assumes cmp_swap: "sgn (cmp y x) = - sgn (cmp x y)"
    and cmp_trans: "cmp x y \<le> 0 \<Longrightarrow> cmp y z \<le> 0 \<Longrightarrow> cmp x z \<le> 0"
begin

lemma cmp_refl: "cmp x x = 0"
  using cmp_swap [of x x] by (simp add: sgn_if split: if_splits)

lemma cmp_le_swap: "cmp y x \<le> 0 \<longleftrightarrow> 0 \<le> cmp x y"
  using cmp_swap [of y x] by (auto simp: sgn_if split: if_splits)

lemma cmp_zero_swap: "cmp y x = 0 \<longleftrightarrow> cmp x y = 0"
  using cmp_swap [of y x] by (auto simp: sgn_if split: if_splits)

lemma cmp_total: "cmp x y \<le> 0 \<or> cmp y x \<le> 0"
  using cmp_le_swap [of x y] by linarith

lemma cmp_zero_trans: "cmp x y = 0 \<Longrightarrow> cmp y z = 0 \<Longrightarrow> cmp x z = 0"
proof -
  assume a: "cmp x y = 0" "cmp y z = 0"
  then have "cmp x z \<le> 0" using cmp_trans [of x y z] by simp
  moreover have "cmp z x \<le> 0"
    using a cmp_trans [of z y x] cmp_zero_swap [of x y] cmp_zero_swap [of y z] by simp
  ultimately show ?thesis using cmp_le_swap [of z x] by linarith
qed

lemma cmp_le_cong: "cmp x y = 0 \<Longrightarrow> cmp x z \<le> 0 \<longleftrightarrow> cmp y z \<le> 0"
  using cmp_trans [of x y z] cmp_trans [of y x z] cmp_zero_swap [of x y] by auto

lemma sorted_js_insert:
  "sorted_wrt (\<lambda>a b. cmp a b \<le> 0) ys \<Longrightarrow> sorted_wrt (\<lambda>a b. cmp a b \<le> 0) (js_insert cmp x ys)"
proof (induction ys)
  case Nil
  then show ?case by simp
next
  case (Cons y ys)
  show ?case
  proof (cases "cmp x y \<le> 0")
    case True
    with Cons.prems show ?thesis by (auto intro: cmp_trans)
  next
    case False
    then have "cmp y x \<le> 0" using cmp_total [of x y] by simp
    with Cons False show ?thesis by auto
  qed
qed

lemma sorted_js_sort: "sorted_wrt (\<lambda>a b. cmp a b \<le> 0) (js_sort cmp xs)"
  by (induction xs) (auto intro: sorted_js_insert)

lemma filter_js_insert:
  "sorted_wrt (\<lambda>a b. cmp a b \<le> 0) ys \<Longrightarrow>
     filter (\<lambda>y. cmp k y = 0) (js_insert cmp x ys) =
       (if cmp k x = 0 then x # filter (\<lambda>y. cmp k y = 0) ys else filter (\<lambda>y. cmp k y = 0) ys)"
proof (induction ys)
  case Nil
  then show ?case by simp
next
  case (Cons y ys)
  show ?case
  proof (cases "cmp x y \<le> 0")
    case True
    then show ?thesis by simp
  next
    case False
    have "cmp k y \<noteq> 0" if "cmp k x = 0"
      using that False cmp_zero_trans [of x k y] cmp_zero_swap [of k x] by auto
    with Cons False show ?thesis by auto
  qed
qed

text \<open>Stability: elements that compare equal keep their order.\<close>

lemma stable_js_sort: "filter (\<lambda>y. cmp k y = 0) (js_sort cmp xs) = filter (\<lambda>y. cmp k y = 0) xs"
  by (induction xs) (simp_all add: filter_js_insert sorted_js_sort)

text \<open>A list sorted by \<open>cmp\<close> is determined by its classes of equal elements.\<close>

lemma sorted_classes_eq:
  assumes "sorted_wrt (\<lambda>a b. cmp a b \<le> 0) xs" "sorted_wrt (\<lambda>a b. cmp a b \<le> 0) ys"
    and "\<And>k. filter (\<lambda>y. cmp k y = 0) xs = filter (\<lambda>y. cmp k y = 0) ys"
  shows "xs = ys"
  using assms
proof (induction xs arbitrary: ys)
  case Nil
  have "ys = []"
  proof (rule ccontr)
    assume "ys \<noteq> []"
    then obtain z zs where ys: "ys = z # zs" by (cases ys) auto
    have "filter (\<lambda>y. cmp z y = 0) ys = []" using Nil.prems(3) [of z] by simp
    with ys show False by (simp add: cmp_refl)
  qed
  then show ?case by simp
next
  case (Cons x xs)
  have fx: "filter (\<lambda>y. cmp x y = 0) ys = x # filter (\<lambda>y. cmp x y = 0) xs"
    using Cons.prems(3) [of x] by (simp add: cmp_refl)
  then obtain z zs where ys: "ys = z # zs" by (cases ys) auto
  have "x \<in> set ys" using fx by (metis filter_is_subset list.set_intros(1) subsetD)
  then have zx: "cmp z x \<le> 0" using Cons.prems(2) ys by (auto simp: cmp_refl)
  have "filter (\<lambda>y. cmp z y = 0) (x # xs) = z # filter (\<lambda>y. cmp z y = 0) zs"
    using Cons.prems(3) [of z] ys by (simp add: cmp_refl)
  then have "z \<in> set (x # xs)" by (metis filter_is_subset list.set_intros(1) subsetD)
  then have "cmp x z \<le> 0" using Cons.prems(1) by (auto simp: cmp_refl)
  with zx have "cmp x z = 0" using cmp_le_swap [of z x] by linarith
  with fx ys have [simp]: "z = x" by simp
  have "filter (\<lambda>y. cmp k y = 0) xs = filter (\<lambda>y. cmp k y = 0) zs" for k
    using Cons.prems(3) [of k] ys by (auto split: if_splits)
  with Cons.IH [of zs] Cons.prems(1,2) ys show ?case by simp
qed

text \<open>
  The specification's result: any sorted arrangement that keeps the order of equal elements
  is the one \<open>js_sort\<close> computes.
\<close>

lemma js_sort_unique:
  assumes "sorted_wrt (\<lambda>a b. cmp a b \<le> 0) ys"
    and "\<And>k. filter (\<lambda>y. cmp k y = 0) ys = filter (\<lambda>y. cmp k y = 0) xs"
  shows "ys = js_sort cmp xs"
  using assms(1) sorted_js_sort by (rule sorted_classes_eq) (simp add: assms(2) stable_js_sort)

lemma js_sort_idem: "js_sort cmp (js_sort cmp xs) = js_sort cmp xs"
  by (rule js_sort_unique [symmetric]) (simp_all add: sorted_js_sort stable_js_sort)

text \<open>A list of equal elements is sorted as it is; sorting commutes with filtering.\<close>

lemma js_sort_equal: "\<forall>x \<in> set xs. \<forall>y \<in> set xs. cmp x y = 0 \<Longrightarrow> js_sort cmp xs = xs"
  by (rule js_sort_unique [symmetric]) (simp_all add: sorted_wrt_iff_nth_less)

lemma sort_filter: "js_sort cmp (filter P xs) = filter P (js_sort cmp xs)"
proof (rule js_sort_unique [symmetric])
  show "sorted_wrt (\<lambda>a b. cmp a b \<le> 0) (filter P (js_sort cmp xs))"
    by (rule sorted_wrt_filter [OF sorted_js_sort])
  fix k
  have "filter (\<lambda>y. cmp k y = 0) (filter P (js_sort cmp xs))
      = filter P (filter (\<lambda>y. cmp k y = 0) (js_sort cmp xs))"
    by (simp add: conj_commute)
  also have "\<dots> = filter (\<lambda>y. cmp k y = 0) (filter P xs)"
    by (simp add: stable_js_sort conj_commute)
  finally show "filter (\<lambda>y. cmp k y = 0) (filter P (js_sort cmp xs))
      = filter (\<lambda>y. cmp k y = 0) (filter P xs)" .
qed

end

section \<open>Building comparison functions\<close>

text \<open>\<open>key(a) - key(b)\<close>.\<close>

definition by_key :: "('a \<Rightarrow> int) \<Rightarrow> 'a \<Rightarrow> 'a \<Rightarrow> int" where
  "by_key key a b = key a - key b"

text \<open>\<open>c(a, b) || d(a, b)\<close>: the second decides ties of the first.\<close>

definition cmp_or :: "('a \<Rightarrow> 'a \<Rightarrow> int) \<Rightarrow> ('a \<Rightarrow> 'a \<Rightarrow> int) \<Rightarrow> 'a \<Rightarrow> 'a \<Rightarrow> int" where
  "cmp_or c d a b = (if c a b \<noteq> 0 then c a b else d a b)"

text \<open>\<open>sign * c(a, b)\<close> with \<open>sign = desc ? -1 : 1\<close>.\<close>

definition cmp_sign :: "bool \<Rightarrow> ('a \<Rightarrow> 'a \<Rightarrow> int) \<Rightarrow> 'a \<Rightarrow> 'a \<Rightarrow> int" where
  "cmp_sign desc c a b = (if desc then - 1 else 1) * c a b"

text \<open>\<open>c(f(a), f(b))\<close>.\<close>

definition cmp_on :: "('a \<Rightarrow> 'b) \<Rightarrow> ('b \<Rightarrow> 'b \<Rightarrow> int) \<Rightarrow> 'a \<Rightarrow> 'a \<Rightarrow> int" where
  "cmp_on f c a b = c (f a) (f b)"

text \<open>A \<open>null\<close> goes after every value, the others compare by \<open>c\<close>.\<close>

definition nulls_last :: "('a \<Rightarrow> 'a \<Rightarrow> int) \<Rightarrow> 'a option \<Rightarrow> 'a option \<Rightarrow> int" where
  "nulls_last c a b = (case a of
     None \<Rightarrow> (case b of None \<Rightarrow> 0 | Some _ \<Rightarrow> 1)
   | Some x \<Rightarrow> (case b of None \<Rightarrow> - 1 | Some y \<Rightarrow> c x y))"

interpretation by_key: comparator "by_key key" for key
  by unfold_locales (auto simp: by_key_def sgn_if)

context comparator begin

lemma comparator_sign: "comparator (cmp_sign desc cmp)"
proof
  show "sgn (cmp_sign desc cmp y x) = - sgn (cmp_sign desc cmp x y)" for x y
    using cmp_swap [of y x] by (simp add: cmp_sign_def)
  show "cmp_sign desc cmp x z \<le> 0" if "cmp_sign desc cmp x y \<le> 0" "cmp_sign desc cmp y z \<le> 0"
    for x y z
    using that cmp_trans [of x y z] cmp_trans [of z y x] cmp_le_swap
    by (auto simp: cmp_sign_def split: if_splits)
qed

lemma comparator_on: "comparator (cmp_on f cmp)"
  by unfold_locales (auto simp: cmp_on_def intro: cmp_swap cmp_trans)

lemma comparator_nulls_last: "comparator (nulls_last cmp)"
proof
  show "sgn (nulls_last cmp y x) = - sgn (nulls_last cmp x y)" for x y
  proof (cases x; cases y)
    fix a b
    assume "x = Some a" "y = Some b"
    then show ?thesis using cmp_swap [of b a] by (simp add: nulls_last_def)
  qed (simp_all add: nulls_last_def)
  show "nulls_last cmp x z \<le> 0" if "nulls_last cmp x y \<le> 0" "nulls_last cmp y z \<le> 0" for x y z
    using that by (auto simp: nulls_last_def intro: cmp_trans split: option.splits)
qed

end

locale comparator_pair = first: comparator c + second: comparator d
  for c d :: "'a \<Rightarrow> 'a \<Rightarrow> int"

sublocale comparator_pair \<subseteq> either: comparator "cmp_or c d"
proof
  show "sgn (cmp_or c d y x) = - sgn (cmp_or c d x y)" for x y
    using first.cmp_swap [of y x] second.cmp_swap [of y x] first.cmp_zero_swap [of y x]
    by (simp add: cmp_or_def)
  show "cmp_or c d x z \<le> 0" if "cmp_or c d x y \<le> 0" "cmp_or c d y z \<le> 0" for x y z
  proof -
    have xy: "c x y \<le> 0" and yz: "c y z \<le> 0"
      using that by (auto simp: cmp_or_def split: if_splits)
    then have xz: "c x z \<le> 0" by (rule first.cmp_trans)
    show ?thesis
    proof (cases "c x z = 0")
      case True
      have "c x y = 0"
        using True xy yz first.cmp_le_cong [of x z y] first.cmp_le_swap first.cmp_zero_swap
          first.cmp_trans [of y z x]
        by (metis antisym order_refl)
      moreover have "c y z = 0"
        using True calculation first.cmp_zero_swap first.cmp_zero_trans by blast
      ultimately have "d x y \<le> 0" "d y z \<le> 0" using that by (auto simp: cmp_or_def)
      then show ?thesis using True second.cmp_trans by (auto simp: cmp_or_def)
    next
      case False
      with xz show ?thesis by (simp add: cmp_or_def)
    qed
  qed
qed

context comparator_pair begin

lemma comparator_either: "comparator (cmp_or c d)"
  by (rule either.comparator_axioms)

end

section \<open>The lexicographic order of code units\<close>

fun lex_cmp :: "nat list \<Rightarrow> nat list \<Rightarrow> int" where
  "lex_cmp [] [] = 0"
| "lex_cmp [] (y # ys) = - 1"
| "lex_cmp (x # xs) [] = 1"
| "lex_cmp (x # xs) (y # ys) = (if x < y then - 1 else if y < x then 1 else lex_cmp xs ys)"

lemma lex_cmp_Nil_left: "lex_cmp [] ys \<le> 0"
  by (cases ys) simp_all

lemma lex_cmp_Nil_right: "lex_cmp xs [] \<le> 0 \<longleftrightarrow> xs = []"
  by (cases xs) simp_all

lemma lex_cmp_swap: "lex_cmp ys xs = - lex_cmp xs ys"
  by (induction xs ys rule: lex_cmp.induct) simp_all

lemma lex_cmp_trans: "lex_cmp xs ys \<le> 0 \<Longrightarrow> lex_cmp ys zs \<le> 0 \<Longrightarrow> lex_cmp xs zs \<le> 0"
proof (induction xs arbitrary: ys zs)
  case Nil
  show ?case by (rule lex_cmp_Nil_left)
next
  case (Cons x xs)
  then obtain y ys' where ys: "ys = y # ys'" by (cases ys) auto
  with Cons.prems obtain z zs' where zs: "zs = z # zs'" by (cases zs) auto
  show ?case
  proof (cases "x = y \<and> y = z")
    case True
    with Cons.prems Cons.IH [of ys' zs'] ys zs show ?thesis by simp
  next
    case False
    with Cons.prems ys zs have "x < z" by (simp split: if_splits)
    with zs show ?thesis by simp
  qed
qed

interpretation lex_cmp: comparator lex_cmp
  by unfold_locales (subst lex_cmp_swap, simp, rule lex_cmp_trans)

end
