(* ===== verification/Wire_Types.thy ===== *)
theory Wire_Types
  imports Js_Sort
begin

text \<open>
  The JSON shapes the API sends (\<^verbatim>\<open>src/types/server.ts\<close>, \<^verbatim>\<open>events.ts\<close>,
  \<^verbatim>\<open>classification.ts\<close>, \<^verbatim>\<open>health.ts\<close>, \<^verbatim>\<open>src/api/sites.ts\<close>) and the severity
  order of \<^verbatim>\<open>src/components/severity.ts\<close>. A union of string literals is a datatype
  with the text of each member; \<open>X | null\<close> and an optional key are an option; an
  interface is a record whose fields carry the interface's initials
  (\<open>sr_name\<close> is \<open>ServerRow.name\<close>).
\<close>

section \<open>Unions of string literals\<close>

datatype vendor = Dell | Cisco | Hp | Standalone

fun vendor_text :: "vendor \<Rightarrow> jstr" where
  "vendor_text Dell = js ''dell''"
| "vendor_text Cisco = js ''cisco''"
| "vendor_text Hp = js ''hp''"
| "vendor_text Standalone = js ''standalone''"

datatype severity = CRITICAL | MAJOR | WARNING | HEALTHY | UNKNOWN

fun severity_text :: "severity \<Rightarrow> jstr" where
  "severity_text CRITICAL = js ''CRITICAL''"
| "severity_text MAJOR = js ''MAJOR''"
| "severity_text WARNING = js ''WARNING''"
| "severity_text HEALTHY = js ''HEALTHY''"
| "severity_text UNKNOWN = js ''UNKNOWN''"

datatype link_state = LinkUp | LinkDown | LinkUnknown | LinkDisabled

datatype admin_state = AdminEnabled | AdminDisabled | AdminUnknown

datatype installation_type = HOSTED_CLUSTER | MCE | UPI | UNCLASSIFIED

fun installation_type_text :: "installation_type \<Rightarrow> jstr" where
  "installation_type_text HOSTED_CLUSTER = js ''HOSTED_CLUSTER''"
| "installation_type_text MCE = js ''MCE''"
| "installation_type_text UPI = js ''UPI''"
| "installation_type_text UNCLASSIFIED = js ''UNCLASSIFIED''"

datatype openshift_state = AVAILABLE | INSTALLED | INSTALLED_TO_INVENTORY

fun openshift_state_text :: "openshift_state \<Rightarrow> jstr" where
  "openshift_state_text AVAILABLE = js ''AVAILABLE''"
| "openshift_state_text INSTALLED = js ''INSTALLED''"
| "openshift_state_text INSTALLED_TO_INVENTORY = js ''INSTALLED_TO_INVENTORY''"

datatype unreachable_reason =
  Network_unreachable | Auth_rejected | Tls_error | Timed_out | Protocol_error | Not_an_idrac

lemma vendor_text_inj [simp]: "vendor_text a = vendor_text b \<longleftrightarrow> a = b"
  by (cases a; cases b) simp_all

lemma severity_text_inj [simp]: "severity_text a = severity_text b \<longleftrightarrow> a = b"
  by (cases a; cases b) simp_all

lemma installation_type_text_inj [simp]:
  "installation_type_text a = installation_type_text b \<longleftrightarrow> a = b"
  by (cases a; cases b) simp_all

lemma openshift_state_text_inj [simp]:
  "openshift_state_text a = openshift_state_text b \<longleftrightarrow> a = b"
  by (cases a; cases b) simp_all

text \<open>No member of these unions names a member of \<open>Object.prototype\<close>.\<close>

lemma vendor_not_inherited [simp]: "\<not> inherited (vendor_text v)"
  by (cases v; simp add: inherited_def proto_names_def)

lemma severity_not_inherited [simp]: "\<not> inherited (severity_text s)"
  by (cases s; simp add: inherited_def proto_names_def)

lemma installation_type_not_inherited [simp]: "\<not> inherited (installation_type_text t)"
  by (cases t; simp add: inherited_def proto_names_def)

lemma openshift_state_not_inherited [simp]: "\<not> inherited (openshift_state_text st)"
  by (cases st; simp add: inherited_def proto_names_def)

section \<open>The severity order\<close>

definition SEVERITY_ORDER :: "severity list" where
  "SEVERITY_ORDER = [CRITICAL, MAJOR, WARNING, HEALTHY, UNKNOWN]"

text \<open>\<open>indexOf\<close> and \<open>findIndex\<close>: the first position, or \<open>-1\<close>.\<close>

fun find_index :: "('a \<Rightarrow> bool) \<Rightarrow> 'a list \<Rightarrow> int" where
  "find_index p [] = - 1"
| "find_index p (x # xs) =
     (if p x then 0 else let i = find_index p xs in if i = - 1 then - 1 else i + 1)"

definition index_of :: "'a list \<Rightarrow> 'a \<Rightarrow> int" where
  "index_of xs x = find_index (\<lambda>y. y = x) xs"

definition severity_rank :: "severity \<Rightarrow> int" where
  "severity_rank s = index_of SEVERITY_ORDER s"

lemma severity_rank_simps [simp]:
  "severity_rank CRITICAL = 0" "severity_rank MAJOR = 1" "severity_rank WARNING = 2"
  "severity_rank HEALTHY = 3" "severity_rank UNKNOWN = 4"
  by (simp_all add: severity_rank_def index_of_def SEVERITY_ORDER_def)

lemma severity_rank_inj [simp]: "severity_rank a = severity_rank b \<longleftrightarrow> a = b"
  by (cases a; cases b) simp_all

text \<open>The most severe first: the order of the type is the order of the list.\<close>

instantiation severity :: linorder
begin

definition less_eq_severity :: "severity \<Rightarrow> severity \<Rightarrow> bool" where
  "less_eq_severity a b \<longleftrightarrow> severity_rank a \<le> severity_rank b"

definition less_severity :: "severity \<Rightarrow> severity \<Rightarrow> bool" where
  "less_severity a b \<longleftrightarrow> severity_rank a < severity_rank b"

instance
  by standard (auto simp: less_eq_severity_def less_severity_def)

end

lemma SEVERITY_ORDER_sorted: "sorted SEVERITY_ORDER" and SEVERITY_ORDER_all: "s \<in> set SEVERITY_ORDER"
  by (simp_all add: SEVERITY_ORDER_def less_eq_severity_def) (cases s; simp)

text \<open>\<open>isHealthSeverity\<close> tests \<open>value in SEVERITY_GLYPH\<close>.\<close>

definition severity_glyph :: "(severity \<times> jstr) list" where
  "severity_glyph = [(CRITICAL, [9670]), (MAJOR, [11039]), (WARNING, [9650]),
     (HEALTHY, [9679]), (UNKNOWN, [9675])]"

definition is_health_severity :: "jstr \<Rightarrow> bool" where
  "is_health_severity v = in_object v (map (severity_text \<circ> fst) severity_glyph)"

section \<open>Inventory rows\<close>

record maintenance_state =
  ms_enabled :: bool
  ms_reason :: "jstr option"
  ms_created_by :: "jstr option"

record reservation_state =
  rs_held :: bool
  rs_holder :: "jstr option"
  rs_mce_cluster :: "jstr option"
  rs_infra_env :: "jstr option"
  rs_expires_at :: "jstr option"

record server_row =
  sr_id :: jstr
  sr_name :: jstr
  sr_vendor :: vendor
  sr_model :: "jstr option"
  sr_site_id :: "jstr option"
  sr_source_provider :: "jstr option"
  sr_installation_type :: installation_type
  sr_health :: severity
  sr_maintenance :: maintenance_state
  sr_reservation :: reservation_state
  sr_openshift_state :: openshift_state
  sr_cluster_name :: "jstr option"
  sr_mce_name :: "jstr option"
  sr_openshift_reported_name :: "jstr option"
  sr_contested_with :: "jstr option"
  sr_profile_template_name :: "jstr option"
  sr_last_seen_at :: "jstr option"
  sr_stale :: bool
  sr_reachable :: bool
  sr_serial :: "jstr option"
  sr_bmc_host :: "jstr option"
  sr_macs :: "jstr list"

record server_rows_response =
  srr_items :: "server_row list"
  srr_generated_at :: jstr

section \<open>The detail document\<close>

record classification =
  cl_installation_type :: installation_type
  cl_matched_rule_id :: "jstr option"
  cl_matched_rule_name :: "jstr option"
  cl_matched_field :: "jstr option"
  cl_matched_pattern :: "jstr option"

record profile_template =
  pt_name :: "jstr option"
  pt_external_id :: "jstr option"

record summary_reason =
  sm_policy_key :: jstr
  sm_policy_name :: jstr
  sm_category :: jstr
  sm_severity :: severity
  sm_message :: "jstr option"

record health_summary =
  hs_overall :: severity
  hs_memory :: severity
  hs_storage :: severity
  hs_network :: severity
  hs_raid :: severity
  hs_connectivity :: severity
  hs_power :: severity
  hs_gpu :: severity
  hs_bmc :: severity
  hs_name :: severity
  hs_reasons :: "summary_reason list option"

record connectivity_facts =
  cf_fabric_paths_total :: int
  cf_fabric_paths_up :: int
  cf_fabric_paths_down :: int
  cf_fabrics_present :: "jstr list"

record server_identity =
  si_vendor :: vendor
  si_serial :: "jstr option"
  si_system_uuid :: "jstr option"
  si_nic_macs :: "jstr list"

record cpu_info =
  cpu_sockets :: int
  cpu_cores :: int
  cpu_threads :: int
  cpu_model :: "jstr option"

record memory_module =
  mm_slot :: "jstr option"
  mm_size_bytes :: "int option"
  mm_speed_mhz :: "int option"
  mm_health :: "jstr option"
  mm_health_detail :: "jstr option"

record memory_info =
  mi_total_bytes :: int
  mi_modules :: "memory_module list"

record storage_drive =
  sd_id :: jstr
  sd_model :: "jstr option"
  sd_serial :: "jstr option"
  sd_media_type :: jstr
  sd_capacity_bytes :: "int option"
  sd_health :: "jstr option"
  sd_health_detail :: "jstr option"

record storage_volume =
  sv_id :: jstr
  sv_raid_type :: "jstr option"
  sv_volume_type :: "jstr option"
  sv_capacity_bytes :: "int option"
  sv_health :: "jstr option"

datatype controller_kind = RAID | BOSS | AHCI | NVME | OTHER

record storage_controller =
  sc_id :: jstr
  sc_name :: "jstr option"
  sc_kind :: controller_kind
  sc_volumes :: "storage_volume list"

datatype raid_state = RaidPresent | RaidAbsent | RaidUnknown

record raid_detection =
  rd_state :: raid_state
  rd_method :: "jstr option"
  rd_bmc :: "jstr option"
  rd_reason :: "jstr option"

record storage_info =
  st_total_bytes :: int
  st_drives :: "storage_drive list"
  st_controllers :: "storage_controller list option"
  st_raid :: "raid_detection option"

record gpu_info =
  gpu_vendor :: "jstr option"
  gpu_model :: "jstr option"
  gpu_serial :: "jstr option"
  gpu_memory_bytes :: "int option"
  gpu_health :: "jstr option"
  gpu_health_detail :: "jstr option"
  gpu_pci_address :: "jstr option"
  gpu_firmware_version :: "jstr option"
  gpu_memory_type :: "jstr option"
  gpu_ecc_mode_enabled :: "bool option"
  gpu_correctable_error_count :: "int option"
  gpu_uncorrectable_error_count :: "int option"
  gpu_temperature_celsius :: "rat option"
  gpu_power_watts :: "rat option"

record psu_info =
  psu_id :: jstr
  psu_model :: "jstr option"
  psu_serial :: "jstr option"
  psu_health :: "jstr option"
  psu_health_detail :: "jstr option"
  psu_capacity_watts :: "rat option"
  psu_power_watts :: "rat option"

record power_info =
  pw_psus :: "psu_info list"

record hardware_info =
  hw_cpu :: cpu_info
  hw_memory :: memory_info
  hw_storage :: storage_info
  hw_gpus :: "gpu_info list"
  hw_power :: power_info

record bmc_info =
  bmc_address_raw :: "jstr option"
  bmc_scheme :: "jstr option"
  bmc_host :: "jstr option"
  bmc_port :: "int option"
  bmc_mac :: "jstr option"

record network_interface =
  ni_name :: jstr
  ni_mac :: "jstr option"
  ni_speed_mbps :: "int option"
  ni_link_state :: link_state
  ni_location :: "jstr option"

record network_info =
  nw_bmc :: bmc_info
  nw_interfaces :: "network_interface list"

record connectivity_attachment =
  ca_type :: jstr
  ca_provider :: "jstr option"
  ca_fabric :: "jstr option"
  ca_fabric_name :: "jstr option"
  ca_fabric_id :: "jstr option"
  ca_fabric_model :: "jstr option"
  ca_fabric_serial :: "jstr option"
  ca_server_interface :: "jstr option"
  ca_server_port :: "jstr option"
  ca_fabric_port :: "jstr option"
  ca_admin_state :: admin_state
  ca_oper_state :: link_state
  ca_speed_mbps :: "int option"
  ca_last_seen :: "jstr option"
  ca_interface_kind :: jstr

record connectivity_detail =
  cd_attachments :: "connectivity_attachment list"
  cd_facts :: connectivity_facts

record openshift_lifecycle =
  os_lifecycle_state :: openshift_state
  os_cluster_name :: "jstr option"
  os_mce_name :: "jstr option"
  os_last_reported_at :: "jstr option"
  os_reported_by_agent_id :: "jstr option"
  os_reported_name :: "jstr option"
  os_contested_with :: "jstr option"
  os_contested_name :: "jstr option"

record server_detail =
  dt_id :: jstr
  dt_name :: jstr
  dt_model :: "jstr option"
  dt_profile_template :: profile_template
  dt_identity :: server_identity
  dt_hardware :: hardware_info
  dt_network :: network_info
  dt_connectivity :: connectivity_detail
  dt_classification :: classification
  dt_health :: health_summary
  dt_maintenance :: maintenance_state
  dt_reservation :: reservation_state
  dt_site_id :: "jstr option"
  dt_manager_id :: "jstr option"
  dt_source_provider :: "jstr option"
  dt_openshift :: openshift_lifecycle
  dt_unread_fields :: "jstr list"
  dt_nic_os_names :: "(jstr \<times> jstr) list"
  dt_tags :: "jstr list"
  dt_last_seen_at :: "jstr option"
  dt_stale :: bool
  dt_reachable :: bool
  dt_unreachable_since :: "jstr option"
  dt_unreachable_reason :: "unreachable_reason option"
  dt_updated_at :: jstr
  dt_created_at :: jstr

section \<open>Audit events\<close>

text \<open>The values of a JSON document; \<open>Record<string, unknown>\<close> is its list of keys.\<close>

datatype json =
  JNull | JBool bool | JNum rat | JStr jstr | JArr "json list" | JObj "(jstr \<times> json) list"

type_synonym jobject = "(jstr \<times> json) list"

datatype actor_type = SYSTEM | USER | TOKEN

record actor =
  ac_type :: actor_type
  ac_id :: jstr
  ac_display :: "jstr option"

record audit_event =
  ev_id :: jstr
  ev_event_type :: jstr
  ev_server_id :: "jstr option"
  ev_server_name :: "jstr option"
  ev_actor :: actor
  ev_request_id :: "jstr option"
  ev_created_at :: jstr
  ev_data :: jobject

record event_page_info =
  pg_next_cursor :: "jstr option"
  pg_has_more :: bool
  pg_page_size :: nat
  pg_total :: "nat option"

record audit_event_page =
  ep_items :: "audit_event list"
  ep_page :: event_page_info

record event_actor =
  ea_actor :: actor
  ea_event_count :: nat

section \<open>Sites\<close>

definition UNASSIGNED_SITE_ID :: jstr where
  "UNASSIGNED_SITE_ID = js ''unassigned''"

record breakdown =
  bd_total :: nat
  bd_by_vendor :: "(vendor \<times> nat) list"
  bd_by_health :: "severity \<Rightarrow> nat"
  bd_in_maintenance :: nat

record site_stats = breakdown +
  ss_site_id :: jstr
  ss_name :: jstr
  ss_by_installation_type :: "installation_type \<Rightarrow> breakdown"
  ss_by_openshift_state :: "openshift_state \<Rightarrow> breakdown"

record fleet_summary = breakdown +
  fs_by_installation_type :: "installation_type \<Rightarrow> breakdown"
  fs_by_openshift_state :: "openshift_state \<Rightarrow> breakdown"

record site_stats_list =
  sl_items :: "site_stats list"
  sl_fleet :: fleet_summary

definition site_options :: "site_stats list option \<Rightarrow> (jstr \<times> jstr) list" where
  "site_options items = map (\<lambda>site. (ss_site_id site, ss_name site)) (coalesce items [])"

definition VENDORS :: "vendor list" where
  "VENDORS = [Dell, Cisco, Hp, Standalone]"

definition VENDOR_LABELS :: "(jstr \<times> jstr) list" where
  "VENDOR_LABELS = [(js ''dell'', js ''Dell''), (js ''cisco'', js ''Cisco''),
     (js ''hp'', js ''HPE''), (js ''standalone'', js ''Standalone'')]"

definition vendor_label :: "jstr \<Rightarrow> jsval" where
  "vendor_label v = coalesce (table_get VENDOR_LABELS v) (Text v)"

definition SOURCE_PROVIDERS :: "(jstr \<times> jstr) list" where
  "SOURCE_PROVIDERS = [(js ''UCS_CENTRAL'', js ''UCS Central''), (js ''INTERSIGHT'', js ''Intersight''),
     (js ''OPENMANAGE'', js ''OpenManage (Dell)''), (js ''ONEVIEW'', js ''OneView (HPE)''),
     (js ''REDFISH_STANDALONE'', js ''Standalone (Redfish)'')]"

lemma VENDORS_all: "v \<in> set VENDORS"
  by (cases v) (simp_all add: VENDORS_def)

lemma UNASSIGNED_not_inherited [obj_simps]: "\<not> inherited UNASSIGNED_SITE_ID"
  by (simp add: inherited_def proto_names_def UNASSIGNED_SITE_ID_def)

text \<open>A row with a given name and nothing else known, for concrete instances.\<close>

definition blank_row :: "jstr \<Rightarrow> server_row" where
  "blank_row n = \<lparr>sr_id = n, sr_name = n, sr_vendor = Dell, sr_model = None, sr_site_id = None,
     sr_source_provider = None, sr_installation_type = UNCLASSIFIED, sr_health = UNKNOWN,
     sr_maintenance = \<lparr>ms_enabled = False, ms_reason = None, ms_created_by = None\<rparr>,
     sr_reservation = \<lparr>rs_held = False, rs_holder = None, rs_mce_cluster = None,
       rs_infra_env = None, rs_expires_at = None\<rparr>,
     sr_openshift_state = AVAILABLE, sr_cluster_name = None, sr_mce_name = None,
     sr_openshift_reported_name = None, sr_contested_with = None,
     sr_profile_template_name = None, sr_last_seen_at = None, sr_stale = False,
     sr_reachable = True, sr_serial = None, sr_bmc_host = None, sr_macs = []\<rparr>"

text \<open>A detail document with a given id and name, likewise.\<close>

definition blank_detail :: "jstr \<Rightarrow> server_detail" where
  "blank_detail n = \<lparr>dt_id = n, dt_name = n, dt_model = None,
     dt_profile_template = \<lparr>pt_name = None, pt_external_id = None\<rparr>,
     dt_identity = \<lparr>si_vendor = Dell, si_serial = None, si_system_uuid = None, si_nic_macs = []\<rparr>,
     dt_hardware = \<lparr>hw_cpu = \<lparr>cpu_sockets = 0, cpu_cores = 0, cpu_threads = 0, cpu_model = None\<rparr>,
       hw_memory = \<lparr>mi_total_bytes = 0, mi_modules = []\<rparr>,
       hw_storage = \<lparr>st_total_bytes = 0, st_drives = [], st_controllers = None, st_raid = None\<rparr>,
       hw_gpus = [], hw_power = \<lparr>pw_psus = []\<rparr>\<rparr>,
     dt_network = \<lparr>nw_bmc = \<lparr>bmc_address_raw = None, bmc_scheme = None, bmc_host = None, bmc_port = None,
       bmc_mac = None\<rparr>, nw_interfaces = []\<rparr>,
     dt_connectivity = \<lparr>cd_attachments = [], cd_facts = \<lparr>cf_fabric_paths_total = 0, cf_fabric_paths_up = 0,
       cf_fabric_paths_down = 0, cf_fabrics_present = []\<rparr>\<rparr>,
     dt_classification = \<lparr>cl_installation_type = UNCLASSIFIED, cl_matched_rule_id = None,
       cl_matched_rule_name = None, cl_matched_field = None, cl_matched_pattern = None\<rparr>,
     dt_health = \<lparr>hs_overall = UNKNOWN, hs_memory = UNKNOWN, hs_storage = UNKNOWN, hs_network = UNKNOWN,
       hs_raid = UNKNOWN, hs_connectivity = UNKNOWN, hs_power = UNKNOWN, hs_gpu = UNKNOWN, hs_bmc = UNKNOWN,
       hs_name = UNKNOWN, hs_reasons = None\<rparr>,
     dt_maintenance = \<lparr>ms_enabled = False, ms_reason = None, ms_created_by = None\<rparr>,
     dt_reservation = \<lparr>rs_held = False, rs_holder = None, rs_mce_cluster = None, rs_infra_env = None,
       rs_expires_at = None\<rparr>,
     dt_site_id = None, dt_manager_id = None, dt_source_provider = None,
     dt_openshift = \<lparr>os_lifecycle_state = AVAILABLE, os_cluster_name = None, os_mce_name = None,
       os_last_reported_at = None, os_reported_by_agent_id = None, os_reported_name = None,
       os_contested_with = None, os_contested_name = None\<rparr>,
     dt_unread_fields = [], dt_nic_os_names = [], dt_tags = [], dt_last_seen_at = None, dt_stale = False,
     dt_reachable = True, dt_unreachable_since = None, dt_unreachable_reason = None, dt_updated_at = [],
     dt_created_at = []\<rparr>"

end
