(* ===== verification/Api_Client.thy ===== *)
theory Api_Client
  imports Search_Params Wire_Types
begin

text \<open>
  The requests of the front end: \<open>apiFetch\<close> and its errors
  (\<^verbatim>\<open>src/api/client.ts\<close>), the query keys of the cache
  (\<^verbatim>\<open>queryKeys.ts\<close>) and the endpoints (\<^verbatim>\<open>servers.ts\<close>, \<^verbatim>\<open>auth.ts\<close>, \<^verbatim>\<open>jobs.ts\<close>,
  \<^verbatim>\<open>personalToken.ts\<close>, \<^verbatim>\<open>skill.ts\<close>, \<^verbatim>\<open>classificationRules.ts\<close>, \<^verbatim>\<open>healthPolicies.ts\<close>,
  \<^verbatim>\<open>healthMetrics.ts\<close>, \<^verbatim>\<open>platform.ts\<close>, \<^verbatim>\<open>sites.ts\<close>), with the cache patch of the maintenance
  mutation (\<^verbatim>\<open>src/features/inventory/hooks.ts\<close>). The browser's \<open>encodeURIComponent\<close> and the
  serializer of \<open>URLSearchParams\<close> are parameters.
\<close>

section \<open>Queries and their errors\<close>

text \<open>\<open>ProblemDetails\<close>; \<open>as_problem\<close> reads it off the parsed body, unchecked as in the code.\<close>

record problem_details =
  pd_type :: jstr
  pd_title :: jstr
  pd_status :: int
  pd_detail :: jstr
  pd_instance :: jstr
  pd_code :: jstr
  pd_request_id :: "jstr option"
  pd_details :: jobject

definition text_field :: "json \<Rightarrow> string \<Rightarrow> jstr" where
  "text_field j k = (case j of JObj d \<Rightarrow> (case map_of d (js k) of Some (JStr s) \<Rightarrow> s | _ \<Rightarrow> []) | _ \<Rightarrow> [])"

definition as_problem :: "json \<Rightarrow> problem_details" where
  "as_problem j = \<lparr>pd_type = text_field j ''type'', pd_title = text_field j ''title'',
     pd_status = (case j of JObj d \<Rightarrow> (case map_of d (js ''status'') of Some (JNum n) \<Rightarrow> \<lfloor>n\<rfloor> | _ \<Rightarrow> 0) | _ \<Rightarrow> 0),
     pd_detail = text_field j ''detail'', pd_instance = text_field j ''instance'', pd_code = text_field j ''code'',
     pd_request_id = (case j of JObj d \<Rightarrow> (case map_of d (js ''request_id'') of Some (JStr s) \<Rightarrow> Some s | _ \<Rightarrow> None)
       | _ \<Rightarrow> None),
     pd_details = (case j of JObj d \<Rightarrow> (case map_of d (js ''details'') of Some (JObj x) \<Rightarrow> x | _ \<Rightarrow> []) | _ \<Rightarrow> [])\<rparr>"

text \<open>What a failed query holds: an \<open>ApiError\<close>, another \<open>Error\<close> with its message, or neither.\<close>

datatype query_error = Api_error problem_details | Js_error jstr | Other_error

text \<open>The message of an \<open>ApiError\<close> is the problem's detail, so both ways the pages read it agree.\<close>

definition error_text :: "query_error \<Rightarrow> jstr \<Rightarrow> jstr" where
  "error_text e fallback = (case e of Api_error p \<Rightarrow> pd_detail p | Js_error m \<Rightarrow> m | Other_error \<Rightarrow> fallback)"

text \<open>A query that failed may still hold its last answer.\<close>

datatype 'a query = Pending | Failed query_error "'a option" | Loaded 'a

definition query_data :: "'a query \<Rightarrow> 'a option" where
  "query_data q = (case q of Loaded d \<Rightarrow> Some d | Failed _ d \<Rightarrow> d | Pending \<Rightarrow> None)"

section \<open>Query keys\<close>

datatype key_part = K_text jstr | K_params "(jstr \<times> jstr) list"

type_synonym query_key = "key_part list"

definition kt :: "string \<Rightarrow> key_part" where
  "kt s = K_text (js s)"

definition auth_all :: query_key where "auth_all = [kt ''auth'']"
definition auth_me :: query_key where "auth_me = auth_all @ [kt ''me'']"
definition servers_all :: query_key where "servers_all = [kt ''servers'']"
definition servers_rows :: query_key where "servers_rows = servers_all @ [kt ''rows'']"
definition servers_details :: query_key where "servers_details = servers_all @ [kt ''detail'']"
definition servers_detail :: "jstr \<Rightarrow> query_key" where
  "servers_detail i = servers_details @ [K_text i]"
definition rules_all :: query_key where "rules_all = [kt ''classificationRules'']"
definition rules_lists :: query_key where "rules_lists = rules_all @ [kt ''list'']"
definition rules_list :: "(jstr \<times> jstr) list \<Rightarrow> query_key" where
  "rules_list p = rules_lists @ [K_params p]"
definition policies_all :: query_key where "policies_all = [kt ''healthPolicies'']"
definition policies_lists :: query_key where "policies_lists = policies_all @ [kt ''list'']"
definition policies_list :: "(jstr \<times> jstr) list \<Rightarrow> query_key" where
  "policies_list p = policies_lists @ [K_params p]"
definition metrics_all :: query_key where "metrics_all = [kt ''healthMetrics'']"
definition metrics_list :: query_key where "metrics_list = metrics_all @ [kt ''list'']"
definition skill_all :: query_key where "skill_all = [kt ''skill'']"
definition jobs_all :: query_key where "jobs_all = [kt ''jobs'']"
definition jobs_logs :: "jstr \<Rightarrow> jstr \<Rightarrow> jstr \<Rightarrow> query_key" where
  "jobs_logs cronjob job pod = [kt ''jobs'', kt ''logs'', K_text cronjob, K_text job, K_text pod]"
definition token_all :: query_key where "token_all = [kt ''personalToken'']"
definition sites_all :: query_key where "sites_all = [kt ''sites'']"
definition sites_list :: query_key where "sites_list = sites_all @ [kt ''list'']"
definition platform_all :: query_key where "platform_all = [kt ''platform'']"
definition platform_readiness :: query_key where "platform_readiness = platform_all @ [kt ''readiness'']"
definition events_all :: query_key where "events_all = [kt ''events'']"
definition events_lists :: query_key where "events_lists = events_all @ [kt ''list'']"
definition events_actors :: query_key where "events_actors = events_all @ [kt ''actors'']"
definition events_list :: "(jstr \<times> jstr) list \<Rightarrow> query_key" where
  "events_list p = events_lists @ [K_params p]"

lemmas key_defs = kt_def auth_all_def auth_me_def servers_all_def servers_rows_def servers_details_def
  servers_detail_def rules_all_def rules_lists_def rules_list_def policies_all_def policies_lists_def
  policies_list_def metrics_all_def metrics_list_def skill_all_def jobs_all_def jobs_logs_def token_all_def
  sites_all_def sites_list_def events_all_def events_lists_def events_actors_def events_list_def
  platform_all_def platform_readiness_def

text \<open>
  \<open>invalidateQueries({ queryKey })\<close> reaches the keys that start with it (the patterns of the code
  hold no objects).
\<close>

definition invalidates :: "query_key \<Rightarrow> query_key \<Rightarrow> bool" where
  "invalidates pat key \<longleftrightarrow> prefix pat key"

text \<open>Every key the pages register, by its resource.\<close>

inductive registered :: "query_key \<Rightarrow> query_key \<Rightarrow> bool" where
  "registered auth_all auth_me"
| "registered servers_all servers_rows"
| "registered servers_all (servers_detail i)"
| "registered rules_all (rules_list p)"
| "registered policies_all (policies_list p)"
| "registered metrics_all metrics_list"
| "registered skill_all skill_all"
| "registered jobs_all jobs_all"
| "registered jobs_all (jobs_logs c j d)"
| "registered token_all token_all"
| "registered sites_all sites_list"
| "registered events_all events_actors"
| "registered events_all (events_list p @ rest)"
| "registered platform_all platform_readiness"

inductive_cases registeredE: "registered r k"

section \<open>apiFetch\<close>

datatype verb = M_GET | M_PUT | M_POST | M_DELETE

record request =
  rq_path :: jstr
  rq_verb :: verb
  rq_body :: "jobject option"

definition get :: "jstr \<Rightarrow> request" where
  "get path = \<lparr>rq_path = path, rq_verb = M_GET, rq_body = None\<rparr>"

text \<open>No caller passes headers of its own; the body is a text and never empty.\<close>

definition request_headers :: "request \<Rightarrow> (jstr \<times> jstr) list" where
  "request_headers rq = [(js ''Accept'', js ''application/json'')]
     @ (if rq_body rq \<noteq> None then [(js ''Content-Type'', js ''application/json'')] else [])"

text \<open>
  A response with its status and its parsed body, \<open>None\<close> when it is not JSON; or the network
  failure with its message.
\<close>

datatype reply = Reply int "json option" | Network_failure jstr

datatype fetched = Json json | Undefined | Threw query_error

definition json_truthy :: "json \<Rightarrow> bool" where
  "json_truthy j = (case j of JNull \<Rightarrow> False | JBool b \<Rightarrow> b | JNum n \<Rightarrow> n \<noteq> 0 | JStr s \<Rightarrow> s \<noteq> []
     | JArr _ \<Rightarrow> True | JObj _ \<Rightarrow> True)"

definition is_ok :: "int \<Rightarrow> bool" where
  "is_ok status \<longleftrightarrow> 200 \<le> status \<and> status \<le> 299"

definition failed_text :: "jstr \<Rightarrow> int \<Rightarrow> jstr" where
  "failed_text path status = js ''Request to '' @ path @ js '' failed with status '' @ int_text status"

text \<open>The outcome and the keys it invalidates; \<open>parse_error\<close> is the message of a failed \<open>json()\<close>.\<close>

definition api_fetch :: "jstr \<Rightarrow> request \<Rightarrow> reply \<Rightarrow> fetched \<times> query_key list" where
  "api_fetch parse_error rq reply = (case reply of
     Network_failure m \<Rightarrow> (Threw (Js_error m), [])
   | Reply status body \<Rightarrow>
       if \<not> is_ok status then
         (case body of
            Some j \<Rightarrow> if json_truthy j then Threw (Api_error (as_problem j))
              else Threw (Js_error (failed_text (rq_path rq) status))
          | None \<Rightarrow> Threw (Js_error (failed_text (rq_path rq) status)),
          if status = 401 \<and> \<not> starts_with (rq_path rq) (js ''/api/v1/auth/'') then [auth_me] else [])
       else if status = 204 then (Undefined, [])
       else (case body of Some j \<Rightarrow> Json j | None \<Rightarrow> Threw (Js_error parse_error), []))"

section \<open>Endpoints\<close>

text \<open>\<open>enc\<close> is the serializer of \<open>URLSearchParams\<close>, \<open>enc_uri\<close> is \<open>encodeURIComponent\<close>.\<close>

definition with_query :: "(params \<Rightarrow> jstr) \<Rightarrow> jstr \<Rightarrow> params \<Rightarrow> jstr" where
  "with_query enc path p = (let query = enc p in if query \<noteq> [] then path @ js ''?'' @ query else path)"

definition list_server_rows :: request where
  "list_server_rows = get (js ''/api/v1/servers/rows'')"

definition get_server :: "(jstr \<Rightarrow> jstr) \<Rightarrow> jstr \<Rightarrow> request" where
  "get_server enc_uri i = get (js ''/api/v1/servers/'' @ enc_uri i)"

definition enable_maintenance :: "(jstr \<Rightarrow> jstr) \<Rightarrow> jstr \<Rightarrow> jobject \<Rightarrow> request" where
  "enable_maintenance enc_uri i body = \<lparr>rq_path = js ''/api/v1/servers/'' @ enc_uri i @ js ''/maintenance'',
     rq_verb = M_PUT, rq_body = Some body\<rparr>"

definition disable_maintenance :: "(jstr \<Rightarrow> jstr) \<Rightarrow> jstr \<Rightarrow> request" where
  "disable_maintenance enc_uri i = \<lparr>rq_path = js ''/api/v1/servers/'' @ enc_uri i @ js ''/maintenance'',
     rq_verb = M_DELETE, rq_body = None\<rparr>"

definition get_me :: request where "get_me = get (js ''/api/v1/auth/me'')"

definition login :: "jstr \<Rightarrow> jstr \<Rightarrow> request" where
  "login username password = \<lparr>rq_path = js ''/api/v1/auth/login'', rq_verb = M_POST,
     rq_body = Some [(js ''username'', JStr username), (js ''password'', JStr password)]\<rparr>"

definition logout :: request where
  "logout = \<lparr>rq_path = js ''/api/v1/auth/logout'', rq_verb = M_POST, rq_body = None\<rparr>"

definition get_jobs :: request where "get_jobs = get (js ''/api/v1/jobs'')"

definition run_job :: "(jstr \<Rightarrow> jstr) \<Rightarrow> jstr \<Rightarrow> request" where
  "run_job enc_uri cronjob = \<lparr>rq_path = js ''/api/v1/jobs/'' @ enc_uri cronjob @ js ''/run'',
     rq_verb = M_POST, rq_body = None\<rparr>"

definition pod_logs_path :: "(jstr \<Rightarrow> jstr) \<Rightarrow> jstr \<Rightarrow> jstr \<Rightarrow> jstr \<Rightarrow> jstr" where
  "pod_logs_path enc_uri cronjob job pod =
     join (js ''/'') (map enc_uri [cronjob, js ''runs'', job, js ''pods'', pod, js ''logs''])"

definition get_pod_logs :: "(jstr \<Rightarrow> jstr) \<Rightarrow> jstr \<Rightarrow> jstr \<Rightarrow> jstr \<Rightarrow> nat \<Rightarrow> request" where
  "get_pod_logs enc_uri cronjob job pod tail =
     get (js ''/api/v1/jobs/'' @ pod_logs_path enc_uri cronjob job pod @ js ''?tail='' @ nat_text tail)"

definition enabled_query :: "bool option \<Rightarrow> params" where
  "enabled_query e = (case e of None \<Rightarrow> []
     | Some b \<Rightarrow> sp_set [] (js ''enabled'') (if b then js ''true'' else js ''false''))"

definition list_classification_rules :: "(params \<Rightarrow> jstr) \<Rightarrow> bool option \<Rightarrow> request" where
  "list_classification_rules enc e = get (with_query enc (js ''/api/v1/classification-rules'') (enabled_query e))"

definition list_health_policies :: "(params \<Rightarrow> jstr) \<Rightarrow> bool option \<Rightarrow> request" where
  "list_health_policies enc e = get (with_query enc (js ''/api/v1/health-policies'') (enabled_query e))"

definition list_health_metrics :: request where "list_health_metrics = get (js ''/api/v1/health-metrics'')"

definition get_my_token :: request where "get_my_token = get (js ''/api/v1/auth/token'')"

definition create_my_token :: request where
  "create_my_token = \<lparr>rq_path = js ''/api/v1/auth/token'', rq_verb = M_POST, rq_body = None\<rparr>"

definition revoke_my_token :: request where
  "revoke_my_token = \<lparr>rq_path = js ''/api/v1/auth/token'', rq_verb = M_DELETE, rq_body = None\<rparr>"

definition get_readiness :: request where "get_readiness = get (js ''/health/ready'')"

definition list_sites :: request where "list_sites = get (js ''/api/v1/sites'')"

definition get_skill :: request where "get_skill = get (js ''/api/v1/skill'')"

definition skill_download_url :: "(jstr \<Rightarrow> jstr) \<Rightarrow> jstr \<Rightarrow> jstr" where
  "skill_download_url enc_uri origin = js ''/api/v1/skill/download?base_url='' @ enc_uri origin"

section \<open>The maintenance mutation\<close>

definition maintenance_request :: "(jstr \<Rightarrow> jstr) \<Rightarrow> jstr \<Rightarrow> bool \<Rightarrow> jstr option \<Rightarrow> request" where
  "maintenance_request enc_uri i enable reason =
     (if enable then enable_maintenance enc_uri i
        (if truthy reason then [(js ''reason'', JStr (the reason))] else [])
      else disable_maintenance enc_uri i)"

text \<open>The cached queries the mutation touches: the details, the rows, and what it marks as stale.\<close>

record cache =
  ch_details :: "jstr \<Rightarrow> server_detail option"
  ch_rows :: "server_rows_response option"
  ch_stale :: "query_key list"

definition patch_row :: "jstr \<Rightarrow> maintenance_state \<Rightarrow> server_row \<Rightarrow> server_row" where
  "patch_row i m row = (if sr_id row = i then row\<lparr>sr_maintenance := m\<rparr> else row)"

definition maintenance_success :: "server_detail \<Rightarrow> cache \<Rightarrow> cache" where
  "maintenance_success server c = c\<lparr>
     ch_details := (ch_details c)(dt_id server := Some server),
     ch_rows := map_option (\<lambda>rows. rows\<lparr>srr_items :=
       map (patch_row (dt_id server) (dt_maintenance server)) (srr_items rows)\<rparr>) (ch_rows c),
     ch_stale := ch_stale c @ [servers_all, sites_all]\<rparr>"

section \<open>Laws\<close>

lemma nat_text_inj: "nat_text m = nat_text n \<longleftrightarrow> m = n"
proof (induction m arbitrary: n rule: nat_text.induct)
  case (1 m)
  have len: "length (nat_text k) = 1 \<longleftrightarrow> k < 10" for k
    by (subst nat_text.simps) simp
  show ?case
  proof (cases "m < 10 \<or> n < 10")
    case True
    then show ?thesis using len [of m] len [of n]
      by (cases "m < 10"; cases "n < 10") (auto simp: nat_text.simps [of m] nat_text.simps [of n] dest: sym)
  next
    case False
    then have e: "nat_text m = nat_text (m div 10) @ [48 + m mod 10]" "nat_text n = nat_text (n div 10) @ [48 + n mod 10]"
      by (simp_all add: nat_text.simps [of m] nat_text.simps [of n])
    have "nat_text m = nat_text n \<longleftrightarrow> m div 10 = n div 10 \<and> m mod 10 = n mod 10"
      using False 1 by (simp add: e)
    then show ?thesis by (metis div_mult_mod_eq)
  qed
qed

text \<open>The first occurrence of a separator splits a text uniquely.\<close>

lemma append_sep_eq:
  assumes "c \<notin> set a" "c \<notin> set b"
  shows "a @ c # s = b @ c # t \<longleftrightarrow> a = b \<and> s = t"
proof
  assume e: "a @ c # s = b @ c # t"
  have "takeWhile (\<lambda>u. u \<noteq> c) (x @ c # y) = x" if "c \<notin> set x" for x y
    using that by (induction x) auto
  with assms e have "a = b" by metis
  with e show "a = b \<and> s = t" by simp
qed simp

lemma set_join: "set (join sep ps) \<subseteq> set sep \<union> \<Union> (set ` set ps)"
  by (induction sep ps rule: join.induct) auto

lemma registered_root: "registered r k \<Longrightarrow> prefix r k"
  by (induction rule: registered.induct) (simp_all add: key_defs)

lemma registered_one_part: "registered r k \<Longrightarrow> \<exists>p. r = [p]"
  by (induction rule: registered.induct) (simp_all add: key_defs)

text \<open>The roots are the first parts of the keys.\<close>

lemma invalidates_registered:
  "registered r k \<Longrightarrow> registered r' k' \<Longrightarrow> invalidates r' k \<longleftrightarrow> r' = r"
  unfolding invalidates_def
  using registered_root [of r k] registered_one_part [of r k] registered_one_part [of r' k']
  by (cases k) auto

lemma patch_row_id [simp]: "sr_id (patch_row i m row) = sr_id row"
  by (simp add: patch_row_def)

lemma patch_row_commute: "i \<noteq> j \<Longrightarrow> patch_row i m (patch_row j n row) = patch_row j n (patch_row i m row)"
  by (simp add: patch_row_def)

lemma patch_row_overwrite: "patch_row i m (patch_row i n row) = patch_row i m row"
  by (simp add: patch_row_def)

section \<open>Properties\<close>

text \<open>
  The outcome of a request by its response: parsed JSON for a 2xx other than 204, nothing for a
  204, an \<open>ApiError\<close> with the body's problem exactly for a failure that carries one; and the session
  is checked again exactly on a 401 from outside the login endpoints.
\<close>

lemma api_fetch_outcomes:
  "(fst (api_fetch m rq r) = Json j) = (\<exists>s. r = Reply s (Some j) \<and> is_ok s \<and> s \<noteq> 204) \<and>
   (fst (api_fetch m rq r) = Undefined) = (\<exists>b. r = Reply 204 b) \<and>
   (fst (api_fetch m rq r) = Threw (Api_error p)) =
     (\<exists>s j. r = Reply s (Some j) \<and> \<not> is_ok s \<and> json_truthy j \<and> p = as_problem j) \<and>
   set (snd (api_fetch m rq r)) =
     (if (\<exists>b. r = Reply 401 b) \<and> \<not> starts_with (rq_path rq) (js ''/api/v1/auth/'') then {auth_me} else {})"
  by (auto simp: api_fetch_def is_ok_def split: reply.splits option.splits)

text \<open>
  Invalidating the root key of a resource makes exactly the queries of that resource stale,
  whatever their parameters, and none of another's.
\<close>

lemma invalidation_by_resource:
  assumes "registered r k" "registered r' k'"
  shows "invalidates r' k \<longleftrightarrow> r' = r"
  by (rule invalidates_registered [OF assms])

lemma invalidation_by_resource_witness:
  "invalidates servers_all (servers_detail (js ''a'')) \<and> \<not> invalidates jobs_all (servers_detail (js ''a''))"
  using invalidation_by_resource [OF registered.intros(3) [of "js ''a''"] registered.intros(2)]
    invalidation_by_resource [OF registered.intros(3) [of "js ''a''"] registered.intros(8)]
  by (simp add: key_defs)

text \<open>
  C19: the answers of two maintenance switches on different servers can arrive in either order: the
  cached rows and details end up the same, and each row is changed by its own server's answer only.
\<close>

theorem maintenance_answers_commute:
  assumes "dt_id a \<noteq> dt_id b"
  shows "ch_rows (maintenance_success a (maintenance_success b c)) = ch_rows (maintenance_success b (maintenance_success a c))
    \<and> ch_details (maintenance_success a (maintenance_success b c)) = ch_details (maintenance_success b (maintenance_success a c))
    \<and> map_option (\<lambda>rows. map (\<lambda>r. if sr_id r \<in> {dt_id a, dt_id b} then None else Some r) (srr_items rows))
        (ch_rows (maintenance_success a (maintenance_success b c)))
      = map_option (\<lambda>rows. map (\<lambda>r. if sr_id r \<in> {dt_id a, dt_id b} then None else Some r) (srr_items rows)) (ch_rows c)"
  using assms
  by (cases "ch_rows c") (auto simp: maintenance_success_def patch_row_commute fun_upd_twist patch_row_def)

lemma maintenance_answers_commute_witness:
  "let c = \<lparr>ch_details = (\<lambda>_. None), ch_rows = Some \<lparr>srr_items = [blank_row (js ''a''), blank_row (js ''b'')],
       srr_generated_at = []\<rparr>, ch_stale = []\<rparr>;
     a = blank_detail (js ''a''); b = blank_detail (js ''b'') in
   ch_rows (maintenance_success a (maintenance_success b c)) = ch_rows (maintenance_success b (maintenance_success a c))"
  using maintenance_answers_commute [of "blank_detail (js ''a'')" "blank_detail (js ''b'')"
      "\<lparr>ch_details = (\<lambda>_. None), ch_rows = Some \<lparr>srr_items = [blank_row (js ''a''), blank_row (js ''b'')],
       srr_generated_at = []\<rparr>, ch_stale = []\<rparr>"]
  by (simp add: blank_detail_def Let_def)

text \<open>
  The log request of a pod determines the CronJob, the Job, the pod and the tail: no two pods share
  one, as long as the browser's encoding is injective and never yields a slash or a question mark.
\<close>

lemma pod_logs_unambiguous:
  assumes "inj enc" "\<And>s. 47 \<notin> set (enc s)" "\<And>s. 63 \<notin> set (enc s)"
  shows "get_pod_logs enc c j p t = get_pod_logs enc c' j' p' t' \<longleftrightarrow> c = c' \<and> j = j' \<and> p = p' \<and> t = t'"
proof -
  have slash: "js ''/'' = [47]" and tail: "js ''?tail='' = 63 # js ''tail=''" by (simp_all add: js_def)
  have q: "63 \<notin> set (pod_logs_path enc a b d)" for a b d
    using set_join [of "[47]" "map enc [a, js ''runs'', b, js ''pods'', d, js ''logs'']"] assms(3)
    by (auto simp: pod_logs_path_def slash)
  have inj: "pod_logs_path enc a b d = pod_logs_path enc a' b' d' \<longleftrightarrow> a = a' \<and> b = b' \<and> d = d'" for a b d a' b' d'
  proof
    assume "pod_logs_path enc a b d = pod_logs_path enc a' b' d'"
    then have "split_on 47 (pod_logs_path enc a b d) = split_on 47 (pod_logs_path enc a' b' d')" by simp
    then show "a = a' \<and> b = b' \<and> d = d'"
      unfolding pod_logs_path_def slash using assms(1,2) by (simp add: split_join inj_eq del: join.simps)
  qed simp
  have "get_pod_logs enc c j p t = get_pod_logs enc c' j' p' t' \<longleftrightarrow>
      pod_logs_path enc c j p @ 63 # js ''tail='' @ nat_text t = pod_logs_path enc c' j' p' @ 63 # js ''tail='' @ nat_text t'"
    by (simp add: get_pod_logs_def get_def tail)
  also have "\<dots> \<longleftrightarrow> c = c' \<and> j = j' \<and> p = p' \<and> t = t'"
    by (simp add: append_sep_eq [OF q q] inj nat_text_inj)
  finally show ?thesis .
qed

lemma pod_logs_unambiguous_witness:
  "get_pod_logs (map (\<lambda>u. u + 64)) (js ''prune'') (js ''prune-1'') (js ''prune-1-abc'') 500
     \<noteq> get_pod_logs (map (\<lambda>u. u + 64)) (js ''prune'') (js ''prune-2'') (js ''prune-1-abc'') 500"
proof -
  have "inj (map (\<lambda>u::nat. u + 64))" by (simp add: inj_on_def inj_map_eq_map)
  from pod_logs_unambiguous [OF this, of "js ''prune''" "js ''prune-1''" "js ''prune-1-abc''" 500
      "js ''prune''" "js ''prune-2''" "js ''prune-1-abc''" 500]
  show ?thesis by fastforce
qed

end
