(* ===== verification/Rules.thy ===== *)
theory Rules
  imports Api_Client
begin

text \<open>
  Classification rules and health policies: their API shapes
  (\<^verbatim>\<open>src/types/classification.ts\<close>, \<^verbatim>\<open>health.ts\<close>) and the read-only page that
  lists them (\<^verbatim>\<open>src/features/rules/RulesPage.tsx\<close>).
\<close>

section \<open>Classification rules\<close>

datatype manager_type = OPENMANAGE | UCS_MANAGER | UCS_CENTRAL | INTERSIGHT | ONEVIEW | REDFISH_STANDALONE

fun manager_type_text :: "manager_type \<Rightarrow> jstr" where
  "manager_type_text OPENMANAGE = js ''OPENMANAGE''"
| "manager_type_text UCS_MANAGER = js ''UCS_MANAGER''"
| "manager_type_text UCS_CENTRAL = js ''UCS_CENTRAL''"
| "manager_type_text INTERSIGHT = js ''INTERSIGHT''"
| "manager_type_text ONEVIEW = js ''ONEVIEW''"
| "manager_type_text REDFISH_STANDALONE = js ''REDFISH_STANDALONE''"

fun MANAGER_TYPE_LABELS :: "manager_type \<Rightarrow> jstr" where
  "MANAGER_TYPE_LABELS UCS_CENTRAL = js ''UCS Central''"
| "MANAGER_TYPE_LABELS UCS_MANAGER = js ''UCS Manager''"
| "MANAGER_TYPE_LABELS INTERSIGHT = js ''Intersight''"
| "MANAGER_TYPE_LABELS OPENMANAGE = js ''OpenManage''"
| "MANAGER_TYPE_LABELS ONEVIEW = js ''OneView''"
| "MANAGER_TYPE_LABELS REDFISH_STANDALONE = js ''Redfish standalone''"

datatype rule_source = SITE_CUSTOM | MANAGER_CUSTOM | VENDOR_CUSTOM | GLOBAL_CUSTOM | SYSTEM_DEFAULT

definition RULE_SOURCES :: "rule_source list" where
  "RULE_SOURCES = [SITE_CUSTOM, MANAGER_CUSTOM, VENDOR_CUSTOM, GLOBAL_CUSTOM, SYSTEM_DEFAULT]"

definition RULE_SOURCES_FOR_CREATE :: "rule_source list" where
  "RULE_SOURCES_FOR_CREATE = [SITE_CUSTOM, MANAGER_CUSTOM, VENDOR_CUSTOM, GLOBAL_CUSTOM]"

fun PRIORITY_BANDS :: "rule_source \<Rightarrow> int \<times> int" where
  "PRIORITY_BANDS SITE_CUSTOM = (500, 599)"
| "PRIORITY_BANDS MANAGER_CUSTOM = (400, 499)"
| "PRIORITY_BANDS VENDOR_CUSTOM = (300, 399)"
| "PRIORITY_BANDS GLOBAL_CUSTOM = (200, 299)"
| "PRIORITY_BANDS SYSTEM_DEFAULT = (100, 199)"

definition CLASSIFIABLE_FIELDS :: "jstr list" where
  "CLASSIFIABLE_FIELDS = map js [''name'', ''hostname'', ''serial'', ''model'', ''site_id'']"

record rule_scope =
  rsc_vendor :: "vendor option"
  rsc_manager_type :: "manager_type option"
  rsc_site_id :: "jstr option"

definition empty_rule_scope :: rule_scope where
  "empty_rule_scope = \<lparr>rsc_vendor = None, rsc_manager_type = None, rsc_site_id = None\<rparr>"

record rule_flags =
  rfl_ignore_case :: bool
  rfl_multiline :: bool
  rfl_dotall :: bool

definition default_rule_flags :: rule_flags where
  "default_rule_flags = \<lparr>rfl_ignore_case = True, rfl_multiline = False, rfl_dotall = False\<rparr>"

record rule_stats =
  rst_last_matched_at :: "jstr option"
  rst_timeout_count :: nat
  rst_quarantined :: bool

record classification_rule =
  cr_id :: jstr
  cr_name :: jstr
  cr_description :: jstr
  cr_enabled :: bool
  cr_system :: bool
  cr_installation_type :: installation_type
  cr_scope :: rule_scope
  cr_field :: jstr
  cr_pattern :: jstr
  cr_flags :: rule_flags
  cr_source :: rule_source
  cr_priority :: int
  cr_order :: int
  cr_stats :: rule_stats
  cr_revision :: int
  cr_created_at :: jstr
  cr_updated_at :: jstr
  cr_created_by :: "jstr option"
  cr_updated_by :: "jstr option"

section \<open>Health metrics and operators\<close>

datatype metric_type = M_INT | M_FLOAT | M_STRING | M_BOOL | M_ENUM | M_LIST_STRING | M_LIST_INT

record health_metric =
  hm_name :: jstr
  hm_type :: metric_type
  hm_category :: jstr
  hm_description :: jstr
  hm_enum_values :: "jstr list option"
  hm_provider :: jstr

datatype operator =
  EQ | NE | GT | GTE | LT | LTE | IN | NOT_IN | EXISTS | NOT_EXISTS | OP_ANY | OP_ALL
| COUNT_EQ | COUNT_GT | COUNT_GTE | COUNT_LT | COUNT_LTE

fun operator_text :: "operator \<Rightarrow> jstr" where
  "operator_text EQ = js ''EQ''"
| "operator_text NE = js ''NE''"
| "operator_text GT = js ''GT''"
| "operator_text GTE = js ''GTE''"
| "operator_text LT = js ''LT''"
| "operator_text LTE = js ''LTE''"
| "operator_text IN = js ''IN''"
| "operator_text NOT_IN = js ''NOT_IN''"
| "operator_text EXISTS = js ''EXISTS''"
| "operator_text NOT_EXISTS = js ''NOT_EXISTS''"
| "operator_text OP_ANY = js ''ANY''"
| "operator_text OP_ALL = js ''ALL''"
| "operator_text COUNT_EQ = js ''COUNT_EQ''"
| "operator_text COUNT_GT = js ''COUNT_GT''"
| "operator_text COUNT_GTE = js ''COUNT_GTE''"
| "operator_text COUNT_LT = js ''COUNT_LT''"
| "operator_text COUNT_LTE = js ''COUNT_LTE''"

fun OPERATOR_ALLOWED_TYPES :: "operator \<Rightarrow> metric_type list" where
  "OPERATOR_ALLOWED_TYPES EQ = [M_INT, M_FLOAT, M_STRING, M_BOOL, M_ENUM]"
| "OPERATOR_ALLOWED_TYPES NE = [M_INT, M_FLOAT, M_STRING, M_BOOL, M_ENUM]"
| "OPERATOR_ALLOWED_TYPES GT = [M_INT, M_FLOAT]"
| "OPERATOR_ALLOWED_TYPES GTE = [M_INT, M_FLOAT]"
| "OPERATOR_ALLOWED_TYPES LT = [M_INT, M_FLOAT]"
| "OPERATOR_ALLOWED_TYPES LTE = [M_INT, M_FLOAT]"
| "OPERATOR_ALLOWED_TYPES IN = [M_INT, M_FLOAT, M_STRING, M_ENUM]"
| "OPERATOR_ALLOWED_TYPES NOT_IN = [M_INT, M_FLOAT, M_STRING, M_ENUM]"
| "OPERATOR_ALLOWED_TYPES EXISTS = [M_INT, M_FLOAT, M_STRING, M_BOOL, M_ENUM, M_LIST_STRING, M_LIST_INT]"
| "OPERATOR_ALLOWED_TYPES NOT_EXISTS = [M_INT, M_FLOAT, M_STRING, M_BOOL, M_ENUM, M_LIST_STRING, M_LIST_INT]"
| "OPERATOR_ALLOWED_TYPES OP_ANY = [M_LIST_STRING, M_LIST_INT]"
| "OPERATOR_ALLOWED_TYPES OP_ALL = [M_LIST_STRING, M_LIST_INT]"
| "OPERATOR_ALLOWED_TYPES COUNT_EQ = [M_LIST_STRING, M_LIST_INT]"
| "OPERATOR_ALLOWED_TYPES COUNT_GT = [M_LIST_STRING, M_LIST_INT]"
| "OPERATOR_ALLOWED_TYPES COUNT_GTE = [M_LIST_STRING, M_LIST_INT]"
| "OPERATOR_ALLOWED_TYPES COUNT_LT = [M_LIST_STRING, M_LIST_INT]"
| "OPERATOR_ALLOWED_TYPES COUNT_LTE = [M_LIST_STRING, M_LIST_INT]"

definition ALL_OPERATORS :: "operator list" where
  "ALL_OPERATORS = [EQ, NE, GT, GTE, LT, LTE, IN, NOT_IN, EXISTS, NOT_EXISTS, OP_ANY, OP_ALL,
     COUNT_EQ, COUNT_GT, COUNT_GTE, COUNT_LT, COUNT_LTE]"

definition operators_for_metric_type :: "metric_type \<Rightarrow> operator list" where
  "operators_for_metric_type t = filter (\<lambda>p. t \<in> set (OPERATOR_ALLOWED_TYPES p)) ALL_OPERATORS"

definition EXISTENCE_OPERATORS :: "operator list" where
  "EXISTENCE_OPERATORS = [EXISTS, NOT_EXISTS]"

definition COUNT_OPERATORS :: "operator list" where
  "COUNT_OPERATORS = [COUNT_EQ, COUNT_GT, COUNT_GTE, COUNT_LT, COUNT_LTE]"

definition SET_OPERATORS :: "operator list" where
  "SET_OPERATORS = [IN, NOT_IN]"

definition LIST_ELEMENT_OPERATORS :: "operator list" where
  "LIST_ELEMENT_OPERATORS = [OP_ANY, OP_ALL]"

section \<open>Conditions and policies\<close>

text \<open>
  One flat node with every field; \<open>null\<close> and an absent key are both \<open>None\<close> (the code
  tests \<open>!= null\<close>).
\<close>

datatype condition = Condition
  (all_of: "condition list option") (any_of: "condition list option") (not_of: "condition option")
  (metric: "jstr option") (operator_of: "operator option") (value_of: "json option") (equals: "json option")

definition is_leaf :: "condition \<Rightarrow> bool" where
  "is_leaf c \<longleftrightarrow> metric c \<noteq> None"

definition is_all_of :: "condition \<Rightarrow> bool" where
  "is_all_of c \<longleftrightarrow> all_of c \<noteq> None"

definition is_any_of :: "condition \<Rightarrow> bool" where
  "is_any_of c \<longleftrightarrow> any_of c \<noteq> None"

definition is_not :: "condition \<Rightarrow> bool" where
  "is_not c \<longleftrightarrow> not_of c \<noteq> None"

record evidence_field =
  evf_key :: jstr
  evf_metric :: jstr

record policy_scope =
  psc_site_id :: "jstr option"
  psc_vendor :: "jstr option"
  psc_manager_types :: "manager_type list"

definition empty_policy_scope :: policy_scope where
  "empty_policy_scope = \<lparr>psc_site_id = None, psc_vendor = None, psc_manager_types = []\<rparr>"

record policy_stats =
  pst_fire_count :: nat
  pst_last_fired_at :: "jstr option"
  pst_error_count :: nat
  pst_quarantined :: bool

definition POLICY_CATEGORIES :: "jstr list" where
  "POLICY_CATEGORIES = map js [''memory'', ''storage'', ''raid'', ''network'', ''connectivity'',
     ''power'', ''gpu'', ''bmc'', ''name'']"

record health_policy =
  hp_id :: jstr
  hp_name :: jstr
  hp_description :: jstr
  hp_enabled :: bool
  hp_system :: bool
  hp_policy_key :: jstr
  hp_mode :: jstr
  hp_category :: jstr
  hp_severity :: severity
  hp_condition :: condition
  hp_evidence :: "evidence_field list"
  hp_message_template :: jstr
  hp_scope :: policy_scope
  hp_source :: rule_source
  hp_priority :: int
  hp_order :: int
  hp_stats :: policy_stats
  hp_revision :: int
  hp_created_at :: jstr
  hp_updated_at :: jstr
  hp_created_by :: "jstr option"
  hp_updated_by :: "jstr option"

record policy_preview_sample =
  pps_id :: jstr
  pps_name :: jstr
  pps_would_be_severity :: severity

section \<open>The page\<close>

definition scope_summary :: "rule_scope \<Rightarrow> jstr" where
  "scope_summary s =
     (let parts =
        (case rsc_vendor s of Some v \<Rightarrow> [js ''vendor='' @ vendor_text v] | None \<Rightarrow> [])
        @ (case rsc_manager_type s of Some m \<Rightarrow> [js ''manager='' @ manager_type_text m] | None \<Rightarrow> [])
        @ (if truthy (rsc_site_id s) then [js ''site='' @ the (rsc_site_id s)] else []) in
      if length parts > 0 then join (js '', '') parts else js ''(unscoped)'')"

text \<open>
  \<open>fnsrc\<close> is the text of a member inherited from \<open>Object.prototype\<close>, which a vendor of
  that name would hit; 8212 is the em dash.
\<close>

definition jsval_text :: "(jstr \<Rightarrow> jstr) \<Rightarrow> jsval \<Rightarrow> jstr" where
  "jsval_text fnsrc v = (case v of Text s \<Rightarrow> s | Inherited k \<Rightarrow> fnsrc k)"

definition policy_scope_label :: "(jstr \<Rightarrow> jstr) \<Rightarrow> policy_scope \<Rightarrow> jstr" where
  "policy_scope_label fnsrc s =
     (let parts =
        (if truthy (psc_vendor s) then [jsval_text fnsrc (vendor_label (the (psc_vendor s)))] else [])
        @ (if length (psc_manager_types s) > 0
           then [join (js '', '') (map MANAGER_TYPE_LABELS (psc_manager_types s))] else [])
        @ (if truthy (psc_site_id s) then [js ''Site '' @ the (psc_site_id s)] else []) in
      if length parts > 0 then join [32, 8212, 32] parts else js ''General'')"

definition policy_scope_rank :: "policy_scope \<Rightarrow> int" where
  "policy_scope_rank s =
     (if truthy (psc_site_id s) then 3
      else if length (psc_manager_types s) > 0 then 2
      else if truthy (psc_vendor s) then 1 else 0)"

record policy_section =
  sec_label :: jstr
  sec_rank :: int
  sec_policies :: "health_policy list"

definition policy_severity_rank :: "severity \<Rightarrow> int" where
  "policy_severity_rank s = (let index = index_of SEVERITY_ORDER s in
     if index = - 1 then int (length SEVERITY_ORDER) else index)"

text \<open>
  The \<open>Map\<close> from label to section, in insertion order; \<open>lcmp\<close> is \<open>localeCompare\<close>.
\<close>

definition add_policy ::
  "(jstr \<Rightarrow> jstr) \<Rightarrow> health_policy \<Rightarrow> (jstr \<times> policy_section) list \<Rightarrow> (jstr \<times> policy_section) list" where
  "add_policy fnsrc p byLabel =
     (let label = policy_scope_label fnsrc (hp_scope p);
          section = coalesce (map_of byLabel label)
            \<lparr>sec_label = label, sec_rank = policy_scope_rank (hp_scope p), sec_policies = []\<rparr> in
      AList.update label (section\<lparr>sec_policies := sec_policies section @ [p]\<rparr>) byLabel)"

definition policy_sections ::
  "(jstr \<Rightarrow> jstr) \<Rightarrow> (jstr \<Rightarrow> jstr \<Rightarrow> int) \<Rightarrow> health_policy list \<Rightarrow> policy_section list" where
  "policy_sections fnsrc lcmp policies =
     (let byLabel = fold (add_policy fnsrc) policies [];
          sections = js_sort (cmp_or (by_key sec_rank) (cmp_on sec_label lcmp)) (map snd byLabel) in
      map (\<lambda>s. s\<lparr>sec_policies := js_sort
        (cmp_or (by_key (\<lambda>p. policy_severity_rank (hp_severity p))) (cmp_on hp_name lcmp)) (sec_policies s)\<rparr>)
        sections)"

text \<open>\<open>json_text\<close> is \<open>JSON.stringify\<close>; a \<open>null\<close> in a joined array is empty.\<close>

definition not_null :: "json option \<Rightarrow> bool" where
  "not_null v \<longleftrightarrow> v \<noteq> None \<and> v \<noteq> Some JNull"

function condition_summary :: "(json \<Rightarrow> jstr) \<Rightarrow> condition \<Rightarrow> jstr" where
  "condition_summary json_text (Condition ao an nt m q v e) =
     (case ao of Some cs \<Rightarrow> join (js '' AND '') (map (condition_summary json_text) cs)
      | None \<Rightarrow> (case an of Some cs \<Rightarrow> js ''('' @ join (js '' OR '') (map (condition_summary json_text) cs) @ js '')''
      | None \<Rightarrow> (case nt of Some c \<Rightarrow> js ''NOT '' @ condition_summary json_text c
      | None \<Rightarrow> (case m of Some mt \<Rightarrow>
          (let parts = [mt, coalesce (map_option operator_text q) []];
               parts = (if not_null v then parts @ [json_text (the v)] else parts);
               parts = (if not_null e then parts @ [js ''of '' @ json_text (the e)] else parts) in
           join (js '' '') parts)
      | None \<Rightarrow> [8212]))))"
  by pat_completeness auto
termination
  by (relation "measure (\<lambda>(_, c). size c)")
    (auto simp: less_Suc_eq_le dest!: size_list_estimation' [where f = size, OF _ order_refl])

text \<open>The two tables of the page; a table is drawn only once its query has been answered.\<close>

datatype 'a section_view = Section_loading | Section_error jstr | Section_empty jstr | Section_rows "'a list"

definition rule_row :: "classification_rule \<Rightarrow> jstr list \<times> bool" where
  "rule_row r = ([cr_name r, installation_type_text (cr_installation_type r),
     cr_field r @ js '' ~ '' @ cr_pattern r, int_text (cr_priority r), scope_summary (cr_scope r)],
     rfl_ignore_case (cr_flags r))"

definition rules_section :: "classification_rule list query \<Rightarrow> (jstr list \<times> bool) section_view" where
  "rules_section a = (case a of
     Pending \<Rightarrow> Section_loading
   | Failed e _ \<Rightarrow> Section_error (error_text e (js ''Failed to load classification rules.''))
   | Loaded rules \<Rightarrow> if length rules = 0 then Section_empty (js ''No classification rules are configured.'')
       else Section_rows (map rule_row rules))"

definition policy_row :: "(json \<Rightarrow> jstr) \<Rightarrow> health_policy \<Rightarrow> jstr list" where
  "policy_row json_text p = [hp_name p, hp_category p, severity_text (hp_severity p),
     condition_summary json_text (hp_condition p), hp_policy_key p]"

definition policies_section ::
  "(jstr \<Rightarrow> jstr) \<Rightarrow> (jstr \<Rightarrow> jstr \<Rightarrow> int) \<Rightarrow> (json \<Rightarrow> jstr) \<Rightarrow> health_policy list query
    \<Rightarrow> (jstr \<times> bool \<times> jstr list list) section_view" where
  "policies_section fnsrc lcmp json_text a = (case a of
     Pending \<Rightarrow> Section_loading
   | Failed e _ \<Rightarrow> Section_error (error_text e (js ''Failed to load health policies.''))
   | Loaded ps \<Rightarrow> if length ps = 0 then Section_empty (js ''No health policies are configured.'')
       else Section_rows (map (\<lambda>s. (sec_label s, sec_rank s = 0, map (policy_row json_text) (sec_policies s)))
         (policy_sections fnsrc lcmp ps)))"

text \<open>A policy for concrete instances.\<close>

definition sample_policy :: "string \<Rightarrow> severity \<Rightarrow> health_policy" where
  "sample_policy n s = \<lparr>hp_id = js n, hp_name = js n, hp_description = [], hp_enabled = True, hp_system = True,
     hp_policy_key = js n, hp_mode = js ''EVALUATE'', hp_category = js ''bmc'', hp_severity = s,
     hp_condition = Condition None None None (Some (js ''bmc.reachable'')) (Some EQ) (Some (JBool False)) None,
     hp_evidence = [], hp_message_template = [], hp_scope = empty_policy_scope, hp_source = SYSTEM_DEFAULT,
     hp_priority = 100, hp_order = 0, hp_stats = \<lparr>pst_fire_count = 0, pst_last_fired_at = None,
       pst_error_count = 0, pst_quarantined = False\<rparr>,
     hp_revision = 1, hp_created_at = [], hp_updated_at = [], hp_created_by = None, hp_updated_by = None\<rparr>"

text \<open>The meaning of a condition over the truth of its leaves.\<close>

function holds :: "(jstr \<Rightarrow> bool) \<Rightarrow> condition \<Rightarrow> bool" where
  "holds env (Condition ao an nt m q v e) =
     (case ao of Some cs \<Rightarrow> list_all (holds env) cs
      | None \<Rightarrow> (case an of Some cs \<Rightarrow> list_ex (holds env) cs
      | None \<Rightarrow> (case nt of Some c \<Rightarrow> \<not> holds env c
      | None \<Rightarrow> (case m of Some mt \<Rightarrow> env mt | None \<Rightarrow> True))))"
  by pat_completeness auto
termination
  by (relation "measure (\<lambda>(_, c). size c)")
    (auto simp: less_Suc_eq_le dest!: size_list_estimation' [where f = size, OF _ order_refl])

section \<open>Laws of the grouping\<close>

abbreviation label_of_policy :: "(jstr \<Rightarrow> jstr) \<Rightarrow> health_policy \<Rightarrow> jstr" where
  "label_of_policy fnsrc p \<equiv> policy_scope_label fnsrc (hp_scope p)"

definition section_for :: "(jstr \<Rightarrow> jstr) \<Rightarrow> health_policy list \<Rightarrow> jstr \<Rightarrow> policy_section option" where
  "section_for fnsrc ps l = (case filter (\<lambda>p. label_of_policy fnsrc p = l) ps of
     [] \<Rightarrow> None
   | q # qs \<Rightarrow> Some \<lparr>sec_label = l, sec_rank = policy_scope_rank (hp_scope q), sec_policies = q # qs\<rparr>)"

lemma add_policies_map_of: "map_of (fold (add_policy fnsrc) ps []) l = section_for fnsrc ps l"
proof (induction ps arbitrary: l rule: rev_induct)
  case Nil
  then show ?case by (simp add: section_for_def)
next
  case (snoc p ps)
  then show ?case
    by (auto simp: add_policy_def Let_def update_conv' section_for_def split: list.splits)
qed

lemma add_policies_distinct: "distinct (map fst (fold (add_policy fnsrc) ps []))"
  by (induction ps rule: rev_induct) (auto simp: add_policy_def Let_def intro: distinct_update)

lemma grouped_section:
  assumes "(l, s) \<in> set (fold (add_policy fnsrc) ps [])"
  shows "sec_label s = l" "sec_policies s = filter (\<lambda>p. label_of_policy fnsrc p = l) ps" "sec_policies s \<noteq> []"
proof -
  have "section_for fnsrc ps l = Some s"
    using assms add_policies_map_of [of fnsrc ps l] add_policies_distinct [of fnsrc ps] by simp
  then show "sec_label s = l" "sec_policies s = filter (\<lambda>p. label_of_policy fnsrc p = l) ps" "sec_policies s \<noteq> []"
    by (auto simp: section_for_def split: list.splits)
qed

lemma grouped_labels: "fst ` set (fold (add_policy fnsrc) ps []) = label_of_policy fnsrc ` set ps"
proof (intro set_eqI)
  fix l
  have "l \<in> fst ` set (fold (add_policy fnsrc) ps []) \<longleftrightarrow> section_for fnsrc ps l \<noteq> None"
    using map_of_eq_None_iff [of "fold (add_policy fnsrc) ps []" l] by (simp add: add_policies_map_of)
  also have "\<dots> \<longleftrightarrow> filter (\<lambda>p. label_of_policy fnsrc p = l) ps \<noteq> []"
    by (simp add: section_for_def split: list.splits)
  also have "\<dots> \<longleftrightarrow> l \<in> label_of_policy fnsrc ` set ps"
    by (auto simp: filter_empty_conv)
  finally show "l \<in> fst ` set (fold (add_policy fnsrc) ps []) \<longleftrightarrow> l \<in> label_of_policy fnsrc ` set ps" .
qed

lemma policy_order:
  "comparator lcmp \<Longrightarrow> comparator (cmp_or (by_key k) (cmp_on n lcmp))"
  by (intro comparator_pair.comparator_either comparator_pair.intro by_key.comparator_axioms
    comparator.comparator_on)

lemma cmp_or_key: "cmp_or (by_key k) (cmp_on n c) a b \<le> 0 \<longleftrightarrow> k a < k b \<or> k a = k b \<and> c (n a) (n b) \<le> 0"
  by (auto simp: cmp_or_def by_key_def cmp_on_def)

lemma policy_severity_rank_eq: "policy_severity_rank s = severity_rank s"
  by (cases s) (simp_all add: policy_severity_rank_def severity_rank_def [symmetric])

section \<open>Properties\<close>



text \<open>
  The operators offered for a metric are those its type admits: comparison for numbers only,
  equality for everything that is not a list, membership for what is neither a list nor a
  Boolean, element and count operators for lists only, and existence for all; never none.
\<close>

lemma operators_fit_type:
  "(OP_ANY \<in> set (operators_for_metric_type t) \<longleftrightarrow> t \<in> {M_LIST_STRING, M_LIST_INT}) \<and>
   set COUNT_OPERATORS \<inter> set (operators_for_metric_type t) =
     (if t \<in> {M_LIST_STRING, M_LIST_INT} then set COUNT_OPERATORS else {}) \<and>
   (EQ \<in> set (operators_for_metric_type t) \<longleftrightarrow> t \<notin> {M_LIST_STRING, M_LIST_INT}) \<and>
   {GT, GTE, LT, LTE} \<inter> set (operators_for_metric_type t) =
     (if t \<in> {M_INT, M_FLOAT} then {GT, GTE, LT, LTE} else {}) \<and>
   set SET_OPERATORS \<inter> set (operators_for_metric_type t) =
     (if t \<in> {M_LIST_STRING, M_LIST_INT, M_BOOL} then {} else set SET_OPERATORS) \<and>
   set EXISTENCE_OPERATORS \<subseteq> set (operators_for_metric_type t)"
  by (cases t) (auto simp: operators_for_metric_type_def ALL_OPERATORS_def COUNT_OPERATORS_def
    SET_OPERATORS_def EXISTENCE_OPERATORS_def)

text \<open>
  The one-line summary of a condition does not determine it: the negation of a conjunction
  reads the same as the conjunction whose first part is negated, and they differ.
\<close>

lemma condition_summary_ambiguous:
  "\<exists>c c' env. condition_summary json_text c = condition_summary json_text c' \<and> holds env c \<noteq> holds env c'"
proof -
  define leaf where "leaf m = Condition None None None (Some m) (Some EXISTS) None None" for m
  define c where "c = Condition None None (Some (Condition (Some [leaf (js ''a''), leaf (js ''b'')]) None None None None None None))
     None None None None"
  define c' where "c' = Condition (Some [Condition None None (Some (leaf (js ''a''))) None None None None, leaf (js ''b'')])
     None None None None None None"
  have "condition_summary json_text c = condition_summary json_text c'"
    by (simp add: c_def c'_def leaf_def not_null_def)
  moreover have "holds (\<lambda>_. False) c \<noteq> holds (\<lambda>_. False) c'"
    by (simp add: c_def c'_def leaf_def)
  ultimately show ?thesis by blast
qed

end
