(* ===== verification/Labels.thy ===== *)
theory Labels
  imports Wire_Types
begin

text \<open>
  The label helpers of \<^verbatim>\<open>src/lib\<close>: \<open>actor.ts\<close> (how an actor is named),
  \<open>donor.ts\<close> (which maintenance marks a parts donor) and \<open>gpuModel.ts\<close> (the short
  model inferred from the GPUs).
\<close>

section \<open>Actors\<close>

datatype actor_kind = KindUser | KindToken | KindSystem

definition actor_id_label :: "jstr \<Rightarrow> jstr" where
  "actor_id_label i = (case after_prefix (js ''token:'') i of
     Some p \<Rightarrow> p @ js '' (personal token)''
   | None \<Rightarrow> (case after_prefix (js ''api-token-'') i of
       Some m \<Rightarrow> js ''API token ('' @ m @ js '')''
     | None \<Rightarrow> i))"

definition actor_label :: "actor \<Rightarrow> jstr \<times> actor_kind" where
  "actor_label a =
     (if ac_type a = SYSTEM then (js ''System ('' @ ac_id a @ js '')'', KindSystem)
      else if ac_type a = TOKEN then (actor_id_label (ac_id a), KindToken)
      else (coalesce (ac_display a) (ac_id a), KindUser))"

lemma actor_id_label_personal:
  "p \<noteq> [] \<Longrightarrow> \<forall>u \<in> set p. is_dot u \<Longrightarrow> actor_id_label (js ''token:'' @ p) = p @ js '' (personal token)''"
  by (simp add: actor_id_label_def after_prefix_def)

lemma actor_id_label_static:
  "p \<noteq> [] \<Longrightarrow> \<forall>u \<in> set p. is_dot u \<Longrightarrow>
     actor_id_label (js ''api-token-'' @ p) = js ''API token ('' @ p @ js '')''"
  by (simp add: actor_id_label_def after_prefix_def js_def)

section \<open>Parts donors\<close>

text \<open>
  The pattern \<open>/\bdonors?\b/i\<close>: \<open>donor_here s\<close> matches at the start of \<open>s\<close>,
  \<open>donor_in w s\<close> somewhere in \<open>s\<close> when the unit before \<open>s\<close> is a word unit iff \<open>w\<close>.
\<close>

definition word_end :: "jstr \<Rightarrow> bool" where
  "word_end s \<longleftrightarrow> s = [] \<or> \<not> is_word (hd s)"

definition donor_here :: "jstr \<Rightarrow> bool" where
  "donor_here s \<longleftrightarrow>
     (map ascii_lower (take 6 s) = js ''donors'' \<and> word_end (drop 6 s)) \<or>
     (map ascii_lower (take 5 s) = js ''donor'' \<and> word_end (drop 5 s))"

fun donor_in :: "bool \<Rightarrow> jstr \<Rightarrow> bool" where
  "donor_in w [] = False"
| "donor_in w (u # s) = (\<not> w \<and> donor_here (u # s) \<or> donor_in (is_word u) s)"

definition is_donor :: "maintenance_state \<Rightarrow> bool" where
  "is_donor m \<longleftrightarrow> ms_enabled m \<and> donor_in False (coalesce (ms_reason m) [])"

lemma donor_here_iff:
  "donor_here s \<longleftrightarrow> (\<exists>d b. s = d @ b \<and> word_end b \<and>
     map ascii_lower d \<in> {js ''donor'', js ''donors''})"
proof
  assume "donor_here s"
  then consider "map ascii_lower (take 6 s) = js ''donors''" "word_end (drop 6 s)"
    | "map ascii_lower (take 5 s) = js ''donor''" "word_end (drop 5 s)"
    by (auto simp: donor_here_def)
  then show "\<exists>d b. s = d @ b \<and> word_end b \<and> map ascii_lower d \<in> {js ''donor'', js ''donors''}"
    by cases (metis append_take_drop_id insertI1 insertI2)+
next
  assume "\<exists>d b. s = d @ b \<and> word_end b \<and> map ascii_lower d \<in> {js ''donor'', js ''donors''}"
  then obtain d b where s: "s = d @ b" "word_end b"
    and d: "map ascii_lower d = js ''donor'' \<or> map ascii_lower d = js ''donors''" by auto
  from d show "donor_here s"
  proof
    assume e: "map ascii_lower d = js ''donor''"
    then have "length d = 5" by (auto dest: arg_cong [where f = length])
    with s e show ?thesis by (auto simp: donor_here_def)
  next
    assume e: "map ascii_lower d = js ''donors''"
    then have "length d = 6" by (auto dest: arg_cong [where f = length])
    with s e show ?thesis by (auto simp: donor_here_def)
  qed
qed

definition is_donor_word :: "jstr \<Rightarrow> bool" where
  "is_donor_word d \<longleftrightarrow> map ascii_lower d \<in> {js ''donor'', js ''donors''}"

lemma donor_in_iff:
  "donor_in w s \<longleftrightarrow> (\<exists>a d b. s = a @ d @ b \<and> is_donor_word d \<and> word_end b \<and>
     (if a = [] then \<not> w else \<not> is_word (last a)))"
proof (induction w s rule: donor_in.induct)
  case (1 w)
  then show ?case by (auto simp: is_donor_word_def)
next
  case (2 w u s)
  show ?case (is "_ \<longleftrightarrow> ?R")
  proof
    assume "donor_in w (u # s)"
    then consider "\<not> w" "donor_here (u # s)" | "donor_in (is_word u) s" by auto
    then show ?R
    proof cases
      case 1
      then obtain d b where "u # s = [] @ d @ b" "word_end b" "is_donor_word d"
        by (auto simp: donor_here_iff is_donor_word_def)
      with 1 show ?thesis by metis
    next
      case 2
      with "2.IH" obtain a d b where *: "s = a @ d @ b" "is_donor_word d" "word_end b"
        "if a = [] then \<not> is_word u else \<not> is_word (last a)" by blast
      then have "u # s = (u # a) @ d @ b" "\<not> is_word (last (u # a))" by (auto split: if_splits)
      with * show ?thesis by (metis list.distinct(1))
    qed
  next
    assume ?R
    then obtain a d b where *: "u # s = a @ d @ b" "is_donor_word d" "word_end b"
      "if a = [] then \<not> w else \<not> is_word (last a)" by blast
    show "donor_in w (u # s)"
    proof (cases a)
      case Nil
      with * have "donor_here (u # s)" by (auto simp: donor_here_iff is_donor_word_def)
      moreover from * Nil have "\<not> w" by simp
      ultimately show ?thesis by (simp only: donor_in.simps) simp
    next
      case (Cons v a')
      with * have "s = a' @ d @ b" "if a' = [] then \<not> is_word u else \<not> is_word (last a')"
        by (auto split: if_splits)
      with * "2.IH" have "donor_in (is_word u) s" by blast
      then show ?thesis by simp
    qed
  qed
qed

section \<open>Inferred GPU models\<close>

text \<open>
  \<open>/^(NVIDIA|AMD|Intel)\s+/\<close> and \<open>/\s+\d+GB$/\<close>; the second is read from the end of the
  text, where its greedy white space is the whole run before the digits.
\<close>

definition drop_vendor :: "jstr \<Rightarrow> jstr" where
  "drop_vendor s =
     (case filter (\<lambda>v. prefix v s \<and> drop (length v) s \<noteq> [] \<and> is_ws (hd (drop (length v) s)))
        [js ''NVIDIA'', js ''AMD'', js ''Intel''] of
      v # _ \<Rightarrow> trim_start (drop (length v) s)
    | [] \<Rightarrow> s)"

definition drop_capacity :: "jstr \<Rightarrow> jstr" where
  "drop_capacity s =
     (let r = rev s; d = drop 2 r; w = dropWhile is_digit d in
      if take 2 r = js ''BG'' \<and> takeWhile is_digit d \<noteq> [] \<and> w \<noteq> [] \<and> is_ws (hd w)
      then rev (trim_start w) else s)"

definition shorten_gpu_model :: "jstr \<Rightarrow> jstr" where
  "shorten_gpu_model m = drop_capacity (drop_vendor m)"

definition inferred_gpu_model :: "gpu_info list \<Rightarrow> jstr option" where
  "inferred_gpu_model gpus =
     (let names = fold (\<lambda>g names. if truthy (gpu_model g)
          then set_add (shorten_gpu_model (the (gpu_model g))) names else names) gpus [] in
      if length names > 0 then Some (join (js '', '') names) else None)"

lemma drop_capacity_append:
  assumes "ds \<noteq> []" "\<forall>u \<in> set ds. is_digit u" "ws \<noteq> []" "\<forall>u \<in> set ws. is_ws u"
    and "b = [] \<or> \<not> is_ws (last b)"
  shows "drop_capacity (b @ ws @ ds @ js ''GB'') = b"
proof -
  let ?d = "rev ds @ rev ws @ rev b"
  have r: "rev (b @ ws @ ds @ js ''GB'') = js ''BG'' @ ?d" by (simp add: js_def)
  have nd: "\<not> is_digit (hd (rev ws))"
    using assms(3,4) is_digit_not_ws last_in_set [of ws] by (metis hd_rev)
  have tw: "takeWhile is_digit (rev ws @ rev b) = []" and dw: "dropWhile is_digit (rev ws @ rev b) = rev ws @ rev b"
    using nd assms(3) by (cases "rev ws"; simp)+
  have rd: "u \<in> set (rev ds) \<Longrightarrow> is_digit u" for u using assms(2) by simp
  have tk: "takeWhile is_digit ?d = rev ds"
    by (subst takeWhile_append2 [OF rd]) (auto simp only: tw append_Nil2)
  have dk: "dropWhile is_digit ?d = rev ws @ rev b"
    by (subst dropWhile_append2 [OF rd]) (auto simp only: dw)
  have hk: "is_ws (hd (rev ws @ rev b))" using assms(3,4) by (simp add: hd_rev)
  have sk: "trim_start (rev ws @ rev b) = rev b"
  proof -
    have "u \<in> set (rev ws) \<Longrightarrow> is_ws u" for u using assms(4) by simp
    then have "trim_start (rev ws @ rev b) = dropWhile is_ws (rev b)"
      unfolding trim_start_def by (rule dropWhile_append2)
    also have "\<dots> = rev b" using assms(5) by (cases "rev b") auto
    finally show ?thesis .
  qed
  have "take 2 (js ''BG'' @ ?d) = js ''BG''" "drop 2 (js ''BG'' @ ?d) = ?d" by simp_all
  then show ?thesis
    using assms(1,3) hk by (simp only: drop_capacity_def r Let_def tk dk sk) simp
qed

lemma drop_vendor_nvidia:
  "ws \<noteq> [] \<Longrightarrow> \<forall>u \<in> set ws. is_ws u \<Longrightarrow> b \<noteq> [] \<Longrightarrow> \<not> is_ws (hd b) \<Longrightarrow>
     drop_vendor (js ''NVIDIA'' @ ws @ b) = b"
  by (cases ws; cases b) (auto simp: drop_vendor_def js_def trim_start_def)

lemma inferred_gpu_model_eq:
  "inferred_gpu_model gpus =
     (let names = set_of_list (map (\<lambda>g. shorten_gpu_model (the (gpu_model g)))
        (filter (\<lambda>g. truthy (gpu_model g)) gpus)) in
      if names = [] then None else Some (join (js '', '') names))"
proof -
  have "fold (\<lambda>g names. if truthy (gpu_model g)
          then set_add (shorten_gpu_model (the (gpu_model g))) names else names) gpus ns =
     fold set_add (map (\<lambda>g. shorten_gpu_model (the (gpu_model g)))
        (filter (\<lambda>g. truthy (gpu_model g)) gpus)) ns" for ns
    by (induction gpus arbitrary: ns) auto
  then show ?thesis by (simp add: inferred_gpu_model_def set_of_list_def Let_def)
qed

section \<open>Properties\<close>

text \<open>
  A maintenance marks a parts donor exactly when it is enabled and its reason holds the
  word "donor" or "donors", in any letter case, bounded on both sides by the end of the text
  or by a unit that is not a letter, digit or underscore.
\<close>

lemma is_donor_word_spec:
  "is_donor m \<longleftrightarrow> ms_enabled m \<and> (\<exists>a d b. coalesce (ms_reason m) [] = a @ d @ b \<and>
     map ascii_lower d \<in> {js ''donor'', js ''donors''} \<and>
     (b = [] \<or> \<not> is_word (hd b)) \<and> (a = [] \<or> \<not> is_word (last a)))"
proof -
  have "(if a = [] then \<not> False else \<not> is_word (last a)) = (a = [] \<or> \<not> is_word (last a))" for a
    by simp
  then show ?thesis
    by (simp only: is_donor_def donor_in_iff is_donor_word_def word_end_def)
qed

lemma is_donor_word_spec_witness:
  "is_donor \<lparr>ms_enabled = True, ms_reason = Some (js ''DONOR-7''), ms_created_by = None\<rparr>"
proof -
  have "js ''DONOR-7'' = [] @ js ''DONOR'' @ js ''-7'' \<and>
     map ascii_lower (js ''DONOR'') \<in> {js ''donor'', js ''donors''} \<and>
     (js ''-7'' = [] \<or> \<not> is_word (hd (js ''-7''))) \<and> ([]::jstr) = []"
    by (simp add: js_def ascii_lower_def is_word_def is_digit_def)
  then show ?thesis
    by (intro is_donor_word_spec [THEN iffD2]) (simp only: maintenance_state.simps coalesce_simps, blast)
qed

text \<open>
  The short model shown for a server without one of its own: the vendor prefix and the
  capacity suffix of a catalogue name go, whatever white space separates them, and what is
  between them stays.
\<close>

lemma shorten_gpu_model_catalogue:
  assumes "ws \<noteq> []" "\<forall>u \<in> set ws. is_ws u" "ws' \<noteq> []" "\<forall>u \<in> set ws'. is_ws u"
    and "b \<noteq> []" "\<not> is_ws (hd b)" "\<not> is_ws (last b)" "ds \<noteq> []" "\<forall>u \<in> set ds. is_digit u"
  shows "shorten_gpu_model (js ''NVIDIA'' @ ws @ b @ ws' @ ds @ js ''GB'') = b"
proof -
  have "drop_vendor (js ''NVIDIA'' @ ws @ b @ ws' @ ds @ js ''GB'') = b @ ws' @ ds @ js ''GB''"
    using assms by (intro drop_vendor_nvidia) auto
  then show ?thesis
    using assms drop_capacity_append [of ds ws' b] by (simp add: shorten_gpu_model_def)
qed

lemma shorten_gpu_model_catalogue_witness:
  "shorten_gpu_model (js ''NVIDIA A100 80GB'') = js ''A100''"
  using shorten_gpu_model_catalogue [of "[32]" "[32]" "js ''A100''" "js ''80''"]
  by (simp add: js_def is_ws_def is_digit_def)

end
