(* ===== verification/Datetime.thy ===== *)
theory Datetime
  imports Wire_Types
begin

text \<open>
  Dates (\<^verbatim>\<open>src/lib/datetime.ts\<close>): the UTC calendar of \<open>Date\<close> (\<open>Date.UTC\<close>,
  \<open>getUTCMonth\<close>, \<open>getUTCDate\<close>, \<open>toISOString\<close>), the relative forms, and the parser of a
  date typed in Israel time. The browser's time zone data and its locale texts are parameters.
\<close>

section \<open>The calendar\<close>

text \<open>
  Days and milliseconds count from 1 January 1970, UTC; the functions follow the language
  specification (\<open>DayFromYear\<close>, \<open>MakeDay\<close>, \<open>MakeTime\<close>).
\<close>

definition ms_per_day :: int where
  "ms_per_day = 86400000"

definition leap :: "int \<Rightarrow> bool" where
  "leap y \<longleftrightarrow> y mod 4 = 0 \<and> (y mod 100 \<noteq> 0 \<or> y mod 400 = 0)"

definition day_from_year :: "int \<Rightarrow> int" where
  "day_from_year y = 365 * (y - 1970) + (y - 1969) div 4 - (y - 1901) div 100 + (y - 1601) div 400"

text \<open>Days before the month (0 to 11) in its year.\<close>

definition days_before_month :: "int \<Rightarrow> int \<Rightarrow> int" where
  "days_before_month y m =
     (if m = 0 then 0 else if m = 1 then 31 else
      (if m = 2 then 59 else if m = 3 then 90 else if m = 4 then 120 else if m = 5 then 151
       else if m = 6 then 181 else if m = 7 then 212 else if m = 8 then 243 else if m = 9 then 273
       else if m = 10 then 304 else if m = 11 then 334 else 365) + (if leap y then 1 else 0))"

definition make_day :: "int \<Rightarrow> int \<Rightarrow> int \<Rightarrow> int" where
  "make_day y m d = (let ym = y + m div 12; mn = m mod 12 in
     day_from_year ym + days_before_month ym mn + d - 1)"

text \<open>\<open>Date.UTC\<close>: a year from 0 to 99 means 1900 to 1999.\<close>

definition full_year :: "int \<Rightarrow> int" where
  "full_year y = (if 0 \<le> y \<and> y \<le> 99 then 1900 + y else y)"

definition date_utc :: "int \<Rightarrow> int \<Rightarrow> int \<Rightarrow> int \<Rightarrow> int \<Rightarrow> int \<Rightarrow> int" where
  "date_utc y m d h mi s = make_day (full_year y) m d * ms_per_day + h * 3600000 + mi * 60000 + s * 1000"

definition year_of_day :: "int \<Rightarrow> int" where
  "year_of_day d = (let e = 1970 + (400 * d) div 146097 in
     if day_from_year (e + 1) \<le> d then e + 1 else if day_from_year e \<le> d then e else e - 1)"

text \<open>The month (0 to 11) of a day of the year.\<close>

definition month_in_year :: "int \<Rightarrow> int \<Rightarrow> int" where
  "month_in_year y n = int (length (filter (\<lambda>m. days_before_month y m \<le> n) [1..11]))"

definition utc_day :: "int \<Rightarrow> int" where
  "utc_day t = t div ms_per_day"

definition utc_year :: "int \<Rightarrow> int" where
  "utc_year t = year_of_day (utc_day t)"

definition utc_month :: "int \<Rightarrow> int" where
  "utc_month t = month_in_year (utc_year t) (utc_day t - day_from_year (utc_year t))"

definition utc_date :: "int \<Rightarrow> int" where
  "utc_date t = utc_day t - day_from_year (utc_year t) - days_before_month (utc_year t) (utc_month t) + 1"

subsection \<open>Laws of the calendar\<close>

lemma div_bounds: "0 < k \<Longrightarrow> k * (n div k) \<le> n \<and> n < k * (n div k) + (k::int)"
  using minus_mod_eq_mult_div [of n k] pos_mod_bound [of k n] pos_mod_sign [of k n] by linarith

lemma day_from_year_bounds:
  "146097 * (y - 1970) - 600 \<le> 400 * day_from_year y \<and>
   400 * day_from_year y \<le> 146097 * (y - 1970) + 600"
  using div_bounds [of 4 "y - 1969"] div_bounds [of 100 "y - 1901"] div_bounds [of 400 "y - 1601"]
  by (simp add: day_from_year_def)

text \<open>The quotient by \<open>k\<close> grows by one exactly at the multiples of \<open>k\<close>.\<close>

lemma div_step:
  assumes "0 < (k::int)"
  shows "(n + 1) div k = n div k + (if (n + 1) mod k = 0 then 1 else 0)"
proof -
  let ?q = "n div k" and ?r = "n mod k"
  have n: "n = k * ?q + ?r" and r: "0 \<le> ?r" "?r < k" using assms by simp_all
  show ?thesis
  proof (cases "?r = k - 1")
    case True
    with n have "n + 1 = k * (?q + 1) + 0" by (simp add: distrib_left)
    then have "(n + 1) div k = ?q + 1" "(n + 1) mod k = 0"
      using assms int_div_pos_eq [of "n + 1" k "?q + 1" 0] int_mod_pos_eq [of "n + 1" k "?q + 1" 0] by simp_all
    then show ?thesis by simp
  next
    case False
    with r have "0 \<le> ?r + 1" "?r + 1 < k" by linarith+
    moreover have "n + 1 = k * ?q + (?r + 1)" using n by linarith
    ultimately have "(n + 1) div k = ?q" "(n + 1) mod k = ?r + 1"
      using int_div_pos_eq [of "n + 1" k ?q "?r + 1"] int_mod_pos_eq [of "n + 1" k ?q "?r + 1"] by simp_all
    with r show ?thesis by simp
  qed
qed

lemma leap_sum:
  "(R \<longrightarrow> Q) \<Longrightarrow> (Q \<longrightarrow> P) \<Longrightarrow>
   365 * (z + 1) + (a + (if P then 1 else 0)) - (b + (if Q then 1 else 0)) + (c + (if R then 1 else 0)) =
     365 * z + a - b + c + (if P \<and> (\<not> Q \<or> R) then 366 else (365::int))"
  by (cases P; cases Q; cases R; simp)

lemma year_length: "day_from_year (y + 1) = day_from_year y + (if leap y then 366 else 365)"
proof -
  have 4: "(y + 1 - 1969) div 4 = (y - 1969) div 4 + (if y mod 4 = 0 then 1 else 0)"
    using div_step [of 4 "y - 1969"] mod_mult_self2 [of y 4 "- 492"] by (simp add: algebra_simps)
  have 100: "(y + 1 - 1901) div 100 = (y - 1901) div 100 + (if y mod 100 = 0 then 1 else 0)"
    using div_step [of 100 "y - 1901"] mod_mult_self2 [of y 100 "- 19"] by (simp add: algebra_simps)
  have 400: "(y + 1 - 1601) div 400 = (y - 1601) div 400 + (if y mod 400 = 0 then 1 else 0)"
    using div_step [of 400 "y - 1601"] mod_mult_self2 [of y 400 "- 4"] by (simp add: algebra_simps)
  have "y mod 400 = 0 \<longrightarrow> y mod 100 = 0" "y mod 100 = 0 \<longrightarrow> y mod 4 = 0"
    using dvd_trans [of 100 400 y] dvd_trans [of 4 100 y] by (simp_all add: mod_eq_0_iff_dvd)
  moreover have "y + 1 - 1970 = (y - 1970) + 1" by simp
  ultimately show ?thesis
    unfolding day_from_year_def 4 100 400 leap_def by (simp only: leap_sum)
qed

lemma day_from_year_less: "day_from_year y < day_from_year (y + 1)"
  by (simp add: year_length)

lemma day_from_year_mono: "a \<le> b \<Longrightarrow> day_from_year a \<le> day_from_year b"
proof (induction "nat (b - a)" arbitrary: b)
  case (Suc n)
  then have "a \<le> b - 1" "n = nat (b - 1 - a)" by linarith+
  with Suc.hyps(1) have "day_from_year a \<le> day_from_year (b - 1)" by blast
  then show ?case using day_from_year_less [of "b - 1"] by simp
qed simp

lemma year_of_day_spec: "day_from_year (year_of_day d) \<le> d \<and> d < day_from_year (year_of_day d + 1)"
proof -
  define e where "e = 1970 + (400 * d) div 146097"
  have e: "146097 * (e - 1970) \<le> 400 * d" "400 * d < 146097 * (e - 1970) + 146097"
    using div_bounds [of 146097 "400 * d"] by (simp_all add: e_def)
  define x where "x = e - 1970"
  have x: "e + 2 - 1970 = x + 2" "e - 1 - 1970 = x - 1" by (simp_all add: x_def)
  have "400 * d < 400 * day_from_year (e + 2)"
    using conjunct1 [OF day_from_year_bounds [of "e + 2"]] e unfolding x x_def [symmetric] by simp
  then have u: "d < day_from_year (e + 2)" by simp
  have "400 * day_from_year (e - 1) \<le> 400 * d"
    using conjunct2 [OF day_from_year_bounds [of "e - 1"]] e unfolding x x_def [symmetric] by simp
  then have l: "day_from_year (e - 1) \<le> d" by simp
  have "year_of_day d = (if day_from_year (e + 1) \<le> d then e + 1 else if day_from_year e \<le> d then e else e - 1)"
    by (simp add: year_of_day_def e_def Let_def)
  then show ?thesis using u l by (auto simp: add.assoc)
qed

lemma year_of_day_unique: "day_from_year y \<le> d \<Longrightarrow> d < day_from_year (y + 1) \<Longrightarrow> year_of_day d = y"
proof (rule ccontr)
  assume a: "day_from_year y \<le> d" "d < day_from_year (y + 1)" and "year_of_day d \<noteq> y"
  then consider "year_of_day d + 1 \<le> y" | "y + 1 \<le> year_of_day d" by linarith
  then show False
    using a year_of_day_spec [of d] day_from_year_mono [of "year_of_day d + 1" y]
      day_from_year_mono [of "y + 1" "year_of_day d"] by cases linarith+
qed

lemma months_1_11: "[1..11] = [1, 2, 3, 4, 5, 6, 7, 8, 9, 10, (11::int)]"
  by (simp add: upto.simps)

lemma days_before_month_table:
  "map (days_before_month y) [1..11] =
     (if leap y then [31, 60, 91, 121, 152, 182, 213, 244, 274, 305, 335]
      else [31, 59, 90, 120, 151, 181, 212, 243, 273, 304, 334])"
  by (simp add: months_1_11 days_before_month_def)

lemma month_in_year_range: "0 \<le> month_in_year y n \<and> month_in_year y n \<le> 11"
proof -
  have "length (filter (\<lambda>m. days_before_month y m \<le> n) [1..11]) \<le> length [1..11::int]"
    by (rule length_filter_le)
  then show ?thesis by (simp add: month_in_year_def months_1_11 del: length_filter_le)
qed

fun month_table :: "int list \<Rightarrow> int \<Rightarrow> nat" where
  "month_table [] n = 0"
| "month_table (b # bs) n = (if b \<le> n then Suc (month_table bs n) else 0)"

lemma filter_table: "sorted bs \<Longrightarrow> length (filter (\<lambda>b. b \<le> n) bs) = month_table bs n"
proof (induction bs)
  case (Cons b bs)
  have "filter (\<lambda>b. b \<le> n) bs = []" if "n < b" using Cons.prems that by (auto simp: filter_empty_conv)
  with Cons show ?case by auto
qed simp

lemma month_table_spec:
  "sorted bs \<Longrightarrow> (month_table bs n = 0 \<or> bs ! (month_table bs n - 1) \<le> n) \<and>
     (month_table bs n = length bs \<or> n < bs ! month_table bs n)"
  by (induction bs) (auto simp: nth_Cons' split: if_splits)

lemma month_spec:
  assumes "0 \<le> n" "n < (if leap y then 366 else 365)"
  shows "days_before_month y (month_in_year y n) \<le> n \<and> n < days_before_month y (month_in_year y n + 1)"
proof -
  let ?bs = "map (days_before_month y) [1..11]"
  define k where "k = month_table ?bs n"
  have srt: "sorted ?bs" by (simp add: days_before_month_table)
  have len: "length ?bs = 11" by (simp add: months_1_11)
  have mk: "month_in_year y n = int k"
    using filter_table [OF srt, of n] by (simp add: month_in_year_def k_def filter_map comp_def)
  have nth: "?bs ! j = days_before_month y (int j + 1)" if "j < 11" for j
    using that by (simp add: nth_upto add.commute del: upto_rec1 upto_rec_numeral)
  have k11: "k \<le> 11" using mk month_in_year_range [of y n] by simp
  note sp = month_table_spec [OF srt, of n, folded k_def]
  have "days_before_month y (int k) \<le> n"
  proof (cases "k = 0")
    case True
    then show ?thesis using assms by (simp add: days_before_month_def)
  next
    case False
    then show ?thesis using sp nth [of "k - 1"] k11 by (simp add: of_nat_diff)
  qed
  moreover have "n < days_before_month y (int k + 1)"
  proof (cases "k = 11")
    case True
    then show ?thesis using assms by (simp add: days_before_month_def split: if_splits)
  next
    case False
    then show ?thesis using sp nth [of k] k11 len by simp
  qed
  ultimately show ?thesis by (simp add: mk)
qed

definition days_in_month :: "int \<Rightarrow> int \<Rightarrow> int" where
  "days_in_month y m = days_before_month y (m + 1) - days_before_month y m"

lemma days_in_month_calendar:
  "days_in_month y 0 = 31" "days_in_month y 1 = (if leap y then 29 else 28)" "days_in_month y 2 = 31"
  "days_in_month y 3 = 30" "days_in_month y 4 = 31" "days_in_month y 5 = 30" "days_in_month y 6 = 31"
  "days_in_month y 7 = 31" "days_in_month y 8 = 30" "days_in_month y 9 = 31" "days_in_month y 10 = 30"
  "days_in_month y 11 = 31"
  by (simp_all add: days_in_month_def days_before_month_def)

lemma month_cases:
  assumes "0 \<le> m" "m \<le> (11::int)"
  obtains "m = 0" | "m = 1" | "m = 2" | "m = 3" | "m = 4" | "m = 5" | "m = 6" | "m = 7" | "m = 8"
    | "m = 9" | "m = 10" | "m = 11"
proof -
  have "m = 0 \<or> m = 1 \<or> m = 2 \<or> m = 3 \<or> m = 4 \<or> m = 5 \<or> m = 6 \<or> m = 7 \<or> m = 8 \<or> m = 9
    \<or> m = 10 \<or> m = 11"
    using assms by presburger
  then show ?thesis using that by blast
qed

text \<open>A month begins after every earlier one ended.\<close>

lemma days_before_month_less:
  assumes "0 \<le> m" "m < m'" "m' \<le> 12"
  shows "days_before_month y (m + 1) \<le> days_before_month y m'"
proof -
  have step: "days_before_month y k \<le> days_before_month y (k + 1)" if "0 \<le> k" "k \<le> 11" for k
    using that by (cases k rule: month_cases) (simp_all add: days_before_month_def)
  show ?thesis using assms(2,3)
  proof (induction "nat (m' - m)" arbitrary: m')
    case (Suc n)
    show ?case
    proof (cases "m' = m + 1")
      case False
      with Suc have "days_before_month y (m + 1) \<le> days_before_month y (m' - 1)" by simp
      also have "\<dots> \<le> days_before_month y m'" using step [of "m' - 1"] Suc.prems assms(1) by simp
      finally show ?thesis .
    qed simp
  qed simp
qed

lemma month_in_year_unique:
  assumes "0 \<le> m" "m \<le> 11" "days_before_month y m \<le> n" "n < days_before_month y (m + 1)"
    and "0 \<le> n" "n < (if leap y then 366 else 365)"
  shows "month_in_year y n = m"
proof (rule ccontr)
  assume "month_in_year y n \<noteq> m"
  then consider "month_in_year y n < m" | "m < month_in_year y n" by linarith
  then show False
    using month_spec [OF assms(5,6)] month_in_year_range [of y n] assms
      days_before_month_less [of "month_in_year y n" m y] days_before_month_less [of m "month_in_year y n" y]
    by cases linarith+
qed

lemma days_before_month_range:
  "0 \<le> m \<Longrightarrow> m \<le> 11 \<Longrightarrow> 0 \<le> days_before_month y m \<and> days_before_month y (m + 1) \<le> (if leap y then 366 else 365)
     \<and> days_before_month y m \<le> 335"
  by (cases m rule: month_cases) (simp_all add: days_before_month_def)

text \<open>The fields of the instant of a real date are the date.\<close>

lemma utc_fields:
  assumes "0 \<le> m" "m \<le> 11" "1 \<le> d" "d \<le> days_in_month y m" "0 \<le> r" "r < ms_per_day"
    and "t = (day_from_year y + days_before_month y m + d - 1) * ms_per_day + r"
  shows "utc_year t = y \<and> utc_month t = m \<and> utc_date t = d"
proof -
  let ?n = "days_before_month y m + d - 1"
  have day: "utc_day t = day_from_year y + ?n"
    using assms(5,6) unfolding utc_day_def assms(7)
    by (simp add: div_add1_eq ms_per_day_def)
  have n: "days_before_month y m \<le> ?n" "?n < days_before_month y (m + 1)"
    using assms(3,4) by (simp_all add: days_in_month_def)
  moreover have "0 \<le> ?n" "?n < (if leap y then 366 else 365)"
    using n days_before_month_range [OF assms(1,2), of y] by linarith+
  ultimately have "utc_year t = y" and mi: "month_in_year y ?n = m"
    using year_of_day_unique [of y "day_from_year y + ?n"] month_in_year_unique [OF assms(1,2), of y ?n]
    by (simp_all add: utc_year_def day year_length)
  then show ?thesis by (simp add: utc_month_def utc_date_def day)
qed

text \<open>The converse: an instant written with those fields, if it reads back, is a real date.\<close>

lemma utc_fields_real:
  assumes "0 \<le> r" "r < ms_per_day" "utc_month t = m" "utc_date t = d"
    and "t = make_day y m d * ms_per_day + r"
  shows "0 \<le> m \<and> m \<le> 11 \<and> 1 \<le> d \<and> d \<le> days_in_month y m"
proof -
  have m: "0 \<le> m \<and> m \<le> 11" using month_in_year_range assms(3) by (auto simp: utc_month_def)
  then have mk: "make_day y m d = day_from_year y + days_before_month y m + d - 1"
    by (simp add: make_day_def)
  let ?Y = "utc_year t" and ?D = "utc_day t"
  have day: "?D = day_from_year y + days_before_month y m + d - 1"
    using assms(1,2) unfolding utc_day_def assms(5) mk by (simp add: div_add1_eq ms_per_day_def)
  have Y: "day_from_year ?Y \<le> ?D \<and> ?D < day_from_year (?Y + 1)"
    unfolding utc_year_def by (rule year_of_day_spec)
  let ?n = "?D - day_from_year ?Y"
  have n: "0 \<le> ?n" "?n < (if leap ?Y then 366 else 365)"
    using Y by (simp_all add: year_length split: if_splits)
  have M: "days_before_month ?Y m \<le> ?n \<and> ?n < days_before_month ?Y (m + 1)"
    using month_spec [OF n] assms(3) by (simp add: utc_month_def)
  have d: "d = ?n - days_before_month ?Y m + 1" using assms(3,4) by (simp add: utc_date_def)
  have eq: "day_from_year y + days_before_month y m = day_from_year ?Y + days_before_month ?Y m"
    using d day by linarith
  have close: "days_before_month a m \<le> days_before_month b m + 1" for a b
    using m by (simp add: days_before_month_def)
  have "y = ?Y"
  proof (rule ccontr)
    assume "y \<noteq> ?Y"
    then consider "y + 1 \<le> ?Y" | "?Y + 1 \<le> y" by linarith
    then show False
      using day_from_year_mono [of "y + 1" ?Y] day_from_year_mono [of "?Y + 1" y] year_length [of y]
        year_length [of ?Y] eq close [of y ?Y] close [of ?Y y]
      by cases (simp_all split: if_splits)
  qed
  with m M d show ?thesis by (simp add: days_in_month_def)
qed

section \<open>Dates typed in Israel time\<close>

text \<open>\<open>Number\<close> of a text of digits.\<close>

definition digits_value :: "jstr \<Rightarrow> int" where
  "digits_value s = int (foldl (\<lambda>n u. 10 * n + (u - 48)) 0 s)"

text \<open>A run of digits of an admitted length, and what follows it.\<close>

definition take_digits :: "nat \<Rightarrow> nat \<Rightarrow> jstr \<Rightarrow> (int \<times> jstr) option" where
  "take_digits lo hi s = (let d = takeWhile is_digit s in
     if lo \<le> length d \<and> length d \<le> hi then Some (digits_value d, dropWhile is_digit s) else None)"

definition take_unit :: "nat list \<Rightarrow> jstr \<Rightarrow> jstr option" where
  "take_unit us s = (case s of u # t \<Rightarrow> if u \<in> set us then Some t else None | [] \<Rightarrow> None)"

text \<open>
  \<open>/^(\d{1,2})\/(\d{1,2})\/(\d{4})(?:[ T](\d{1,2}):(\d{2}))?$/\<close>: day, month, year, hour and
  minute, the last two 0 when they are not given.
\<close>

definition israel_input :: "jstr \<Rightarrow> (int \<times> int \<times> int \<times> int \<times> int) option" where
  "israel_input s =
     Option.bind (take_digits 1 2 s) (\<lambda>(d, s).
     Option.bind (take_unit [47] s) (\<lambda>s.
     Option.bind (take_digits 1 2 s) (\<lambda>(m, s).
     Option.bind (take_unit [47] s) (\<lambda>s.
     Option.bind (take_digits 4 4 s) (\<lambda>(y, s).
     if s = [] then Some (d, m, y, 0, 0)
     else Option.bind (take_unit [32, 84] s) (\<lambda>s.
       Option.bind (take_digits 1 2 s) (\<lambda>(h, s).
       Option.bind (take_unit [58] s) (\<lambda>s.
       Option.bind (take_digits 2 2 s) (\<lambda>(mi, s).
       if s = [] then Some (d, m, y, h, mi) else None)))))))))"

text \<open>
  \<open>zone t\<close> is the Israel wall clock at the instant \<open>t\<close> as the browser's
  \<open>Intl.DateTimeFormat\<close> gives it: year, month (1 to 12), day, hour, minute, second.
\<close>

type_synonym zone = "int \<Rightarrow> int \<times> int \<times> int \<times> int \<times> int \<times> int"

definition jerusalem_offset_ms :: "zone \<Rightarrow> int \<Rightarrow> int" where
  "jerusalem_offset_ms zone utcMs =
     (case zone utcMs of (y, mo, d, h, mi, s) \<Rightarrow> date_utc y (mo - 1) d h mi s) - utcMs div 1000 * 1000"

definition pad_left :: "nat \<Rightarrow> nat \<Rightarrow> jstr" where
  "pad_left w n = replicate (w - length (nat_text n)) 48 @ nat_text n"

definition iso_year :: "int \<Rightarrow> jstr" where
  "iso_year y = (if 0 \<le> y \<and> y \<le> 9999 then pad_left 4 (nat y)
     else (if y < 0 then 45 else 43) # pad_left 6 (nat \<bar>y\<bar>))"

definition to_iso :: "int \<Rightarrow> jstr" where
  "to_iso t = (let r = t mod ms_per_day in
     iso_year (utc_year t) @ js ''-'' @ pad_left 2 (nat (utc_month t + 1)) @ js ''-''
       @ pad_left 2 (nat (utc_date t)) @ js ''T'' @ pad_left 2 (nat (r div 3600000)) @ js '':''
       @ pad_left 2 (nat (r div 60000 mod 60)) @ js '':'' @ pad_left 2 (nat (r div 1000 mod 60))
       @ js ''.'' @ pad_left 3 (nat (r mod 1000)) @ js ''Z'')"

definition parse_israel_utc :: "zone \<Rightarrow> jstr \<Rightarrow> int option" where
  "parse_israel_utc zone text = (case israel_input (trim text) of
     None \<Rightarrow> None
   | Some (day, month, year, hour, minute) \<Rightarrow>
       (let wall = date_utc year (month - 1) day hour minute 0 in
        if utc_month wall \<noteq> month - 1 \<or> utc_date wall \<noteq> day \<or> hour > 23 \<or> minute > 59 then None
        else let utc = wall - jerusalem_offset_ms zone wall in
          Some (wall - jerusalem_offset_ms zone utc)))"

definition parse_israel_input :: "zone \<Rightarrow> jstr \<Rightarrow> jstr option" where
  "parse_israel_input zone text = map_option to_iso (parse_israel_utc zone text)"

lemma digits_value_nonneg [simp]: "0 \<le> digits_value s"
  by (simp add: digits_value_def)

lemma take_digits_nonneg: "take_digits lo hi s = Some (n, t) \<Longrightarrow> 0 \<le> n"
  by (auto simp: take_digits_def Let_def split: if_splits)

lemma israel_input_nonneg:
  "israel_input s = Some (d, m, y, h, mi) \<Longrightarrow> 0 \<le> h \<and> 0 \<le> mi"
  by (auto simp: israel_input_def split: Option.bind_splits if_splits dest!: take_digits_nonneg)

lemma day_ms:
  "0 \<le> h \<Longrightarrow> h \<le> 23 \<Longrightarrow> 0 \<le> mi \<Longrightarrow> mi \<le> 59 \<Longrightarrow>
     0 \<le> h * 3600000 + mi * 60000 \<and> h * 3600000 + mi * 60000 < ms_per_day"
  by (simp add: ms_per_day_def)

lemma date_utc_real:
  assumes "0 \<le> h" "h \<le> 23" "0 \<le> mi" "mi \<le> 59"
  shows "(utc_month (date_utc y m d h mi 0) = m \<and> utc_date (date_utc y m d h mi 0) = d) \<longleftrightarrow>
    0 \<le> m \<and> m \<le> 11 \<and> 1 \<le> d \<and> d \<le> days_in_month (full_year y) m"
proof -
  have t: "date_utc y m d h mi 0 = make_day (full_year y) m d * ms_per_day + (h * 3600000 + mi * 60000)"
    by (simp add: date_utc_def)
  note r = conjunct1 [OF day_ms [OF assms]] conjunct2 [OF day_ms [OF assms]]
  show ?thesis
  proof
    assume "utc_month (date_utc y m d h mi 0) = m \<and> utc_date (date_utc y m d h mi 0) = d"
    then show "0 \<le> m \<and> m \<le> 11 \<and> 1 \<le> d \<and> d \<le> days_in_month (full_year y) m"
      using utc_fields_real [OF r _ _ t] by blast
  next
    assume a: "0 \<le> m \<and> m \<le> 11 \<and> 1 \<le> d \<and> d \<le> days_in_month (full_year y) m"
    then have "make_day (full_year y) m d = day_from_year (full_year y) + days_before_month (full_year y) m + d - 1"
      by (simp add: make_day_def Let_def)
    with t a show "utc_month (date_utc y m d h mi 0) = m \<and> utc_date (date_utc y m d h mi 0) = d"
      using utc_fields [of m d "full_year y" "h * 3600000 + mi * 60000"] r by simp
  qed
qed

section \<open>Relative forms\<close>

text \<open>
  \<open>Math.round\<close>: to the nearest integer, halves upwards. The quotients of integers it is applied
  to here are exact at the halves, and far enough from them otherwise, for the rounding of the
  division not to matter (instants less than \<open>2\<^sup>5\<^sup>0\<close> ms apart).
\<close>

definition js_round :: "rat \<Rightarrow> int" where
  "js_round q = \<lfloor>q + 1 / 2\<rfloor>"

datatype rel_unit = RSecond | RMinute | RHour | RDay

text \<open>
  \<open>Intl.RelativeTimeFormat\<close> turns the number and its unit into words and is left out; an
  unreadable instant makes the number \<open>NaN\<close>, which it refuses (\<open>None\<close>). Instants are ms.
\<close>

definition format_relative :: "int option \<Rightarrow> int \<Rightarrow> (int \<times> rel_unit) option" where
  "format_relative inst now = (case inst of
     None \<Rightarrow> None
   | Some t \<Rightarrow>
       (let seconds = js_round (of_int (t - now) / 1000); a = \<bar>seconds\<bar> in
        if a < 60 then Some (seconds, RSecond)
        else if a < 3600 then Some (js_round (of_int seconds / 60), RMinute)
        else if a < 86400 then Some (js_round (of_int seconds / 3600), RHour)
        else Some (js_round (of_int seconds / 86400), RDay)))"

definition format_age :: "int option \<Rightarrow> int \<Rightarrow> jstr" where
  "format_age inst now = (case inst of
     None \<Rightarrow> js ''NaNd''
   | Some t \<Rightarrow>
       (let seconds = max 0 (js_round (of_int (now - t) / 1000)) in
        if seconds < 3600 then int_text (js_round (of_int seconds / 60)) @ js ''m''
        else if seconds < 86400 then int_text (js_round (of_int seconds / 3600)) @ js ''h''
        else int_text (js_round (of_int seconds / 86400)) @ js ''d''))"

lemma js_round_near: "\<bar>of_int (js_round q) - q\<bar> \<le> 1 / 2"
proof -
  have "of_int \<lfloor>q + 1 / 2\<rfloor> \<le> q + 1 / 2" "q + 1 / 2 < of_int \<lfloor>q + 1 / 2\<rfloor> + 1"
    using floor_correct [of "q + 1 / 2"] by simp_all
  then show ?thesis unfolding js_round_def abs_le_iff by (intro conjI) linarith+
qed

lemma js_round_bounds: "of_int (js_round q) \<le> q + 1 / 2" "q - 1 / 2 \<le> of_int (js_round q)"
  using js_round_near [of q] unfolding abs_le_iff by linarith+

lemma js_round_mono: "a \<le> b \<Longrightarrow> js_round a \<le> js_round b"
  by (simp add: js_round_def floor_mono)

lemma js_round_int [simp]: "js_round (of_int n) = n"
  by (simp add: js_round_def floor_unique)

text \<open>The length of each unit in seconds.\<close>

fun unit_seconds :: "rel_unit \<Rightarrow> int" where
  "unit_seconds RSecond = 1"
| "unit_seconds RMinute = 60"
| "unit_seconds RHour = 3600"
| "unit_seconds RDay = 86400"

section \<open>Properties\<close>

text \<open>
  C26: the date filter accepts exactly the real dates: an input of the form DD/MM/YYYY, or
  DD/MM/YYYY HH:MM, is taken iff the month is 1 to 12, the day exists in that month of that year
  (leap years included) and the time of day is below 24:00.
\<close>

theorem israel_input_accepts_real_dates:
  "parse_israel_input zone text \<noteq> None \<longleftrightarrow>
   (\<exists>d m y h mi. israel_input (trim text) = Some (d, m, y, h, mi) \<and>
      1 \<le> m \<and> m \<le> 12 \<and> 1 \<le> d \<and> d \<le> days_in_month (full_year y) (m - 1) \<and> h \<le> 23 \<and> mi \<le> 59)"
proof (cases "israel_input (trim text)")
  case None
  then show ?thesis by (simp add: parse_israel_input_def parse_israel_utc_def)
next
  case (Some f)
  obtain d m y h mi where f: "f = (d, m, y, h, mi)" by (cases f)
  have "0 \<le> h" "0 \<le> mi" using israel_input_nonneg Some f by blast+
  then show ?thesis
    using date_utc_real [of h mi y "m - 1" d] Some f
    by (auto simp: parse_israel_input_def parse_israel_utc_def Let_def)
qed


text \<open>An Israel without summer time and its offset of two hours, as a concrete zone.\<close>

definition fixed_zone :: "int \<Rightarrow> zone" where
  "fixed_zone off t = (let w = t + off; r = w mod ms_per_day in
     (utc_year w, utc_month w + 1, utc_date w, r div 3600000, r div 60000 mod 60, r div 1000 mod 60))"


text \<open>
  A date of the years 0 to 99 is taken for one of the years 1900 to 1999: the filter accepts
  01/01/0050 and sends the instant of 01/01/1950.
\<close>

lemma israel_input_two_digit_year:
  "parse_israel_input zone (js ''01/01/0050'') = parse_israel_input zone (js ''01/01/1950'') \<and>
   parse_israel_input zone (js ''01/01/0050'') \<noteq> None"
proof -
  have f: "israel_input (trim (js ''01/01/0050'')) = Some (1, 1, 50, 0, 0)"
    "israel_input (trim (js ''01/01/1950'')) = Some (1, 1, 1950, 0, 0)"
    by (simp_all add: js_def trim_def trim_start_def is_ws_def israel_input_def take_digits_def Let_def is_digit_def
      digits_value_def take_unit_def)
  have w: "date_utc 50 0 1 0 0 0 = date_utc 1950 0 1 0 0 0" by (simp add: date_utc_def full_year_def)
  show ?thesis
    using date_utc_real [of 0 0 1950 0 1]
    by (simp add: parse_israel_input_def parse_israel_utc_def f w Let_def days_in_month_calendar full_year_def)
qed



end
