(* ===== verification/Badges.thy ===== *)
theory Badges
  imports Labels Datetime
begin

text \<open>
  The badges of \<^verbatim>\<open>src/components\<close>: \<open>StateBadge\<close>, \<open>ReservationBadge\<close>, \<open>InstallationBadge\<close>,
  \<open>BmcLink\<close>, \<open>Reported\<close>, by the text, the hover title and the tone they draw. What the browser
  prints (a formatted instant, its age, a number) is in \<open>display_env\<close>.
\<close>

record display_env =
  de_stamp :: "jstr \<Rightarrow> jstr"
  de_age :: "jstr \<Rightarrow> jstr"
  de_relative :: "jstr \<Rightarrow> jstr"
  de_number :: "rat \<Rightarrow> jstr"
  de_member :: "jstr \<Rightarrow> jstr"

definition jsval_string :: "display_env \<Rightarrow> jsval \<Rightarrow> jstr" where
  "jsval_string de v = (case v of Text t \<Rightarrow> t | Inherited k \<Rightarrow> de_member de k)"

text \<open>\<open>[...].filter(Boolean)\<close> of nullable texts.\<close>

definition present :: "jstr option list \<Rightarrow> jstr list" where
  "present xs = map the (filter truthy xs)"

section \<open>State\<close>

record severity_style =
  ss_label :: jstr
  ss_glyph :: jstr
  ss_tone :: jstr

definition SEVERITIES :: "severity \<Rightarrow> severity_style" where
  "SEVERITIES s = (case s of
     CRITICAL \<Rightarrow> \<lparr>ss_label = js ''Critical'', ss_glyph = [9670], ss_tone = js ''critical''\<rparr>
   | MAJOR \<Rightarrow> \<lparr>ss_label = js ''Major'', ss_glyph = [11039], ss_tone = js ''major''\<rparr>
   | WARNING \<Rightarrow> \<lparr>ss_label = js ''Warning'', ss_glyph = [9650], ss_tone = js ''warning''\<rparr>
   | HEALTHY \<Rightarrow> \<lparr>ss_label = js ''Healthy'', ss_glyph = [9679], ss_tone = js ''healthy''\<rparr>
   | UNKNOWN \<Rightarrow> \<lparr>ss_label = js ''Unknown'', ss_glyph = [9675], ss_tone = js ''unknown''\<rparr>)"

text \<open>A chip: its text, its title (none when empty) and its tone; 9671 is the donor's glyph, 9208 the pause.\<close>

record chip_view =
  cp_text :: jstr
  cp_title :: "jstr option"
  cp_tone :: jstr

definition maintenance_title :: "maintenance_state \<Rightarrow> jstr option" where
  "maintenance_title m =
     (let t = join (js '' - '') (present [ms_reason m,
        (if truthy (ms_created_by m) then Some (js ''by '' @ actor_id_label (the (ms_created_by m))) else None)]) in
      if t \<noteq> [] then Some t else None)"

definition maintenance_chip :: "maintenance_state \<Rightarrow> chip_view" where
  "maintenance_chip m = \<lparr>
     cp_text = (if is_donor m then [9671] else [9208]) @ (if is_donor m then js ''Donor'' else js ''Maint''),
     cp_title = maintenance_title m,
     cp_tone = (if is_donor m then js ''donor'' else js ''maintenance'')\<rparr>"

definition stale_chip :: "display_env \<Rightarrow> jstr option \<Rightarrow> chip_view" where
  "stale_chip de last_seen = \<lparr>
     cp_text = js ''Stale'' @ (if truthy last_seen then 32 # de_age de (the last_seen) else []),
     cp_title = Some (if truthy last_seen then js ''Last seen '' @ de_stamp de (the last_seen)
       else js ''Never successfully collected''),
     cp_tone = js ''unknown''\<rparr>"

definition mismatch_chip :: "jstr \<Rightarrow> chip_view" where
  "mismatch_chip name = \<lparr>cp_text = js ''Name mismatch'',
     cp_title = Some (js ''OpenShift reports this node as '' @ [34] @ name @ [34]), cp_tone = js ''warning''\<rparr>"

definition severity_chip :: "severity \<Rightarrow> chip_view" where
  "severity_chip s = \<lparr>cp_text = ss_glyph (SEVERITIES s) @ ss_label (SEVERITIES s), cp_title = None,
     cp_tone = ss_tone (SEVERITIES s)\<rparr>"

definition state_badge ::
  "display_env \<Rightarrow> severity \<Rightarrow> maintenance_state \<Rightarrow> bool \<Rightarrow> jstr option \<Rightarrow> jstr option \<Rightarrow> chip_view list" where
  "state_badge de sev m stale last_seen reported =
     [severity_chip sev]
     @ (if ms_enabled m then [maintenance_chip m] else [])
     @ (if stale then [stale_chip de last_seen] else [])
     @ (if truthy reported then [mismatch_chip (the reported)] else [])"

section \<open>Reservation and installation\<close>

text \<open>183 is the middle dot, 8594 the arrow.\<close>

definition reservation_detail :: "display_env \<Rightarrow> reservation_state \<Rightarrow> jstr" where
  "reservation_detail de r = join [32, 183, 32] (present [
     Some (js ''Installing to '' @ coalesce (rs_mce_cluster r) (js ''an unnamed MCE'')),
     (if truthy (rs_infra_env r) then Some (js ''InfraEnv '' @ the (rs_infra_env r)) else None),
     (if truthy (rs_holder r) then Some (js ''held by '' @ the (rs_holder r)) else None),
     Some (if truthy (rs_expires_at r) then js ''lock expires '' @ de_stamp de (the (rs_expires_at r))
       else js ''lock has no expiry'')])"

definition reservation_badge :: "display_env \<Rightarrow> bool \<Rightarrow> reservation_state \<Rightarrow> chip_view option" where
  "reservation_badge de full r =
     (if \<not> rs_held r then None
      else (let target = coalesce (rs_mce_cluster r) (js ''an unnamed MCE'') in
        Some \<lparr>cp_text = 8594 # (if full then js ''Installing to '' @ target else target),
          cp_title = Some (reservation_detail de r), cp_tone = js ''info''\<rparr>))"

definition installation_style :: "openshift_state \<Rightarrow> jstr" where
  "installation_style s = (case s of AVAILABLE \<Rightarrow> js ''healthy'' | INSTALLED \<Rightarrow> js ''critical''
     | INSTALLED_TO_INVENTORY \<Rightarrow> js ''info'')"

definition SHORT_LABELS :: "openshift_state \<Rightarrow> jstr" where
  "SHORT_LABELS s = (case s of AVAILABLE \<Rightarrow> js ''Available'' | INSTALLED \<Rightarrow> js ''Installed''
     | INSTALLED_TO_INVENTORY \<Rightarrow> js ''In inventory'')"

definition FULL_LABELS :: "openshift_state \<Rightarrow> jstr" where
  "FULL_LABELS s = (case s of AVAILABLE \<Rightarrow> js ''Available'' | INSTALLED \<Rightarrow> js ''Installed''
     | INSTALLED_TO_INVENTORY \<Rightarrow> js ''Installed to inventory'')"

definition installation_badge :: "bool \<Rightarrow> openshift_state \<Rightarrow> chip_view" where
  "installation_badge full s = \<lparr>cp_text = (if full then FULL_LABELS s else SHORT_LABELS s), cp_title = None,
     cp_tone = installation_style s\<rparr>"

section \<open>The BMC link\<close>

text \<open>Its address, its label and its text.\<close>

definition bmc_link :: "bool \<Rightarrow> jstr option \<Rightarrow> jstr \<Rightarrow> (jstr \<times> jstr \<times> jstr) option" where
  "bmc_link labeled host server_name =
     (if truthy host then Some (js ''https://'' @ the host, js ''Open BMC console for '' @ server_name,
        if labeled then js ''BMC'' else []) else None)"

section \<open>Values that were not read\<close>

definition NOT_READ_TITLE :: jstr where
  "NOT_READ_TITLE = js ''The most recent collection could not read this.''"

definition STALE_TITLE :: jstr where
  "STALE_TITLE = js ''Not confirmed by the most recent collection.''"

text \<open>A value drawn as it is, replaced, or marked; each with its hover title.\<close>

datatype 'a reported = As_read 'a | Not_reported jstr | Unconfirmed 'a jstr

definition reported :: "bool \<Rightarrow> bool \<Rightarrow> 'a \<Rightarrow> 'a reported" where
  "reported unread zero v =
     (if \<not> unread then As_read v else if zero then Not_reported NOT_READ_TITLE else Unconfirmed v STALE_TITLE)"

section \<open>Laws\<close>

text \<open>The severities stay apart by shape and word, and no other chip borrows a severity's tone but two.\<close>

lemma severity_chip_inj: "cp_text (severity_chip a) = cp_text (severity_chip b) \<longleftrightarrow> a = b"
  by (cases a; cases b) (simp_all add: severity_chip_def SEVERITIES_def)

lemma glyphs_agree: "map_of severity_glyph s = Some (ss_glyph (SEVERITIES s))"
  by (cases s) (simp_all add: severity_glyph_def SEVERITIES_def)

lemma state_badge_first: "hd (state_badge de sev m stale ls r) = severity_chip sev"
  by (simp add: state_badge_def)

text \<open>The chips of a row show its state: severity, donor or other maintenance, staleness, a mismatch.\<close>

lemma state_badge_chips:
  "state_badge de sev m stale ls r = state_badge de sev' m' stale' ls' r' \<Longrightarrow>
     sev = sev' \<and> ms_enabled m = ms_enabled m' \<and> stale = stale' \<and> truthy r = truthy r'"
proof -
  assume e: "state_badge de sev m stale ls r = state_badge de sev' m' stale' ls' r'"
  then have "cp_text (severity_chip sev) = cp_text (severity_chip sev')"
    by (metis state_badge_first)
  then have s: "sev = sev'" by (simp add: severity_chip_inj)
  have t: "(\<exists>c \<in> set (tl (state_badge de sev m stale ls r)). cp_tone c \<in> {js ''donor'', js ''maintenance''}) = ms_enabled m"
    "(\<exists>c \<in> set (tl (state_badge de sev m stale ls r)). cp_tone c = js ''unknown'') = stale"
    "(\<exists>c \<in> set (tl (state_badge de sev m stale ls r)). cp_tone c = js ''warning'') = truthy r" for sev m stale ls r
    by (auto simp: state_badge_def maintenance_chip_def stale_chip_def mismatch_chip_def)
  show ?thesis using s t [of sev m stale ls r, unfolded e] t [of sev' m' stale' ls' r'] by blast
qed

lemma reservation_badge_held: "reservation_badge de full r \<noteq> None \<longleftrightarrow> rs_held r"
  by (simp add: reservation_badge_def Let_def)

end
