(* ===== verification/Session.thy ===== *)
theory Session
  imports Api_Client
begin

text \<open>
  Who is signed in and what that shows: the roles (\<^verbatim>\<open>src/features/auth/useAuth.ts\<close>), the
  login form (\<^verbatim>\<open>LoginPage.tsx\<close>), the layout, the navigation bar and the two gates
  (\<^verbatim>\<open>src/components/AppLayout.tsx\<close>, \<^verbatim>\<open>AppNav.tsx\<close>, \<^verbatim>\<open>AdminGate.tsx\<close>, \<^verbatim>\<open>AuditGate.tsx\<close>), the
  routes (\<^verbatim>\<open>src/router.tsx\<close>) and the error page (\<^verbatim>\<open>RouteErrorBoundary.tsx\<close>).
\<close>

section \<open>Roles\<close>

datatype role = ADMIN | AUDITOR | VIEWER

record me =
  me_login_required :: bool
  me_authenticated :: bool
  me_username :: "jstr option"
  me_role :: "role option"

text \<open>\<open>me?.role\<close>: no role until the session has been read.\<close>

definition role_of :: "me option \<Rightarrow> role option" where
  "role_of me = (case me of Some m \<Rightarrow> me_role m | None \<Rightarrow> None)"

definition can_read_audit :: "me option \<Rightarrow> bool" where
  "can_read_audit me \<longleftrightarrow> role_of me = Some ADMIN \<or> role_of me = Some AUDITOR"

definition is_admin :: "me option \<Rightarrow> bool" where
  "is_admin me \<longleftrightarrow> role_of me = Some ADMIN"

definition role_text :: "role \<Rightarrow> jstr" where
  "role_text r = (case r of ADMIN \<Rightarrow> js ''ADMIN'' | AUDITOR \<Rightarrow> js ''AUDITOR'' | VIEWER \<Rightarrow> js ''VIEWER'')"

section \<open>Login\<close>

text \<open>8212 is the em dash, 8230 the ellipsis.\<close>

definition login_error_message :: "query_error \<Rightarrow> jstr" where
  "login_error_message e = (case e of
     Api_error p \<Rightarrow>
       if pd_status p = 401 then js ''Wrong username or password.''
       else if pd_status p = 403 then js ''Your account has no permission for this app.''
       else if pd_status p = 503
       then js ''The directory is unreachable right now '' @ [8212] @ js '' try again.''
       else pd_detail p
   | Js_error m \<Rightarrow> m
   | Other_error \<Rightarrow> js ''Login failed.'')"

text \<open>The states of a mutation, with its error.\<close>

datatype mutation = Mut_idle | Mut_pending | Mut_error query_error | Mut_success

record login_form =
  lf_username :: jstr
  lf_password :: jstr
  lf_mutation :: mutation

record login_view =
  lg_alert :: "jstr option"
  lg_disabled :: bool
  lg_button :: jstr

definition login_render :: "login_form \<Rightarrow> login_view" where
  "login_render f = \<lparr>
     lg_alert = (case lf_mutation f of Mut_error e \<Rightarrow> Some (login_error_message e) | _ \<Rightarrow> None),
     lg_disabled = (lf_mutation f = Mut_pending \<or> lf_username f = [] \<or> lf_password f = []),
     lg_button = (if lf_mutation f = Mut_pending then js ''Logging in'' @ [8230] else js ''Log in'')\<rparr>"

text \<open>
  The events of the form; a disabled button submits nothing. A success invalidates the session's
  query, which the layout reads.
\<close>

datatype login_event = Type_username jstr | Type_password jstr | Submit | Accepted | Refused query_error

definition login_step :: "login_event \<Rightarrow> login_form \<Rightarrow> login_form \<times> request list \<times> query_key list" where
  "login_step e f = (case e of
     Type_username u \<Rightarrow> (f\<lparr>lf_username := u\<rparr>, [], [])
   | Type_password p \<Rightarrow> (f\<lparr>lf_password := p\<rparr>, [], [])
   | Submit \<Rightarrow> if lg_disabled (login_render f) then (f, [], [])
       else (f\<lparr>lf_mutation := Mut_pending\<rparr>, [login (lf_username f) (lf_password f)], [])
   | Accepted \<Rightarrow> if lf_mutation f = Mut_pending then (f\<lparr>lf_mutation := Mut_success\<rparr>, [], [auth_me]) else (f, [], [])
   | Refused err \<Rightarrow> if lf_mutation f = Mut_pending then (f\<lparr>lf_mutation := Mut_error err\<rparr>, [], []) else (f, [], []))"

section \<open>Layout\<close>

datatype layout = Layout_blank | Layout_login | Layout_app

definition app_layout :: "me query \<Rightarrow> layout" where
  "app_layout q =
     (if q = Pending then Layout_blank
      else (case query_data q of
        Some me \<Rightarrow> if me_login_required me \<and> \<not> me_authenticated me then Layout_login else Layout_app
      | None \<Rightarrow> Layout_app))"

section \<open>Navigation\<close>

record nav_link =
  nl_to :: jstr
  nl_label :: jstr
  nl_audit :: bool
  nl_admin :: bool

definition nav_link :: "string \<Rightarrow> string \<Rightarrow> bool \<Rightarrow> bool \<Rightarrow> nav_link" where
  "nav_link to label audit admin = \<lparr>nl_to = js to, nl_label = js label, nl_audit = audit, nl_admin = admin\<rparr>"

definition NAV_LINKS :: "nav_link list" where
  "NAV_LINKS = [
     nav_link ''/'' ''Sites'' False False,
     nav_link ''/servers'' ''Servers'' False False,
     nav_link ''/events'' ''Events'' True False,
     nav_link ''/jobs'' ''Jobs'' False True,
     nav_link ''/rules'' ''Rules & Policies'' False False,
     nav_link ''/skill'' ''Claude'' False False,
     nav_link ''/architecture'' ''Architecture'' False False]"

definition nav_shown :: "me option \<Rightarrow> nav_link \<Rightarrow> bool" where
  "nav_shown me l \<longleftrightarrow> (can_read_audit me \<or> \<not> nl_audit l) \<and> (is_admin me \<or> \<not> nl_admin l)"

definition nav_active :: "jstr \<Rightarrow> nav_link \<Rightarrow> bool" where
  "nav_active pathname l = (if nl_to l = js ''/'' then pathname = js ''/'' else starts_with pathname (nl_to l))"

definition app_nav :: "me option \<Rightarrow> jstr \<Rightarrow> (jstr \<times> jstr \<times> bool) list" where
  "app_nav me pathname = map (\<lambda>l. (nl_to l, nl_label l, nav_active pathname l)) (filter (nav_shown me) NAV_LINKS)"

text \<open>The account menu: user name and role, drawn only for a session that needed a login.\<close>

definition account_menu :: "me option \<Rightarrow> (jstr option \<times> jstr option) option" where
  "account_menu me = (case me of
     Some m \<Rightarrow> if me_login_required m \<and> me_authenticated m
       then Some (me_username m, map_option role_text (me_role m)) else None
   | None \<Rightarrow> None)"

section \<open>Routes and gates\<close>

datatype gate = Open_to_all | Audit_gate | Admin_gate

datatype page = Sites_page | Inventory | Server_page | Events_page | Jobs_page | Rules_page | Architecture_page
  | Skill_page | Status_page

text \<open>The static paths as written; \<open>/servers/:id\<close> is matched below. The router also accepts another case or a final slash.\<close>

definition ROUTES :: "(jstr \<times> gate \<times> page) list" where
  "ROUTES = [
     (js ''/'', Open_to_all, Sites_page),
     (js ''/servers'', Open_to_all, Inventory),
     (js ''/events'', Audit_gate, Events_page),
     (js ''/jobs'', Admin_gate, Jobs_page),
     (js ''/rules'', Open_to_all, Rules_page),
     (js ''/architecture'', Open_to_all, Architecture_page),
     (js ''/skill'', Open_to_all, Skill_page),
     (js ''/status'', Open_to_all, Status_page)]"

definition route_of :: "jstr \<Rightarrow> (gate \<times> page) option" where
  "route_of path = (case map_of ROUTES path of
     Some r \<Rightarrow> Some r
   | None \<Rightarrow> (case split_on 47 path of
       [p, s, i] \<Rightarrow> if p = [] \<and> s = js ''servers'' \<and> i \<noteq> [] then Some (Open_to_all, Server_page) else None
     | _ \<Rightarrow> None))"

definition gate_admits :: "me option \<Rightarrow> gate \<Rightarrow> bool" where
  "gate_admits me g = (case g of Open_to_all \<Rightarrow> True | Audit_gate \<Rightarrow> can_read_audit me | Admin_gate \<Rightarrow> is_admin me)"

datatype outlet = Page page | Refusal jstr jstr | No_route

definition outlet :: "me option \<Rightarrow> jstr \<Rightarrow> outlet" where
  "outlet me path = (case route_of path of
     None \<Rightarrow> No_route
   | Some (g, p) \<Rightarrow> if gate_admits me g then Page p
       else (case g of
         Admin_gate \<Rightarrow> Refusal (js ''Jobs'') (js ''Running jobs is available to admins only.'')
       | _ \<Rightarrow> Refusal (js ''Audit trail'') (js ''The audit trail is available to admins and auditors only.'')))"

datatype render_error = Route_response int jstr | Thrown_error jstr | Thrown_other

definition boundary_message :: "render_error \<Rightarrow> jstr" where
  "boundary_message e = (case e of
     Route_response status text \<Rightarrow> int_text status @ js '' '' @ text
   | Thrown_error m \<Rightarrow> m
   | Thrown_other \<Rightarrow> js ''Something went wrong.'')"

section \<open>Laws\<close>

lemma nav_links_gates:
  "l \<in> set NAV_LINKS \<Longrightarrow> \<exists>g p. route_of (nl_to l) = Some (g, p) \<and> nav_shown me l = gate_admits me g"
  by (auto simp: NAV_LINKS_def nav_link_def route_of_def ROUTES_def nav_shown_def gate_admits_def)

text \<open>No path lights two entries: none of the prefixes extends another.\<close>

lemma nav_active_one: "length (filter (nav_active path) NAV_LINKS) \<le> 1"
proof -
  have p: "\<not> (prefix x path \<and> prefix y path)" if "\<not> prefix x y" "\<not> prefix y x" for x y :: jstr
    using that prefix_same_cases by blast
  show ?thesis
    using p [of "js ''/servers''" "js ''/events''"] p [of "js ''/servers''" "js ''/jobs''"]
      p [of "js ''/servers''" "js ''/rules''"] p [of "js ''/servers''" "js ''/skill''"]
      p [of "js ''/servers''" "js ''/architecture''"] p [of "js ''/events''" "js ''/jobs''"]
      p [of "js ''/events''" "js ''/rules''"] p [of "js ''/events''" "js ''/skill''"]
      p [of "js ''/events''" "js ''/architecture''"] p [of "js ''/jobs''" "js ''/rules''"]
      p [of "js ''/jobs''" "js ''/skill''"] p [of "js ''/jobs''" "js ''/architecture''"]
      p [of "js ''/rules''" "js ''/skill''"] p [of "js ''/rules''" "js ''/architecture''"]
      p [of "js ''/skill''" "js ''/architecture''"]
    by (cases "path = js ''/''") (auto simp: NAV_LINKS_def nav_link_def nav_active_def starts_with_def js_def)
qed

text \<open>
  The bar of a server's page lights the entry of the inventory: the code compares with
  \<open>startsWith\<close>, whatever its comment says.
\<close>

lemma nested_route_lights_parent:
  "(js ''/servers'', js ''Servers'', True) \<in> set (app_nav me (js ''/servers/abc''))"
  by (simp add: app_nav_def NAV_LINKS_def nav_link_def nav_shown_def nav_active_def starts_with_def js_def)

section \<open>Properties\<close>

text \<open>
  C34: the navigation bar offers a page exactly when its gate lets the caller in, for every role and
  before the session is known, and it never lights two entries.
\<close>

theorem nav_agrees_with_gates:
  "map (nav_shown me) NAV_LINKS =
     map (\<lambda>l. case outlet me (nl_to l) of Page _ \<Rightarrow> True | _ \<Rightarrow> False) NAV_LINKS \<and>
   length (filter (nav_active path) NAV_LINKS) \<le> 1"
proof
  have "nav_shown me l = (case outlet me (nl_to l) of Page _ \<Rightarrow> True | _ \<Rightarrow> False)" if "l \<in> set NAV_LINKS" for l
    using nav_links_gates [OF that, of me] by (auto simp: outlet_def split: gate.splits)
  then show "map (nav_shown me) NAV_LINKS =
     map (\<lambda>l. case outlet me (nl_to l) of Page _ \<Rightarrow> True | _ \<Rightarrow> False) NAV_LINKS"
    by simp
qed (rule nav_active_one)

text \<open>
  The login form sends credentials only when both are filled in and no attempt is under way, sends
  what was typed, and has the session read again exactly when an attempt was accepted.
\<close>

lemma login_form_requests:
  "fst (snd (login_step e f)) =
     (if e = Submit \<and> lf_mutation f \<noteq> Mut_pending \<and> lf_username f \<noteq> [] \<and> lf_password f \<noteq> []
      then [login (lf_username f) (lf_password f)] else []) \<and>
   snd (snd (login_step e f)) = (if e = Accepted \<and> lf_mutation f = Mut_pending then [auth_me] else []) \<and>
   (app_layout (Loaded m) = Layout_login) = (me_login_required m \<and> \<not> me_authenticated m)"
  by (cases e) (auto simp: login_step_def login_render_def app_layout_def query_data_def)

end
