(* ===== verification/Server_Tabs.thy ===== *)
theory Server_Tabs
  imports Badges Session Js_Sort
begin

text \<open>
  The page of one server (\<^verbatim>\<open>src/features/servers\<close>): the order of its drives (\<^verbatim>\<open>drives.ts\<close>), its
  fabric groups (\<^verbatim>\<open>ConnectivityTab.tsx\<close>) and what \<^verbatim>\<open>OverviewTab.tsx\<close>, \<^verbatim>\<open>HardwareTab.tsx\<close>,
  \<^verbatim>\<open>NetworkTab.tsx\<close> and \<^verbatim>\<open>ServerDetailPage.tsx\<close> show. 8212 is the em dash, 183 the middle dot,
  176 the degree sign.
\<close>

section \<open>Drives by capacity\<close>

definition capacity_cmp :: "int option \<Rightarrow> int option \<Rightarrow> int" where
  "capacity_cmp a b = (case a of
     None \<Rightarrow> (case b of None \<Rightarrow> 0 | Some _ \<Rightarrow> 1)
   | Some x \<Rightarrow> (case b of None \<Rightarrow> - 1 | Some y \<Rightarrow> x - y))"

definition sort_drives_by_capacity :: "storage_drive list \<Rightarrow> storage_drive list" where
  "sort_drives_by_capacity drives = js_sort (\<lambda>a b. capacity_cmp (sd_capacity_bytes a) (sd_capacity_bytes b)) drives"

section \<open>Attachments by fabric\<close>

record fabric_group =
  fg_fabric :: "jstr option"
  fg_attachments :: "connectivity_attachment list"

text \<open>The three variables of the loop: the order, the \<open>Map\<close> and the rest.\<close>

record fabric_loop =
  fl_order :: "jstr list"
  fl_groups :: "(jstr \<times> connectivity_attachment list) list"
  fl_other :: "connectivity_attachment list"

definition add_attachment :: "connectivity_attachment \<Rightarrow> fabric_loop \<Rightarrow> fabric_loop" where
  "add_attachment a st = (case ca_fabric a of
     None \<Rightarrow> st\<lparr>fl_other := fl_other st @ [a]\<rparr>
   | Some f \<Rightarrow> (case map_of (fl_groups st) f of
       Some existing \<Rightarrow> st\<lparr>fl_groups := AList.update f (existing @ [a]) (fl_groups st)\<rparr>
     | None \<Rightarrow> st\<lparr>fl_groups := AList.update f [a] (fl_groups st), fl_order := fl_order st @ [f]\<rparr>))"

definition group_by_fabric :: "connectivity_attachment list \<Rightarrow> fabric_group list" where
  "group_by_fabric attachments =
     (let st = fold add_attachment attachments \<lparr>fl_order = [], fl_groups = [], fl_other = []\<rparr> in
      map (\<lambda>f. \<lparr>fg_fabric = Some f, fg_attachments = coalesce (map_of (fl_groups st) f) []\<rparr>) (fl_order st)
      @ (if length (fl_other st) > 0 then [\<lparr>fg_fabric = None, fg_attachments = fl_other st\<rparr>] else []))"

record attachment_view =
  av_title :: jstr
  av_state :: link_state
  av_rows :: "(jstr \<times> jstr) list"

definition detail_row :: "string \<Rightarrow> jstr option \<Rightarrow> (jstr \<times> jstr) list" where
  "detail_row label v = (if truthy v then [(js label, the v)] else [])"

definition admin_state_text :: "admin_state \<Rightarrow> jstr" where
  "admin_state_text s = (case s of AdminEnabled \<Rightarrow> js ''ENABLED'' | AdminDisabled \<Rightarrow> js ''DISABLED''
     | AdminUnknown \<Rightarrow> js ''UNKNOWN'')"

definition attachment_view :: "connectivity_attachment \<Rightarrow> attachment_view" where
  "attachment_view a = \<lparr>
     av_title = coalesce (ca_fabric_name a) (coalesce (ca_fabric_id a) (js ''Unnamed interconnect'')),
     av_state = ca_oper_state a,
     av_rows = detail_row ''Model'' (ca_fabric_model a) @ detail_row ''Serial'' (ca_fabric_serial a)
       @ detail_row ''Server interface'' (ca_server_interface a) @ detail_row ''Server port'' (ca_server_port a)
       @ detail_row ''Fabric port'' (ca_fabric_port a)
       @ [(js ''Admin state'', admin_state_text (ca_admin_state a))]
       @ (case ca_speed_mbps a of Some s \<Rightarrow> [(js ''Speed'', int_text s @ js '' Mbps'')] | None \<Rightarrow> [])\<rparr>"

datatype connectivity_view =
  Conn_message jstr
| Conn_groups jstr "(jstr \<times> attachment_view list) list"

definition connectivity_tab :: "connectivity_detail option \<Rightarrow> connectivity_view" where
  "connectivity_tab c = (case c of
     None \<Rightarrow> Conn_message (js ''No connectivity data.'')
   | Some d \<Rightarrow>
       if length (cd_attachments d) = 0 then Conn_message (js ''No connectivity data.'')
       else (let physical = filter (\<lambda>a. ca_interface_kind a = js ''PHYSICAL'') (cd_attachments d) in
         if length physical = 0 then Conn_message (js ''No physical fabric connections reported.'')
         else Conn_groups
           (int_text (cf_fabric_paths_up (cd_facts d)) @ js ''/'' @ int_text (cf_fabric_paths_total (cd_facts d))
             @ js '' fabric paths up'')
           (map (\<lambda>g. (js ''Fabric '' @ coalesce (fg_fabric g) (js ''Other''), map attachment_view (fg_attachments g)))
             (group_by_fabric physical))))"

section \<open>Laws\<close>

interpretation by_capacity: comparator "\<lambda>a b. capacity_cmp (sd_capacity_bytes a) (sd_capacity_bytes b)"
  by unfold_locales (auto simp: capacity_cmp_def sgn_if split: option.splits if_splits)

definition fabrics_of :: "connectivity_attachment list \<Rightarrow> jstr list" where
  "fabrics_of xs = set_of_list (List.map_filter ca_fabric xs)"

definition fabric_ok :: "connectivity_attachment list \<Rightarrow> fabric_loop \<Rightarrow> bool" where
  "fabric_ok xs st \<longleftrightarrow> fl_order st = fabrics_of xs \<and>
     (\<forall>f. map_of (fl_groups st) f = (case filter (\<lambda>a. ca_fabric a = Some f) xs of [] \<Rightarrow> None | g \<Rightarrow> Some g)) \<and>
     fl_other st = filter (\<lambda>a. ca_fabric a = None) xs"

lemma fabric_ok_step:
  assumes "fabric_ok xs st"
  shows "fabric_ok (xs @ [a]) (add_attachment a st)"
proof (cases "ca_fabric a")
  case None
  with assms show ?thesis
    by (auto simp: fabric_ok_def add_attachment_def fabrics_of_def map_filter_def)
next
  case (Some f)
  have n: "map_of (fl_groups st) f = None \<longleftrightarrow> f \<notin> set (fl_order st)"
    using assms by (force simp: fabric_ok_def fabrics_of_def map_filter_def filter_empty_conv split: list.splits)
  have o: "fabrics_of (xs @ [a]) = (if f \<in> set (fl_order st) then fl_order st else fl_order st @ [f])"
    using assms Some by (auto simp: fabric_ok_def fabrics_of_def map_filter_def set_of_list_snoc set_add_def)
  show ?thesis
  proof (cases "map_of (fl_groups st) f")
    case None
    with n have "f \<notin> set (fl_order st)" by simp
    with None Some assms o show ?thesis
      by (auto simp: fabric_ok_def add_attachment_def update_conv' split: list.splits)
  next
    case (Some g)
    with n have "f \<in> set (fl_order st)" by auto
    with Some \<open>ca_fabric a = Some f\<close> assms o show ?thesis
      by (auto simp: fabric_ok_def add_attachment_def update_conv' split: list.splits)
  qed
qed

lemma fabric_ok_all: "fabric_ok xs (fold add_attachment xs \<lparr>fl_order = [], fl_groups = [], fl_other = []\<rparr>)"
proof (induction xs rule: rev_induct)
  case Nil
  then show ?case by (simp add: fabric_ok_def fabrics_of_def map_filter_def)
next
  case (snoc a xs)
  then show ?case using fabric_ok_step by simp
qed

lemma group_by_fabric_eq:
  "group_by_fabric xs =
     map (\<lambda>f. \<lparr>fg_fabric = Some f, fg_attachments = filter (\<lambda>a. ca_fabric a = Some f) xs\<rparr>) (fabrics_of xs)
     @ (if filter (\<lambda>a. ca_fabric a = None) xs = [] then []
        else [\<lparr>fg_fabric = None, fg_attachments = filter (\<lambda>a. ca_fabric a = None) xs\<rparr>])"
  using fabric_ok_all [of xs]
  by (auto simp: group_by_fabric_def fabric_ok_def Let_def split: list.splits)

lemma capacity_split:
  "sorted_wrt (\<lambda>a b. capacity_cmp (sd_capacity_bytes a) (sd_capacity_bytes b) \<le> 0) ds \<Longrightarrow>
     ds = filter (\<lambda>d. sd_capacity_bytes d \<noteq> None) ds @ filter (\<lambda>d. sd_capacity_bytes d = None) ds"
proof (induction ds)
  case (Cons d ds)
  show ?case
  proof (cases "sd_capacity_bytes d")
    case None
    with Cons.prems have "\<forall>e \<in> set ds. sd_capacity_bytes e = None"
      by (auto simp: capacity_cmp_def split: option.splits)
    with None show ?thesis by simp
  next
    case (Some n)
    with Cons show ?thesis by auto
  qed
qed simp

lemma known_sorted:
  "sorted_wrt (\<lambda>a b. capacity_cmp (sd_capacity_bytes a) (sd_capacity_bytes b) \<le> 0) ds \<Longrightarrow>
     sorted (map (\<lambda>d. the (sd_capacity_bytes d)) (filter (\<lambda>d. sd_capacity_bytes d \<noteq> None) ds))"
  by (induction ds) (auto simp: capacity_cmp_def)

text \<open>The parts of a list by distinct keys add up to what has one of the keys.\<close>

lemma parts_by_key:
  "distinct ks \<Longrightarrow> \<Sum>\<^sub># (mset (map (\<lambda>k. mset (filter (\<lambda>a. g a = k) xs)) ks)) = filter_mset (\<lambda>a. g a \<in> set ks) (mset xs)"
proof (induction ks)
  case (Cons k ks)
  then show ?case by (auto intro!: multiset_eqI)
qed simp

section \<open>Properties\<close>

text \<open>
  The drives are listed by capacity, smallest first and those of unknown capacity last, each once;
  drives of equal capacity keep the collector's order.
\<close>

lemma drives_sorted:
  "mset (sort_drives_by_capacity ds) = mset ds \<and>
   (\<exists>known unknown. sort_drives_by_capacity ds = known @ unknown \<and>
      list_all (\<lambda>d. sd_capacity_bytes d \<noteq> None) known \<and> list_all (\<lambda>d. sd_capacity_bytes d = None) unknown \<and>
      sorted (map (\<lambda>d. the (sd_capacity_bytes d)) known)) \<and>
   filter (\<lambda>d. sd_capacity_bytes d = c) (sort_drives_by_capacity ds) = filter (\<lambda>d. sd_capacity_bytes d = c) ds"
proof (intro conjI)
  show "mset (sort_drives_by_capacity ds) = mset ds" by (simp add: sort_drives_by_capacity_def)
  have s: "sorted_wrt (\<lambda>a b. capacity_cmp (sd_capacity_bytes a) (sd_capacity_bytes b) \<le> 0) (sort_drives_by_capacity ds)"
    unfolding sort_drives_by_capacity_def by (rule by_capacity.sorted_js_sort)
  show "\<exists>known unknown. sort_drives_by_capacity ds = known @ unknown \<and>
      list_all (\<lambda>d. sd_capacity_bytes d \<noteq> None) known \<and> list_all (\<lambda>d. sd_capacity_bytes d = None) unknown \<and>
      sorted (map (\<lambda>d. the (sd_capacity_bytes d)) known)"
    by (intro exI conjI, rule capacity_split [OF s]) (use known_sorted [OF s] in \<open>auto simp: list_all_iff\<close>)
  have "capacity_cmp c (sd_capacity_bytes d) = 0 \<longleftrightarrow> sd_capacity_bytes d = c" for d :: storage_drive
    by (auto simp: capacity_cmp_def split: option.splits)
  then show "filter (\<lambda>d. sd_capacity_bytes d = c) (sort_drives_by_capacity ds) = filter (\<lambda>d. sd_capacity_bytes d = c) ds"
    using by_capacity.stable_js_sort [of "undefined\<lparr>sd_capacity_bytes := c\<rparr>" ds]
    by (simp add: sort_drives_by_capacity_def)
qed

text \<open>
  The fabric groups split the attachments: one group per fabric in the order first seen, each with
  its attachments in the reported order, and those without a fabric last.
\<close>

lemma fabric_groups_partition:
  "\<Sum>\<^sub># (mset (map (\<lambda>g. mset (fg_attachments g)) (group_by_fabric xs))) = mset xs \<and>
   distinct (map fg_fabric (group_by_fabric xs)) \<and>
   filter (\<lambda>f. f \<noteq> None) (map fg_fabric (group_by_fabric xs)) = map Some (set_of_list (List.map_filter ca_fabric xs)) \<and>
   list_all (\<lambda>g. fg_attachments g = filter (\<lambda>a. ca_fabric a = fg_fabric g) xs \<and> fg_attachments g \<noteq> [])
     (group_by_fabric xs) \<and>
   list_all (\<lambda>g. fg_fabric g \<noteq> None) (butlast (group_by_fabric xs))"
proof (intro conjI)
  let ?ks = "map Some (fabrics_of xs) @ (if filter (\<lambda>a. ca_fabric a = None) xs = [] then [] else [None])"
  have keys: "map fg_fabric (group_by_fabric xs) = ?ks"
    by (simp add: group_by_fabric_eq comp_def)
  have groups: "map (\<lambda>g. mset (fg_attachments g)) (group_by_fabric xs) =
      map (\<lambda>k. mset (filter (\<lambda>a. ca_fabric a = k) xs)) ?ks"
    by (simp add: group_by_fabric_eq comp_def)
  have d: "distinct ?ks" by (auto simp: fabrics_of_def distinct_map)
  have all: "ca_fabric a \<in> set ?ks" if "a \<in> set xs" for a
    using that by (cases "ca_fabric a") (auto simp: fabrics_of_def map_filter_def filter_empty_conv image_iff)
  show "\<Sum>\<^sub># (mset (map (\<lambda>g. mset (fg_attachments g)) (group_by_fabric xs))) = mset xs"
    unfolding groups parts_by_key [OF d] by (rule filter_mset_eq_conv [THEN iffD2]) (use all in auto)
  show "distinct (map fg_fabric (group_by_fabric xs))" using d keys by simp
  show "filter (\<lambda>f. f \<noteq> None) (map fg_fabric (group_by_fabric xs)) = map Some (set_of_list (List.map_filter ca_fabric xs))"
    by (simp add: keys fabrics_of_def filter_map comp_def)
  show "list_all (\<lambda>g. fg_attachments g = filter (\<lambda>a. ca_fabric a = fg_fabric g) xs \<and> fg_attachments g \<noteq> []) (group_by_fabric xs)"
    by (auto simp: group_by_fabric_eq list_all_iff fabrics_of_def map_filter_def filter_empty_conv)
  show "list_all (\<lambda>g. fg_fabric g \<noteq> None) (butlast (group_by_fabric xs))"
    by (auto simp: group_by_fabric_eq list_all_iff butlast_append dest!: in_set_butlastD)
qed

end
