(* ===== verification/Server_Page.thy ===== *)
theory Server_Page
  imports Server_Tabs
begin

text \<open>
  What the tabs of a server's page show (\<^verbatim>\<open>src/features/servers/OverviewTab.tsx\<close>,
  \<^verbatim>\<open>HardwareTab.tsx\<close>, \<^verbatim>\<open>NetworkTab.tsx\<close>, \<^verbatim>\<open>ServerDetailPage.tsx\<close>), as labels and texts in the order
  they are drawn. The wire types make every part of a server present, so the lines that stand in for an
  absent one are not reached. 8212 is the em dash, 183 the middle dot, 176 the degree sign.
\<close>

definition dash :: jstr where "dash = [8212]"

definition or_dash :: "jstr option \<Rightarrow> jstr" where
  "or_dash s = coalesce s dash"

section \<open>Overview\<close>

text \<open>A field: its label and the texts it draws.\<close>

type_synonym field = "jstr \<times> jstr list"

definition PROFILE_TEMPLATE_LABELS :: "(jstr \<times> jstr) list" where
  "PROFILE_TEMPLATE_LABELS = [(js ''UCS_CENTRAL'', js ''Service profile template''),
     (js ''INTERSIGHT'', js ''Server profile template''), (js ''ONEVIEW'', js ''Server profile template''),
     (js ''OPENMANAGE'', js ''Deployment template'')]"

definition model_value :: "server_detail \<Rightarrow> jstr list" where
  "model_value d = (if truthy (dt_model d) then [the (dt_model d)]
     else (case inferred_gpu_model (hw_gpus (dt_hardware d)) of
       Some m \<Rightarrow> [m, js ''(from GPU)''] | None \<Rightarrow> [dash]))"

definition openshift_value :: "display_env \<Rightarrow> server_detail \<Rightarrow> jstr list" where
  "openshift_value de d = (let os = dt_openshift d in
     [cp_text (installation_badge True (os_lifecycle_state os))]
     @ (if truthy (os_cluster_name os) then [the (os_cluster_name os)] else [])
     @ (case reservation_badge de True (dt_reservation d) of Some c \<Rightarrow> [cp_text c] | None \<Rightarrow> [])
     @ [if truthy (os_mce_name os) then js ''MCE '' @ the (os_mce_name os) else dash]
     @ (if truthy (os_reported_name os)
        then [js ''Name mismatch'', js ''Installed as '', the (os_reported_name os)] else [])
     @ (if truthy (os_contested_with os)
        then [js ''Duplicate server'', js ''Also claimed by '', the (os_contested_with os)]
          @ (if truthy (os_contested_name os) then [js '' as '', the (os_contested_name os)] else [])
        else []))"

definition unreachable_label :: "unreachable_reason \<Rightarrow> jstr" where
  "unreachable_label r = (case r of
     Network_unreachable \<Rightarrow> js ''Unreachable'' | Auth_rejected \<Rightarrow> js ''Wrong credentials''
   | Tls_error \<Rightarrow> js ''TLS error'' | Timed_out \<Rightarrow> js ''Timed out'' | Protocol_error \<Rightarrow> js ''Protocol error''
   | Not_an_idrac \<Rightarrow> js ''Not an iDRAC'')"

datatype category = Memory | Storage | Raid | Network | Connectivity | Power | Gpu | Bmc | Name

definition HEALTH_CATEGORIES :: "(category \<times> jstr \<times> jstr) list" where
  "HEALTH_CATEGORIES = [(Memory, js ''memory'', js ''Memory''), (Storage, js ''storage'', js ''Storage''),
     (Raid, js ''raid'', js ''RAID''), (Network, js ''network'', js ''Network''),
     (Connectivity, js ''connectivity'', js ''Connectivity''), (Power, js ''power'', js ''Power''),
     (Gpu, js ''gpu'', js ''GPU''), (Bmc, js ''bmc'', js ''BMC''), (Name, js ''name'', js ''Name'')]"

definition category_health :: "health_summary \<Rightarrow> category \<Rightarrow> severity" where
  "category_health h c = (case c of Memory \<Rightarrow> hs_memory h | Storage \<Rightarrow> hs_storage h | Raid \<Rightarrow> hs_raid h
     | Network \<Rightarrow> hs_network h | Connectivity \<Rightarrow> hs_connectivity h | Power \<Rightarrow> hs_power h | Gpu \<Rightarrow> hs_gpu h
     | Bmc \<Rightarrow> hs_bmc h | Name \<Rightarrow> hs_name h)"

definition BMC_UNCHECKED_PROVIDERS :: "jstr list" where
  "BMC_UNCHECKED_PROVIDERS = map js [''UCS_CENTRAL'', ''UCS_MANAGER'', ''INTERSIGHT'']"

definition FABRIC_PROVIDERS :: "jstr list" where
  "FABRIC_PROVIDERS = map js [''UCS_CENTRAL'', ''UCS_MANAGER'', ''INTERSIGHT'']"

definition RAID_PROVIDERS :: "jstr list" where
  "RAID_PROVIDERS = map js [''OPENMANAGE'', ''REDFISH_STANDALONE'', ''UCS_CENTRAL'', ''UCS_MANAGER'']"

definition category_shown :: "health_summary \<Rightarrow> jstr option \<Rightarrow> bool \<Rightarrow> category \<Rightarrow> bool" where
  "category_shown h source has_gpus c =
     (let provider = coalesce source [] in
      case c of
        Bmc \<Rightarrow> provider \<notin> set BMC_UNCHECKED_PROVIDERS
      | Connectivity \<Rightarrow> provider \<in> set FABRIC_PROVIDERS
      | Raid \<Rightarrow> provider \<in> set RAID_PROVIDERS
      | Gpu \<Rightarrow> has_gpus
      | Name \<Rightarrow> hs_name h \<noteq> UNKNOWN
      | _ \<Rightarrow> True)"

definition raid_note :: "raid_detection \<Rightarrow> jstr option" where
  "raid_note r =
     (let source = join [32, 183, 32] (present [rd_bmc r, rd_method r]);
          why = (if rd_state r = RaidUnknown then rd_reason r else None) in
      if source = [] \<and> \<not> truthy why then None
      else Some (join [32, 8212, 32] (present [Some source, why])))"

text \<open>The breakdown: a category's label, severity and note, then the reasons.\<close>

record breakdown_view =
  bv_categories :: "(jstr \<times> severity \<times> jstr option) list"
  bv_reasons :: "(severity \<times> jstr \<times> jstr) list"

definition health_breakdown :: "health_summary \<Rightarrow> jstr option \<Rightarrow> raid_detection option \<Rightarrow> bool \<Rightarrow> breakdown_view" where
  "health_breakdown h source raid has_gpus = \<lparr>
     bv_categories = map (\<lambda>(c, _, label). (label, category_health h c,
         if c = Raid then Option.bind raid raid_note else None))
       (filter (\<lambda>(c, _, _). category_shown h source has_gpus c) HEALTH_CATEGORIES),
     bv_reasons = map (\<lambda>r. (sm_severity r,
         coalesce (map_of (map snd HEALTH_CATEGORIES) (sm_category r)) (sm_category r),
         coalesce (sm_message r) (sm_policy_name r))) (coalesce (hs_reasons h) [])\<rparr>"

definition breakdown_of :: "server_detail \<Rightarrow> breakdown_view" where
  "breakdown_of d = health_breakdown (dt_health d) (dt_source_provider d) (st_raid (hw_storage (dt_hardware d)))
     (length (hw_gpus (dt_hardware d)) > 0)"

definition matched_rule_value :: "classification \<Rightarrow> jstr option" where
  "matched_rule_value c = (if truthy (cl_matched_rule_name c)
     then Some (the (cl_matched_rule_name c) @
       (if truthy (cl_matched_field c) \<and> truthy (cl_matched_pattern c)
        then js '' ('' @ the (cl_matched_field c) @ js '' ~ '' @ the (cl_matched_pattern c) @ js '')'' else []))
     else None)"

definition maintenance_value :: "maintenance_state \<Rightarrow> jstr" where
  "maintenance_value m = (if ms_enabled m
     then coalesce (ms_reason m) (js ''Enabled'')
       @ (if truthy (ms_created_by m) then js '' - by '' @ actor_id_label (the (ms_created_by m)) else [])
     else js ''Not in maintenance'')"

text \<open>The two columns; the template row is drawn for a provider that has a name for it.\<close>

definition overview_left :: "display_env \<Rightarrow> server_detail \<Rightarrow> field list" where
  "overview_left de d = [
     (js ''Name'', [dt_name d]),
     (js ''Model'', model_value d),
     (js ''Serial'', [or_dash (si_serial (dt_identity d))]),
     (js ''Manager'', [or_dash (dt_manager_id d)]),
     (js ''OpenShift'', openshift_value de d),
     (js ''Health breakdown'', map (\<lambda>(l, s, n). l @ severity_text s @ coalesce n []) (bv_categories (breakdown_of d))
       @ map (\<lambda>(s, l, t). severity_text s @ l @ t) (bv_reasons (breakdown_of d))),
     (js ''Last seen'', if truthy (dt_last_seen_at d)
        then de_relative de (the (dt_last_seen_at d)) # (if dt_stale d then [js ''Stale''] else [])
        else [js ''Never collected''])]"

definition template_field :: "display_env \<Rightarrow> server_detail \<Rightarrow> field list" where
  "template_field de d = (if truthy (dt_source_provider d)
     then (case table_get PROFILE_TEMPLATE_LABELS (the (dt_source_provider d)) of
         Some v \<Rightarrow> [(jsval_string de v, [or_dash (pt_name (dt_profile_template d))])] | None \<Rightarrow> [])
     else [])"

definition overview_right :: "display_env \<Rightarrow> server_detail \<Rightarrow> field list" where
  "overview_right de d =
     [(js ''Vendor'', [vendor_text (si_vendor (dt_identity d))])]
     @ template_field de d
     @ [(js ''Site'', [or_dash (dt_site_id d)]),
        (js ''Classification'', [installation_type_text (cl_installation_type (dt_classification d))])]
     @ (case matched_rule_value (dt_classification d) of Some t \<Rightarrow> [(js ''Matched rule'', [t])] | None \<Rightarrow> [])
     @ [(js ''Overall health'', [severity_text (hs_overall (dt_health d))]),
        (js ''Maintenance'', [maintenance_value (dt_maintenance d)])]
     @ (if \<not> dt_reachable d then [(js ''Collection'',
          [(case dt_unreachable_reason d of Some r \<Rightarrow> unreachable_label r | None \<Rightarrow> js ''Unreachable'')
           @ (if truthy (dt_unreachable_since d) then js '' since '' @ de_stamp de (the (dt_unreachable_since d)) else [])])]
        else [])
     @ [(js ''Last changed'', [de_stamp de (dt_updated_at d)])]"

section \<open>Numbers\<close>

text \<open>
  \<open>x.toFixed(d)\<close> for a number below \<open>10 ^ 21\<close>: the nearest decimal of \<open>d\<close> places, the larger on a
  tie, with a sign for a negative number.
\<close>

definition pad_zeros :: "nat \<Rightarrow> jstr \<Rightarrow> jstr" where
  "pad_zeros n s = replicate (n - length s) 48 @ s"

definition to_fixed :: "nat \<Rightarrow> rat \<Rightarrow> jstr" where
  "to_fixed d x =
     (let s = pad_zeros (d + 1) (nat_text (nat \<lfloor>\<bar>x\<bar> * 10 ^ d + 1 / 2\<rfloor>));
          t = (if d = 0 then s else take (length s - d) s @ 46 # drop (length s - d) s) in
      if x < 0 then 45 # t else t)"

text \<open>
  A division by a power of two is exact; \<open>fdiv\<close> is the floating-point quotient by a power of ten.
\<close>

definition format_memory :: "int \<Rightarrow> jstr" where
  "format_memory bytes =
     (if bytes \<le> 0 then js ''0 B''
      else if bytes \<ge> 1024 ^ 3 then to_fixed 1 (of_int bytes / 1024 ^ 3) @ js '' GiB''
      else to_fixed 0 (of_int bytes / 1024 ^ 2) @ js '' MiB'')"

definition format_storage :: "(int \<Rightarrow> int \<Rightarrow> rat) \<Rightarrow> int \<Rightarrow> jstr" where
  "format_storage fdiv bytes =
     (if bytes \<le> 0 then js ''0 B''
      else if bytes \<ge> 1000 ^ 4 then to_fixed 2 (fdiv bytes (1000 ^ 4)) @ js '' TB''
      else to_fixed 1 (fdiv bytes (1000 ^ 3)) @ js '' GB'')"

definition psu_wattage_summary :: "display_env \<Rightarrow> psu_info \<Rightarrow> jstr" where
  "psu_wattage_summary de psu =
     (let parts = (case psu_capacity_watts psu of Some w \<Rightarrow> [de_number de w @ js ''W rated''] | None \<Rightarrow> [])
        @ (case psu_power_watts psu of Some w \<Rightarrow> [to_fixed 0 w @ js ''W now''] | None \<Rightarrow> []) in
      if length parts > 0 then [32, 8212, 32] @ join (js '', '') parts else [])"

section \<open>Hardware\<close>

text \<open>A component's condition: a badge for a severity, the raw word otherwise, with its detail.\<close>

datatype condition_view = No_condition | Condition_badge jstr "jstr option" | Condition_word jstr "jstr option"

definition component_health :: "jstr option \<Rightarrow> jstr option \<Rightarrow> condition_view" where
  "component_health v detail = (case v of
     None \<Rightarrow> No_condition
   | Some w \<Rightarrow> (let d = (if truthy detail then Some (js ''('' @ the detail @ js '')'') else None) in
       if is_health_severity w then Condition_badge w d else Condition_word w d))"

datatype stat_value = Stat_number int | Stat_text "jstr option"

definition stat_empty :: "stat_value \<Rightarrow> bool" where
  "stat_empty v = (case v of Stat_number n \<Rightarrow> n = 0 | Stat_text s \<Rightarrow> \<not> truthy s)"

definition stat_text :: "stat_value \<Rightarrow> jstr" where
  "stat_text v = (case v of Stat_number n \<Rightarrow> int_text n | Stat_text s \<Rightarrow> or_dash s)"

text \<open>A number with its label: the text, its title and whether it is marked as unconfirmed.\<close>

definition stat :: "stat_value \<Rightarrow> bool \<Rightarrow> jstr \<times> jstr option \<times> bool" where
  "stat v unread =
     (if unread \<and> stat_empty v then js ''Not reported'' else stat_text v,
      if unread then Some (if stat_empty v then NOT_READ_TITLE else STALE_TITLE) else None,
      unread \<and> \<not> stat_empty v)"

definition cpu_stats :: "(string \<Rightarrow> bool) \<Rightarrow> cpu_info \<Rightarrow> (jstr \<times> jstr \<times> jstr option \<times> bool) list" where
  "cpu_stats unread cpu = [
     (js ''Model'', stat (Stat_text (cpu_model cpu)) (unread ''hardware.cpu.model'')),
     (js ''Sockets'', stat (Stat_number (cpu_sockets cpu)) (unread ''hardware.cpu.sockets'')),
     (js ''Cores'', stat (Stat_number (cpu_cores cpu)) (unread ''hardware.cpu.cores'')),
     (js ''Threads'', stat (Stat_number (cpu_threads cpu)) (unread ''hardware.cpu.threads''))]"

record drive_row =
  dr_cells :: "jstr list"
  dr_health :: condition_view

definition drive_row :: "(int \<Rightarrow> int \<Rightarrow> rat) \<Rightarrow> storage_drive \<Rightarrow> drive_row" where
  "drive_row fdiv d = \<lparr>
     dr_cells = [or_dash (sd_model d), or_dash (sd_serial d), sd_media_type d,
       (case sd_capacity_bytes d of Some b \<Rightarrow> format_storage fdiv b | None \<Rightarrow> dash)],
     dr_health = component_health (sd_health d) (sd_health_detail d)\<rparr>"

definition gpu_cells :: "gpu_info \<Rightarrow> jstr list" where
  "gpu_cells g = [
     or_dash (gpu_vendor g),
     coalesce (gpu_model g) (js ''Unknown model''),
     or_dash (gpu_serial g),
     or_dash (gpu_pci_address g),
     (case gpu_memory_bytes g of Some b \<Rightarrow> format_memory b | None \<Rightarrow> dash),
     or_dash (gpu_memory_type g),
     (case gpu_ecc_mode_enabled g of None \<Rightarrow> dash | Some b \<Rightarrow> if b then js ''On'' else js ''Off''),
     or_dash (map_option int_text (gpu_correctable_error_count g)) @ js '' / ''
       @ or_dash (map_option int_text (gpu_uncorrectable_error_count g)),
     (case gpu_temperature_celsius g of Some t \<Rightarrow> to_fixed 0 t @ [176] @ js ''C'' | None \<Rightarrow> dash),
     (case gpu_power_watts g of Some w \<Rightarrow> to_fixed 0 w @ js ''W'' | None \<Rightarrow> dash),
     or_dash (gpu_firmware_version g)]"

definition psu_line :: "display_env \<Rightarrow> psu_info \<Rightarrow> jstr \<times> condition_view" where
  "psu_line de p = (coalesce (psu_model p) (psu_id p) @ psu_wattage_summary de p @ js '' '',
     component_health (psu_health p) (psu_health_detail p))"

record hardware_view =
  hv_cpu :: "(jstr \<times> jstr \<times> jstr option \<times> bool) list"
  hv_memory :: "jstr reported"
  hv_storage_total :: "jstr reported"
  hv_drives :: "drive_row list option reported"
  hv_gpus :: "(jstr list \<times> condition_view) list option reported"
  hv_power :: "(jstr \<times> condition_view) list option reported"

text \<open>A list that may be drawn as a table; \<open>None\<close> draws the line that there is none.\<close>

definition table_of :: "('a \<Rightarrow> 'b) \<Rightarrow> 'a list \<Rightarrow> 'b list option" where
  "table_of f xs = (if length xs > 0 then Some (map f xs) else None)"

definition hardware_tab :: "display_env \<Rightarrow> (int \<Rightarrow> int \<Rightarrow> rat) \<Rightarrow> jstr list \<Rightarrow> hardware_info \<Rightarrow> hardware_view" where
  "hardware_tab de fdiv unread_fields hw =
     (let unread = (\<lambda>f. js f \<in> set unread_fields);
          mem = hw_memory hw; st = hw_storage hw in \<lparr>
        hv_cpu = cpu_stats unread (hw_cpu hw),
        hv_memory = reported (unread ''hardware.memory.total_bytes'') (mi_total_bytes mem \<le> 0)
          (format_memory (mi_total_bytes mem) @ js '' total ('' @ nat_text (length (mi_modules mem)) @ js '' module''
            @ (if length (mi_modules mem) = 1 then [] else js ''s'') @ js '')''),
        hv_storage_total = reported (unread ''hardware.storage.total_bytes'') (st_total_bytes st \<le> 0)
          (format_storage fdiv (st_total_bytes st) @ js '' total''),
        hv_drives = reported (unread ''hardware.storage.drives'') (length (st_drives st) = 0)
          (table_of (drive_row fdiv) (sort_drives_by_capacity (st_drives st))),
        hv_gpus = reported (unread ''hardware.gpus'') (length (hw_gpus hw) = 0)
          (table_of (\<lambda>g. (gpu_cells g, component_health (gpu_health g) (gpu_health_detail g))) (hw_gpus hw)),
        hv_power = reported (unread ''hardware.power.psus'') (length (pw_psus (hw_power hw)) = 0)
          (table_of (psu_line de) (pw_psus (hw_power hw)))\<rparr>)"

section \<open>Network\<close>

text \<open>\<open>/^NIC\.([A-Za-z]+)\.(\d+)-(\d+)-(\d+)$/\<close>: kind, controller and port.\<close>

definition is_letter :: "nat \<Rightarrow> bool" where
  "is_letter u \<longleftrightarrow> 65 \<le> u \<and> u \<le> 90 \<or> 97 \<le> u \<and> u \<le> 122"

definition digits :: "jstr \<Rightarrow> bool" where
  "digits s \<longleftrightarrow> s \<noteq> [] \<and> list_all is_digit s"

definition fqdd :: "jstr \<Rightarrow> (jstr \<times> jstr \<times> jstr) option" where
  "fqdd s = (case split_on 46 s of
     [nic, kind, rest] \<Rightarrow> (case split_on 45 rest of
       [controller, port, part] \<Rightarrow>
         if nic = js ''NIC'' \<and> kind \<noteq> [] \<and> list_all is_letter kind \<and> digits controller \<and> digits port \<and> digits part
         then Some (kind, controller, port) else None
     | _ \<Rightarrow> None)
   | _ \<Rightarrow> None)"

definition describe_location :: "network_interface \<Rightarrow> jstr option" where
  "describe_location i = (case fqdd (ni_name i) of
     None \<Rightarrow> ni_location i
   | Some (kind, controller, port) \<Rightarrow>
       Some ((if kind = js ''Integrated'' then js ''Onboard'' else js ''Slot '' @ controller)
         @ [32, 183, 32] @ js ''port '' @ port))"

record interface_view =
  if_name :: jstr
  if_mac :: jstr
  if_location :: jstr
  if_position :: jstr
  if_speed :: jstr
  if_link :: link_state
  if_os_name :: "jstr option"

text \<open>\<open>osNames?.[iface.name]\<close> reads an object, so the name of an inherited member gives that member.\<close>

definition interface_view :: "display_env \<Rightarrow> (jstr \<times> jstr) list \<Rightarrow> nat \<Rightarrow> network_interface \<Rightarrow> interface_view" where
  "interface_view de os_names index i = \<lparr>if_name = ni_name i, if_mac = or_dash (ni_mac i),
     if_location = or_dash (describe_location i), if_position = js ''MAC #'' @ nat_text (index + 1),
     if_speed = (case ni_speed_mbps i of Some s \<Rightarrow> int_text s @ js '' Mbps'' | None \<Rightarrow> dash),
     if_link = ni_link_state i,
     if_os_name = (case table_get os_names (ni_name i) of
       Some v \<Rightarrow> if truthy (Some (jsval_string de v)) then Some (jsval_string de v) else None | None \<Rightarrow> None)\<rparr>"

record network_view =
  nv_address :: jstr
  nv_mac :: "jstr reported option"
  nv_interfaces :: "interface_view list option reported"

definition network_tab :: "display_env \<Rightarrow> (jstr \<times> jstr) list \<Rightarrow> jstr list \<Rightarrow> network_info \<Rightarrow> network_view" where
  "network_tab de os_names unread_fields nw =
     (let unread = (\<lambda>f. js f \<in> set unread_fields); bmc = nw_bmc nw; ifs = nw_interfaces nw in \<lparr>
        nv_address = coalesce (bmc_host bmc) (or_dash (bmc_address_raw bmc)),
        nv_mac = (if truthy (bmc_mac bmc)
          then Some (reported (unread ''network.bmc.mac'') False (the (bmc_mac bmc))) else None),
        nv_interfaces = reported (unread ''identity.nic_macs'' \<or> unread ''network.interfaces'') (length ifs = 0)
          (if length ifs > 0 then Some (map2 (interface_view de os_names) [0..<length ifs] ifs) else None)\<rparr>)"

section \<open>The page\<close>

datatype tab = Tab_overview | Tab_hardware | Tab_network | Tab_connectivity | Tab_history

definition TABS :: "tab list" where
  "TABS = [Tab_overview, Tab_hardware, Tab_network, Tab_connectivity, Tab_history]"

definition TAB_LABELS :: "tab \<Rightarrow> jstr" where
  "TAB_LABELS t = (case t of Tab_overview \<Rightarrow> js ''Overview'' | Tab_hardware \<Rightarrow> js ''Hardware''
     | Tab_network \<Rightarrow> js ''Network'' | Tab_connectivity \<Rightarrow> js ''Connectivity'' | Tab_history \<Rightarrow> js ''History'')"

definition tabs_for :: "me option \<Rightarrow> tab list" where
  "tabs_for me = filter (\<lambda>t. t \<noteq> Tab_history \<or> can_read_audit me) TABS"

definition model_hint :: "gpu_info list \<Rightarrow> jstr" where
  "model_hint gpus = (case inferred_gpu_model gpus of Some m \<Rightarrow> m @ js '' (from GPU)'' | None \<Rightarrow> dash)"

definition back_to :: "jstr option \<Rightarrow> jstr" where
  "back_to from = coalesce from (js ''/servers'')"

text \<open>The tab that is drawn: the active one, except a history the caller may not read.\<close>

definition drawn_tab :: "me option \<Rightarrow> tab \<Rightarrow> tab option" where
  "drawn_tab me active = (if active = Tab_history \<and> \<not> can_read_audit me then None else Some active)"

record detail_page =
  dp_back :: jstr
  dp_loading :: bool
  dp_alert :: "jstr option"
  dp_heading :: "(jstr \<times> jstr) option"
  dp_tabs :: "(jstr \<times> bool) list"
  dp_bmc :: "(jstr \<times> jstr \<times> jstr) option"
  dp_drawn :: "tab option"

definition detail_page :: "me option \<Rightarrow> jstr option \<Rightarrow> tab \<Rightarrow> server_detail query \<Rightarrow> detail_page" where
  "detail_page me from active q = \<lparr>
     dp_back = back_to from,
     dp_loading = (case q of Pending \<Rightarrow> True | _ \<Rightarrow> False),
     dp_alert = (case q of Failed e _ \<Rightarrow> Some (error_text e (js ''Failed to load server.'')) | _ \<Rightarrow> None),
     dp_heading = map_option (\<lambda>d. (dt_name d, coalesce (dt_model d) (model_hint (hw_gpus (dt_hardware d)))))
       (query_data q),
     dp_tabs = (case query_data q of Some _ \<Rightarrow> map (\<lambda>t. (TAB_LABELS t, t = active)) (tabs_for me) | None \<Rightarrow> []),
     dp_bmc = (case query_data q of Some d \<Rightarrow> bmc_link True (bmc_host (nw_bmc (dt_network d))) (dt_name d) | None \<Rightarrow> None),
     dp_drawn = (case query_data q of Some _ \<Rightarrow> drawn_tab me active | None \<Rightarrow> None)\<rparr>"

section \<open>Laws\<close>

text \<open>The categories drawn keep the page's order and each is drawn once.\<close>

lemma breakdown_in_order:
  "subseq (map fst (bv_categories (health_breakdown h source raid g))) (map (\<lambda>(_, _, l). l) HEALTH_CATEGORIES)"
proof -
  have "map fst (bv_categories (health_breakdown h source raid g)) =
      map (\<lambda>(_, _, l). l) (filter (\<lambda>(c, _, _). category_shown h source g c) HEALTH_CATEGORIES)"
    by (simp add: health_breakdown_def comp_def split_def)
  then show ?thesis by (simp add: subseq_map)
qed

text \<open>A fabric-managed Cisco server shows its fabric and never a BMC row; every other one the opposite.\<close>

lemma bmc_or_connectivity:
  "category_shown h source g Bmc = (\<not> category_shown h source g Connectivity)"
  by (simp add: category_shown_def BMC_UNCHECKED_PROVIDERS_def FABRIC_PROVIDERS_def Let_def)

text \<open>A name built from its parts is read back.\<close>

lemma fqdd_parts:
  assumes "kind \<noteq> []" "list_all is_letter kind" "digits c" "digits p" "digits q"
  shows "fqdd (js ''NIC.'' @ kind @ [46] @ c @ [45] @ p @ [45] @ q) = Some (kind, c, p)"
proof -
  have n: "46 \<notin> set kind" "46 \<notin> set c" "46 \<notin> set p" "46 \<notin> set q"
    "45 \<notin> set c" "45 \<notin> set p" "45 \<notin> set q"
    using assms by (auto simp: digits_def list_all_iff is_letter_def is_digit_def)
  have nic: "js ''NIC.'' @ x = js ''NIC'' @ 46 # x" for x by (simp add: js_def)
  have "46 \<notin> set (js ''NIC'')" by (simp add: js_def)
  moreover have "46 \<notin> set (c @ 45 # p @ 45 # q)" using n by auto
  ultimately have "split_on 46 (js ''NIC.'' @ kind @ [46] @ c @ [45] @ p @ [45] @ q) =
      [js ''NIC'', kind, c @ 45 # p @ 45 # q]"
    using n(1) by (simp add: nic split_on_append split_on_free)
  moreover have "split_on 45 (c @ 45 # p @ 45 # q) = [c, p, q]"
    using n by (simp add: split_on_append split_on_free)
  ultimately show ?thesis using assms by (simp add: fqdd_def)
qed

text \<open>A viewer's page never draws a history, and draws every other tab that is active.\<close>

lemma drawn_tab_listed: "drawn_tab me t = (if t \<in> set (tabs_for me) then Some t else None)"
  by (cases t) (auto simp: drawn_tab_def tabs_for_def TABS_def)

text \<open>A zero that was not read is never drawn as a reading, and a value that was read is drawn as it is.\<close>

lemma stat_unread_zero: "unread \<Longrightarrow> stat_empty v \<Longrightarrow> stat v unread = (js ''Not reported'', Some NOT_READ_TITLE, False)"
  by (simp add: stat_def)

lemma stat_read: "stat v False = (stat_text v, None, False)"
  by (simp add: stat_def)

text \<open>
  The test of a severity looks the word up in an object, so the names of inherited members pass it too.
\<close>

lemma inherited_word_is_badged:
  "component_health (Some (js ''constructor'')) None = Condition_badge (js ''constructor'') None"
  by (simp add: component_health_def is_health_severity_def in_object_def inherited_def proto_names_def)

end
