(* ===== verification/Rows.thy ===== *)
theory Rows
  imports Labels
begin

text \<open>
  Filtering, search, sort, facet counts, paging and the cluster sidebar's options over the
  fleet's rows (\<^verbatim>\<open>src/features/inventory/rows.ts\<close> and \<open>sorting.ts\<close>).

  Three things of the platform are parameters, in the record \<open>platform\<close>:
  \<open>toLowerCase\<close> (its Unicode tables), \<open>new RegExp(body, "i")\<close> (the error message it
  throws or the test it gives) and \<open>Intl.Collator.compare\<close>. What a lemma needs of them is a
  hypothesis of that lemma; \<open>ascii_platform\<close> is a concrete instance.
\<close>

section \<open>The platform\<close>

record platform =
  pl_lower :: "jstr \<Rightarrow> jstr"
  pl_regexp :: "jstr \<Rightarrow> jstr + (jstr \<Rightarrow> bool)"
  pl_collate :: "jstr \<Rightarrow> jstr \<Rightarrow> int"

text \<open>
  A collation of the ASCII texts in the style the code asks for: letter case ignored, runs of
  digits compared as numbers.
\<close>

fun natural_key :: "nat option \<Rightarrow> jstr \<Rightarrow> nat list" where
  "natural_key None [] = []"
| "natural_key (Some n) [] = [48, n]"
| "natural_key None (u # s) =
     (if is_digit u then natural_key (Some (u - 48)) s
      else (if u < 48 then u else ascii_lower u + 1) # natural_key None s)"
| "natural_key (Some n) (u # s) =
     (if is_digit u then natural_key (Some (10 * n + (u - 48))) s
      else 48 # n # (if u < 48 then u else ascii_lower u + 1) # natural_key None s)"

definition natural_compare :: "jstr \<Rightarrow> jstr \<Rightarrow> int" where
  "natural_compare = cmp_on (natural_key None) lex_cmp"

interpretation natural_compare: comparator natural_compare
  unfolding natural_compare_def by (rule lex_cmp.comparator_on)

definition ascii_platform :: platform where
  "ascii_platform = \<lparr>pl_lower = map ascii_lower,
     pl_regexp = (\<lambda>b. if b = js ''('' then Inl (js ''Unterminated group'')
       else Inr (\<lambda>s. contains (map ascii_lower s) (map ascii_lower b))),
     pl_collate = natural_compare\<rparr>"

section \<open>Filters\<close>

datatype maintenance_filter = Only | Exclude

record row_filters =
  rf_search :: "jstr option"
  rf_vendor :: "jstr list option"
  rf_site_id :: "jstr list option"
  rf_source_provider :: "jstr list option"
  rf_installation_type :: "jstr list option"
  rf_openshift_state :: "jstr list option"
  rf_health :: "jstr list option"
  rf_maintenance :: "maintenance_filter option"
  rf_reserved :: bool
  rf_stale :: bool
  rf_duplicate :: bool
  rf_contested :: bool
  rf_nameMismatch :: bool
  rf_donor :: bool
  rf_mce :: "jstr list option"
  rf_cluster :: "jstr list option"

definition no_filters :: row_filters where
  "no_filters = \<lparr>rf_search = None, rf_vendor = None, rf_site_id = None, rf_source_provider = None,
     rf_installation_type = None, rf_openshift_state = None, rf_health = None,
     rf_maintenance = None, rf_reserved = False, rf_stale = False, rf_duplicate = False,
     rf_contested = False, rf_nameMismatch = False, rf_donor = False, rf_mce = None,
     rf_cluster = None\<rparr>"

datatype filter_key =
  Key_search | Key_vendor | Key_site_id | Key_source_provider | Key_installation_type
| Key_openshift_state | Key_health | Key_maintenance | Key_reserved | Key_stale | Key_duplicate
| Key_contested | Key_nameMismatch | Key_donor | Key_mce | Key_cluster

fun without :: "row_filters \<Rightarrow> filter_key \<Rightarrow> row_filters" where
  "without f Key_search = f\<lparr>rf_search := None\<rparr>"
| "without f Key_vendor = f\<lparr>rf_vendor := None\<rparr>"
| "without f Key_site_id = f\<lparr>rf_site_id := None\<rparr>"
| "without f Key_source_provider = f\<lparr>rf_source_provider := None\<rparr>"
| "without f Key_installation_type = f\<lparr>rf_installation_type := None\<rparr>"
| "without f Key_openshift_state = f\<lparr>rf_openshift_state := None\<rparr>"
| "without f Key_health = f\<lparr>rf_health := None\<rparr>"
| "without f Key_maintenance = f\<lparr>rf_maintenance := None\<rparr>"
| "without f Key_reserved = f\<lparr>rf_reserved := False\<rparr>"
| "without f Key_stale = f\<lparr>rf_stale := False\<rparr>"
| "without f Key_duplicate = f\<lparr>rf_duplicate := False\<rparr>"
| "without f Key_contested = f\<lparr>rf_contested := False\<rparr>"
| "without f Key_nameMismatch = f\<lparr>rf_nameMismatch := False\<rparr>"
| "without f Key_donor = f\<lparr>rf_donor := False\<rparr>"
| "without f Key_mce = f\<lparr>rf_mce := None\<rparr>"
| "without f Key_cluster = f\<lparr>rf_cluster := None\<rparr>"

section \<open>Search\<close>

definition hex_unit :: "nat \<Rightarrow> bool" where
  "hex_unit u \<longleftrightarrow> is_digit u \<or> 65 \<le> u \<and> u \<le> 70 \<or> 97 \<le> u \<and> u \<le> 102 \<or> u = 58 \<or> u = 45"

definition HEX_LIKE :: "jstr \<Rightarrow> bool" where
  "HEX_LIKE s \<longleftrightarrow> s \<noteq> [] \<and> list_all hex_unit s"

text \<open>\<open>/^c(.+)c$/.exec(s)?.[1]\<close> for the delimiters of a search.\<close>

definition delimited :: "nat \<Rightarrow> jstr \<Rightarrow> jstr option" where
  "delimited c s =
     (if length s \<ge> 3 \<and> hd s = c \<and> last s = c \<and> list_all is_dot (butlast (tl s))
      then Some (butlast (tl s)) else None)"

definition MAX_REGEX_LENGTH :: nat where
  "MAX_REGEX_LENGTH = 64"

record search_matcher =
  match_test :: "server_row \<Rightarrow> bool"
  match_error :: "jstr option"

definition search_fields :: "platform \<Rightarrow> server_row \<Rightarrow> jstr list" where
  "search_fields pf row =
     (let fields = [Some (sr_name row), sr_model row, sr_serial row,
        Some (vendor_text (sr_vendor row)), sr_site_id row,
        Some (installation_type_text (sr_installation_type row)), sr_bmc_host row,
        rs_mce_cluster (sr_reservation row)] in
      concat (map (\<lambda>f. if truthy f then [pl_lower pf (the f)] else []) fields))"

definition parse_search :: "platform \<Rightarrow> jstr \<Rightarrow> search_matcher" where
  "parse_search pf query =
     (let raw = trim query in
      if raw = [] then \<lparr>match_test = (\<lambda>_. True), match_error = None\<rparr>
      else (case delimited (cu CHR ''/'') raw of
        Some body \<Rightarrow>
          if length body > MAX_REGEX_LENGTH
          then \<lparr>match_test = (\<lambda>_. True),
                match_error = Some (js ''Regex is longer than '' @ nat_text MAX_REGEX_LENGTH
                  @ js '' characters'')\<rparr>
          else (case pl_regexp pf body of
            Inl msg \<Rightarrow> \<lparr>match_test = (\<lambda>_. True), match_error = Some (js ''Invalid regex: '' @ msg)\<rparr>
          | Inr pattern \<Rightarrow>
              \<lparr>match_test = (\<lambda>row. list_ex pattern (search_fields pf row)
                  \<or> list_ex pattern (sr_macs row)),
               match_error = None\<rparr>)
      | None \<Rightarrow>
          (let exactBody = delimited (cu CHR ''\"'') raw;
               q = pl_lower pf (coalesce exactBody raw);
               bare = (if HEX_LIKE q then Some (filter (\<lambda>u. u \<noteq> 58 \<and> u \<noteq> 45) q) else None);
               matches = (\<lambda>field needle.
                 if exactBody \<noteq> None then field = needle else contains field needle) in
           \<lparr>match_test = (\<lambda>row. list_ex (\<lambda>f. matches f q) (search_fields pf row)
               \<or> list_ex (\<lambda>mac. matches mac q
                   \<or> (case bare of None \<Rightarrow> False
                      | Some b \<Rightarrow> matches (filter (\<lambda>u. u \<noteq> 58) mac) b)) (sr_macs row)),
            match_error = None\<rparr>)))"

definition search_rows :: "platform \<Rightarrow> server_row list \<Rightarrow> jstr \<Rightarrow> server_row list" where
  "search_rows pf rows query =
     (if trim query = [] then rows else filter (match_test (parse_search pf query)) rows)"

section \<open>filterRows\<close>

text \<open>\<open>counts.get(name) ?? 0\<close> and the loop of \<open>nameCounts\<close>.\<close>

definition name_count :: "(jstr \<times> nat) list \<Rightarrow> jstr \<Rightarrow> nat" where
  "name_count counts n = coalesce (map_of counts n) 0"

definition name_counts :: "server_row list \<Rightarrow> (jstr \<times> nat) list" where
  "name_counts rows =
     fold (\<lambda>row counts. AList.update (sr_name row) (name_count counts (sr_name row) + 1) counts) rows []"

text \<open>\<open>!values?.length || values.includes(v)\<close>, with \<open>v\<close> nullable.\<close>

definition any_of_values :: "jstr list option \<Rightarrow> jstr option \<Rightarrow> bool" where
  "any_of_values vs v \<longleftrightarrow>
     (case vs of None \<Rightarrow> True | Some [] \<Rightarrow> True
      | Some (x # xs) \<Rightarrow> v \<noteq> None \<and> the v \<in> set (x # xs))"

definition row_test :: "row_filters \<Rightarrow> (jstr \<times> nat) list option \<Rightarrow> server_row \<Rightarrow> bool" where
  "row_test f counts row \<longleftrightarrow>
     any_of_values (rf_vendor f) (Some (vendor_text (sr_vendor row))) \<and>
     any_of_values (rf_site_id f) (Some (coalesce (sr_site_id row) UNASSIGNED_SITE_ID)) \<and>
     any_of_values (rf_source_provider f) (sr_source_provider row) \<and>
     any_of_values (rf_installation_type f)
       (Some (installation_type_text (sr_installation_type row))) \<and>
     any_of_values (rf_openshift_state f) (Some (openshift_state_text (sr_openshift_state row))) \<and>
     any_of_values (rf_health f) (Some (severity_text (sr_health row))) \<and>
     (rf_maintenance f = None \<or>
       (rf_maintenance f = Some Only) = ms_enabled (sr_maintenance row)) \<and>
     (\<not> rf_reserved f \<or> rs_held (sr_reservation row)) \<and>
     (\<not> rf_stale f \<or> sr_stale row) \<and>
     (\<not> rf_nameMismatch f \<or> sr_openshift_reported_name row \<noteq> None) \<and>
     (\<not> rf_contested f \<or> sr_contested_with row \<noteq> None) \<and>
     (\<not> rf_donor f \<or> is_donor (sr_maintenance row)) \<and>
     any_of_values (rf_mce f) (sr_mce_name row) \<and>
     any_of_values (rf_cluster f) (sr_cluster_name row) \<and>
     (case counts of None \<Rightarrow> True | Some c \<Rightarrow> name_count c (sr_name row) > 1)"

definition filter_rows :: "platform \<Rightarrow> server_row list \<Rightarrow> row_filters \<Rightarrow> server_row list" where
  "filter_rows pf rows f =
     (let counts = (if rf_duplicate f then Some (name_counts rows) else None);
          kept = filter (row_test f counts) rows in
      search_rows pf kept (coalesce (rf_search f) []))"

section \<open>Sorting\<close>

datatype sortable_field =
  By_name | By_model | By_openshift_state | By_cluster_name | By_mce_name | By_health

fun sort_value :: "sortable_field \<Rightarrow> server_row \<Rightarrow> jstr option" where
  "sort_value By_name row = Some (sr_name row)"
| "sort_value By_model row = sr_model row"
| "sort_value By_openshift_state row = Some (openshift_state_text (sr_openshift_state row))"
| "sort_value By_cluster_name row = sr_cluster_name row"
| "sort_value By_mce_name row = sr_mce_name row"
| "sort_value By_health row = Some (severity_text (sr_health row))"

definition sort_rank :: "server_row \<Rightarrow> int" where
  "sort_rank row = int (length SEVERITY_ORDER) - index_of SEVERITY_ORDER (sr_health row)"

definition sort_rows :: "platform \<Rightarrow> server_row list \<Rightarrow> sortable_field \<Rightarrow> bool \<Rightarrow> server_row list" where
  "sort_rows pf rows field desc =
     (if field = By_health then js_sort (cmp_sign desc (by_key sort_rank)) rows
      else js_sort (cmp_on (sort_value field) (nulls_last (cmp_sign desc (pl_collate pf)))) rows)"

section \<open>What a filter keeps\<close>

text \<open>
  The abstract specification of a filter: one independent test per key. The keys with several
  values are an OR within the key; all the tests together are an AND.
\<close>

definition all_keys :: "filter_key list" where
  "all_keys = [Key_search, Key_vendor, Key_site_id, Key_source_provider, Key_installation_type,
     Key_openshift_state, Key_health, Key_maintenance, Key_reserved, Key_stale, Key_duplicate,
     Key_contested, Key_nameMismatch, Key_donor, Key_mce, Key_cluster]"

fun key_value :: "filter_key \<Rightarrow> server_row \<Rightarrow> jstr option" where
  "key_value Key_vendor r = Some (vendor_text (sr_vendor r))"
| "key_value Key_site_id r = Some (coalesce (sr_site_id r) UNASSIGNED_SITE_ID)"
| "key_value Key_source_provider r = sr_source_provider r"
| "key_value Key_installation_type r = Some (installation_type_text (sr_installation_type r))"
| "key_value Key_openshift_state r = Some (openshift_state_text (sr_openshift_state r))"
| "key_value Key_health r = Some (severity_text (sr_health r))"
| "key_value Key_mce r = sr_mce_name r"
| "key_value Key_cluster r = sr_cluster_name r"
| "key_value _ r = None"

fun key_values :: "row_filters \<Rightarrow> filter_key \<Rightarrow> jstr list option" where
  "key_values f Key_vendor = rf_vendor f"
| "key_values f Key_site_id = rf_site_id f"
| "key_values f Key_source_provider = rf_source_provider f"
| "key_values f Key_installation_type = rf_installation_type f"
| "key_values f Key_openshift_state = rf_openshift_state f"
| "key_values f Key_health = rf_health f"
| "key_values f Key_mce = rf_mce f"
| "key_values f Key_cluster = rf_cluster f"
| "key_values f _ = None"

definition multi_keys :: "filter_key list" where
  "multi_keys = [Key_vendor, Key_site_id, Key_source_provider, Key_installation_type,
     Key_openshift_state, Key_health, Key_mce, Key_cluster]"

fun key_test :: "platform \<Rightarrow> server_row list \<Rightarrow> row_filters \<Rightarrow> filter_key \<Rightarrow> server_row \<Rightarrow> bool" where
  "key_test pf rows f Key_search r = match_test (parse_search pf (coalesce (rf_search f) [])) r"
| "key_test pf rows f Key_maintenance r = (case rf_maintenance f of None \<Rightarrow> True
     | Some Only \<Rightarrow> ms_enabled (sr_maintenance r)
     | Some Exclude \<Rightarrow> \<not> ms_enabled (sr_maintenance r))"
| "key_test pf rows f Key_reserved r = (rf_reserved f \<longrightarrow> rs_held (sr_reservation r))"
| "key_test pf rows f Key_stale r = (rf_stale f \<longrightarrow> sr_stale r)"
| "key_test pf rows f Key_duplicate r =
     (rf_duplicate f \<longrightarrow> length (filter (\<lambda>x. sr_name x = sr_name r) rows) \<ge> 2)"
| "key_test pf rows f Key_contested r = (rf_contested f \<longrightarrow> sr_contested_with r \<noteq> None)"
| "key_test pf rows f Key_nameMismatch r = (rf_nameMismatch f \<longrightarrow> sr_openshift_reported_name r \<noteq> None)"
| "key_test pf rows f Key_donor r = (rf_donor f \<longrightarrow> is_donor (sr_maintenance r))"
| "key_test pf rows f k r =
     (case key_values f k of None \<Rightarrow> True
      | Some vs \<Rightarrow> vs = [] \<or> (\<exists>v \<in> set vs. key_value k r = Some v))"

lemma name_counts_fold:
  "name_count (fold (\<lambda>row counts. AList.update (sr_name row) (name_count counts (sr_name row) + 1) counts)
     rows c) n = name_count c n + length (filter (\<lambda>r. sr_name r = n) rows)"
  by (induction rows arbitrary: c) (auto simp: name_count_def update_conv')

lemma name_count_counts: "name_count (name_counts rows) n = length (filter (\<lambda>r. sr_name r = n) rows)"
  by (simp only: name_counts_def name_counts_fold) (simp add: name_count_def)

lemma any_of_values_alt:
  "any_of_values vs v \<longleftrightarrow> (case vs of None \<Rightarrow> True | Some xs \<Rightarrow> xs = [] \<or> (\<exists>x \<in> set xs. v = Some x))"
  by (cases v) (auto simp: any_of_values_def split: option.splits list.splits)

lemma search_rows_filter: "search_rows pf rows q = filter (match_test (parse_search pf q)) rows"
  by (simp add: search_rows_def parse_search_def)

lemma maintenance_test:
  "(m = None \<or> (m = Some Only) = e) \<longleftrightarrow>
     (case m of None \<Rightarrow> True | Some Only \<Rightarrow> e | Some Exclude \<Rightarrow> \<not> e)"
  by (auto split: option.splits maintenance_filter.splits)

lemma counts_test:
  "(case if d then Some (name_counts rows) else None of None \<Rightarrow> True | Some c \<Rightarrow> 1 < name_count c n) \<longleftrightarrow>
     (d \<longrightarrow> 2 \<le> length (filter (\<lambda>x. sr_name x = n) rows))"
  by (auto simp: name_count_counts)

lemma row_test_keys:
  "(row_test f (if rf_duplicate f then Some (name_counts rows) else None) r \<and>
      match_test (parse_search pf (coalesce (rf_search f) [])) r) \<longleftrightarrow>
     list_all (\<lambda>k. key_test pf rows f k r) all_keys"
  unfolding row_test_def maintenance_test counts_test any_of_values_alt all_keys_def
  by (simp only: list.pred_inject key_test.simps key_values.simps key_value.simps imp_conv_disj) argo

lemma filter_rows_eq:
  "filter_rows pf rows f = filter (\<lambda>r. list_all (\<lambda>k. key_test pf rows f k r) all_keys) rows"
  by (simp add: filter_rows_def search_rows_filter Let_def row_test_keys [symmetric] conj_commute)

lemma all_keys_complete: "k \<in> set all_keys"
  by (cases k) (simp_all add: all_keys_def)

lemma key_test_without:
  "key_test pf rows (without f k) k' r = (if k' = k then key_test pf rows no_filters k r
     else key_test pf rows f k' r)"
  by (cases k; cases k'; simp add: no_filters_def)

lemma key_test_no_filters [simp]: "key_test pf rows no_filters k r"
  by (cases k) (simp_all add: no_filters_def parse_search_def)

lemma list_all_keys_split:
  "list_all P all_keys \<longleftrightarrow> P k \<and> list_all (\<lambda>k'. k' \<noteq> k \<longrightarrow> P k') all_keys"
  using all_keys_complete by (auto simp: list_all_iff)

text \<open>Dropping one key leaves the test of every other key as it was.\<close>

lemma filter_rows_without:
  "filter_rows pf rows f = filter (key_test pf rows f k) (filter_rows pf rows (without f k))"
proof -
  have "list_all (\<lambda>k'. key_test pf rows f k' r) all_keys \<longleftrightarrow>
     key_test pf rows f k r \<and> list_all (\<lambda>k'. key_test pf rows (without f k) k' r) all_keys" for r
    using all_keys_complete by (auto simp: list_all_iff key_test_without)
  then show ?thesis by (simp add: filter_rows_eq conj_commute)
qed

text \<open>Setting one multi-value key.\<close>

fun with_values :: "row_filters \<Rightarrow> filter_key \<Rightarrow> jstr list \<Rightarrow> row_filters" where
  "with_values f Key_vendor vs = f\<lparr>rf_vendor := Some vs\<rparr>"
| "with_values f Key_site_id vs = f\<lparr>rf_site_id := Some vs\<rparr>"
| "with_values f Key_source_provider vs = f\<lparr>rf_source_provider := Some vs\<rparr>"
| "with_values f Key_installation_type vs = f\<lparr>rf_installation_type := Some vs\<rparr>"
| "with_values f Key_openshift_state vs = f\<lparr>rf_openshift_state := Some vs\<rparr>"
| "with_values f Key_health vs = f\<lparr>rf_health := Some vs\<rparr>"
| "with_values f Key_mce vs = f\<lparr>rf_mce := Some vs\<rparr>"
| "with_values f Key_cluster vs = f\<lparr>rf_cluster := Some vs\<rparr>"
| "with_values f _ vs = f"

lemma without_with_values: "k \<in> set multi_keys \<Longrightarrow> without (with_values f k vs) k = without f k"
  by (auto simp: multi_keys_def)

lemma key_test_with_one:
  "k \<in> set multi_keys \<Longrightarrow> key_test pf rows (with_values f k [v]) k r \<longleftrightarrow> key_value k r = Some v"
  by (auto simp: multi_keys_def)

lemma filter_rows_with_one:
  "k \<in> set multi_keys \<Longrightarrow> filter_rows pf rows (with_values f k [v]) =
     filter (\<lambda>r. key_value k r = Some v) (filter_rows pf rows (without f k))"
  using filter_rows_without [of pf rows "with_values f k [v]" k]
  by (simp add: without_with_values) (rule filter_cong [OF refl], rule key_test_with_one)

section \<open>What a sort gives\<close>

text \<open>The order of two nullable values: nulls last whichever the direction.\<close>

fun in_order :: "(jstr \<Rightarrow> jstr \<Rightarrow> int) \<Rightarrow> bool \<Rightarrow> jstr option \<Rightarrow> jstr option \<Rightarrow> bool" where
  "in_order c desc None None = True"
| "in_order c desc None (Some y) = False"
| "in_order c desc (Some x) None = True"
| "in_order c desc (Some x) (Some y) = (if desc then 0 \<le> c x y else c x y \<le> 0)"

definition sort_compare :: "platform \<Rightarrow> sortable_field \<Rightarrow> bool \<Rightarrow> server_row \<Rightarrow> server_row \<Rightarrow> int" where
  "sort_compare pf field desc =
     (if field = By_health then cmp_sign desc (by_key sort_rank)
      else cmp_on (sort_value field) (nulls_last (cmp_sign desc (pl_collate pf))))"

lemma sort_rows_compare: "sort_rows pf rows field desc = js_sort (sort_compare pf field desc) rows"
  by (simp add: sort_rows_def sort_compare_def)

lemma comparator_sort_compare:
  assumes "comparator (pl_collate pf)"
  shows "comparator (sort_compare pf field desc)"
  unfolding sort_compare_def
  by (auto intro: by_key.comparator_sign comparator.comparator_on
    comparator.comparator_nulls_last comparator.comparator_sign assms)

lemma sort_compare_le:
  "field \<noteq> By_health \<Longrightarrow> sort_compare pf field desc a b \<le> 0 \<longleftrightarrow>
     in_order (pl_collate pf) desc (sort_value field a) (sort_value field b)"
  by (cases "sort_value field a"; cases "sort_value field b")
    (simp_all add: sort_compare_def cmp_on_def nulls_last_def cmp_sign_def)

lemma sort_rank_simps: "sort_rank r = 5 - severity_rank (sr_health r)"
  by (simp add: sort_rank_def severity_rank_def SEVERITY_ORDER_def)

lemma sort_compare_health_le:
  "sort_compare pf By_health desc a b \<le> 0 \<longleftrightarrow>
     (if desc then sr_health a \<le> sr_health b else sr_health b \<le> sr_health a)"
  by (simp add: sort_compare_def cmp_sign_def by_key_def sort_rank_simps less_eq_severity_def)

text \<open>Rows whose sort values agree compare equal, so a stable sort keeps their order.\<close>

lemma sort_compare_same:
  assumes "comparator (pl_collate pf)" and "sort_value field a = sort_value field b"
  shows "sort_compare pf field desc a b = 0"
proof (cases "field = By_health")
  case True
  with assms(2) show ?thesis
    by (simp add: sort_compare_def cmp_sign_def by_key_def sort_rank_simps)
next
  case False
  then show ?thesis
    using assms(2) comparator.cmp_refl [OF assms(1)]
    by (cases "sort_value field b") (simp_all add: sort_compare_def cmp_on_def nulls_last_def cmp_sign_def)
qed

lemma sort_rows_stable:
  assumes "comparator (pl_collate pf)"
  shows "filter (\<lambda>r. sort_value field r = v) (sort_rows pf rows field desc) =
    filter (\<lambda>r. sort_value field r = v) rows"
proof -
  note c = comparator_sort_compare [OF assms, of field desc]
  have "js_sort (sort_compare pf field desc) (filter (\<lambda>r. sort_value field r = v) rows) =
      filter (\<lambda>r. sort_value field r = v) rows"
    by (rule comparator.js_sort_equal [OF c]) (simp add: sort_compare_same [OF assms])
  then show ?thesis
    by (simp add: sort_rows_compare comparator.sort_filter [OF c, symmetric])
qed

section \<open>What a search keeps\<close>

lemma delimited_wrap:
  "b \<noteq> [] \<Longrightarrow> list_all is_dot b \<Longrightarrow> delimited c (c # b @ [c]) = Some b"
  by (cases b) (simp_all add: delimited_def)

lemma delimited_hd: "s \<noteq> [] \<Longrightarrow> hd s \<noteq> c \<Longrightarrow> delimited c s = None"
  by (simp add: delimited_def)

lemma hex_unit_not_ws: "hex_unit u \<Longrightarrow> \<not> is_ws u"
  by (auto simp: hex_unit_def is_digit_def is_ws_def)

lemma hex_unit_lower [simp]: "hex_unit (ascii_lower u) = hex_unit u"
  by (auto simp: hex_unit_def ascii_lower_def is_digit_def)

lemma HEX_LIKE_trim: "HEX_LIKE s \<Longrightarrow> trim s = s"
  by (rule trim_id) (auto simp: HEX_LIKE_def list_all_iff hex_unit_not_ws)

lemma HEX_LIKE_plain:
  "HEX_LIKE s \<Longrightarrow> delimited (cu CHR ''/'') s = None \<and> delimited (cu CHR ''\"'') s = None"
  by (cases s) (auto simp: HEX_LIKE_def hex_unit_def is_digit_def intro!: delimited_hd)

definition strip_seps :: "jstr \<Rightarrow> jstr" where
  "strip_seps s = filter (\<lambda>u. u \<noteq> 58 \<and> u \<noteq> 45) s"

text \<open>What the plain search of a hexadecimal text amounts to.\<close>

lemma parse_search_hex:
  assumes "HEX_LIKE q" "pl_lower pf q = map ascii_lower q"
  shows "match_test (parse_search pf q) r \<longleftrightarrow>
    (\<exists>f \<in> set (search_fields pf r). contains f (map ascii_lower q)) \<or>
    (\<exists>m \<in> set (sr_macs r). contains m (map ascii_lower q) \<or>
      contains (filter (\<lambda>u. u \<noteq> 58) m) (strip_seps (map ascii_lower q)))"
proof -
  have "HEX_LIKE (map ascii_lower q)" using assms(1) by (simp add: HEX_LIKE_def list_all_iff)
  moreover have "q \<noteq> []" using assms(1) by (simp add: HEX_LIKE_def)
  ultimately show ?thesis
    using assms HEX_LIKE_plain [OF assms(1)]
    by (simp add: parse_search_def HEX_LIKE_trim Let_def list_ex_iff strip_seps_def)
qed

section \<open>Properties\<close>

text \<open>
  C5: the rows a filter keeps are, in their order, the rows that pass the test of every key:
  a key with several values passes when it has none or the row's value is among them, a toggle
  when it is off or the row has the property, the duplicate toggle when the fleet has another
  row of the same name, and the search last. Every key of the filter counts once and
  independently of the others.
\<close>

theorem filter_rows_spec:
  "filter_rows pf rows f = filter (\<lambda>r. list_all (\<lambda>k. key_test pf rows f k r) all_keys) rows"
  by (rule filter_rows_eq)



text \<open>
  Sorting by health orders the rows by severity, stable among equals: descending starts
  with the most severe (CRITICAL), ascending starts with UNKNOWN, before HEALTHY.
\<close>

lemma sort_rows_by_health:
  "mset (sort_rows pf rows By_health desc) = mset rows \<and>
   sorted_wrt (\<lambda>a b. if desc then sr_health a \<le> sr_health b else sr_health b \<le> sr_health a)
     (sort_rows pf rows By_health desc) \<and>
   filter (\<lambda>r. sr_health r = h) (sort_rows pf rows By_health desc) = filter (\<lambda>r. sr_health r = h) rows"
proof -
  let ?pf = "pf\<lparr>pl_collate := natural_compare\<rparr>"
  have eq: "sort_rows pf rows By_health desc = sort_rows ?pf rows By_health desc"
    by (simp add: sort_rows_def)
  have c: "comparator (pl_collate ?pf)" by (simp add: natural_compare.comparator_axioms)
  have "sorted_wrt (\<lambda>a b. sort_compare ?pf By_health desc a b \<le> 0) (sort_rows ?pf rows By_health desc)"
    unfolding sort_rows_compare by (rule comparator.sorted_js_sort [OF comparator_sort_compare [OF c]])
  moreover have "filter (\<lambda>r. sr_health r = h) (sort_rows ?pf rows By_health desc)
      = filter (\<lambda>r. sr_health r = h) rows"
    using sort_rows_stable [OF c, of By_health "Some (severity_text h)" rows desc] by simp
  ultimately show ?thesis
    unfolding eq by (simp only: sort_compare_health_le) (simp add: sort_rows_compare)
qed

text \<open>
  C11: an operator who types a MAC address finds its server whatever separators and letter
  case they use: the row stays when the query has the hexadecimal digits of one of its
  MACs, bare, with colons or with dashes, in one or several groups.
\<close>

theorem search_finds_mac:
  assumes "r \<in> set rows" "m \<in> set (sr_macs r)" "HEX_LIKE q"
    and "pl_lower pf q = map ascii_lower q"
    and "strip_seps (map ascii_lower q) = filter (\<lambda>u. u \<noteq> 58) m"
  shows "r \<in> set (search_rows pf rows q)"
  using assms(1,2,5) parse_search_hex [OF assms(3,4), of r]
  by (auto simp: search_rows_filter intro!: bexI [of _ m])

lemma search_finds_mac_witness:
  "(blank_row (js ''a''))\<lparr>sr_macs := [js ''00:1b:c2'']\<rparr> \<in>
     set (search_rows ascii_platform [blank_row (js ''b''), (blank_row (js ''a''))\<lparr>sr_macs := [js ''00:1b:c2'']\<rparr>]
       (js ''001B-C2''))"
  by (rule search_finds_mac [of _ _ "js ''00:1b:c2''"])
    (simp_all add: HEX_LIKE_def hex_unit_def is_digit_def ascii_platform_def js_def strip_seps_def
      ascii_lower_def)

text \<open>
  C13: the search box's regular expression: between slashes, the text is a pattern tried on the
  lower-cased fields and on the MACs; a pattern over 64 units, or one the engine refuses, keeps
  every row and says why instead of blanking the table.
\<close>

theorem search_regex:
  assumes "trim q = cu CHR ''/'' # b @ [cu CHR ''/'']" "b \<noteq> []" "list_all is_dot b"
  shows "search_rows pf rows q =
    (if length b > 64 then rows
     else case pl_regexp pf b of
       Inl msg \<Rightarrow> rows
     | Inr p \<Rightarrow> filter (\<lambda>r. (\<exists>f \<in> set (search_fields pf r). p f) \<or> (\<exists>m \<in> set (sr_macs r). p m)) rows)
    \<and> (match_error (parse_search pf q) = None \<longleftrightarrow> length b \<le> 64 \<and> (\<exists>p. pl_regexp pf b = Inr p))"
  using assms delimited_wrap [OF assms(2,3)]
  by (auto simp: search_rows_filter parse_search_def MAX_REGEX_LENGTH_def list_ex_iff
      split: sum.splits)

lemma search_regex_witness:
  "search_rows ascii_platform [blank_row (js ''a'')] (js '' /(/'') = [blank_row (js ''a'')]"
  using search_regex [of "js '' /(/''" "js ''(''" ascii_platform "[blank_row (js ''a'')]"]
  by (simp add: ascii_platform_def js_def trim_def trim_start_def is_ws_def is_dot_def)

text \<open>
  A query in quotes matches only a whole field: the row's lower-cased text fields, its
  MACs, or, for a hexadecimal text, its MACs without their colons.
\<close>

lemma search_exact:
  assumes "trim q = cu CHR ''\"'' # b @ [cu CHR ''\"'']" "b \<noteq> []" "list_all is_dot b"
  shows "search_rows pf rows q = filter (\<lambda>r.
    pl_lower pf b \<in> set (search_fields pf r) \<or> pl_lower pf b \<in> set (sr_macs r) \<or>
    HEX_LIKE (pl_lower pf b) \<and>
      (\<exists>m \<in> set (sr_macs r). filter (\<lambda>u. u \<noteq> 58) m = strip_seps (pl_lower pf b))) rows"
proof -
  have "delimited (cu CHR ''/'') (trim q) = None" using assms(1) by (simp add: delimited_def)
  then show ?thesis
    using assms delimited_wrap [OF assms(2,3), of "cu CHR ''\"''"]
    by (auto simp: search_rows_filter parse_search_def Let_def list_ex_iff strip_seps_def intro!: filter_cong)
qed

lemma search_exact_witness:
  "search_rows ascii_platform [blank_row (js ''a1''), blank_row (js ''a'')] [34, 65, 34] = [blank_row (js ''a'')]"
  using search_exact [of "[34, 65, 34]" "[65]" ascii_platform "[blank_row (js ''a1''), blank_row (js ''a'')]"]
  by (simp add: ascii_platform_def js_def trim_def trim_start_def is_ws_def is_dot_def
      search_fields_def blank_row_def ascii_lower_def)

end
