(* ===== verification/Facets.thy ===== *)
theory Facets
  imports Rows
begin

text \<open>
  Facet counts, paging and the cluster sidebar's options: the second half of
  \<^verbatim>\<open>src/features/inventory/rows.ts\<close>.
\<close>

section \<open>Facet counts\<close>

record facet_counts =
  fc_total :: nat
  fc_vendor :: tally
  fc_source_provider :: tally
  fc_installation_type :: tally
  fc_site_id :: tally
  fc_openshift_state :: tally
  fc_health :: tally
  fc_maintenance :: tally
  fc_stale :: tally

text \<open>\<open>String(b)\<close> for a boolean.\<close>

definition bool_text :: "bool \<Rightarrow> jstr" where
  "bool_text b = (if b then js ''true'' else js ''false'')"

definition count_row :: "server_row \<Rightarrow> facet_counts \<Rightarrow> facet_counts" where
  "count_row row c = c\<lparr>
     fc_vendor := tally_bump (fc_vendor c) (vendor_text (sr_vendor row)),
     fc_source_provider := (if truthy (sr_source_provider row)
       then tally_bump (fc_source_provider c) (the (sr_source_provider row))
       else fc_source_provider c),
     fc_installation_type :=
       tally_bump (fc_installation_type c) (installation_type_text (sr_installation_type row)),
     fc_site_id := tally_bump (fc_site_id c) (coalesce (sr_site_id row) UNASSIGNED_SITE_ID),
     fc_openshift_state :=
       tally_bump (fc_openshift_state c) (openshift_state_text (sr_openshift_state row)),
     fc_health := tally_bump (fc_health c) (severity_text (sr_health row)),
     fc_maintenance := tally_bump (fc_maintenance c) (bool_text (ms_enabled (sr_maintenance row))),
     fc_stale := tally_bump (fc_stale c) (bool_text (sr_stale row))\<rparr>"

definition facet_counts :: "server_row list \<Rightarrow> facet_counts" where
  "facet_counts rows = fold count_row rows
     \<lparr>fc_total = length rows, fc_vendor = [], fc_source_provider = [], fc_installation_type = [],
      fc_site_id = [], fc_openshift_state = [], fc_health = [], fc_maintenance = [], fc_stale = []\<rparr>"

datatype facet_key =
  Facet_vendor | Facet_source_provider | Facet_site_id | Facet_installation_type
| Facet_openshift_state | Facet_health | Facet_maintenance

fun facet_get :: "facet_counts \<Rightarrow> facet_key \<Rightarrow> tally" where
  "facet_get c Facet_vendor = fc_vendor c"
| "facet_get c Facet_source_provider = fc_source_provider c"
| "facet_get c Facet_site_id = fc_site_id c"
| "facet_get c Facet_installation_type = fc_installation_type c"
| "facet_get c Facet_openshift_state = fc_openshift_state c"
| "facet_get c Facet_health = fc_health c"
| "facet_get c Facet_maintenance = fc_maintenance c"

fun facet_set :: "facet_counts \<Rightarrow> facet_key \<Rightarrow> tally \<Rightarrow> facet_counts" where
  "facet_set c Facet_vendor t = c\<lparr>fc_vendor := t\<rparr>"
| "facet_set c Facet_source_provider t = c\<lparr>fc_source_provider := t\<rparr>"
| "facet_set c Facet_site_id t = c\<lparr>fc_site_id := t\<rparr>"
| "facet_set c Facet_installation_type t = c\<lparr>fc_installation_type := t\<rparr>"
| "facet_set c Facet_openshift_state t = c\<lparr>fc_openshift_state := t\<rparr>"
| "facet_set c Facet_health t = c\<lparr>fc_health := t\<rparr>"
| "facet_set c Facet_maintenance t = c\<lparr>fc_maintenance := t\<rparr>"

definition DIMENSIONS :: "(filter_key \<times> facet_key) list" where
  "DIMENSIONS = [(Key_vendor, Facet_vendor), (Key_source_provider, Facet_source_provider),
     (Key_site_id, Facet_site_id), (Key_installation_type, Facet_installation_type),
     (Key_openshift_state, Facet_openshift_state), (Key_health, Facet_health)]"

definition dropdown_facet_counts ::
  "platform \<Rightarrow> server_row list \<Rightarrow> row_filters \<Rightarrow> facet_counts" where
  "dropdown_facet_counts pf rows f =
     (let facets = facet_counts (filter_rows pf rows f);
          facets = fold (\<lambda>(filterKey, facetKey) c. facet_set c facetKey
            (facet_get (facet_counts (filter_rows pf rows (without f filterKey))) facetKey))
            DIMENSIONS facets in
      facet_set facets Facet_maintenance
        (facet_get (facet_counts (filter_rows pf rows (without f Key_maintenance))) Facet_maintenance))"

section \<open>Paging\<close>

text \<open>The page number is any JavaScript number.\<close>

datatype jsnum = NaN | PosInf | NegInf | Fin rat

definition trunc_rat :: "rat \<Rightarrow> int" where
  "trunc_rat q = (if 0 \<le> q then \<lfloor>q\<rfloor> else \<lceil>q\<rceil>)"

record 'a page_of =
  pgo_items :: "'a list"
  pgo_page :: nat
  pgo_count :: nat

text \<open>\<open>Math.min(Math.max(1, Math.trunc(page) || 1), pageCount)\<close>.\<close>

definition clamp_page :: "jsnum \<Rightarrow> nat \<Rightarrow> nat" where
  "clamp_page page pageCount = (case page of
     NaN \<Rightarrow> min 1 pageCount
   | PosInf \<Rightarrow> pageCount
   | NegInf \<Rightarrow> min 1 pageCount
   | Fin q \<Rightarrow> (let t = trunc_rat q; p = (if t = 0 then 1 else t) in
       min (nat (max 1 p)) pageCount))"

text \<open>
  \<open>Math.ceil(rows.length / pageSize)\<close> for a positive page size: the quotient of two
  integers below \<open>2\<^sup>3\<^sup>2\<close> does not round across an integer.
\<close>

definition paginate :: "'a list \<Rightarrow> jsnum \<Rightarrow> nat \<Rightarrow> 'a page_of" where
  "paginate rows page pageSize =
     (let pageCount = max 1 ((length rows + pageSize - 1) div pageSize);
          current = clamp_page page pageCount;
          start = (current - 1) * pageSize in
      \<lparr>pgo_items = take pageSize (drop start rows), pgo_page = current, pgo_count = pageCount\<rparr>)"

section \<open>The cluster sidebar\<close>

record cluster_option =
  co_name :: jstr
  co_count :: cell
  co_mce :: "jstr option"

record cluster_facets =
  cfa_mces :: "cluster_option list"
  cfa_hosted :: "cluster_option list"
  cfa_upi :: "cluster_option list"

text \<open>
  \<open>b.count - a.count || COLLATOR.compare(a.name, b.name)\<close>; the difference with a garbled
  cell (a text) is \<open>NaN\<close>, which is falsy.
\<close>

definition count_diff :: "cell \<Rightarrow> cell \<Rightarrow> int" where
  "count_diff b a = (case (b, a) of (Count m, Count n) \<Rightarrow> int m - int n | _ \<Rightarrow> 0)"

definition by_count :: "platform \<Rightarrow> cluster_option \<Rightarrow> cluster_option \<Rightarrow> int" where
  "by_count pf a b =
     (if count_diff (co_count b) (co_count a) \<noteq> 0 then count_diff (co_count b) (co_count a)
      else pl_collate pf (co_name a) (co_name b))"

text \<open>The two tallies, and the pass that collects the names.\<close>

definition tally_names :: "(server_row \<Rightarrow> jstr option) \<Rightarrow> server_row list \<Rightarrow> tally" where
  "tally_names name rows =
     fold (\<lambda>row t. if truthy (name row) then tally_bump t (the (name row)) else t) rows []"

definition collect_clusters ::
  "server_row list \<Rightarrow> (jstr \<times> jstr option) list \<times> jstr list" where
  "collect_clusters rows = fold (\<lambda>row (clusterMce, mces).
     ((if truthy (sr_cluster_name row)
       then AList.update (the (sr_cluster_name row))
         (case sr_mce_name row of Some m \<Rightarrow> Some m
          | None \<Rightarrow> coalesce (map_of clusterMce (the (sr_cluster_name row))) None) clusterMce
       else clusterMce),
      (if truthy (sr_mce_name row) then set_add (the (sr_mce_name row)) mces else mces))) rows ([], [])"

definition cluster_facets :: "platform \<Rightarrow> server_row list \<Rightarrow> row_filters \<Rightarrow> cluster_facets" where
  "cluster_facets pf rows f =
     (let mceCounts = tally_names sr_mce_name (filter_rows pf rows (without f Key_mce));
          clusterCounts = tally_names sr_cluster_name (filter_rows pf rows (without f Key_cluster));
          (clusterMce, mces) = collect_clusters rows;
          entry = (\<lambda>(name, mce). \<lparr>co_name = name, co_count = tally_or0 clusterCounts name, co_mce = mce\<rparr>);
          hosted = map entry (filter (\<lambda>(name, mce). truthy mce) clusterMce);
          upi = map entry (filter (\<lambda>(name, mce). \<not> truthy mce) clusterMce) in
      \<lparr>cfa_mces = js_sort (by_count pf) (map (\<lambda>name.
         \<lparr>co_name = name, co_count = tally_or0 mceCounts name, co_mce = None\<rparr>) mces),
       cfa_hosted = js_sort (by_count pf) hosted,
       cfa_upi = js_sort (by_count pf) upi\<rparr>)"

section \<open>Counting laws\<close>

fun facet_value :: "facet_key \<Rightarrow> server_row \<Rightarrow> jstr option" where
  "facet_value Facet_vendor r = Some (vendor_text (sr_vendor r))"
| "facet_value Facet_source_provider r =
     (if truthy (sr_source_provider r) then sr_source_provider r else None)"
| "facet_value Facet_site_id r = Some (coalesce (sr_site_id r) UNASSIGNED_SITE_ID)"
| "facet_value Facet_installation_type r = Some (installation_type_text (sr_installation_type r))"
| "facet_value Facet_openshift_state r = Some (openshift_state_text (sr_openshift_state r))"
| "facet_value Facet_health r = Some (severity_text (sr_health r))"
| "facet_value Facet_maintenance r = Some (bool_text (ms_enabled (sr_maintenance r)))"

lemma facet_get_count_row:
  "facet_get (count_row r c) k = (case facet_value k r of
     Some v \<Rightarrow> tally_bump (facet_get c k) v | None \<Rightarrow> facet_get c k)"
  by (cases k) (auto simp: count_row_def truthy_def)

lemma facet_get_fold:
  "facet_get (fold count_row rows c) k = tally_all (List.map_filter (facet_value k) rows) (facet_get c k)"
  by (induction rows arbitrary: c) (auto simp: facet_get_count_row map_filter_simps split: option.splits)

lemma facet_counts_get:
  "\<not> inherited v \<Longrightarrow> tally_or0 (facet_get (facet_counts rows) k) v =
     Count (length (filter (\<lambda>r. facet_value k r = Some v) rows))"
proof -
  assume v: "\<not> inherited v"
  have "facet_get (facet_counts rows) k = tally_all (List.map_filter (facet_value k) rows) []"
    unfolding facet_counts_def facet_get_fold by (cases k) simp_all
  with v show ?thesis by (simp add: tally_or0_fresh count_list_map_filter)
qed

lemma facet_get_set: "facet_get (facet_set c k t) k' = (if k' = k then t else facet_get c k')"
  by (cases k; cases k') simp_all

text \<open>Each dropdown dimension is counted over the rows its own filter is dropped from.\<close>

lemma dropdown_facet_get:
  assumes "(k, d) \<in> set DIMENSIONS"
  shows "facet_get (dropdown_facet_counts pf rows f) d =
    facet_get (facet_counts (filter_rows pf rows (without f k))) d"
  using assms
  by (auto simp: dropdown_facet_counts_def DIMENSIONS_def facet_get_set)

lemma dimension_values:
  assumes "(k, d) \<in> set DIMENSIONS" "v \<noteq> []"
  shows "k \<in> set multi_keys" "facet_value d r = Some v \<longleftrightarrow> key_value k r = Some v"
  using assms by (auto simp: DIMENSIONS_def multi_keys_def truthy_def split: if_splits)

lemma DIMENSIONS_no_maintenance: "(k, d) \<in> set DIMENSIONS \<Longrightarrow> d \<noteq> Facet_maintenance"
  by (auto simp: DIMENSIONS_def)

section \<open>Paging laws\<close>

lemma ceil_div: "0 < s \<Longrightarrow> (n + s - 1) div s * s \<ge> (n::nat)"
  using dividend_less_times_div [of s "n + s - 1"] by (simp add: mult.commute)

lemma pages_concat:
  "concat (map (\<lambda>i. take s (drop (i * s) xs)) [0..<k]) = take (k * s) xs"
proof (induction k)
  case (Suc k)
  have "take (Suc k * s) xs = take (k * s) xs @ take s (drop (k * s) xs)"
    by (simp add: take_add [symmetric] add.commute)
  with Suc show ?case by simp
qed simp

lemma clamp_page_range: "1 \<le> n \<Longrightarrow> 1 \<le> clamp_page p n \<and> clamp_page p n \<le> n"
  by (auto simp: clamp_page_def Let_def split: jsnum.splits)

lemma clamp_page_in: "1 \<le> i \<Longrightarrow> i \<le> n \<Longrightarrow> clamp_page (Fin (of_nat i)) n = i"
  by (simp add: clamp_page_def trunc_rat_def)

definition page_count :: "nat \<Rightarrow> nat \<Rightarrow> nat" where
  "page_count n s = max 1 ((n + s - 1) div s)"

lemma paginate_page:
  "1 \<le> i \<Longrightarrow> i \<le> page_count (length rows) s \<Longrightarrow>
     pgo_items (paginate rows (Fin (of_nat i)) s) = take s (drop ((i - 1) * s) rows)"
  by (simp add: paginate_def Let_def page_count_def clamp_page_in)

lemma paginate_concat:
  assumes "0 < s"
  shows "concat (map (\<lambda>i. pgo_items (paginate rows (Fin (of_nat i)) s))
     [1..<page_count (length rows) s + 1]) = rows"
proof -
  let ?n = "page_count (length rows) s"
  have "concat (map (\<lambda>i. pgo_items (paginate rows (Fin (of_nat i)) s)) [1..<?n + 1])
      = concat (map (\<lambda>i. take s (drop ((i - 1) * s) rows)) [1..<?n + 1])"
    by (rule arg_cong [where f = concat], rule map_cong [OF refl], rule paginate_page) auto
  also have "\<dots> = concat (map (\<lambda>i. take s (drop (i * s) rows)) [0..<?n])"
  proof -
    have "[1..<?n + 1] = map Suc [0..<?n]" by (simp add: map_Suc_upt)
    then show ?thesis by (simp only: map_map comp_def) simp
  qed
  also have "\<dots> = take (?n * s) rows" by (rule pages_concat)
  also have "\<dots> = rows" using ceil_div [OF assms, of "length rows"]
    by (simp add: page_count_def nat_mult_max_left)
  finally show ?thesis .
qed

section \<open>Sidebar laws\<close>

lemma tally_names_eq:
  "tally_names name rows = tally_all (map (the \<circ> name) (filter (\<lambda>r. truthy (name r)) rows)) []"
proof -
  have "fold (\<lambda>row t. if truthy (name row) then tally_bump t (the (name row)) else t) rows t =
     tally_all (map (the \<circ> name) (filter (\<lambda>r. truthy (name r)) rows)) t" for t
    by (induction rows arbitrary: t) auto
  then show ?thesis by (simp add: tally_names_def)
qed

lemma tally_names_count:
  "\<not> inherited n \<Longrightarrow> n \<noteq> [] \<Longrightarrow>
     tally_or0 (tally_names name rows) n = Count (length (filter (\<lambda>r. name r = Some n) rows))"
  by (simp add: tally_names_eq tally_or0_fresh count_list_map)
    (intro arg_cong [where f = length] filter_cong refl, auto simp: truthy_def)

text \<open>The names met by the collecting pass, and what it records for each.\<close>

lemma collect_clusters_eq:
  "collect_clusters rows =
     (fold (\<lambda>row t. if truthy (sr_cluster_name row)
         then AList.update (the (sr_cluster_name row))
           (case sr_mce_name row of Some m \<Rightarrow> Some m
            | None \<Rightarrow> coalesce (map_of t (the (sr_cluster_name row))) None) t
         else t) rows [],
      set_of_list (map (the \<circ> sr_mce_name) (filter (\<lambda>r. truthy (sr_mce_name r)) rows)))"
proof -
  let ?f = "\<lambda>row t. if truthy (sr_cluster_name row)
         then AList.update (the (sr_cluster_name row))
           (case sr_mce_name row of Some m \<Rightarrow> Some m
            | None \<Rightarrow> coalesce (map_of t (the (sr_cluster_name row))) None) t
         else t"
  let ?g = "\<lambda>row ms. if truthy (sr_mce_name row) then set_add (the (sr_mce_name row)) ms else ms"
  have "fold (\<lambda>row (t, ms). (?f row t, ?g row ms)) rows (t, ms) = (fold ?f rows t, fold ?g rows ms)"
    for t ms by (induction rows arbitrary: t ms) auto
  moreover have "fold ?g rows ms = fold set_add (map (the \<circ> sr_mce_name)
      (filter (\<lambda>r. truthy (sr_mce_name r)) rows)) ms" for ms
    by (induction rows arbitrary: ms) auto
  ultimately show ?thesis by (simp add: collect_clusters_def set_of_list_def)
qed

text \<open>The last MCE met on a row of the cluster; none when no row of the cluster has one.\<close>

fun last_mce :: "jstr \<Rightarrow> server_row list \<Rightarrow> jstr option" where
  "last_mce n [] = None"
| "last_mce n (r # rs) = (case last_mce n rs of Some m \<Rightarrow> Some m
    | None \<Rightarrow> if sr_cluster_name r = Some n then sr_mce_name r else None)"

lemma last_mce_None: "last_mce n rows = None \<longleftrightarrow>
    (\<forall>r \<in> set rows. sr_cluster_name r = Some n \<longrightarrow> sr_mce_name r = None)"
  by (induction rows) (auto split: option.splits)

lemma last_mce_Some: "last_mce n rows = Some m \<Longrightarrow>
    \<exists>r \<in> set rows. sr_cluster_name r = Some n \<and> sr_mce_name r = Some m"
  by (induction rows) (auto split: option.splits if_splits)

lemma cluster_map_of:
  "n \<noteq> [] \<Longrightarrow> map_of (fold (\<lambda>row t. if truthy (sr_cluster_name row)
         then AList.update (the (sr_cluster_name row))
           (case sr_mce_name row of Some m \<Rightarrow> Some m
            | None \<Rightarrow> coalesce (map_of t (the (sr_cluster_name row))) None) t
         else t) rows t0) n =
     (if (\<exists>r \<in> set rows. sr_cluster_name r = Some n) \<or> map_of t0 n \<noteq> None
      then Some (case last_mce n rows of Some m \<Rightarrow> Some m | None \<Rightarrow> coalesce (map_of t0 n) None)
      else None)"
proof (induction rows arbitrary: t0)
  case Nil
  then show ?case by auto
next
  case (Cons r rows)
  show ?case
  proof (cases "sr_cluster_name r = Some n")
    case True
    with Cons.prems have "truthy (sr_cluster_name r)" by (simp add: truthy_def)
    with True Cons.IH [OF Cons.prems] show ?thesis
      by (auto simp: update_conv' split: option.splits)
  next
    case False
    with Cons.IH [OF Cons.prems] show ?thesis
      by (auto simp: update_conv' truthy_def split: option.splits)
  qed
qed

lemma cluster_keys:
  "fst ` set (fold (\<lambda>row t. if truthy (sr_cluster_name row)
         then AList.update (the (sr_cluster_name row)) (v row t) t else t) rows t0) =
     fst ` set t0 \<union> {n. n \<noteq> [] \<and> (\<exists>r \<in> set rows. sr_cluster_name r = Some n)}"
proof (induction rows arbitrary: t0)
  case Nil
  then show ?case by simp
next
  case (Cons r rows)
  show ?case
  proof (cases "truthy (sr_cluster_name r)")
    case True
    then show ?thesis using Cons.IH by (auto simp: dom_update elim!: truthyE)
  next
    case False
    then show ?thesis using Cons.IH by (auto simp: truthy_def)
  qed
qed

lemma cluster_keys_distinct:
  "distinct (map fst t0) \<Longrightarrow> distinct (map fst (fold (\<lambda>row t. if truthy (sr_cluster_name row)
         then AList.update (the (sr_cluster_name row)) (v row t) t else t) rows t0))"
  by (induction rows arbitrary: t0) (auto intro: distinct_update)

lemma collect_clusters_spec:
  "distinct (map fst (fst (collect_clusters rows)))"
  "(n, m) \<in> set (fst (collect_clusters rows)) \<longleftrightarrow>
     n \<noteq> [] \<and> (\<exists>r \<in> set rows. sr_cluster_name r = Some n) \<and> m = last_mce n rows"
proof -
  show d: "distinct (map fst (fst (collect_clusters rows)))"
    by (simp add: collect_clusters_eq cluster_keys_distinct)
  have k: "fst ` set (fst (collect_clusters rows)) = {n. n \<noteq> [] \<and> (\<exists>r \<in> set rows. sr_cluster_name r = Some n)}"
    by (simp only: collect_clusters_eq fst_conv cluster_keys) simp
  have m: "map_of (fst (collect_clusters rows)) n =
      (if \<exists>r \<in> set rows. sr_cluster_name r = Some n then Some (last_mce n rows) else None)" if "n \<noteq> []"
    using cluster_map_of [OF that, of rows "[]"]
    by (auto simp: collect_clusters_eq split: option.splits)
  show "(n, m) \<in> set (fst (collect_clusters rows)) \<longleftrightarrow>
     n \<noteq> [] \<and> (\<exists>r \<in> set rows. sr_cluster_name r = Some n) \<and> m = last_mce n rows"
  proof
    assume a: "(n, m) \<in> set (fst (collect_clusters rows))"
    then have "n \<in> fst ` set (fst (collect_clusters rows))" by (metis fst_conv image_eqI)
    then have "n \<noteq> []" "\<exists>r \<in> set rows. sr_cluster_name r = Some n" using k by auto
    with m [of ] map_of_is_SomeI [OF d a]
    show "n \<noteq> [] \<and> (\<exists>r \<in> set rows. sr_cluster_name r = Some n) \<and> m = last_mce n rows" by auto
  next
    assume "n \<noteq> [] \<and> (\<exists>r \<in> set rows. sr_cluster_name r = Some n) \<and> m = last_mce n rows"
    with m show "(n, m) \<in> set (fst (collect_clusters rows))" by (auto intro: map_of_SomeD)
  qed
qed

definition clean_names :: "server_row list \<Rightarrow> bool" where
  "clean_names rows \<longleftrightarrow> (\<forall>r \<in> set rows.
     (\<forall>n. sr_mce_name r = Some n \<longrightarrow> n \<noteq> [] \<and> \<not> inherited n) \<and>
     (\<forall>n. sr_cluster_name r = Some n \<longrightarrow> \<not> inherited n))"

lemma truthy_last_mce: "clean_names rows \<Longrightarrow> truthy (last_mce n rows) \<longleftrightarrow>
    (\<exists>r \<in> set rows. sr_cluster_name r = Some n \<and> sr_mce_name r \<noteq> None)"
proof (cases "last_mce n rows")
  case None
  then show ?thesis using last_mce_None [of n rows] by simp
next
  case (Some m)
  assume c: "clean_names rows"
  obtain r where r: "r \<in> set rows" "sr_cluster_name r = Some n" "sr_mce_name r = Some m"
    using last_mce_Some [OF Some] by blast
  with c have "m \<noteq> []" by (auto simp: clean_names_def)
  with r Some show ?thesis by (auto simp: truthy_def)
qed

lemma cluster_facets_parts:
  "cfa_mces (cluster_facets pf rows f) = js_sort (by_count pf) (map (\<lambda>name.
     \<lparr>co_name = name, co_count = tally_or0 (tally_names sr_mce_name (filter_rows pf rows (without f Key_mce))) name,
      co_mce = None\<rparr>) (snd (collect_clusters rows)))"
  "cfa_hosted (cluster_facets pf rows f) = js_sort (by_count pf) (map (\<lambda>(name, mce).
     \<lparr>co_name = name, co_count = tally_or0 (tally_names sr_cluster_name (filter_rows pf rows (without f Key_cluster))) name,
      co_mce = mce\<rparr>) (filter (\<lambda>(name, mce). truthy mce) (fst (collect_clusters rows))))"
  "cfa_upi (cluster_facets pf rows f) = js_sort (by_count pf) (map (\<lambda>(name, mce).
     \<lparr>co_name = name, co_count = tally_or0 (tally_names sr_cluster_name (filter_rows pf rows (without f Key_cluster))) name,
      co_mce = mce\<rparr>) (filter (\<lambda>(name, mce). \<not> truthy mce) (fst (collect_clusters rows))))"
  by (simp_all add: cluster_facets_def Let_def split_def)

lemma distinct_js_sort_names:
  "distinct (map fst ps) \<Longrightarrow>
     distinct (map co_name (js_sort cmp (map (\<lambda>(name, mce). \<lparr>co_name = name, co_count = g name, co_mce = mce\<rparr>)
       (filter P ps))))"
proof -
  assume d: "distinct (map fst ps)"
  let ?xs = "map (\<lambda>(name, mce). \<lparr>co_name = name, co_count = g name, co_mce = mce\<rparr>) (filter P ps)"
  have "mset (map co_name (js_sort cmp ?xs)) = mset (map co_name ?xs)"
    by (simp only: mset_map mset_js_sort)
  also have "map co_name ?xs = map fst (filter P ps)" by (simp add: split_def comp_def)
  finally have "mset (map co_name (js_sort cmp ?xs)) = mset (map fst (filter P ps))" .
  with distinct_map_filter [OF d, of P] show ?thesis using mset_eq_imp_distinct_iff by blast
qed

text \<open>On clean names every cell is a number, and \<open>byCount\<close> is a consistent comparison.\<close>

definition co_number :: "cluster_option \<Rightarrow> int" where
  "co_number c = (case co_count c of Count n \<Rightarrow> int n | Garbled \<Rightarrow> 0)"

definition by_number :: "platform \<Rightarrow> cluster_option \<Rightarrow> cluster_option \<Rightarrow> int" where
  "by_number pf = cmp_or (by_key (\<lambda>c. - co_number c)) (cmp_on co_name (pl_collate pf))"

interpretation by_number: comparator_pair "by_key (\<lambda>c. - co_number c)" "cmp_on co_name natural_compare"
  by (intro comparator_pair.intro by_key.comparator_axioms natural_compare.comparator_on)

lemma by_number_comparator: "comparator (pl_collate pf) \<Longrightarrow> comparator (by_number pf)"
  unfolding by_number_def
  by (intro comparator_pair.comparator_either comparator_pair.intro by_key.comparator_axioms
    comparator.comparator_on)

lemma by_count_number:
  "co_count a \<noteq> Garbled \<Longrightarrow> co_count b \<noteq> Garbled \<Longrightarrow> by_count pf a b = by_number pf a b"
  by (cases "co_count a"; cases "co_count b")
    (simp_all add: by_count_def by_number_def cmp_or_def by_key_def cmp_on_def co_number_def count_diff_def)

text \<open>Membership in the sidebar's lists, and their order.\<close>

lemma hosted_or_upi_name:
  assumes "clean_names rows"
  shows "n \<in> co_name ` set (cfa_hosted (cluster_facets pf rows f)) \<longleftrightarrow>
      n \<noteq> [] \<and> (\<exists>r \<in> set rows. sr_cluster_name r = Some n \<and> sr_mce_name r \<noteq> None)"
    and "n \<in> co_name ` set (cfa_upi (cluster_facets pf rows f)) \<longleftrightarrow>
      n \<noteq> [] \<and> (\<exists>r \<in> set rows. sr_cluster_name r = Some n) \<and>
      \<not> (\<exists>r \<in> set rows. sr_cluster_name r = Some n \<and> sr_mce_name r \<noteq> None)"
proof -
  let ?c = "fst (collect_clusters rows)"
  have "n \<in> co_name ` set (cfa_hosted (cluster_facets pf rows f)) \<longleftrightarrow> (\<exists>m. (n, m) \<in> set ?c \<and> truthy m)"
    by (simp only: cluster_facets_parts set_js_sort set_map set_filter image_image) force
  then show "n \<in> co_name ` set (cfa_hosted (cluster_facets pf rows f)) \<longleftrightarrow>
      n \<noteq> [] \<and> (\<exists>r \<in> set rows. sr_cluster_name r = Some n \<and> sr_mce_name r \<noteq> None)"
    using truthy_last_mce [OF assms, of n] by (simp only: collect_clusters_spec) blast
  have "n \<in> co_name ` set (cfa_upi (cluster_facets pf rows f)) \<longleftrightarrow> (\<exists>m. (n, m) \<in> set ?c \<and> \<not> truthy m)"
    by (simp only: cluster_facets_parts set_js_sort set_map set_filter image_image) force
  then show "n \<in> co_name ` set (cfa_upi (cluster_facets pf rows f)) \<longleftrightarrow>
      n \<noteq> [] \<and> (\<exists>r \<in> set rows. sr_cluster_name r = Some n) \<and>
      \<not> (\<exists>r \<in> set rows. sr_cluster_name r = Some n \<and> sr_mce_name r \<noteq> None)"
    using truthy_last_mce [OF assms, of n] by (simp only: collect_clusters_spec) blast
qed

lemma cluster_count:
  assumes "clean_names rows"
    and "c \<in> set (cfa_hosted (cluster_facets pf rows f)) \<union> set (cfa_upi (cluster_facets pf rows f))"
  shows "co_count c = Count (length (filter_rows pf rows (with_values f Key_cluster [co_name c])))"
proof -
  from assms(2) have
    c: "co_count c = tally_or0 (tally_names sr_cluster_name (filter_rows pf rows (without f Key_cluster))) (co_name c)"
    and "\<exists>m. (co_name c, m) \<in> set (fst (collect_clusters rows))"
    by (auto simp: cluster_facets_parts)
  then obtain m where m: "(co_name c, m) \<in> set (fst (collect_clusters rows))" by blast
  from m have "co_name c \<noteq> []" "\<exists>r \<in> set rows. sr_cluster_name r = Some (co_name c)"
    by (simp_all add: collect_clusters_spec)
  moreover from this assms(1) have "\<not> inherited (co_name c)" by (auto simp: clean_names_def)
  ultimately have "co_count c =
      Count (length (filter (\<lambda>r. sr_cluster_name r = Some (co_name c)) (filter_rows pf rows (without f Key_cluster))))"
    unfolding c by (intro tally_names_count)
  then show ?thesis
    by (simp only: filter_rows_with_one [of Key_cluster] multi_keys_def key_value.simps
        list.set insert_iff simp_thms)
qed

lemma mce_count:
  assumes "clean_names rows" and "c \<in> set (cfa_mces (cluster_facets pf rows f))"
  shows "co_count c = Count (length (filter_rows pf rows (with_values f Key_mce [co_name c])))"
proof -
  from assms(2) have
    c: "co_count c = tally_or0 (tally_names sr_mce_name (filter_rows pf rows (without f Key_mce))) (co_name c)"
    and m: "\<exists>r \<in> set rows. sr_mce_name r = Some (co_name c) \<and> co_name c \<noteq> []"
    by (auto simp: cluster_facets_parts collect_clusters_eq elim!: truthyE)
  from m assms(1) have "\<not> inherited (co_name c)" "co_name c \<noteq> []" by (auto simp: clean_names_def)
  then have "co_count c =
      Count (length (filter (\<lambda>r. sr_mce_name r = Some (co_name c)) (filter_rows pf rows (without f Key_mce))))"
    unfolding c by (intro tally_names_count)
  then show ?thesis
    by (simp only: filter_rows_with_one [of Key_mce] multi_keys_def key_value.simps
        list.set insert_iff simp_thms)
qed

lemma by_count_sorted:
  assumes "comparator (pl_collate pf)" "\<forall>c \<in> set cs. co_count c \<noteq> Garbled"
  shows "sorted_wrt (\<lambda>a b. co_number b < co_number a \<or>
      co_number a = co_number b \<and> pl_collate pf (co_name a) (co_name b) \<le> 0) (js_sort (by_count pf) cs)"
proof -
  have eq: "js_sort (by_count pf) cs = js_sort (by_number pf) cs"
    using assms(2) by (intro js_sort_cong) (simp add: by_count_number)
  have "sorted_wrt (\<lambda>a b. by_number pf a b \<le> 0) (js_sort (by_number pf) cs)"
    by (rule comparator.sorted_js_sort [OF by_number_comparator [OF assms(1)]])
  then show ?thesis unfolding eq
    by (rule sorted_wrt_mono_rel [rotated])
      (auto simp: by_number_def cmp_or_def by_key_def cmp_on_def split: if_splits)
qed

section \<open>Properties\<close>

text \<open>
  C1: the number a dropdown shows beside an option is the number of servers that remain when
  that option alone is ticked in its dropdown and every other filter stays as it is.
\<close>

theorem dropdown_count_is_what_ticking_shows:
  assumes "(k, d) \<in> set DIMENSIONS" "v \<noteq> []" "\<not> inherited v"
  shows "tally_or0 (facet_get (dropdown_facet_counts pf rows f) d) v =
    Count (length (filter_rows pf rows (with_values f k [v])))"
  using dimension_values [OF assms(1,2)]
  by (simp add: dropdown_facet_get [OF assms(1)] facet_counts_get [OF assms(3)] filter_rows_with_one)

lemma dropdown_count_is_what_ticking_shows_witness:
  "tally_or0 (facet_get (dropdown_facet_counts ascii_platform [blank_row (js ''a''), blank_row (js ''b'')]
     no_filters) Facet_site_id) (js ''unassigned'') = Count (length (filter_rows ascii_platform
       [blank_row (js ''a''), blank_row (js ''b'')] (with_values no_filters Key_site_id [js ''unassigned''])))"
  by (rule dropdown_count_is_what_ticking_shows)
    (simp_all add: DIMENSIONS_def inherited_def proto_names_def)

text \<open>
  The three numbers of the maintenance control are the servers that its Only and Hide
  settings would show and, as the total, those shown when it is not set.
\<close>

lemma maintenance_counts:
  "tally_or0 (facet_get (dropdown_facet_counts pf rows f) Facet_maintenance) (js ''true'') =
     Count (length (filter_rows pf rows (f\<lparr>rf_maintenance := Some Only\<rparr>))) \<and>
   tally_or0 (facet_get (dropdown_facet_counts pf rows f) Facet_maintenance) (js ''false'') =
     Count (length (filter_rows pf rows (f\<lparr>rf_maintenance := Some Exclude\<rparr>))) \<and>
   length (filter_rows pf rows (f\<lparr>rf_maintenance := None\<rparr>)) =
     length (filter_rows pf rows (f\<lparr>rf_maintenance := Some Only\<rparr>)) +
     length (filter_rows pf rows (f\<lparr>rf_maintenance := Some Exclude\<rparr>))"
proof -
  let ?rs = "filter_rows pf rows (without f Key_maintenance)"
  have g: "facet_get (dropdown_facet_counts pf rows f) Facet_maintenance
      = facet_get (facet_counts ?rs) Facet_maintenance"
    by (simp add: dropdown_facet_counts_def facet_get_set del: facet_get.simps facet_set.simps)
  have o: "filter_rows pf rows (f\<lparr>rf_maintenance := Some Only\<rparr>) = filter (\<lambda>r. ms_enabled (sr_maintenance r)) ?rs"
    by (subst filter_rows_without [of pf rows _ Key_maintenance]) (simp, rule filter_cong [OF refl], simp)
  have e: "filter_rows pf rows (f\<lparr>rf_maintenance := Some Exclude\<rparr>) = filter (\<lambda>r. \<not> ms_enabled (sr_maintenance r)) ?rs"
    by (subst filter_rows_without [of pf rows _ Key_maintenance]) (simp, rule filter_cong [OF refl], simp)
  have t: "facet_value Facet_maintenance r = Some (js ''true'') \<longleftrightarrow> ms_enabled (sr_maintenance r)"
    "facet_value Facet_maintenance r = Some (js ''false'') \<longleftrightarrow> \<not> ms_enabled (sr_maintenance r)" for r
    by (simp_all add: bool_text_def)
  have n: "\<not> inherited (js ''true'')" "\<not> inherited (js ''false'')"
    by (simp_all add: inherited_def proto_names_def)
  show ?thesis
    using sum_length_filter_compl [of "\<lambda>r. ms_enabled (sr_maintenance r)" ?rs]
    by (simp only: g facet_counts_get [OF n(1)] facet_counts_get [OF n(2)] t o e) simp
qed

text \<open>
  Paging loses and repeats nothing: whatever the page asked for (also \<open>NaN\<close>, infinite,
  fractional or out of range) the page shown lies between 1 and the page count, and the
  pages 1 to the page count, one after the other, are the rows.
\<close>

lemma paginate_partition:
  assumes "0 < s"
  shows "pgo_page (paginate rows p s) \<in> {1..pgo_count (paginate rows p s)} \<and>
    pgo_items (paginate rows p s) =
      pgo_items (paginate rows (Fin (of_nat (pgo_page (paginate rows p s)))) s) \<and>
    concat (map (\<lambda>i. pgo_items (paginate rows (Fin (of_nat i)) s)) [1..<pgo_count (paginate rows p s) + 1])
      = rows"
proof -
  have c: "pgo_count (paginate rows p s) = page_count (length rows) s"
    by (simp add: paginate_def Let_def page_count_def)
  have "1 \<le> page_count (length rows) s" by (simp add: page_count_def)
  note r = clamp_page_range [OF this, of p]
  have i: "pgo_page (paginate rows p s) = clamp_page p (page_count (length rows) s)"
    "pgo_items (paginate rows p s) =
      take s (drop ((clamp_page p (page_count (length rows) s) - 1) * s) rows)"
    by (simp_all add: paginate_def Let_def page_count_def)
  show ?thesis
    using r paginate_concat [OF assms, of rows] paginate_page [OF conjunct1 [OF r] conjunct2 [OF r]]
    by (simp only: c i) simp
qed

lemma paginate_partition_witness:
  "pgo_page (paginate [1::nat, 2, 3] (Fin (7 / 2)) 2) \<in> {1..pgo_count (paginate [1::nat, 2, 3] (Fin (7 / 2)) 2)}"
  using paginate_partition [of 2 "[1::nat, 2, 3]" "Fin (7 / 2)"] by simp

text \<open>
  C2: the number beside a cluster or an MCE of the sidebar is the number of servers that
  remain when it alone is ticked in its list and every other filter stays as it is.
\<close>

theorem sidebar_count_is_what_ticking_shows:
  assumes "clean_names rows"
  shows "(c \<in> set (cfa_hosted (cluster_facets pf rows f)) \<union> set (cfa_upi (cluster_facets pf rows f)) \<longrightarrow>
      co_count c = Count (length (filter_rows pf rows (with_values f Key_cluster [co_name c])))) \<and>
    (c \<in> set (cfa_mces (cluster_facets pf rows f)) \<longrightarrow>
      co_count c = Count (length (filter_rows pf rows (with_values f Key_mce [co_name c]))))"
  using cluster_count [OF assms] mce_count [OF assms] by blast

text \<open>
  C4: the sidebar lists every cluster of the fleet exactly once, whatever the filters: among
  the hosted clusters when some server of it reports an MCE, among the UPI clusters otherwise;
  and every MCE once.
\<close>

theorem sidebar_lists_every_cluster:
  assumes "clean_names rows"
  shows "(n \<in> co_name ` set (cfa_hosted (cluster_facets pf rows f)) \<longleftrightarrow>
      n \<noteq> [] \<and> (\<exists>r \<in> set rows. sr_cluster_name r = Some n \<and> sr_mce_name r \<noteq> None)) \<and>
    (n \<in> co_name ` set (cfa_upi (cluster_facets pf rows f)) \<longleftrightarrow>
      n \<noteq> [] \<and> (\<exists>r \<in> set rows. sr_cluster_name r = Some n) \<and>
      \<not> (\<exists>r \<in> set rows. sr_cluster_name r = Some n \<and> sr_mce_name r \<noteq> None)) \<and>
    (n \<in> co_name ` set (cfa_mces (cluster_facets pf rows f)) \<longleftrightarrow>
      (\<exists>r \<in> set rows. sr_mce_name r = Some n)) \<and>
    distinct (map co_name (cfa_hosted (cluster_facets pf rows f))) \<and>
    distinct (map co_name (cfa_upi (cluster_facets pf rows f)))"
proof -
  let ?F = "cluster_facets pf rows f"
  have m: "n \<in> co_name ` set (cfa_mces ?F) \<longleftrightarrow> (\<exists>r \<in> set rows. sr_mce_name r = Some n)"
    using assms by (force simp: cluster_facets_parts collect_clusters_eq truthy_def clean_names_def image_iff)
  have d: "distinct (map co_name (cfa_hosted ?F))" "distinct (map co_name (cfa_upi ?F))"
    by (simp_all only: cluster_facets_parts distinct_js_sort_names [OF collect_clusters_spec(1)])
  show ?thesis
    by (intro conjI hosted_or_upi_name [OF assms] m d)
qed

text \<open>
  Each list of the sidebar is sorted by its counts, the largest first, and by the
  collation of the names among equal counts.
\<close>

lemma sidebar_sorted:
  assumes "clean_names rows" "comparator (pl_collate pf)"
    and "cs \<in> {cfa_mces (cluster_facets pf rows f), cfa_hosted (cluster_facets pf rows f),
      cfa_upi (cluster_facets pf rows f)}"
  shows "sorted_wrt (\<lambda>a b. co_number b < co_number a \<or>
    co_number a = co_number b \<and> pl_collate pf (co_name a) (co_name b) \<le> 0) cs"
proof -
  have "\<forall>c \<in> set cs. co_count c \<noteq> Garbled"
    using assms(3) cluster_count [OF assms(1), of _ pf f] mce_count [OF assms(1), of _ pf f] by force
  moreover obtain cs' where "cs = js_sort (by_count pf) cs'"
    using assms(3) by (auto simp: cluster_facets_parts)
  ultimately show ?thesis using by_count_sorted [OF assms(2), of cs'] by simp
qed

definition sidebar_sample :: "server_row list" where
  "sidebar_sample = [(blank_row (js ''a''))\<lparr>sr_cluster_name := Some (js ''c1''), sr_mce_name := Some (js ''hub'')\<rparr>,
     (blank_row (js ''b''))\<lparr>sr_cluster_name := Some (js ''c1'')\<rparr>,
     (blank_row (js ''c''))\<lparr>sr_cluster_name := Some (js ''c2'')\<rparr>]"

lemma sidebar_sample_clean: "clean_names sidebar_sample"
  by (simp add: sidebar_sample_def clean_names_def blank_row_def inherited_def proto_names_def)

lemma sidebar_count_is_what_ticking_shows_witness:
  "\<lparr>co_name = js ''c1'', co_count = Count 2, co_mce = Some (js ''hub'')\<rparr> \<in>
     set (cfa_hosted (cluster_facets ascii_platform sidebar_sample no_filters)) \<and>
   length (filter_rows ascii_platform sidebar_sample (with_values no_filters Key_cluster [js ''c1''])) = 2"
proof -
  have "\<lparr>co_name = js ''c1'', co_count = Count 2, co_mce = Some (js ''hub'')\<rparr> \<in>
     set (cfa_hosted (cluster_facets ascii_platform sidebar_sample no_filters))"
    by (simp add: sidebar_sample_def cluster_facets_def collect_clusters_def truthy_def blank_row_def
      filter_rows_eq no_filters_def all_keys_def parse_search_def tally_names_def tally_or0_def
      tally_get_bump bump_def set_add_def) (simp add: tally_get_def inherited_def proto_names_def)
  then show ?thesis
    using sidebar_count_is_what_ticking_shows [OF sidebar_sample_clean, of
      "\<lparr>co_name = js ''c1'', co_count = Count 2, co_mce = Some (js ''hub'')\<rparr>" ascii_platform no_filters]
    by simp
qed

lemma sidebar_lists_every_cluster_witness:
  "js ''c1'' \<in> co_name ` set (cfa_hosted (cluster_facets ascii_platform sidebar_sample no_filters)) \<and>
   js ''c1'' \<notin> co_name ` set (cfa_upi (cluster_facets ascii_platform sidebar_sample no_filters))"
  using sidebar_lists_every_cluster [OF sidebar_sample_clean, of "js ''c1''" ascii_platform no_filters]
  by (simp add: sidebar_sample_def blank_row_def)

lemma sidebar_sorted_witness:
  "sorted_wrt (\<lambda>a b. co_number b < co_number a \<or>
    co_number a = co_number b \<and> natural_compare (co_name a) (co_name b) \<le> 0)
    (cfa_upi (cluster_facets ascii_platform sidebar_sample no_filters))"
  using sidebar_sorted [OF sidebar_sample_clean, of ascii_platform _ no_filters]
    natural_compare.comparator_axioms
  by (simp add: ascii_platform_def)

end
