(* ===== verification/Inventory_Page.thy ===== *)
theory Inventory_Page
  imports Facets Search_Params Api_Client
begin

text \<open>
  The inventory page (\<^verbatim>\<open>src/features/inventory/InventoryPage.tsx\<close>), whose whole state
  lives in the URL, with its dropdowns (\<^verbatim>\<open>MultiSelect.tsx\<close>) and its sidebar
  (\<^verbatim>\<open>ClusterSidebar.tsx\<close>). The URL is a list of parameters; a handler maps the live
  parameters to the next ones. What is drawn is a record of the texts, numbers and flags a
  component computes; its layout and style are left out.
\<close>

section \<open>Constants\<close>

definition INSTALLATION_TYPES :: "jstr list" where
  "INSTALLATION_TYPES = map js [''HOSTED_CLUSTER'', ''MCE'', ''UPI'', ''UNCLASSIFIED'']"

definition OPENSHIFT_STATES :: "(jstr \<times> jstr) list" where
  "OPENSHIFT_STATES = [(js ''INSTALLED'', js ''Installed''),
     (js ''INSTALLED_TO_INVENTORY'', js ''In inventory''), (js ''AVAILABLE'', js ''Available'')]"

definition HEALTH_SEVERITIES :: "jstr list" where
  "HEALTH_SEVERITIES = map js [''UNKNOWN'', ''HEALTHY'', ''WARNING'', ''MAJOR'', ''CRITICAL'']"

definition MAINTENANCE_OPTION :: jstr where
  "MAINTENANCE_OPTION = js ''MAINTENANCE''"

definition PAGE_SIZE :: nat where
  "PAGE_SIZE = 50"

definition SORTABLE_FIELDS :: "(jstr \<times> sortable_field) list" where
  "SORTABLE_FIELDS = [(js ''name'', By_name), (js ''model'', By_model),
     (js ''openshift_state'', By_openshift_state), (js ''cluster_name'', By_cluster_name),
     (js ''mce_name'', By_mce_name), (js ''health'', By_health)]"

definition DEFAULT_SORT :: sortable_field where
  "DEFAULT_SORT = By_name"

section \<open>Reading the URL\<close>

text \<open>An array that is empty leaves its filter unset.\<close>

definition some_list :: "jstr list \<Rightarrow> jstr list option" where
  "some_list xs = (if xs = [] then None else Some xs)"

definition maintenance_mode :: "params \<Rightarrow> maintenance_filter option" where
  "maintenance_mode p =
     (let m = sp_get p (js ''maintenance'') in
      if m = Some (js ''true'') \<or> m = Some (js ''only'') then Some Only
      else if m = Some (js ''exclude'') then Some Exclude else None)"

definition flag_on :: "params \<Rightarrow> jstr \<Rightarrow> bool" where
  "flag_on p k \<longleftrightarrow> sp_get p k = Some (js ''true'')"

text \<open>\<open>s\<close> is the search text after the debounce.\<close>

definition url_filters :: "params \<Rightarrow> jstr \<Rightarrow> row_filters" where
  "url_filters p s = \<lparr>
     rf_search = (if s = [] then None else Some s),
     rf_vendor = some_list (sp_get_all p (js ''vendor'')),
     rf_site_id = some_list (sp_get_all p (js ''site_id'')),
     rf_source_provider = some_list (sp_get_all p (js ''source_provider'')),
     rf_installation_type = some_list (sp_get_all p (js ''installation_type'')),
     rf_openshift_state = some_list (sp_get_all p (js ''openshift_state'')),
     rf_health = some_list (sp_get_all p (js ''health_overall'')),
     rf_maintenance = maintenance_mode p,
     rf_reserved = False,
     rf_stale = flag_on p (js ''stale''),
     rf_duplicate = flag_on p (js ''duplicate''),
     rf_contested = flag_on p (js ''contested''),
     rf_nameMismatch = flag_on p (js ''name_mismatch''),
     rf_donor = flag_on p (js ''donor''),
     rf_mce = some_list (sp_get_all p (js ''mce'')),
     rf_cluster = some_list (sp_get_all p (js ''cluster''))\<rparr>"

definition search_input :: "params \<Rightarrow> jstr" where
  "search_input p = coalesce (sp_get p (js ''search'')) []"

definition sort_field_of :: "params \<Rightarrow> sortable_field" where
  "sort_field_of p = coalesce (map_of SORTABLE_FIELDS (coalesce (sp_get p (js ''sort'')) [])) DEFAULT_SORT"

definition sort_desc_of :: "params \<Rightarrow> bool" where
  "sort_desc_of p = flag_on p (js ''sort_desc'')"

text \<open>\<open>Number(...)\<close> of the page parameter; \<open>num_of\<close> is JavaScript's text to number conversion.\<close>

definition page_param :: "(jstr \<Rightarrow> jsnum) \<Rightarrow> params \<Rightarrow> jsnum" where
  "page_param num_of p = num_of (coalesce (sp_get p (js ''page'')) (js ''1''))"

definition matched_rows :: "platform \<Rightarrow> server_row list \<Rightarrow> params \<Rightarrow> jstr \<Rightarrow> server_row list" where
  "matched_rows pf items p s =
     sort_rows pf (filter_rows pf items (url_filters p s)) (sort_field_of p) (sort_desc_of p)"

definition shown_page ::
  "platform \<Rightarrow> (jstr \<Rightarrow> jsnum) \<Rightarrow> server_row list \<Rightarrow> params \<Rightarrow> jstr \<Rightarrow> server_row page_of" where
  "shown_page pf num_of items p s = paginate (matched_rows pf items p s) (page_param num_of p) PAGE_SIZE"

section \<open>Writing the URL\<close>

definition update_filters :: "(jstr \<times> patch_value) list \<Rightarrow> params \<Rightarrow> params" where
  "update_filters patch live = sp_delete (apply_patch patch live) (js ''page'')"

definition toggle_multi :: "jstr \<Rightarrow> jstr \<Rightarrow> params \<Rightarrow> params" where
  "toggle_multi key value live =
     (let current = sp_get_all live key;
          next = (if value \<in> set current then filter (\<lambda>v. v \<noteq> value) current else current @ [value]) in
      update_filters [(key, Several next)] live)"

definition toggle_maintenance :: "params \<Rightarrow> params" where
  "toggle_maintenance live =
     (let current = sp_get live (js ''maintenance'');
          only = current = Some (js ''true'') \<or> current = Some (js ''only'') in
      update_filters [(js ''maintenance'', One (if only then None else Some (js ''true'')))] live)"

definition sortable_text :: "sortable_field \<Rightarrow> jstr" where
  "sortable_text f = fst (hd (filter (\<lambda>e. snd e = f) SORTABLE_FIELDS))"

definition handle_sort_change :: "sortable_field \<Rightarrow> bool \<Rightarrow> params \<Rightarrow> params" where
  "handle_sort_change field desc live =
     update_filters [(js ''sort'', One (Some (sortable_text field))),
       (js ''sort_desc'', One (if desc then Some (js ''true'') else None))] live"

definition go_to_page :: "int \<Rightarrow> params \<Rightarrow> params" where
  "go_to_page target live =
     (if target \<le> 1 then sp_delete live (js ''page'')
      else sp_set live (js ''page'') (int_text target))"

definition filter_params :: "jstr list" where
  "filter_params = map js [''search'', ''vendor'', ''site_id'', ''source_provider'',
     ''installation_type'', ''openshift_state'', ''health_overall'', ''maintenance'', ''stale'',
     ''duplicate'', ''contested'', ''name_mismatch'', ''donor'', ''mce'', ''cluster'']"

definition clear_filters :: "params \<Rightarrow> params" where
  "clear_filters live = update_filters (map (\<lambda>k. (k, One None)) filter_params) live"

section \<open>The active filters\<close>

record chip =
  chip_key :: jstr
  chip_label :: jstr
  chip_value :: "jstr option"

definition label_of :: "(jstr \<times> jstr) list \<Rightarrow> jstr \<Rightarrow> jstr" where
  "label_of options v = coalesce (map_of options v) v"

definition value_chip :: "string \<Rightarrow> jstr \<Rightarrow> jstr \<Rightarrow> chip" where
  "value_chip key label v = \<lparr>chip_key = js key, chip_label = label, chip_value = Some v\<rparr>"

definition flag_chip :: "bool \<Rightarrow> string \<Rightarrow> jstr \<Rightarrow> chip list" where
  "flag_chip b key label = (if b then [\<lparr>chip_key = js key, chip_label = label, chip_value = None\<rparr>] else [])"

definition active_filters :: "(jstr \<times> jstr) list \<Rightarrow> params \<Rightarrow> jstr \<Rightarrow> chip list" where
  "active_filters sites p s =
     flag_chip (s \<noteq> []) ''search'' (js ''Search '' @ [34] @ s @ [34])
   @ map (\<lambda>v. value_chip ''vendor'' (js ''Vendor '' @ v) v) (sp_get_all p (js ''vendor''))
   @ map (\<lambda>v. value_chip ''site_id'' (js ''Site '' @ label_of sites v) v) (sp_get_all p (js ''site_id''))
   @ map (\<lambda>v. value_chip ''source_provider'' (js ''Source '' @ label_of SOURCE_PROVIDERS v) v)
       (sp_get_all p (js ''source_provider''))
   @ map (\<lambda>v. value_chip ''installation_type'' (js ''Classification '' @ v) v)
       (sp_get_all p (js ''installation_type''))
   @ map (\<lambda>v. value_chip ''openshift_state'' (js ''Installation '' @ label_of OPENSHIFT_STATES v) v)
       (sp_get_all p (js ''openshift_state''))
   @ map (\<lambda>v. value_chip ''health_overall'' (js ''Health '' @ v) v) (sp_get_all p (js ''health_overall''))
   @ flag_chip (maintenance_mode p \<noteq> None) ''maintenance''
       (if maintenance_mode p = Some Only then js ''Maintenance only'' else js ''Maintenance hidden'')
   @ map (\<lambda>v. value_chip ''mce'' (js ''MCE '' @ v) v) (sp_get_all p (js ''mce''))
   @ map (\<lambda>v. value_chip ''cluster'' (js ''Cluster '' @ v) v) (sp_get_all p (js ''cluster''))
   @ flag_chip (flag_on p (js ''stale'')) ''stale'' (js ''Stale'')
   @ flag_chip (flag_on p (js ''duplicate'')) ''duplicate'' (js ''Duplicate Name'')
   @ flag_chip (flag_on p (js ''contested'')) ''contested'' (js ''Duplicate Server'')
   @ flag_chip (flag_on p (js ''name_mismatch'')) ''name_mismatch'' (js ''Name mismatch'')
   @ flag_chip (flag_on p (js ''donor'')) ''donor'' (js ''Donor'')"

definition click_chip :: "chip \<Rightarrow> params \<Rightarrow> params" where
  "click_chip c live = (case chip_value c of
     None \<Rightarrow> update_filters [(chip_key c, One None)] live
   | Some v \<Rightarrow> toggle_multi (chip_key c) v live)"

section \<open>Laws of the URL handlers\<close>

lemma get_all_update:
  "distinct (map fst patch) \<Longrightarrow> sp_get_all (update_filters patch p) k =
     (if k = js ''page'' then [] else
      case map_of patch k of Some v \<Rightarrow> patch_texts v | None \<Rightarrow> sp_get_all p k)"
  by (simp add: update_filters_def sp.get_del get_all_patch)

lemma get_all_update_one:
  "sp_get_all (update_filters [(key, v)] p) k =
     (if k = js ''page'' then [] else if k = key then patch_texts v else sp_get_all p k)"
  by (simp add: get_all_update)

lemma get_all_toggle:
  "sp_get_all (toggle_multi key v p) k =
     (if k = js ''page'' then []
      else if k = key then filter (\<lambda>x. x \<noteq> [])
        (if v \<in> set (sp_get_all p key) then filter (\<lambda>x. x \<noteq> v) (sp_get_all p key)
         else sp_get_all p key @ [v])
      else sp_get_all p k)"
  by (simp add: toggle_multi_def Let_def get_all_update_one)

lemma map_of_const: "map_of (map (\<lambda>k. (k, c)) ks) k = (if k \<in> set ks then Some c else None)"
  by (induction ks) auto

lemma get_all_clear:
  "sp_get_all (clear_filters p) k =
     (if k = js ''page'' \<or> k \<in> set filter_params then [] else sp_get_all p k)"
proof -
  have "distinct (map fst (map (\<lambda>k. (k, One None)) filter_params))"
    by (simp add: filter_params_def comp_def)
  then show ?thesis
    unfolding clear_filters_def by (simp add: get_all_update map_of_const)
qed

lemma sp_get_cong: "sp_get_all p k = sp_get_all q k \<Longrightarrow> sp_get p k = sp_get q k"
  by (simp add: sp_get_hd)

lemma sp_get_empty: "sp_get_all p k = [] \<Longrightarrow> sp_get p k = None"
  by (simp add: sp_get_hd)

text \<open>The page reads the URL only through \<open>get\<close> and \<open>getAll\<close> on its own parameters.\<close>

lemma url_filters_none:
  "\<forall>k \<in> set filter_params. sp_get_all p k = [] \<Longrightarrow> url_filters p [] = no_filters"
  by (simp add: url_filters_def no_filters_def filter_params_def some_list_def maintenance_mode_def
      flag_on_def sp_get_hd)

definition same_chip :: "chip \<Rightarrow> chip \<Rightarrow> bool" where
  "same_chip c d \<longleftrightarrow> chip_key c = chip_key d \<and> chip_value c = chip_value d"

lemma filter_flag_chip:
  "filter (\<lambda>d. \<not> same_chip c d) (flag_chip b k l) =
     (if chip_key c = js k \<and> chip_value c = None then [] else flag_chip b k l)"
  by (auto simp: flag_chip_def same_chip_def)

lemma filter_value_chips:
  "filter (\<lambda>d. \<not> same_chip c d) (map (\<lambda>w. value_chip k (f w) w) xs) =
     map (\<lambda>w. value_chip k (f w) w)
       (if chip_key c = js k then filter (\<lambda>w. chip_value c \<noteq> Some w) xs else xs)"
  by (induction xs) (auto simp: value_chip_def same_chip_def)

lemmas chip_filters = filter_flag_chip filter_value_chips

text \<open>The sections of the chip list, one per parameter.\<close>

lemma chip_cases:
  assumes "c \<in> set (active_filters sites p s)"
  obtains (Flag) k where "chip_key c = js k" "chip_value c = None"
      "k \<in> {''search'', ''maintenance'', ''stale'', ''duplicate'', ''contested'', ''name_mismatch'', ''donor''}"
  | (Value) k v where "chip_key c = js k" "chip_value c = Some v" "v \<in> set (sp_get_all p (js k))"
      "k \<in> {''vendor'', ''site_id'', ''source_provider'', ''installation_type'', ''openshift_state'',
        ''health_overall'', ''mce'', ''cluster''}"
  using assms
  by (force simp: active_filters_def flag_chip_def value_chip_def split: if_splits)

lemma flag_click:
  assumes "chip_key c = js k" "chip_value c = None" "k \<noteq> ''page''"
  shows "sp_get_all (click_chip c p) (js k') =
    (if k' = ''page'' \<or> k' = k then [] else sp_get_all p (js k'))"
  using assms by (simp add: click_chip_def get_all_update_one)

lemma value_click:
  assumes "chip_key c = js k" "chip_value c = Some v" "v \<in> set (sp_get_all p (js k))"
    and "[] \<notin> set (sp_get_all p (js k))" "k \<noteq> ''page''"
  shows "sp_get_all (click_chip c p) (js k') =
    (if k' = ''page'' then [] else if k' = k then filter (\<lambda>w. v \<noteq> w) (sp_get_all p (js k))
     else sp_get_all p (js k'))"
proof -
  have "filter (\<lambda>x. x \<noteq> []) (filter (\<lambda>x. x \<noteq> v) (sp_get_all p (js k))) = filter (\<lambda>w. v \<noteq> w) (sp_get_all p (js k))"
    using assms(4) by (induction "sp_get_all p (js k)" arbitrary: p) (auto intro!: filter_cong)
  with assms show ?thesis by (simp add: click_chip_def get_all_toggle)
qed

text \<open>How the pieces of the page react to a change of one parameter.\<close>

lemma read_cong:
  "sp_get_all q (js k) = sp_get_all p (js k) \<Longrightarrow> sp_get q (js k) = sp_get p (js k)"
  by (rule sp_get_cong)

lemma chips_after_flag:
  assumes "chip_key c = js k" "chip_value c = None"
    and k: "k \<in> {''search'', ''maintenance'', ''stale'', ''duplicate'', ''contested'', ''name_mismatch'', ''donor''}"
  shows "active_filters sites (click_chip c p) (search_input (click_chip c p)) =
    filter (\<lambda>d. \<not> same_chip c d) (active_filters sites p (search_input p))"
proof -
  have np: "k \<noteq> ''page''" using k by auto
  note g = flag_click [OF assms(1,2) np]
  have h: "sp_get (click_chip c p) (js k') = (if k' = ''page'' \<or> k' = k then None else sp_get p (js k'))" for k'
    by (simp add: sp_get_hd g)
  show ?thesis
    using k assms(1,2)
    by (elim insertE emptyE; simp only: active_filters_def filter_append chip_filters g h
      maintenance_mode_def flag_on_def search_input_def; simp add: flag_chip_def)
qed

lemma chips_after_value:
  assumes "chip_key c = js k" "chip_value c = Some v" "v \<in> set (sp_get_all p (js k))"
    and "[] \<notin> set (sp_get_all p (js k))"
    and k: "k \<in> {''vendor'', ''site_id'', ''source_provider'', ''installation_type'', ''openshift_state'',
        ''health_overall'', ''mce'', ''cluster''}"
  shows "active_filters sites (click_chip c p) (search_input (click_chip c p)) =
    filter (\<lambda>d. \<not> same_chip c d) (active_filters sites p (search_input p))"
proof -
  have np: "k \<noteq> ''page''" using k by auto
  note g = value_click [OF assms(1-4) np]
  have h: "sp_get (click_chip c p) (js k') = sp_get p (js k')" if "k' \<noteq> ''page''" "k' \<noteq> k" for k'
    using that by (simp add: sp_get_hd g)
  show ?thesis
    using k assms(1,2)
    by (elim insertE emptyE; simp add: active_filters_def chip_filters g h
      maintenance_mode_def flag_on_def search_input_def)
qed

section \<open>Dropdowns\<close>

record ms_option =
  mo_value :: jstr
  mo_label :: jstr
  mo_count :: "cell option"

text \<open>\<open>facets?.dim[v] ?? (facets ? 0 : undefined)\<close>.\<close>

definition option_count :: "facet_counts option \<Rightarrow> (facet_counts \<Rightarrow> tally) \<Rightarrow> jstr \<Rightarrow> cell option" where
  "option_count facets tab v = map_option (\<lambda>f. tally_or0 (tab f) v) facets"

definition plain_options :: "facet_counts option \<Rightarrow> (facet_counts \<Rightarrow> tally) \<Rightarrow> jstr list \<Rightarrow> ms_option list" where
  "plain_options facets tab vs =
     map (\<lambda>v. \<lparr>mo_value = v, mo_label = v, mo_count = option_count facets tab v\<rparr>) vs"

definition labelled_options ::
  "facet_counts option \<Rightarrow> (facet_counts \<Rightarrow> tally) \<Rightarrow> (jstr \<times> jstr) list \<Rightarrow> ms_option list" where
  "labelled_options facets tab vs =
     map (\<lambda>(v, l). \<lparr>mo_value = v, mo_label = l, mo_count = option_count facets tab v\<rparr>) vs"

definition health_options :: "facet_counts option \<Rightarrow> ms_option list" where
  "health_options facets = plain_options facets fc_health HEALTH_SEVERITIES @
     [\<lparr>mo_value = MAINTENANCE_OPTION, mo_label = js ''Maintenance'',
       mo_count = map_option (\<lambda>f. tally_or0 (fc_maintenance f) (js ''true'')) facets\<rparr>]"

definition health_selected :: "params \<Rightarrow> jstr list" where
  "health_selected p =
     (if maintenance_mode p = Some Only then sp_get_all p (js ''health_overall'') @ [MAINTENANCE_OPTION]
      else sp_get_all p (js ''health_overall''))"

definition health_toggle :: "jstr \<Rightarrow> params \<Rightarrow> params" where
  "health_toggle value p =
     (if value = MAINTENANCE_OPTION then toggle_maintenance p
      else toggle_multi (js ''health_overall'') value p)"

definition health_clear :: "params \<Rightarrow> params" where
  "health_clear p = update_filters [(js ''health_overall'', One None), (js ''maintenance'', One None)] p"

definition all_label :: "facet_counts option \<Rightarrow> jstr \<Rightarrow> jstr" where
  "all_label facets word = (case facets of
     Some f \<Rightarrow> word @ js '' ('' @ nat_text (fc_total f) @ js '')'' | None \<Rightarrow> word)"

text \<open>The button's text (\<open>summary\<close> of \<^verbatim>\<open>MultiSelect.tsx\<close>).\<close>

definition ms_summary :: "ms_option list \<Rightarrow> jstr list \<Rightarrow> jstr \<Rightarrow> jstr" where
  "ms_summary options selected allLabel =
     (if length selected = 0 then allLabel
      else let labels = map (\<lambda>value. coalesce (map_option mo_label (find (\<lambda>m. mo_value m = value) options)) value)
             selected in
        if length labels \<le> 2 then join (js '', '') labels
        else nat_text (length labels) @ js '' selected'')"

datatype ms_event = Click_button | Mousedown bool | Keydown jstr | Toggle_option jstr | Click_clear

text \<open>
  The dropdown's own state is whether it is open; a press of the mouse closes it when it lands
  outside (\<open>Mousedown inside\<close>), a key when it is Escape.
\<close>

definition ms_step :: "ms_event \<Rightarrow> bool \<Rightarrow> bool" where
  "ms_step e is_open = (case e of
     Click_button \<Rightarrow> \<not> is_open
   | Mousedown inside \<Rightarrow> is_open \<and> inside
   | Keydown key \<Rightarrow> (if key = js ''Escape'' \<and> is_open then False else is_open)
   | Toggle_option v \<Rightarrow> is_open
   | Click_clear \<Rightarrow> is_open)"

record ms_view =
  mv_button :: jstr
  mv_expanded :: bool
  mv_clear :: bool
  mv_options :: "(ms_option \<times> bool) list"

definition ms_render :: "ms_option list \<Rightarrow> jstr list \<Rightarrow> jstr \<Rightarrow> bool \<Rightarrow> ms_view" where
  "ms_render options selected allLabel is_open =
     \<lparr>mv_button = ms_summary options selected allLabel,
      mv_expanded = is_open,
      mv_clear = (is_open \<and> length selected > 0),
      mv_options = (if is_open then map (\<lambda>m. (m, mo_value m \<in> set selected)) options else [])\<rparr>"

section \<open>The sidebar\<close>

record sidebar_state =
  sb_query :: jstr
  sb_open :: bool

definition sidebar_init :: sidebar_state where
  "sidebar_init = \<lparr>sb_query = [], sb_open = True\<rparr>"

record sidebar_section =
  ss_title :: jstr
  ss_key :: jstr
  ss_options :: "(cluster_option \<times> bool \<times> jstr) list"

datatype sidebar_view =
  Nothing_shown
| Collapsed jstr
| Expanded bool "sidebar_section list"

definition narrow :: "platform \<Rightarrow> jstr \<Rightarrow> cluster_option list \<Rightarrow> cluster_option list" where
  "narrow pf query options =
     (let q = pl_lower pf (trim query) in
      if q \<noteq> [] then filter (\<lambda>c. contains (pl_lower pf (co_name c)) q) options else options)"

text \<open>A section shows each option with its tick and its hover title; an empty one is hidden.\<close>

definition sidebar_section :: "jstr \<Rightarrow> jstr \<Rightarrow> cluster_option list \<Rightarrow> jstr list \<Rightarrow> sidebar_section list" where
  "sidebar_section title key options selected =
     (if length options = 0 then []
      else [\<lparr>ss_title = title, ss_key = key, ss_options = map (\<lambda>c. (c, co_name c \<in> set selected,
        if truthy (co_mce c) then co_name c @ [32, 183, 32] @ the (co_mce c) else co_name c)) options\<rparr>])"

definition sidebar_total :: "cluster_facets \<Rightarrow> nat" where
  "sidebar_total f = length (cfa_mces f) + length (cfa_hosted f) + length (cfa_upi f)"

definition sidebar_render ::
  "platform \<Rightarrow> sidebar_state \<Rightarrow> cluster_facets \<Rightarrow> jstr list \<Rightarrow> jstr list \<Rightarrow> sidebar_view" where
  "sidebar_render pf st f mce cluster =
     (if sidebar_total f = 0 then Nothing_shown
      else if \<not> sb_open st then
        (let ticked = length mce + length cluster in
         Collapsed (js ''Clusters'' @ (if ticked > 0 then js '' ('' @ nat_text ticked @ js '')'' else []) @ [32, 8250]))
      else Expanded (sidebar_total f > 8)
        (sidebar_section (js ''MCE'') (js ''mce'') (narrow pf (sb_query st) (cfa_mces f)) mce @
         sidebar_section (js ''Hosted clusters'') (js ''cluster'') (narrow pf (sb_query st) (cfa_hosted f)) cluster @
         sidebar_section (js ''UPI clusters'') (js ''cluster'') (narrow pf (sb_query st) (cfa_upi f)) cluster))"

text \<open>The search box is the only way to change the query, and it is drawn for more than 8 entries.\<close>

inductive sidebar_reach :: "sidebar_state \<Rightarrow> cluster_facets \<Rightarrow> bool" where
  start: "sidebar_reach sidebar_init f"
| type: "sidebar_reach st f \<Longrightarrow> sb_open st \<Longrightarrow> sidebar_total f > 8 \<Longrightarrow> sidebar_reach (st\<lparr>sb_query := q\<rparr>) f"
| hide: "sidebar_reach st f \<Longrightarrow> sb_open st \<Longrightarrow> sidebar_total f > 0 \<Longrightarrow> sidebar_reach (st\<lparr>sb_open := False\<rparr>) f"
| unhide: "sidebar_reach st f \<Longrightarrow> \<not> sb_open st \<Longrightarrow> sidebar_total f > 0 \<Longrightarrow> sidebar_reach (st\<lparr>sb_open := True\<rparr>) f"
| poll: "sidebar_reach st f \<Longrightarrow> sidebar_reach st f'"

section \<open>The whole page\<close>

text \<open>\<open>(n)\<close> after a ticked toggle once the fleet has loaded.\<close>

definition toggle_label :: "jstr \<Rightarrow> bool \<Rightarrow> facet_counts option \<Rightarrow> jstr" where
  "toggle_label l on facets = l @ (case facets of
     Some f \<Rightarrow> if on then js '' ('' @ nat_text (fc_total f) @ js '')'' else [] | None \<Rightarrow> [])"

record pager =
  pgr_label :: jstr
  pgr_prev_disabled :: bool
  pgr_next_disabled :: bool

text \<open>The heading's subtitle, the six dropdowns and the five toggles.\<close>

definition inventory_subtitle :: "facet_counts option \<Rightarrow> jstr" where
  "inventory_subtitle facets = (case facets of
     Some f \<Rightarrow> nat_text (fc_total f) @ js '' server'' @ (if fc_total f = 1 then [] else js ''s'')
   | None \<Rightarrow> js ''Browse and filter discovered servers.'')"

definition inventory_dropdowns ::
  "facet_counts option \<Rightarrow> (jstr \<times> jstr) list \<Rightarrow> params \<Rightarrow> (jstr \<times> ms_option list \<times> jstr list \<times> jstr) list" where
  "inventory_dropdowns facets sites p =
     [(js ''Vendor'', plain_options facets fc_vendor (map vendor_text VENDORS),
         sp_get_all p (js ''vendor''), all_label facets (js ''All'')),
      (js ''Source'', labelled_options facets fc_source_provider SOURCE_PROVIDERS,
         sp_get_all p (js ''source_provider''), all_label facets (js ''All'')),
      (js ''Site'', labelled_options facets fc_site_id sites,
         sp_get_all p (js ''site_id''), all_label facets (js ''All sites'')),
      (js ''Classification'', plain_options facets fc_installation_type INSTALLATION_TYPES,
         sp_get_all p (js ''installation_type''), all_label facets (js ''All'')),
      (js ''Installation'', labelled_options facets fc_openshift_state OPENSHIFT_STATES,
         sp_get_all p (js ''openshift_state''), all_label facets (js ''All'')),
      (js ''Health'', health_options facets, health_selected p, all_label facets (js ''All''))]"

definition inventory_toggles :: "facet_counts option \<Rightarrow> params \<Rightarrow> (jstr \<times> bool) list" where
  "inventory_toggles facets p =
     map (\<lambda>(k, l). (toggle_label (js l) (flag_on p (js k)) facets, flag_on p (js k)))
       [(''stale'', ''Stale''), (''duplicate'', ''Duplicate Name''), (''contested'', ''Duplicate Server''),
        (''name_mismatch'', ''Name mismatch''), (''donor'', ''Donor'')]"

text \<open>A click on a toggle.\<close>

definition set_toggle :: "jstr \<Rightarrow> bool \<Rightarrow> params \<Rightarrow> params" where
  "set_toggle key checked live = update_filters [(key, One (if checked then Some (js ''true'') else None))] live"

text \<open>Under the filters: the loading text, the error, or the table with its pager.\<close>

datatype results_view =
  Loading
| Error_shown jstr
| Table "server_row list" "jstr option" pager

definition empty_message :: "chip list \<Rightarrow> jstr" where
  "empty_message chips =
     (if length chips > 0 then js ''No servers match: '' @ join (js '', '') (map chip_label chips) @ js ''.''
      else js ''No servers match the current filters.'')"

definition results_render :: "chip list \<Rightarrow> server_row page_of \<Rightarrow> 'a query \<Rightarrow> results_view" where
  "results_render chips shown rows = (case rows of
     Pending \<Rightarrow> Loading
   | Failed e _ \<Rightarrow> Error_shown (error_text e (js ''Failed to load servers.''))
   | Loaded _ \<Rightarrow> Table (pgo_items shown)
       (if length (pgo_items shown) = 0 then Some (empty_message chips) else None)
       \<lparr>pgr_label = js ''Page '' @ nat_text (pgo_page shown) @ js '' of '' @ nat_text (pgo_count shown),
        pgr_prev_disabled = (pgo_page shown \<le> 1),
        pgr_next_disabled = (pgo_page shown \<ge> pgo_count shown)\<rparr>)"

record inventory_view =
  iv_subtitle :: jstr
  iv_updated :: "jstr option"
  iv_search :: jstr
  iv_search_error :: "jstr option"
  iv_dropdowns :: "(jstr \<times> ms_option list \<times> jstr list \<times> jstr) list"
  iv_toggles :: "(jstr \<times> bool) list"
  iv_export_disabled :: bool
  iv_chips :: "chip list"
  iv_sidebar :: "cluster_facets option"
  iv_results :: results_view

text \<open>The search box shows the text of the URL, the rows and the chips follow the debounced one.\<close>

definition search_error :: "platform \<Rightarrow> params \<Rightarrow> jstr option" where
  "search_error pf p = match_error (parse_search pf (search_input p))"

text \<open>\<open>fmt\<close> is \<open>formatTimestamp\<close>, the browser's local form of an instant.\<close>

definition inventory_render ::
  "platform \<Rightarrow> (jstr \<Rightarrow> jsnum) \<Rightarrow> (jstr \<Rightarrow> jstr) \<Rightarrow> site_stats list option \<Rightarrow> server_rows_response query
    \<Rightarrow> params \<Rightarrow> jstr \<Rightarrow> inventory_view" where
  "inventory_render pf num_of fmt site_items rows p s =
     (let sites = site_options site_items;
          items = coalesce (map_option srr_items (query_data rows)) [];
          filters = url_filters p s;
          facets = map_option (\<lambda>d. dropdown_facet_counts pf (srr_items d) filters) (query_data rows);
          chips = active_filters sites p s in
      \<lparr>iv_subtitle = inventory_subtitle facets,
       iv_updated = map_option (\<lambda>d. js ''Updated '' @ fmt (srr_generated_at d)) (query_data rows),
       iv_search = search_input p,
       iv_search_error = search_error pf p,
       iv_dropdowns = inventory_dropdowns facets sites p,
       iv_toggles = inventory_toggles facets p,
       iv_export_disabled = (length (matched_rows pf items p s) = 0),
       iv_chips = chips,
       iv_sidebar = map_option (\<lambda>d. cluster_facets pf (srr_items d) filters) (query_data rows),
       iv_results = results_render chips (shown_page pf num_of items p s) rows\<rparr>)"

text \<open>The decimal texts among what \<open>Number\<close> reads, as an instance of \<open>num_of\<close>.\<close>

definition decimal_number :: "jstr \<Rightarrow> jsnum" where
  "decimal_number s = (if s \<noteq> [] \<and> list_all is_digit s
     then Fin (of_nat (foldl (\<lambda>n u. 10 * n + (u - 48)) 0 s)) else NaN)"

lemma foldl_nat_text: "foldl (\<lambda>n u. 10 * n + (u - 48)) 0 (nat_text n) = n"
proof (induction n rule: nat_text.induct)
  case (1 n)
  then show ?case by (subst nat_text.simps) (cases "n < 10"; simp)
qed

lemma decimal_number_nat_text: "decimal_number (nat_text n) = Fin (of_nat n)"
  using nat_text_all_digits [of n] foldl_nat_text [of n]
  by (simp add: decimal_number_def list_all_iff)

lemma matched_rows_cong:
  assumes "\<And>k. k \<noteq> js ''page'' \<Longrightarrow> sp_get_all q k = sp_get_all p k"
  shows "matched_rows pf items q s = matched_rows pf items p s"
proof -
  have a: "sp_get_all q (js k) = sp_get_all p (js k)" if "k \<noteq> ''page''" for k
    using that assms [of "js k"] by simp
  have g: "sp_get q (js k) = sp_get p (js k)" if "k \<noteq> ''page''" for k
    using that by (simp add: sp_get_hd a)
  show ?thesis
    by (simp add: matched_rows_def url_filters_def sort_field_of_def sort_desc_of_def maintenance_mode_def
      flag_on_def a g)
qed

lemma get_all_go_to_page:
  "k \<noteq> js ''page'' \<Longrightarrow> sp_get_all (go_to_page n p) k = sp_get_all p k"
  by (simp add: go_to_page_def sp.get_del sp_get_all_set)

lemma get_go_to_page:
  "sp_get (go_to_page n p) (js ''page'') = (if n \<le> 1 then None else Some (int_text n))"
  by (simp add: sp_get_hd go_to_page_def sp.get_del sp_get_all_set)

section \<open>Properties\<close>

text \<open>
  Ticking a value of a repeated parameter flips exactly that value: it is selected after iff
  it was not before, every other non-empty value keeps its state, every other parameter keeps
  its values, and the page goes back to the first.
\<close>

lemma toggle_multi_flips_one:
  assumes "key \<noteq> js ''page''" "value \<noteq> []"
  shows "(value \<in> set (sp_get_all (toggle_multi key value p) key) \<longleftrightarrow> value \<notin> set (sp_get_all p key)) \<and>
    (\<forall>v. v \<noteq> value \<longrightarrow> v \<noteq> [] \<longrightarrow>
       (v \<in> set (sp_get_all (toggle_multi key value p) key) \<longleftrightarrow> v \<in> set (sp_get_all p key))) \<and>
    (\<forall>k. k \<noteq> key \<longrightarrow> k \<noteq> js ''page'' \<longrightarrow> sp_get_all (toggle_multi key value p) k = sp_get_all p k) \<and>
    sp_get (toggle_multi key value p) (js ''page'') = None"
  using assms by (auto simp: get_all_toggle sp_get_hd)

lemma toggle_multi_flips_one_witness:
  "js ''hp'' \<in> set (sp_get_all (toggle_multi (js ''vendor'') (js ''hp'') [(js ''vendor'', js ''dell'')]) (js ''vendor''))"
  using toggle_multi_flips_one [of "js ''vendor''" "js ''hp''" "[(js ''vendor'', js ''dell'')]"]
  by (simp add: sp_get_all_def)

text \<open>
  C17: a click on one of the chips under the filters removes that chip and nothing else: the
  chips of the new URL, once the search has settled, are the others in their order.
\<close>

theorem click_chip_removes_it:
  assumes "c \<in> set (active_filters sites p (search_input p))"
    and "\<forall>k. [] \<notin> set (sp_get_all p k)"
  shows "active_filters sites (click_chip c p) (search_input (click_chip c p)) =
    filter (\<lambda>d. \<not> (chip_key c = chip_key d \<and> chip_value c = chip_value d))
      (active_filters sites p (search_input p))"
  using assms(1)
proof (cases rule: chip_cases)
  case Flag
  then show ?thesis using chips_after_flag [of c _ sites p] by (simp add: same_chip_def)
next
  case (Value k v)
  then show ?thesis using chips_after_value [of c k v p sites] assms(2) by (simp add: same_chip_def)
qed

lemma click_chip_removes_it_witness:
  "active_filters [] (click_chip \<lparr>chip_key = js ''stale'', chip_label = js ''Stale'', chip_value = None\<rparr>
      [(js ''stale'', js ''true''), (js ''mce'', js ''hub'')]) [] =
    [\<lparr>chip_key = js ''mce'', chip_label = js ''MCE hub'', chip_value = Some (js ''hub'')\<rparr>]"
  using click_chip_removes_it [of "\<lparr>chip_key = js ''stale'', chip_label = js ''Stale'', chip_value = None\<rparr>"
      "[]" "[(js ''stale'', js ''true''), (js ''mce'', js ''hub'')]"]
  by (simp add: active_filters_def flag_chip_def value_chip_def sp_get_all_Cons sp_get_def search_input_def
    maintenance_mode_def flag_on_def js_def click_chip_def update_filters_def apply_patch_def sp_delete_def
    patch_texts_def)

text \<open>
  \<open>Clear filters\<close> leaves no filter at all, so the whole fleet matches, and keeps the sort
  and every parameter that is not a filter, the page apart.
\<close>

lemma clear_filters_clears:
  "url_filters (clear_filters p) (search_input (clear_filters p)) = no_filters \<and>
   active_filters sites (clear_filters p) (search_input (clear_filters p)) = [] \<and>
   filter_rows pf rows (url_filters (clear_filters p) (search_input (clear_filters p))) = rows \<and>
   sort_field_of (clear_filters p) = sort_field_of p \<and> sort_desc_of (clear_filters p) = sort_desc_of p"
proof -
  have g: "sp_get_all (clear_filters p) (js k) = []" if "js k \<in> set filter_params" for k
    using that by (simp add: get_all_clear)
  have s: "search_input (clear_filters p) = []"
    by (simp add: search_input_def sp_get_hd g filter_params_def)
  have e: "url_filters (clear_filters p) [] = no_filters"
    by (rule url_filters_none) (simp add: get_all_clear)
  have c: "active_filters sites (clear_filters p) [] = []"
    by (simp add: active_filters_def g filter_params_def flag_chip_def flag_on_def maintenance_mode_def sp_get_hd)
  have "filter_rows pf rows no_filters = rows" by (simp add: filter_rows_eq list_all_iff)
  moreover have "sort_field_of (clear_filters p) = sort_field_of p" "sort_desc_of (clear_filters p) = sort_desc_of p"
    by (simp_all add: sort_field_of_def sort_desc_of_def flag_on_def sp_get_hd get_all_clear filter_params_def)
  ultimately show ?thesis by (simp add: s e c)
qed

text \<open>
  Next and Previous move by exactly one page: while the button is enabled, the page the new
  URL shows is the neighbour of the page shown before, over the same matching rows.
\<close>

lemma pager_moves_by_one:
  assumes "\<And>n. num_of (nat_text n) = Fin (of_nat n)"
    and "shown = shown_page pf num_of items p s"
  shows "(pgo_page shown < pgo_count shown \<longrightarrow>
      pgo_page (shown_page pf num_of items (go_to_page (int (pgo_page shown) + 1) p) s) = pgo_page shown + 1) \<and>
    (1 < pgo_page shown \<longrightarrow>
      pgo_page (shown_page pf num_of items (go_to_page (int (pgo_page shown) - 1) p) s) = pgo_page shown - 1)"
proof -
  have one: "num_of (js ''1'') = Fin 1" using assms(1) [of 1] by (simp add: nat_text.simps js_def)
  have m: "matched_rows pf items (go_to_page n p) s = matched_rows pf items p s" for n
    by (rule matched_rows_cong) (rule get_all_go_to_page)
  have pg: "page_param num_of (go_to_page n p) = Fin (of_nat (nat (max 1 n)))" for n
    using one by (simp add: page_param_def get_go_to_page int_text_def assms(1))
  let ?c = "pgo_count shown"
  have c: "pgo_page (shown_page pf num_of items (go_to_page n p) s) = clamp_page (Fin (of_nat (nat (max 1 n)))) ?c" for n
    by (simp add: assms(2) shown_page_def paginate_def Let_def m pg)
  have r: "1 \<le> pgo_page shown \<and> pgo_page shown \<le> ?c"
    using clamp_page_range [of ?c "page_param num_of p"]
    by (simp add: assms(2) shown_page_def paginate_def Let_def)
  show ?thesis
    using r by (auto simp only: c intro!: trans [OF clamp_page_in])
qed

lemma pager_moves_by_one_witness:
  "pgo_page (shown_page ascii_platform decimal_number (map (\<lambda>n. blank_row (nat_text n)) [0..<60])
     (go_to_page 2 []) []) = 2"
proof -
  let ?i = "map (\<lambda>n. blank_row (nat_text n)) [0..<60]"
  have "length (matched_rows ascii_platform ?i [] []) = 60"
    by (simp add: matched_rows_def sort_rows_def url_filters_none filter_rows_eq list_all_iff del: upt.simps)
  then have "pgo_page (shown_page ascii_platform decimal_number ?i [] []) = 1 \<and>
      pgo_count (shown_page ascii_platform decimal_number ?i [] []) = 2"
    by (simp add: shown_page_def paginate_def Let_def PAGE_SIZE_def page_param_def sp_get_def
      decimal_number_def js_def is_digit_def clamp_page_def trunc_rat_def del: upt.simps)
  then show ?thesis
    using pager_moves_by_one [of decimal_number "shown_page ascii_platform decimal_number ?i [] []"
      ascii_platform ?i "[]" "[]"] decimal_number_nat_text
    by (simp del: upt.simps)
qed

text \<open>
  The Health dropdown's Maintenance entry is ticked after a click iff it was not before, and
  the click leaves the ticked severities alone; a URL that hides maintenance counts as not
  ticked.
\<close>

lemma health_maintenance_toggles:
  "(maintenance_mode (health_toggle MAINTENANCE_OPTION p) = Some Only \<longleftrightarrow> maintenance_mode p \<noteq> Some Only) \<and>
   sp_get_all (health_toggle MAINTENANCE_OPTION p) (js ''health_overall'') = sp_get_all p (js ''health_overall'')"
  by (simp add: health_toggle_def toggle_maintenance_def Let_def maintenance_mode_def sp_get_hd
    get_all_update_one)


end
