(* ===== verification/Sites.thy ===== *)
theory Sites
  imports Inventory_Page Badges
begin

text \<open>
  The landing page (\<^verbatim>\<open>src/features/sites/SitesOverviewPage.tsx\<close>): its cards, the counts on them
  and the links that open the inventory filtered. \<open>loc\<close> is \<open>toLocaleString\<close> of a number, \<open>percent\<close> the
  floating-point value of \<open>(count / total) * 100\<close>. 8230 is the ellipsis.
\<close>

section \<open>Cards\<close>

record card_spec =
  cd_key :: jstr
  cd_name :: jstr
  cd_subtitle :: jstr
  cd_to :: jstr
  cd_stats :: breakdown
  cd_by_openshift_state :: "(openshift_state \<Rightarrow> breakdown) option"

definition fleet_card :: "string \<Rightarrow> string \<Rightarrow> string \<Rightarrow> string \<Rightarrow> breakdown \<Rightarrow> card_spec" where
  "fleet_card key name subtitle to stats = \<lparr>cd_key = js key, cd_name = js name, cd_subtitle = js subtitle,
     cd_to = js to, cd_stats = stats, cd_by_openshift_state = None\<rparr>"

definition fleet_cards :: "fleet_summary \<Rightarrow> card_spec list" where
  "fleet_cards fleet = [
     fleet_card ''__all__'' ''Across all sites'' ''servers, every site'' ''/servers'' (breakdown.truncate fleet),
     fleet_card ''UPI'' ''UPI'' ''servers, every site'' ''/servers?installation_type=UPI'' (fs_by_installation_type fleet UPI),
     fleet_card ''HOSTED_CLUSTER'' ''Hosted cluster'' ''servers, every site'' ''/servers?installation_type=HOSTED_CLUSTER''
       (fs_by_installation_type fleet HOSTED_CLUSTER),
     fleet_card ''MCE'' ''MCE'' ''servers, every site'' ''/servers?installation_type=MCE'' (fs_by_installation_type fleet MCE),
     fleet_card ''AVAILABLE'' ''Available'' ''no cluster holds these'' ''/servers?openshift_state=AVAILABLE''
       (fs_by_openshift_state fleet AVAILABLE),
     fleet_card ''INSTALLED'' ''Installed'' ''in use by a cluster'' ''/servers?openshift_state=INSTALLED''
       (fs_by_openshift_state fleet INSTALLED)]"

text \<open>The unassigned bucket is dropped when it is empty; a configured site is kept at zero.\<close>

definition site_card :: "site_stats \<Rightarrow> card_spec" where
  "site_card site = \<lparr>cd_key = ss_site_id site, cd_name = ss_name site,
     cd_subtitle = (if ss_site_id site = UNASSIGNED_SITE_ID then js ''no site in hostname'' else js ''servers''),
     cd_to = js ''/servers?site_id='' @ ss_site_id site,
     cd_stats = breakdown.truncate site, cd_by_openshift_state = Some (ss_by_openshift_state site)\<rparr>"

definition site_cards :: "site_stats list \<Rightarrow> card_spec list" where
  "site_cards items =
     map site_card (filter (\<lambda>site. ss_site_id site \<noteq> UNASSIGNED_SITE_ID \<or> bd_total site > 0) items)"

section \<open>Links\<close>

definition with_param :: "jstr \<Rightarrow> jstr \<Rightarrow> jstr \<Rightarrow> jstr" where
  "with_param to k v = to @ (if contains to (js ''?'') then js ''&'' else js ''?'') @ k @ js ''='' @ v"

definition with_health_filter :: "jstr \<Rightarrow> severity \<Rightarrow> jstr" where
  "with_health_filter to s = with_param to (js ''health_overall'') (severity_text s)"

definition with_openshift_filter :: "jstr \<Rightarrow> openshift_state \<Rightarrow> jstr" where
  "with_openshift_filter to s = with_param to (js ''openshift_state'') (openshift_state_text s)"

definition with_maintenance_filter :: "jstr \<Rightarrow> jstr" where
  "with_maintenance_filter to = with_param to (js ''maintenance'') (js ''true'')"

text \<open>A count that is a link of its own: glyph, number, text and target.\<close>

record count_link =
  cl_glyph :: jstr
  cl_count :: nat
  cl_text :: jstr
  cl_to :: jstr

text \<open>The count follows its own target, not the card's, on a click, Enter or the space bar.\<close>

datatype count_event = Count_click | Count_key jstr

definition count_follow :: "count_event \<Rightarrow> count_link \<Rightarrow> jstr option" where
  "count_follow e l = (case e of
     Count_click \<Rightarrow> Some (cl_to l)
   | Count_key k \<Rightarrow> if k = js ''Enter'' \<or> k = js '' '' then Some (cl_to l) else None)"

definition glyph_of :: "severity \<Rightarrow> jstr" where
  "glyph_of s = coalesce (map_of severity_glyph s) []"

definition health_link :: "card_spec \<Rightarrow> severity \<Rightarrow> string \<Rightarrow> count_link list" where
  "health_link crd s word = (let n = bd_by_health (cd_stats crd) s in
     if n > 0 then [\<lparr>cl_glyph = glyph_of s, cl_count = n, cl_text = js word, cl_to = with_health_filter (cd_to crd) s\<rparr>]
     else [])"

definition installed_available :: "card_spec \<Rightarrow> count_link list" where
  "installed_available crd = (case cd_by_openshift_state crd of
     None \<Rightarrow> []
   | Some by \<Rightarrow>
       (if bd_total (by INSTALLED) > 0 then [\<lparr>cl_glyph = [], cl_count = bd_total (by INSTALLED), cl_text = js ''installed'',
          cl_to = with_openshift_filter (cd_to crd) INSTALLED\<rparr>] else [])
       @ (if bd_total (by AVAILABLE) > 0 then [\<lparr>cl_glyph = [], cl_count = bd_total (by AVAILABLE), cl_text = js ''available'',
          cl_to = with_openshift_filter (cd_to crd) AVAILABLE\<rparr>] else []))"

record card_view =
  cv_heading :: jstr
  cv_total :: jstr
  cv_sub :: jstr
  cv_link :: jstr
  cv_counts :: "count_link list"
  cv_all_healthy :: bool
  cv_no_servers :: bool
  cv_openshift :: "count_link list"
  cv_vendors :: "(jsval \<times> int \<times> nat) list"

text \<open>A vendor's bar: its label, its width in percent and its count; \<open>Math.round\<close> rounds a half up.\<close>

definition vendor_bar :: "(nat \<Rightarrow> nat \<Rightarrow> rat) \<Rightarrow> breakdown \<Rightarrow> (jsval \<times> int \<times> nat) list" where
  "vendor_bar percent stats = (if bd_total stats = 0 then []
     else map (\<lambda>(v, n). (vendor_label (vendor_text v), \<lfloor>percent n (bd_total stats) + 1 / 2\<rfloor>, n)) (bd_by_vendor stats))"

definition site_card_view :: "(nat \<Rightarrow> jstr) \<Rightarrow> (nat \<Rightarrow> nat \<Rightarrow> rat) \<Rightarrow> card_spec \<Rightarrow> card_view" where
  "site_card_view loc percent crd = (let stats = cd_stats crd in \<lparr>
     cv_heading = cd_name crd,
     cv_total = loc (bd_total stats),
     cv_sub = cd_subtitle crd,
     cv_link = cd_to crd,
     cv_counts = health_link crd CRITICAL ''critical'' @ health_link crd MAJOR ''major''
       @ health_link crd WARNING ''warning''
       @ (if bd_in_maintenance stats > 0 then [\<lparr>cl_glyph = [9208], cl_count = bd_in_maintenance stats,
            cl_text = js ''in maintenance'', cl_to = with_maintenance_filter (cd_to crd)\<rparr>] else [])
       @ health_link crd UNKNOWN ''unknown'',
     cv_all_healthy = (bd_total stats > 0 \<and> bd_by_health stats HEALTHY = bd_total stats),
     cv_no_servers = (bd_total stats = 0),
     cv_openshift = installed_available crd,
     cv_vendors = vendor_bar percent stats\<rparr>)"

section \<open>The page\<close>

record sites_view =
  sv_header :: jstr
  sv_alert :: "jstr option"
  sv_fleet :: "card_view list option"
  sv_sites :: "card_view list option"

text \<open>\<open>None\<close> stands for the skeleton cards.\<close>

definition sites_page :: "(nat \<Rightarrow> jstr) \<Rightarrow> (nat \<Rightarrow> nat \<Rightarrow> rat) \<Rightarrow> site_stats_list query \<Rightarrow> sites_view" where
  "sites_page loc percent q =
     (let fleet = (case query_data q of Some d \<Rightarrow> fleet_cards (sl_fleet d) | None \<Rightarrow> []);
          sites = (case query_data q of Some d \<Rightarrow> site_cards (sl_items d) | None \<Rightarrow> []);
          fleet_total = (case fleet of c # _ \<Rightarrow> bd_total (cd_stats c) | [] \<Rightarrow> 0);
          configured = (case query_data q of
            Some d \<Rightarrow> length (filter (\<lambda>s. ss_site_id s \<noteq> UNASSIGNED_SITE_ID) (sl_items d)) | None \<Rightarrow> 0) in \<lparr>
        sv_header = (if q = Pending then js ''Loading fleet'' @ [8230]
          else loc fleet_total @ js '' servers across '' @ nat_text configured @ js '' sites''),
        sv_alert = (case q of
          Failed e _ \<Rightarrow> Some (js ''Could not load sites: '' @ error_text e (js ''unknown error'')) | _ \<Rightarrow> None),
        sv_fleet = (if q = Pending then None else Some (map (site_card_view loc percent) fleet)),
        sv_sites = (if q = Pending then None else Some (map (site_card_view loc percent) sites))\<rparr>)"

section \<open>Following a link\<close>

text \<open>
  What \<open>URLSearchParams\<close> reads of a link without a fragment: the pieces between the ampersands, each
  split at its first equals sign and decoded by \<open>dec\<close>.
\<close>

definition query_text :: "jstr \<Rightarrow> jstr" where
  "query_text to = drop 1 (dropWhile (\<lambda>u. u \<noteq> 63) to)"

definition read_piece :: "(jstr \<Rightarrow> jstr) \<Rightarrow> jstr \<Rightarrow> jstr \<times> jstr" where
  "read_piece dec s = (dec (takeWhile (\<lambda>u. u \<noteq> 61) s), dec (drop 1 (dropWhile (\<lambda>u. u \<noteq> 61) s)))"

definition parse_query :: "(jstr \<Rightarrow> jstr) \<Rightarrow> jstr \<Rightarrow> params" where
  "parse_query dec q = map (read_piece dec) (filter (\<lambda>s. s \<noteq> []) (split_on 38 q))"

definition link_params :: "(jstr \<Rightarrow> jstr) \<Rightarrow> jstr \<Rightarrow> params" where
  "link_params dec to = parse_query dec (query_text to)"

text \<open>A text that needs no encoding in a query: no \<open># % & + = ?\<close>.\<close>

definition plain :: "jstr \<Rightarrow> bool" where
  "plain s \<longleftrightarrow> list_all (\<lambda>u. u \<notin> {35, 37, 38, 43, 61, 63}) s"

section \<open>Laws\<close>

lemma split_on_append2: "split_on c (s @ c # t) = split_on c s @ split_on c t"
proof (induction s)
  case (Cons u s)
  then show ?case by (cases "split_on c s") auto
qed simp

lemma plain_not: "plain s \<Longrightarrow> u \<in> {35, 37, 38, 43, 61, 63} \<Longrightarrow> u \<notin> set s"
  by (auto simp: plain_def list_all_iff)

lemma read_piece_plain:
  assumes "plain k" "plain v" "\<And>t. plain t \<Longrightarrow> dec t = t"
  shows "read_piece dec (k @ 61 # v) = (k, v)"
proof -
  have "takeWhile (\<lambda>u. u \<noteq> 61) (k @ 61 # v) = k" "dropWhile (\<lambda>u. u \<noteq> 61) (k @ 61 # v) = 61 # v"
    using plain_not [OF assms(1), of 61] by (induction k) auto
  then show ?thesis using assms by (simp add: read_piece_def)
qed

lemma contains_char: "contains s [63] \<longleftrightarrow> 63 \<in> set s"
  by (simp add: contains_def sublist_def in_set_conv_decomp)

lemma query_text_none: "63 \<notin> set to \<Longrightarrow> query_text to = []"
  by (induction to) (auto simp: query_text_def)

lemma query_text_append: "63 \<in> set to \<Longrightarrow> query_text (to @ s) = query_text to @ s"
  by (induction to) (auto simp: query_text_def)

lemma query_text_first: "63 \<notin> set to \<Longrightarrow> query_text (to @ 63 # s) = s"
  by (induction to) (auto simp: query_text_def)

text \<open>Adding a parameter to a link adds it to what the page reads.\<close>

lemma link_params_with:
  assumes "plain k" "plain v" "k \<noteq> []" "\<And>t. plain t \<Longrightarrow> dec t = t"
  shows "link_params dec (with_param to k v) = link_params dec to @ [(k, v)]"
proof -
  have free: "38 \<notin> set (k @ 61 # v)" using plain_not [OF assms(1), of 38] plain_not [OF assms(2), of 38] by auto
  have piece: "parse_query dec (k @ 61 # v) = [(k, v)]"
    using read_piece_plain [OF assms(1,2,4)] split_on_free [OF free] by (simp add: parse_query_def)
  show ?thesis
  proof (cases "63 \<in> set to")
    case True
    then have "query_text (with_param to k v) = query_text to @ 38 # (k @ 61 # v)"
      by (simp add: with_param_def contains_char query_text_append js_def)
    with piece show ?thesis by (simp add: link_params_def parse_query_def split_on_append2)
  next
    case False
    then have "query_text (with_param to k v) = k @ 61 # v"
      by (simp add: with_param_def contains_char query_text_first js_def)
    with piece False show ?thesis by (simp add: link_params_def query_text_none parse_query_def)
  qed
qed

lemma link_params_plain:
  assumes "\<And>t. plain t \<Longrightarrow> dec t = t"
  shows "link_params dec (js ''/servers'') = []"
    "plain k \<Longrightarrow> plain v \<Longrightarrow> k \<noteq> [] \<Longrightarrow> link_params dec (js ''/servers?'' @ k @ js ''='' @ v) = [(k, v)]"
proof -
  show e: "link_params dec (js ''/servers'') = []"
    by (simp add: link_params_def query_text_none parse_query_def js_def)
  assume "plain k" "plain v" "k \<noteq> []"
  moreover have "js ''/servers?'' @ k @ js ''='' @ v = with_param (js ''/servers'') k v"
    by (simp add: with_param_def contains_def js_def sublist_code)
  ultimately show "link_params dec (js ''/servers?'' @ k @ js ''='' @ v) = [(k, v)]"
    using assms by (simp add: link_params_with e)
qed

lemma plain_severity: "plain (severity_text s)"
  by (cases s) (simp_all add: plain_def js_def)

lemma plain_openshift: "plain (openshift_state_text s)"
  by (cases s) (simp_all add: plain_def js_def)

text \<open>The fleet cards open the inventory on their own slice.\<close>

lemma fleet_card_links:
  assumes "\<And>t. plain t \<Longrightarrow> dec t = t"
  shows "map (\<lambda>c. link_params dec (cd_to c)) (fleet_cards fleet) =
    [[], [(js ''installation_type'', js ''UPI'')], [(js ''installation_type'', js ''HOSTED_CLUSTER'')],
     [(js ''installation_type'', js ''MCE'')], [(js ''openshift_state'', js ''AVAILABLE'')],
     [(js ''openshift_state'', js ''INSTALLED'')]]"
proof -
  have l: "link_params dec (js ''/servers?'' @ js k @ js ''='' @ js v) = [(js k, js v)]"
    if "plain (js k)" "plain (js v)" "k \<noteq> []" for k v
    using link_params_plain(2) [of dec, OF assms that(1,2)] that(3) by simp
  have p: "plain (js ''installation_type'')" "plain (js ''openshift_state'')" "plain (js ''UPI'')" "plain (js ''MCE'')"
    "plain (js ''HOSTED_CLUSTER'')" "plain (js ''AVAILABLE'')" "plain (js ''INSTALLED'')"
    by (simp_all add: plain_def js_def)
  show ?thesis
    using l [of "''installation_type''" "''UPI''"] l [of "''installation_type''" "''HOSTED_CLUSTER''"]
      l [of "''installation_type''" "''MCE''"] l [of "''openshift_state''" "''AVAILABLE''"]
      l [of "''openshift_state''" "''INSTALLED''"] p link_params_plain(1) [of dec, OF assms]
    by (simp add: fleet_cards_def fleet_card_def js_def)
qed

text \<open>A site without servers, for concrete instances.\<close>

definition empty_breakdown :: breakdown where
  "empty_breakdown = \<lparr>bd_total = 0, bd_by_vendor = [], bd_by_health = (\<lambda>_. 0), bd_in_maintenance = 0\<rparr>"

definition empty_site :: "jstr \<Rightarrow> site_stats" where
  "empty_site i = \<lparr>bd_total = 0, bd_by_vendor = [], bd_by_health = (\<lambda>_. 0), bd_in_maintenance = 0, ss_site_id = i,
     ss_name = i, ss_by_installation_type = (\<lambda>_. empty_breakdown), ss_by_openshift_state = (\<lambda>_. empty_breakdown)\<rparr>"

section \<open>Properties\<close>



end
