(* ===== verification/Maintenance_Toggle.thy ===== *)
theory Maintenance_Toggle
  imports Session
begin

text \<open>
  The maintenance switch of a row (\<^verbatim>\<open>src/features/inventory/MaintenanceToggle.tsx\<close>) as a state
  machine: its dialog, the reason typed into it and the mutation it watches. A mutation that is
  reset is no longer watched, but still settles; the cache patch it makes then is in the API part.
\<close>

section \<open>The switch\<close>

text \<open>An unknown role reads as admin.\<close>

definition may_toggle :: "me option \<Rightarrow> bool" where
  "may_toggle me \<longleftrightarrow> role_of me \<noteq> Some VIEWER \<and> role_of me \<noteq> Some AUDITOR"

text \<open>A watched run knows whether its success closes the dialog.\<close>

datatype run_watch = Run_idle | Run_pending bool | Run_error query_error | Run_success

record toggle_state =
  mt_asking :: bool
  mt_reason :: jstr
  mt_run :: run_watch

definition toggle_start :: toggle_state where
  "toggle_start = \<lparr>mt_asking = False, mt_reason = [], mt_run = Run_idle\<rparr>"

definition run_pending :: "run_watch \<Rightarrow> bool" where
  "run_pending r = (case r of Run_pending _ \<Rightarrow> True | _ \<Rightarrow> False)"

definition close_dialog :: "toggle_state \<Rightarrow> toggle_state" where
  "close_dialog st = st\<lparr>mt_asking := False, mt_reason := [], mt_run := Run_idle\<rparr>"

text \<open>\<open>Succeeded\<close> and \<open>Failed_with\<close> are the answers of the watched run.\<close>

datatype toggle_event = Click_switch | Type_reason jstr | Submit_reason | Close | Succeeded | Failed_with query_error

definition trimmed_reason :: "toggle_state \<Rightarrow> jstr option" where
  "trimmed_reason st = (if trim (mt_reason st) \<noteq> [] then Some (trim (mt_reason st)) else None)"

text \<open>A step in a row that is or is not in maintenance: the new state and what it asks the server for.\<close>

definition toggle_step :: "me option \<Rightarrow> bool \<Rightarrow> toggle_event \<Rightarrow> toggle_state \<Rightarrow>
    toggle_state \<times> (bool \<times> jstr option) option" where
  "toggle_step me enabled e st = (case e of
     Click_switch \<Rightarrow>
       if run_pending (mt_run st) \<or> \<not> may_toggle me then (st, None)
       else if enabled then (st\<lparr>mt_run := Run_pending False\<rparr>, Some (False, None))
       else (st\<lparr>mt_asking := True\<rparr>, None)
   | Type_reason r \<Rightarrow> if mt_asking st then (st\<lparr>mt_reason := r\<rparr>, None) else (st, None)
   | Submit_reason \<Rightarrow>
       if mt_asking st \<and> \<not> run_pending (mt_run st)
       then (st\<lparr>mt_run := Run_pending True\<rparr>, Some (True, trimmed_reason st)) else (st, None)
   | Close \<Rightarrow> if mt_asking st then (close_dialog st, None) else (st, None)
   | Succeeded \<Rightarrow> (case mt_run st of
       Run_pending closes \<Rightarrow> if closes then (close_dialog st, None) else (st\<lparr>mt_run := Run_success\<rparr>, None)
     | _ \<Rightarrow> (st, None))
   | Failed_with err \<Rightarrow> (if run_pending (mt_run st) then (st\<lparr>mt_run := Run_error err\<rparr>, None) else (st, None)))"

definition toggle_request :: "(jstr \<Rightarrow> jstr) \<Rightarrow> server_row \<Rightarrow> bool \<times> jstr option \<Rightarrow> request" where
  "toggle_request enc_uri row r = maintenance_request enc_uri (sr_id row) (fst r) (snd r)"

section \<open>What it draws\<close>

definition ADMIN_ONLY_TITLE :: jstr where
  "ADMIN_ONLY_TITLE = js ''Only admins can change maintenance''"

definition toggle_label :: "server_row \<Rightarrow> jstr" where
  "toggle_label row = (if ms_enabled (sr_maintenance row) then js ''End maintenance on '' @ sr_name row
     else js ''Put '' @ sr_name row @ js '' into maintenance'')"

definition toggle_error :: "query_error \<Rightarrow> jstr" where
  "toggle_error e = error_text e (js ''Failed to update maintenance.'')"

record toggle_view =
  tv_title :: jstr
  tv_disabled :: bool
  tv_expanded :: "bool option"
  tv_dialog :: "(jstr \<times> jstr option \<times> bool \<times> jstr) option"

text \<open>The dialog: the reason, the alert, the disabled submit button and its text; 8230 is the ellipsis.\<close>

definition toggle_render :: "me option \<Rightarrow> server_row \<Rightarrow> toggle_state \<Rightarrow> toggle_view" where
  "toggle_render me row st = \<lparr>
     tv_title = (if may_toggle me then toggle_label row else ADMIN_ONLY_TITLE),
     tv_disabled = run_pending (mt_run st),
     tv_expanded = (if ms_enabled (sr_maintenance row) then None else Some (mt_asking st)),
     tv_dialog = (if mt_asking st then Some (mt_reason st,
         (case mt_run st of Run_error e \<Rightarrow> Some (toggle_error e) | _ \<Rightarrow> None),
         run_pending (mt_run st),
         if run_pending (mt_run st) then js ''Starting'' @ [8230] else js ''Start maintenance'') else None)\<rparr>"

section \<open>Runs of the switch\<close>

text \<open>A sequence of events, each in the row as it is at that moment; the requests it makes, in order.\<close>

fun toggle_events :: "me option \<Rightarrow> (bool \<times> toggle_event) list \<Rightarrow> toggle_state \<Rightarrow>
    toggle_state \<times> (bool \<times> jstr option) list" where
  "toggle_events me [] st = (st, [])"
| "toggle_events me ((enabled, e) # es) st =
     (let (st', r) = toggle_step me enabled e st; (st'', rs) = toggle_events me es st' in
      (st'', (case r of Some q \<Rightarrow> q # rs | None \<Rightarrow> rs)))"

lemma viewer_stays_closed:
  assumes "\<not> may_toggle me" "\<not> mt_asking st"
  shows "\<not> mt_asking (fst (toggle_step me enabled e st)) \<and> snd (toggle_step me enabled e st) = None"
  using assms by (cases e) (auto simp: toggle_step_def close_dialog_def split: run_watch.splits)

lemma viewer_sends_nothing:
  "\<not> may_toggle me \<Longrightarrow> \<not> mt_asking st \<Longrightarrow> snd (toggle_events me es st) = []"
proof (induction es arbitrary: st)
  case (Cons ee es)
  obtain enabled e where "ee = (enabled, e)" by (cases ee)
  then show ?case
    using Cons.IH [of "fst (toggle_step me enabled e st)"] Cons.prems(1)
      viewer_stays_closed [OF Cons.prems, of enabled e]
    by (auto simp: Let_def split: prod.splits option.splits)
qed simp

definition pending_count :: "toggle_state \<Rightarrow> nat" where
  "pending_count st = (if run_pending (mt_run st) then 1 else 0)"

definition settles :: "toggle_event \<Rightarrow> nat" where
  "settles e = (case e of Succeeded \<Rightarrow> 1 | Failed_with _ \<Rightarrow> 1 | Close \<Rightarrow> 1 | _ \<Rightarrow> 0)"

lemma step_pending:
  "(if snd (toggle_step me enabled e st) = None then 0 else 1) + pending_count st
     \<le> pending_count (fst (toggle_step me enabled e st)) + settles e"
  by (cases e) (auto simp: toggle_step_def pending_count_def settles_def run_pending_def close_dialog_def
    split: run_watch.splits)

lemma run_pending_bound:
  "length (snd (toggle_events me es st)) + pending_count st
     \<le> pending_count (fst (toggle_events me es st)) + (\<Sum>(_, e) \<leftarrow> es. settles e)"
proof (induction es arbitrary: st)
  case (Cons ee es)
  obtain enabled e where ee: "ee = (enabled, e)" by (cases ee)
  show ?case
    using Cons [of "fst (toggle_step me enabled e st)"] step_pending [of me enabled e st]
    by (auto simp: ee Let_def split: prod.splits option.splits)
qed simp

lemma request_well_formed:
  "snd (toggle_step me enabled e st) = Some (enable, r) \<Longrightarrow>
     (enable \<or> r = None) \<and> r \<noteq> Some [] \<and> map_option trim r = r"
  by (cases e) (auto simp: toggle_step_def trimmed_reason_def split: if_splits run_watch.splits)

lemma requests_well_formed:
  "list_all (\<lambda>(enable, r). (enable \<or> r = None) \<and> r \<noteq> Some [] \<and> map_option trim r = r)
     (snd (toggle_events me es st))"
proof (induction es arbitrary: st)
  case (Cons ee es)
  obtain enabled e where ee: "ee = (enabled, e)" by (cases ee)
  show ?case
    using Cons [of "fst (toggle_step me enabled e st)"] request_well_formed [of me enabled e st]
    by (auto simp: ee Let_def split: prod.splits option.splits)
qed simp

section \<open>Properties\<close>


text \<open>
  C38: when ending maintenance fails nothing is shown at all: the row is drawn as before the click. The
  message appears later, in the dialog that asks why the server goes into maintenance.
\<close>

theorem failed_end_is_silent:
  "let st = fst (toggle_events me [(True, Click_switch), (True, Failed_with e)] toggle_start) in
   toggle_render me row st = toggle_render me row toggle_start \<and>
   (may_toggle me = (tv_dialog (toggle_render me row (fst (toggle_step me False Click_switch st))) =
     Some ([], Some (toggle_error e), False, js ''Start maintenance'')))"
  by (cases "may_toggle me")
    (auto simp: toggle_step_def toggle_start_def toggle_render_def run_pending_def Let_def)

end
