(* ===== verification/Inventory_Table.thy ===== *)
theory Inventory_Table
  imports Inventory_Page Badges Maintenance_Toggle
begin

text \<open>
  The table of the inventory (\<^verbatim>\<open>src/features/inventory/InventoryTable.tsx\<close>): its columns, the
  cells of a row, the sort a header click asks for and the clicks that open a server. The table
  library toggles the sort; its next sorting state is an argument. 8212 is the em dash.
\<close>

section \<open>Columns\<close>

record column =
  col_id :: jstr
  col_header :: jstr
  col_sortable :: bool

definition column :: "string \<Rightarrow> string \<Rightarrow> bool \<Rightarrow> column" where
  "column i header sortable = \<lparr>col_id = js i, col_header = js header, col_sortable = sortable\<rparr>"

definition build_columns :: "bool \<Rightarrow> column list" where
  "build_columns with_mce =
     [column ''name'' ''Name'' True, column ''bmc'' ''BMC'' False,
      column ''openshift_state'' ''Installation'' True]
     @ (if with_mce then [column ''mce_name'' ''MCE'' True] else [])
     @ [column ''cluster_name'' ''Cluster'' True, column ''model'' ''Model'' True,
        column ''health'' ''State'' True, column ''maintenance'' ''Maintenance'' False]"

definition with_mce :: "server_row list \<Rightarrow> bool" where
  "with_mce servers = list_ex (\<lambda>s. truthy (sr_mce_name s)) servers"

section \<open>Cells\<close>

definition text_or_dash :: "jstr option \<Rightarrow> jstr" where
  "text_or_dash s = (if truthy s then the s else [8212])"

datatype cell_view =
  Name_cell jstr jstr jstr
| Bmc_cell "(jstr \<times> jstr \<times> jstr) option"
| Installation_cell chip_view "chip_view option"
| Text_cell jstr "jstr option"
| State_cell "chip_view list"
| Maintenance_cell toggle_view

definition row_link :: "server_row \<Rightarrow> jstr" where
  "row_link row = js ''/servers/'' @ sr_id row"

definition table_cell :: "display_env \<Rightarrow> me option \<Rightarrow> toggle_state \<Rightarrow> server_row \<Rightarrow> column \<Rightarrow> cell_view" where
  "table_cell de me toggle row c =
     (let i = col_id c in
      if i = js ''name'' then Name_cell (row_link row) (sr_name row) (js ''Copy name of '' @ sr_name row)
      else if i = js ''bmc'' then Bmc_cell (bmc_link False (sr_bmc_host row) (sr_name row))
      else if i = js ''openshift_state''
      then Installation_cell (installation_badge False (sr_openshift_state row)) (reservation_badge de False (sr_reservation row))
      else if i = js ''mce_name'' then Text_cell (text_or_dash (sr_mce_name row)) None
      else if i = js ''cluster_name'' then Text_cell (text_or_dash (sr_cluster_name row))
        (if truthy (sr_contested_with row) then Some (js ''Contested with '' @ the (sr_contested_with row)) else None)
      else if i = js ''model'' then Text_cell (text_or_dash (sr_model row)) None
      else if i = js ''health'' then State_cell (state_badge de (sr_health row) (sr_maintenance row) (sr_stale row)
        (sr_last_seen_at row) (sr_openshift_reported_name row))
      else Maintenance_cell (toggle_render me row toggle))"

definition ROW_ACCENT :: "severity \<Rightarrow> jstr" where
  "ROW_ACCENT s = (case s of CRITICAL \<Rightarrow> js ''--color-status-critical'' | MAJOR \<Rightarrow> js ''--text-on-major''
     | WARNING \<Rightarrow> js ''--color-status-warning'' | HEALTHY \<Rightarrow> js ''transparent'' | UNKNOWN \<Rightarrow> js ''transparent'')"

section \<open>The table\<close>

text \<open>The mark of the sorted column: 9650 ascending, 9660 descending.\<close>

definition sort_mark :: "jstr \<Rightarrow> bool \<Rightarrow> column \<Rightarrow> jstr" where
  "sort_mark field descending c =
     (if col_sortable c \<and> col_id c = field then (if descending then [9660] else [9650]) else [])"

record table_view =
  tb_headers :: "(jstr \<times> jstr \<times> bool) list"
  tb_rows :: "(jstr \<times> cell_view list) list"
  tb_empty :: "jstr option"

definition inventory_table ::
  "display_env \<Rightarrow> me option \<Rightarrow> (jstr \<Rightarrow> toggle_state) \<Rightarrow> server_row list \<Rightarrow> jstr \<Rightarrow> bool \<Rightarrow> jstr option \<Rightarrow> table_view" where
  "inventory_table de me toggles servers field descending none_text =
     (let cols = build_columns (with_mce servers) in \<lparr>
        tb_headers = map (\<lambda>c. (col_header c, sort_mark field descending c, col_sortable c)) cols,
        tb_rows = map (\<lambda>r. (ROW_ACCENT (sr_health r), map (table_cell de me (toggles (sr_id r)) r) cols)) servers,
        tb_empty = (if length servers = 0
          then Some (coalesce none_text (js ''No servers match the current filters.'')) else None)\<rparr>)"

text \<open>\<open>onSortingChange\<close>: the first entry of the library's next sorting state, if there is one.\<close>

definition on_sorting_change :: "(jstr \<times> bool) list \<Rightarrow> (jstr \<times> bool) option" where
  "on_sorting_change next_state = (case next_state of [] \<Rightarrow> None | s # _ \<Rightarrow> Some s)"

record row_click =
  rc_default_prevented :: bool
  rc_meta :: bool
  rc_ctrl :: bool
  rc_shift :: bool
  rc_in_anchor :: bool

text \<open>Where a click on a row leads, with the page's own address to come back to.\<close>

definition click_row :: "jstr \<Rightarrow> jstr \<Rightarrow> server_row \<Rightarrow> row_click \<Rightarrow> (jstr \<times> jstr) option" where
  "click_row pathname search row e =
     (if rc_default_prevented e \<or> rc_meta e \<or> rc_ctrl e \<or> rc_shift e then None
      else if rc_in_anchor e then None
      else Some (row_link row, pathname @ search))"

section \<open>Laws\<close>

text \<open>Every header that can be clicked names a field the page can sort by.\<close>

lemma sortable_columns_are_fields:
  "set (map col_id (filter col_sortable (build_columns b))) \<subseteq> set (map fst SORTABLE_FIELDS)"
  by (auto simp: build_columns_def column_def SORTABLE_FIELDS_def)

lemma all_fields_have_columns: "set (map col_id (filter col_sortable (build_columns True))) = set (map fst SORTABLE_FIELDS)"
  by (auto simp: build_columns_def column_def SORTABLE_FIELDS_def)

text \<open>Without an MCE on the page its column is gone, and no cell of it is lost.\<close>

lemma dropped_column_is_blank:
  "\<not> with_mce servers \<Longrightarrow> r \<in> set servers \<Longrightarrow>
     table_cell de me t r (column ''mce_name'' ''MCE'' True) = Text_cell [8212] None"
  by (auto simp: with_mce_def list_ex_iff table_cell_def column_def text_or_dash_def Let_def)

lemma one_column_marked:
  "f \<in> set (map fst SORTABLE_FIELDS) \<Longrightarrow> length (filter (\<lambda>c. sort_mark f d c \<noteq> []) (build_columns True)) = 1"
  by (auto simp: SORTABLE_FIELDS_def build_columns_def column_def sort_mark_def)

lemma columns_distinct: "distinct (map col_id (build_columns b))"
  by (cases b) (simp_all add: build_columns_def column_def)

lemma filter_own_key:
  "distinct (map f xs) \<Longrightarrow> x \<in> set xs \<Longrightarrow> P x \<Longrightarrow> filter (\<lambda>y. P y \<and> f y = f x) xs = [x]"
  by (induction xs) (auto simp: filter_empty_conv image_iff)

lemma sort_mark_shown: "sort_mark f d c \<noteq> [] \<longleftrightarrow> col_sortable c \<and> col_id c = f"
  by (simp add: sort_mark_def)

lemma sort_change_read_back:
  "sort_field_of (handle_sort_change f d p) = f \<and> sort_desc_of (handle_sort_change f d p) = d"
proof -
  have t: "sortable_text f \<noteq> []" "map_of SORTABLE_FIELDS (sortable_text f) = Some f"
    by (cases f; simp add: sortable_text_def SORTABLE_FIELDS_def)+
  have g: "sp_get_all (handle_sort_change f d p) (js ''sort'') = [sortable_text f]"
    "sp_get_all (handle_sort_change f d p) (js ''sort_desc'') = (if d then [js ''true''] else [])"
    using t(1) by (simp_all add: handle_sort_change_def get_all_update)
  show ?thesis
    using t(2) by (simp add: sort_field_of_def sort_desc_of_def flag_on_def sp_get_hd g)
qed

section \<open>Properties\<close>

text \<open>
  Whatever the table asks for when the header of a sortable column is clicked, the page takes it
  over: it sorts by that column in that direction from the first page, and that column alone is marked.
\<close>

lemma header_click_sorts:
  assumes "c \<in> set (build_columns b)" "col_sortable c"
  shows "\<exists>f. map_of SORTABLE_FIELDS (col_id c) = Some f \<and>
    sort_field_of (handle_sort_change f d p) = f \<and> sort_desc_of (handle_sort_change f d p) = d \<and>
    sp_get_all (handle_sort_change f d p) (js ''page'') = [] \<and>
    filter (\<lambda>c'. sort_mark (col_id c) d c' \<noteq> []) (build_columns b) = [c]"
proof -
  obtain f where f: "map_of SORTABLE_FIELDS (col_id c) = Some f"
    using assms by (auto simp: build_columns_def column_def SORTABLE_FIELDS_def split: if_splits)
  have "sp_get_all (handle_sort_change f d p) (js ''page'') = []"
    by (simp add: handle_sort_change_def get_all_update)
  moreover have "filter (\<lambda>c'. sort_mark (col_id c) d c' \<noteq> []) (build_columns b) = [c]"
    unfolding sort_mark_shown using assms by (rule filter_own_key [OF columns_distinct])
  ultimately show ?thesis using f sort_change_read_back by blast
qed

lemma header_click_sorts_witness:
  "\<exists>f. map_of SORTABLE_FIELDS (js ''health'') = Some f \<and>
    sort_field_of (handle_sort_change f True [(js ''page'', js ''3'')]) = f"
  using header_click_sorts [of "column ''health'' ''State'' True" False True "[(js ''page'', js ''3'')]"]
  by (auto simp: build_columns_def column_def)

end
