(* ===== verification/Maintenance_Flow.thy ===== *)
theory Maintenance_Flow
  imports Inventory_Table
begin

text \<open>
  The maintenance switch across its parts: the answer of a request patches the cached rows
  (\<open>Api_Client\<close>), and the inventory page filters those (\<open>Inventory_Page\<close>, \<open>Rows\<close>).
\<close>

section \<open>Filtering patched rows\<close>

lemma patched_names: "filter (\<lambda>x. sr_name x = n) (map (patch_row i m) rows) =
    map (patch_row i m) (filter (\<lambda>x. sr_name x = n) rows)"
  by (induction rows) (auto simp: patch_row_def)

lemma patched_key_test: "key_test pf (map (patch_row i m) rows) f k r = key_test pf rows f k r"
  by (cases k) (simp_all add: patched_names)

lemma filter_patched:
  "filter_rows pf (map (patch_row i m) rows) f =
    filter (\<lambda>r. list_all (\<lambda>k. key_test pf rows f k r) all_keys) (map (patch_row i m) rows)"
  by (simp add: filter_rows_eq patched_key_test)

lemma patched_others:
  "filter (\<lambda>r. sr_id r \<noteq> i) (filter Q (map (patch_row i m) rows)) = filter (\<lambda>r. sr_id r \<noteq> i) (filter Q rows)"
  by (induction rows) (auto simp: patch_row_def)

lemma filter_rows_patched_others:
  "filter (\<lambda>r. sr_id r \<noteq> i) (filter_rows pf (map (patch_row i m) rows) f) = filter (\<lambda>r. sr_id r \<noteq> i) (filter_rows pf rows f)"
  unfolding filter_patched patched_others by (simp only: filter_rows_eq)

lemma patched_own: "list_all (\<lambda>r. sr_id r = i \<longrightarrow> sr_maintenance r = m) (filter Q (map (patch_row i m) rows))"
  by (induction rows) (auto simp: patch_row_def)

lemma maintenance_true_keeps:
  "list_all (\<lambda>r. ms_enabled (sr_maintenance r)) (filter_rows pf rows (url_filters (sp_set p (js ''maintenance'') (js ''true'')) s))"
proof -
  have "rf_maintenance (url_filters (sp_set p (js ''maintenance'') (js ''true'')) s) = Some Only"
    by (simp add: url_filters_def maintenance_mode_def sp_get_hd sp_get_all_set)
  then have "key_test pf rows (url_filters (sp_set p (js ''maintenance'') (js ''true'')) s) Key_maintenance r =
      ms_enabled (sr_maintenance r)" for r by simp
  then show ?thesis
    by (auto simp: filter_rows_eq list_all_iff all_keys_def)
qed

text \<open>The rows the page works on: those of the cache that pass the filters of the URL and the search.\<close>

definition page_rows :: "platform \<Rightarrow> params \<Rightarrow> jstr \<Rightarrow> cache \<Rightarrow> server_row list" where
  "page_rows pf p s c = (case ch_rows c of
     Some rows \<Rightarrow> filter_rows pf (srr_items rows) (url_filters p s) | None \<Rightarrow> [])"

section \<open>Properties\<close>

text \<open>
  C12: the answer to a maintenance request shows at once, under any filters and search: every other server
  is listed as before, the answered one with its new state, and when only servers under maintenance are
  listed none is left that is not, so one whose maintenance has ended leaves the list.
\<close>

theorem answer_shows_at_once:
  "filter (\<lambda>r. sr_id r \<noteq> dt_id d) (page_rows pf p s (maintenance_success d c)) =
     filter (\<lambda>r. sr_id r \<noteq> dt_id d) (page_rows pf p s c) \<and>
   map sr_maintenance (filter (\<lambda>r. sr_id r = dt_id d) (page_rows pf p s (maintenance_success d c))) =
     map (\<lambda>_. dt_maintenance d) (filter (\<lambda>r. sr_id r = dt_id d) (page_rows pf p s (maintenance_success d c))) \<and>
   list_all (\<lambda>r. ms_enabled (sr_maintenance r))
     (page_rows pf (sp_set p (js ''maintenance'') (js ''true'')) s (maintenance_success d c)) \<and>
   (ms_enabled (dt_maintenance d) \<or>
     filter (\<lambda>r. sr_id r = dt_id d) (page_rows pf (sp_set p (js ''maintenance'') (js ''true'')) s (maintenance_success d c)) = [])"
proof -
  have own: "list_all (\<lambda>r. sr_id r = dt_id d \<longrightarrow> sr_maintenance r = dt_maintenance d) (page_rows pf q s (maintenance_success d c))" for q
    using patched_own
    by (auto simp: page_rows_def maintenance_success_def filter_patched split: option.splits)
  have on: "list_all (\<lambda>r. ms_enabled (sr_maintenance r))
      (page_rows pf (sp_set p (js ''maintenance'') (js ''true'')) s (maintenance_success d c))"
    by (simp add: page_rows_def maintenance_true_keeps list_all_iff [symmetric] split: option.splits)
  have "filter (\<lambda>r. sr_id r \<noteq> dt_id d) (page_rows pf p s (maintenance_success d c)) =
      filter (\<lambda>r. sr_id r \<noteq> dt_id d) (page_rows pf p s c)"
    by (simp add: page_rows_def maintenance_success_def filter_rows_patched_others split: option.splits)
  with own on own [of p] show ?thesis
    by (auto simp: list_all_iff filter_empty_conv)
qed

end
