(* ===== verification/Selection.thy ===== *)
theory Selection
  imports Inventory_Page
begin

text \<open>
  What the user has selected on the inventory page (\<^verbatim>\<open>src/features/inventory/InventoryPage.tsx\<close>),
  as an abstract state, and the simulation: the handlers of the page on the URL implement the
  operations on it, for every sequence of events. The state is a set of ticked values per filter,
  a Boolean per toggle, the maintenance mode, the search text, the sort and the page; the URL is
  its implementation, with repeated parameters in the order they were ticked.
\<close>

section \<open>The controls of the page\<close>

datatype list_key = L_vendor | L_site_id | L_source | L_classification | L_installation | L_health
  | L_mce | L_cluster

datatype flag_key = F_stale | F_duplicate | F_contested | F_name_mismatch | F_donor

fun list_param :: "list_key \<Rightarrow> string" where
  "list_param L_vendor = ''vendor''"
| "list_param L_site_id = ''site_id''"
| "list_param L_source = ''source_provider''"
| "list_param L_classification = ''installation_type''"
| "list_param L_installation = ''openshift_state''"
| "list_param L_health = ''health_overall''"
| "list_param L_mce = ''mce''"
| "list_param L_cluster = ''cluster''"

fun flag_param :: "flag_key \<Rightarrow> string" where
  "flag_param F_stale = ''stale''"
| "flag_param F_duplicate = ''duplicate''"
| "flag_param F_contested = ''contested''"
| "flag_param F_name_mismatch = ''name_mismatch''"
| "flag_param F_donor = ''donor''"

definition list_keys :: "list_key list" where
  "list_keys = [L_vendor, L_site_id, L_source, L_classification, L_installation, L_health, L_mce, L_cluster]"

definition flag_keys :: "flag_key list" where
  "flag_keys = [F_stale, F_duplicate, F_contested, F_name_mismatch, F_donor]"

text \<open>What a chip under the filters stands for; its label plays no part in a click.\<close>

datatype chip_target = Chip_search | Chip_value list_key jstr | Chip_maintenance | Chip_flag flag_key

fun target_chip :: "chip_target \<Rightarrow> chip" where
  "target_chip Chip_search = \<lparr>chip_key = js ''search'', chip_label = [], chip_value = None\<rparr>"
| "target_chip (Chip_value k v) = \<lparr>chip_key = js (list_param k), chip_label = [], chip_value = Some v\<rparr>"
| "target_chip Chip_maintenance = \<lparr>chip_key = js ''maintenance'', chip_label = [], chip_value = None\<rparr>"
| "target_chip (Chip_flag f) = \<lparr>chip_key = js (flag_param f), chip_label = [], chip_value = None\<rparr>"

text \<open>The \<open>onChange\<close> of the search box and the \<open>onClear\<close> of a dropdown.\<close>

definition type_search :: "jstr \<Rightarrow> params \<Rightarrow> params" where
  "type_search q live = update_filters [(js ''search'', One (Some q))] live"

definition clear_values :: "jstr \<Rightarrow> params \<Rightarrow> params" where
  "clear_values key live = update_filters [(key, One None)] live"

text \<open>
  The events of the page and the handler each runs: the dropdowns and the sidebar tick values, the
  dropdowns have a Clear button, the sidebar's two lists have none.
\<close>

datatype page_event =
  Type_search jstr
| Tick list_key jstr
| Clear_list list_key
| Check flag_key bool
| Press_chip chip_target
| Clear_filters
| Sort_by sortable_field bool
| Turn_page int

fun page_handle :: "page_event \<Rightarrow> params \<Rightarrow> params" where
  "page_handle (Type_search q) p = type_search q p"
| "page_handle (Tick k v) p = (if k = L_health then health_toggle v p else toggle_multi (js (list_param k)) v p)"
| "page_handle (Clear_list k) p =
     (if k = L_health then health_clear p
      else if k = L_mce \<or> k = L_cluster then p
      else clear_values (js (list_param k)) p)"
| "page_handle (Check f b) p = set_toggle (js (flag_param f)) b p"
| "page_handle (Press_chip t) p = click_chip (target_chip t) p"
| "page_handle Clear_filters p = clear_filters p"
| "page_handle (Sort_by f desc) p = handle_sort_change f desc p"
| "page_handle (Turn_page n) p = go_to_page n p"

section \<open>The abstract state\<close>

record selection =
  sl_search :: jstr
  sl_ticked :: "list_key \<Rightarrow> jstr set"
  sl_maintenance :: "maintenance_filter option"
  sl_flag :: "flag_key \<Rightarrow> bool"
  sl_sort :: "sortable_field \<times> bool"
  sl_page :: jsnum

definition selection_of :: "(jstr \<Rightarrow> jsnum) \<Rightarrow> params \<Rightarrow> selection" where
  "selection_of num_of p = \<lparr>
     sl_search = search_input p,
     sl_ticked = (\<lambda>k. set (sp_get_all p (js (list_param k)))),
     sl_maintenance = maintenance_mode p,
     sl_flag = (\<lambda>f. flag_on p (js (flag_param f))),
     sl_sort = (sort_field_of p, sort_desc_of p),
     sl_page = page_param num_of p\<rparr>"

text \<open>A tick flips one value; the empty value cannot be kept, since no write keeps one.\<close>

definition flip :: "jstr \<Rightarrow> jstr set \<Rightarrow> jstr set" where
  "flip v S = (if v \<in> S then S - {v} else insert v S) - {[]}"

definition sel_tick :: "list_key \<Rightarrow> jstr \<Rightarrow> selection \<Rightarrow> selection" where
  "sel_tick k v s = s\<lparr>sl_ticked := (sl_ticked s)(k := flip v (sl_ticked s k)), sl_page := Fin 1\<rparr>"

definition sel_clear :: "list_key \<Rightarrow> selection \<Rightarrow> selection" where
  "sel_clear k s = s\<lparr>sl_ticked := (sl_ticked s)(k := {}), sl_page := Fin 1\<rparr>"

definition sel_maintenance :: "maintenance_filter option \<Rightarrow> selection \<Rightarrow> selection" where
  "sel_maintenance m s = s\<lparr>sl_maintenance := m, sl_page := Fin 1\<rparr>"

definition sel_check :: "flag_key \<Rightarrow> bool \<Rightarrow> selection \<Rightarrow> selection" where
  "sel_check f b s = s\<lparr>sl_flag := (sl_flag s)(f := b), sl_page := Fin 1\<rparr>"

definition sel_search :: "jstr \<Rightarrow> selection \<Rightarrow> selection" where
  "sel_search q s = s\<lparr>sl_search := q, sl_page := Fin 1\<rparr>"

fun sel_step :: "page_event \<Rightarrow> selection \<Rightarrow> selection" where
  "sel_step (Type_search q) s = sel_search q s"
| "sel_step (Tick k v) s =
     (if k = L_health \<and> v = MAINTENANCE_OPTION
      then sel_maintenance (if sl_maintenance s = Some Only then None else Some Only) s
      else sel_tick k v s)"
| "sel_step (Clear_list k) s =
     (if k = L_health then sel_maintenance None (sel_clear k s)
      else if k = L_mce \<or> k = L_cluster then s
      else sel_clear k s)"
| "sel_step (Check f b) s = sel_check f b s"
| "sel_step (Press_chip t) s = (case t of
     Chip_search \<Rightarrow> sel_search [] s
   | Chip_value k v \<Rightarrow> sel_tick k v s
   | Chip_maintenance \<Rightarrow> sel_maintenance None s
   | Chip_flag f \<Rightarrow> sel_check f False s)"
| "sel_step Clear_filters s =
     s\<lparr>sl_search := [], sl_ticked := (\<lambda>_. {}), sl_maintenance := None, sl_flag := (\<lambda>_. False), sl_page := Fin 1\<rparr>"
| "sel_step (Sort_by f desc) s = s\<lparr>sl_sort := (f, desc), sl_page := Fin 1\<rparr>"
| "sel_step (Turn_page n) s = s\<lparr>sl_page := Fin (of_int (max 1 n))\<rparr>"

section \<open>Names of the parameters\<close>

lemma list_param_inj [simp]: "list_param k = list_param l \<longleftrightarrow> k = l"
  by (cases k; cases l; simp)

lemma flag_param_inj [simp]: "flag_param f = flag_param g \<longleftrightarrow> f = g"
  by (cases f; cases g; simp)

lemma list_param_flag [simp]: "list_param k \<noteq> flag_param f" "flag_param f \<noteq> list_param k"
  by (cases k; cases f; simp)+

lemma list_param_other [simp]:
  "list_param k \<noteq> ''page''" "list_param k \<noteq> ''search''" "list_param k \<noteq> ''maintenance''"
  "list_param k \<noteq> ''sort''" "list_param k \<noteq> ''sort_desc''"
  "''page'' \<noteq> list_param k" "''search'' \<noteq> list_param k" "''maintenance'' \<noteq> list_param k"
  "''sort'' \<noteq> list_param k" "''sort_desc'' \<noteq> list_param k"
  by (cases k; simp)+

lemma flag_param_other [simp]:
  "flag_param f \<noteq> ''page''" "flag_param f \<noteq> ''search''" "flag_param f \<noteq> ''maintenance''"
  "flag_param f \<noteq> ''sort''" "flag_param f \<noteq> ''sort_desc''"
  "''page'' \<noteq> flag_param f" "''search'' \<noteq> flag_param f" "''maintenance'' \<noteq> flag_param f"
  "''sort'' \<noteq> flag_param f" "''sort_desc'' \<noteq> flag_param f"
  by (cases f; simp)+

lemma list_param_filter [simp]: "js (list_param k) \<in> set filter_params"
  by (cases k) (simp_all add: filter_params_def)

lemma flag_param_filter [simp]: "js (flag_param f) \<in> set filter_params"
  by (cases f) (simp_all add: filter_params_def)

lemma list_keys_all: "k \<in> set list_keys"
  by (cases k) (simp_all add: list_keys_def)

lemma flag_keys_all: "f \<in> set flag_keys"
  by (cases f) (simp_all add: flag_keys_def)

section \<open>The handlers implement the operations\<close>

lemma selection_eqI:
  assumes "search_input p = sl_search s" "\<And>k. set (sp_get_all p (js (list_param k))) = sl_ticked s k"
    "maintenance_mode p = sl_maintenance s" "\<And>f. flag_on p (js (flag_param f)) = sl_flag s f"
    "(sort_field_of p, sort_desc_of p) = sl_sort s" "page_param num_of p = sl_page s"
  shows "selection_of num_of p = s"
  using assms by (simp add: selection_of_def)

text \<open>The readers of the page, over the values of their parameters.\<close>

lemmas readers = search_input_def maintenance_mode_def flag_on_def sort_field_of_def sort_desc_of_def
  page_param_def sp_get_hd

definition reads_page :: "(jstr \<Rightarrow> jsnum) \<Rightarrow> bool" where
  "reads_page num_of \<longleftrightarrow> (\<forall>n. num_of (nat_text n) = Fin (of_nat n))"

lemma reads_first: "reads_page num_of \<Longrightarrow> num_of (js ''1'') = Fin 1"
  using nat_text.simps [of 1] by (simp add: reads_page_def js_def) (metis of_nat_1 One_nat_def)

lemma tick_simulates:
  "reads_page num_of \<Longrightarrow>
    selection_of num_of (toggle_multi (js (list_param k)) v p) = sel_tick k v (selection_of num_of p)"
  by (rule selection_eqI)
    (auto simp: sel_tick_def selection_of_def readers get_all_toggle reads_first flip_def)

lemma clear_simulates:
  "reads_page num_of \<Longrightarrow>
    selection_of num_of (clear_values (js (list_param k)) p) = sel_clear k (selection_of num_of p)"
  by (rule selection_eqI)
    (simp_all add: sel_clear_def selection_of_def readers clear_values_def get_all_update_one reads_first)

lemma check_simulates:
  "reads_page num_of \<Longrightarrow>
    selection_of num_of (set_toggle (js (flag_param f)) b p) = sel_check f b (selection_of num_of p)"
  by (rule selection_eqI)
    (simp_all add: sel_check_def selection_of_def readers set_toggle_def get_all_update_one reads_first)

lemma search_simulates:
  "reads_page num_of \<Longrightarrow> selection_of num_of (type_search q p) = sel_search q (selection_of num_of p)"
  by (cases "q = []"; rule selection_eqI)
    (simp_all add: sel_search_def selection_of_def readers type_search_def get_all_update_one reads_first)

lemma maintenance_simulates:
  assumes "reads_page num_of"
  shows "selection_of num_of (toggle_maintenance p) =
      sel_maintenance (if maintenance_mode p = Some Only then None else Some Only) (selection_of num_of p)"
    "selection_of num_of (update_filters [(js ''maintenance'', One None)] p) = sel_maintenance None (selection_of num_of p)"
  using assms
  by (auto intro!: selection_eqI simp: sel_maintenance_def selection_of_def readers toggle_maintenance_def Let_def
    get_all_update_one reads_first)

lemma get_all_health_clear:
  "sp_get_all (health_clear p) (js k) =
     (if k = ''page'' \<or> k = list_param L_health \<or> k = ''maintenance'' then [] else sp_get_all p (js k))"
  by (simp add: health_clear_def get_all_update)

lemma health_clear_simulates:
  assumes "reads_page num_of"
  shows "selection_of num_of (health_clear p) = sel_maintenance None (sel_clear L_health (selection_of num_of p))"
  by (rule selection_eqI) (simp_all only: sel_maintenance_def sel_clear_def selection_of_def readers get_all_health_clear
      reads_first [OF assms], simp_all del: list_param.simps add: reads_first [OF assms])

lemma clear_filters_simulates:
  assumes "reads_page num_of"
  shows "selection_of num_of (clear_filters p) = sel_step Clear_filters (selection_of num_of p)"
proof (rule selection_eqI)
  have g: "sp_get_all (clear_filters p) (js k) = []" if "js k \<in> set filter_params" for k
    using that by (simp add: get_all_clear)
  have r: "js k \<in> set filter_params" if "k \<in> {''search'', ''maintenance''}" for k
    using that by (auto simp: filter_params_def)
  have o: "sp_get_all (clear_filters p) (js k) = sp_get_all p (js k)" if "k \<in> {''sort'', ''sort_desc''}" for k
    using that by (auto simp: get_all_clear filter_params_def)
  have h: "sp_get_all (clear_filters p) (js ''page'') = []" by (simp add: get_all_clear)
  note d = selection_of_def readers g r o h reads_first [OF assms]
  show "search_input (clear_filters p) = sl_search (sel_step Clear_filters (selection_of num_of p))"
    "set (sp_get_all (clear_filters p) (js (list_param k))) = sl_ticked (sel_step Clear_filters (selection_of num_of p)) k"
    "maintenance_mode (clear_filters p) = sl_maintenance (sel_step Clear_filters (selection_of num_of p))"
    "flag_on (clear_filters p) (js (flag_param f)) = sl_flag (sel_step Clear_filters (selection_of num_of p)) f"
    "(sort_field_of (clear_filters p), sort_desc_of (clear_filters p)) =
      sl_sort (sel_step Clear_filters (selection_of num_of p))"
    "page_param num_of (clear_filters p) = sl_page (sel_step Clear_filters (selection_of num_of p))" for k f
    by (simp_all add: d)
qed

lemma sortable_text_field: "sortable_text f \<noteq> []" "map_of SORTABLE_FIELDS (sortable_text f) = Some f"
  by (cases f; simp add: sortable_text_def SORTABLE_FIELDS_def)+

lemma get_all_sort_change:
  "sp_get_all (handle_sort_change f desc p) (js k) =
     (if k = ''page'' then [] else if k = ''sort'' then [sortable_text f]
      else if k = ''sort_desc'' then (if desc then [js ''true''] else []) else sp_get_all p (js k))"
  by (simp add: handle_sort_change_def get_all_update sortable_text_field)

lemma sort_simulates:
  assumes "reads_page num_of"
  shows "selection_of num_of (handle_sort_change f desc p) = sel_step (Sort_by f desc) (selection_of num_of p)"
  by (rule selection_eqI) (simp_all add: selection_of_def readers get_all_sort_change sortable_text_field reads_first [OF assms])

lemma page_simulates:
  assumes "reads_page num_of"
  shows "selection_of num_of (go_to_page n p) = sel_step (Turn_page n) (selection_of num_of p)"
proof (rule selection_eqI)
  have "num_of (int_text n) = Fin (of_int n)" if "1 < n"
    using that assms by (simp add: int_text_def reads_page_def)
  then show "page_param num_of (go_to_page n p) = sl_page (sel_step (Turn_page n) (selection_of num_of p))"
    using reads_first [OF assms] by (auto simp: page_param_def get_go_to_page)
qed (simp_all add: selection_of_def readers get_all_go_to_page)

lemma chip_simulates:
  assumes "reads_page num_of"
  shows "selection_of num_of (click_chip (target_chip t) p) = sel_step (Press_chip t) (selection_of num_of p)"
proof (cases t)
  case Chip_search
  then show ?thesis using search_simulates [OF assms, of "[]" p]
    by (simp add: click_chip_def type_search_def update_filters_def apply_patch_def)
next
  case (Chip_value k v)
  then show ?thesis using tick_simulates [OF assms] by (simp add: click_chip_def)
next
  case Chip_maintenance
  then show ?thesis using maintenance_simulates(2) [OF assms] by (simp add: click_chip_def)
next
  case (Chip_flag f)
  then show ?thesis using check_simulates [OF assms, of f False] by (simp add: click_chip_def set_toggle_def)
qed

lemma step_simulates:
  assumes "reads_page num_of"
  shows "selection_of num_of (page_handle e p) = sel_step e (selection_of num_of p)"
proof (cases e)
  case (Tick k v)
  have m: "maintenance_mode p = sl_maintenance (selection_of num_of p)" by (simp add: selection_of_def)
  show ?thesis
    using Tick tick_simulates [OF assms, of k v p] maintenance_simulates(1) [OF assms, of p]
    by (auto simp: health_toggle_def m)
qed (simp_all only: page_handle.simps search_simulates clear_simulates check_simulates sort_simulates page_simulates
    chip_simulates clear_filters_simulates health_clear_simulates sel_step.simps(1,3,4) assms split: if_splits, simp)

lemma run_simulates:
  "reads_page num_of \<Longrightarrow>
    selection_of num_of (fold page_handle es p) = fold sel_step es (selection_of num_of p)"
  by (induction es arbitrary: p) (simp_all add: step_simulates)

section \<open>What a selection shows\<close>

fun list_filter :: "list_key \<Rightarrow> filter_key" where
  "list_filter L_vendor = Key_vendor"
| "list_filter L_site_id = Key_site_id"
| "list_filter L_source = Key_source_provider"
| "list_filter L_classification = Key_installation_type"
| "list_filter L_installation = Key_openshift_state"
| "list_filter L_health = Key_health"
| "list_filter L_mce = Key_mce"
| "list_filter L_cluster = Key_cluster"

fun flag_holds :: "server_row list \<Rightarrow> flag_key \<Rightarrow> server_row \<Rightarrow> bool" where
  "flag_holds rows F_stale r = sr_stale r"
| "flag_holds rows F_duplicate r = (length (filter (\<lambda>x. sr_name x = sr_name r) rows) \<ge> 2)"
| "flag_holds rows F_contested r = (sr_contested_with r \<noteq> None)"
| "flag_holds rows F_name_mismatch r = (sr_openshift_reported_name r \<noteq> None)"
| "flag_holds rows F_donor r = is_donor (sr_maintenance r)"

text \<open>
  A row is wanted when its value is among the ticked ones of every list that has any, it has the
  property of every toggle that is on, and it passes the maintenance mode and the search.
\<close>

definition wanted :: "platform \<Rightarrow> server_row list \<Rightarrow> selection \<Rightarrow> server_row \<Rightarrow> bool" where
  "wanted pf rows s r \<longleftrightarrow>
     list_all (\<lambda>k. sl_ticked s k = {} \<or> key_value (list_filter k) r \<in> Some ` sl_ticked s k) list_keys \<and>
     list_all (\<lambda>f. \<not> sl_flag s f \<or> flag_holds rows f r) flag_keys \<and>
     (case sl_maintenance s of None \<Rightarrow> True | Some m \<Rightarrow> ms_enabled (sr_maintenance r) = (m = Only)) \<and>
     match_test (parse_search pf (sl_search s)) r"

fun flag_filter :: "flag_key \<Rightarrow> filter_key" where
  "flag_filter F_stale = Key_stale"
| "flag_filter F_duplicate = Key_duplicate"
| "flag_filter F_contested = Key_contested"
| "flag_filter F_name_mismatch = Key_nameMismatch"
| "flag_filter F_donor = Key_donor"

lemma keys_by_kind:
  "list_all P all_keys \<longleftrightarrow> list_all (\<lambda>k. P (list_filter k)) list_keys \<and> list_all (\<lambda>f. P (flag_filter f)) flag_keys \<and>
     P Key_maintenance \<and> P Key_search \<and> P Key_reserved"
  by (auto simp: all_keys_def list_keys_def flag_keys_def)

lemma some_list_test:
  "(case some_list vs of None \<Rightarrow> True | Some vs \<Rightarrow> vs = [] \<or> (\<exists>v \<in> set vs. x = Some v)) \<longleftrightarrow>
     set vs = {} \<or> x \<in> Some ` set vs"
  by (auto simp: some_list_def)

lemma list_key_test:
  "key_test pf rows (url_filters p q) (list_filter k) r \<longleftrightarrow>
     set (sp_get_all p (js (list_param k))) = {} \<or> key_value (list_filter k) r \<in> Some ` set (sp_get_all p (js (list_param k)))"
  using some_list_test [where vs = "sp_get_all p (js (list_param k))" and x = "key_value (list_filter k) r"]
  by (cases k) (simp_all only: list_filter.simps list_param.simps key_test.simps key_values.simps url_filters_def
    row_filters.select_convs)

lemma flag_key_test:
  "key_test pf rows (url_filters p q) (flag_filter f) r \<longleftrightarrow> \<not> flag_on p (js (flag_param f)) \<or> flag_holds rows f r"
  by (cases f) (auto simp: url_filters_def)

lemma other_key_tests:
  "key_test pf rows (url_filters p q) Key_maintenance r \<longleftrightarrow>
     (case maintenance_mode p of None \<Rightarrow> True | Some m \<Rightarrow> ms_enabled (sr_maintenance r) = (m = Only))"
  "key_test pf rows (url_filters p q) Key_search r \<longleftrightarrow> match_test (parse_search pf q) r"
  "key_test pf rows (url_filters p q) Key_reserved r"
  by (simp_all add: url_filters_def split: option.splits maintenance_filter.splits)

lemma filter_rows_wanted:
  "filter_rows pf rows (url_filters p (search_input p)) = filter (wanted pf rows (selection_of num_of p)) rows"
  unfolding filter_rows_eq keys_by_kind list_key_test flag_key_test other_key_tests wanted_def selection_of_def
  by (simp add: url_filters_def)

section \<open>What the events so far say about one value\<close>

fun flips :: "list_key \<Rightarrow> jstr \<Rightarrow> page_event \<Rightarrow> bool" where
  "flips k v (Tick k' v') \<longleftrightarrow> k' = k \<and> v' = v \<and> \<not> (k = L_health \<and> v = MAINTENANCE_OPTION)"
| "flips k v (Press_chip (Chip_value k' v')) \<longleftrightarrow> k' = k \<and> v' = v"
| "flips k v _ \<longleftrightarrow> False"

fun clears :: "list_key \<Rightarrow> page_event \<Rightarrow> bool" where
  "clears k (Clear_list k') \<longleftrightarrow> k' = k \<and> k \<noteq> L_mce \<and> k \<noteq> L_cluster"
| "clears k Clear_filters \<longleftrightarrow> True"
| "clears k _ \<longleftrightarrow> False"

definition since_clear :: "list_key \<Rightarrow> page_event list \<Rightarrow> page_event list" where
  "since_clear k es = takeWhile (\<lambda>e. \<not> clears k e) (rev es)"

lemma ticked_step:
  "v \<noteq> [] \<Longrightarrow> v \<in> sl_ticked (sel_step e s) k \<longleftrightarrow>
     (if clears k e then False else if flips k v e then v \<notin> sl_ticked s k else v \<in> sl_ticked s k)"
  by (cases e)
    (auto simp: sel_search_def sel_maintenance_def sel_tick_def sel_clear_def sel_check_def flip_def
      split: chip_target.splits)

lemma ticked_run:
  assumes "v \<noteq> []"
  shows "v \<in> sl_ticked (fold sel_step es s) k \<longleftrightarrow>
    odd (length (filter (flips k v) (since_clear k es))) \<noteq> (v \<in> sl_ticked s k \<and> \<not> list_ex (clears k) es)"
proof (induction es rule: rev_induct)
  case Nil
  then show ?case by (simp add: since_clear_def)
next
  case (snoc e es)
  then show ?case by (auto simp: ticked_step [OF assms] since_clear_def)
qed

section \<open>URLs the page writes\<close>

text \<open>No list holds a value twice, and none an empty one.\<close>

definition clean :: "jstr list \<Rightarrow> bool" where
  "clean vs \<longleftrightarrow> distinct vs \<and> [] \<notin> set vs"

definition clean_url :: "params \<Rightarrow> bool" where
  "clean_url p \<longleftrightarrow> list_all (\<lambda>k. clean (sp_get_all p (js (list_param k)))) list_keys"

lemma clean_urlD: "clean_url p \<Longrightarrow> clean (sp_get_all p (js (list_param k)))"
  using list_keys_all by (auto simp: clean_url_def list_all_iff)

lemma clean_Nil [simp]: "clean []"
  by (simp add: clean_def)

lemma clean_toggle:
  "clean xs \<Longrightarrow> clean (filter (\<lambda>x. x \<noteq> []) (if v \<in> set xs then filter (\<lambda>x. x \<noteq> v) xs else xs @ [v]))"
  by (auto simp: clean_def)

lemma clean_tick: "clean (sp_get_all p (js (list_param k))) \<Longrightarrow>
    clean (sp_get_all (toggle_multi (js (list_param l)) v p) (js (list_param k)))"
  using clean_toggle [of "sp_get_all p (js (list_param l))" v]
  by (cases "k = l") (simp_all add: get_all_toggle split del: if_split)

lemma clean_step:
  assumes "clean (sp_get_all p (js (list_param k)))"
  shows "clean (sp_get_all (page_handle e p) (js (list_param k)))"
proof (cases e)
  case (Tick l v)
  then show ?thesis
    using assms clean_tick [of p k L_health v]
    by (simp add: clean_tick health_toggle_def toggle_maintenance_def Let_def get_all_update_one)
next
  case (Clear_list l)
  then show ?thesis
    using assms by (cases l) (simp_all add: get_all_health_clear clear_values_def get_all_update_one)
next
  case (Press_chip t)
  then show ?thesis
    using assms by (cases t) (simp_all add: click_chip_def clean_tick get_all_update_one)
qed (use assms in \<open>simp_all add: type_search_def get_all_update_one get_all_health_clear clear_values_def set_toggle_def
    get_all_clear get_all_sort_change get_all_go_to_page\<close>)

lemma clean_run: "clean_url p \<Longrightarrow> clean_url (fold page_handle es p)"
  by (induction es arbitrary: p) (auto simp: clean_url_def list_all_iff intro!: clean_step)

text \<open>The key of a chip in the list that is drawn.\<close>

definition react_key :: "chip \<Rightarrow> jstr" where
  "react_key c = chip_key c @ js '':'' @ coalesce (chip_value c) []"

definition chip_pair :: "chip \<Rightarrow> jstr \<times> jstr" where
  "chip_pair c = (chip_key c, coalesce (chip_value c) [])"

text \<open>The chips in groups, one per parameter.\<close>

definition flag_group :: "string \<Rightarrow> bool \<Rightarrow> jstr \<times> jstr list" where
  "flag_group k b = (js k, if b then [[]] else [])"

definition chip_groups :: "params \<Rightarrow> jstr \<Rightarrow> (jstr \<times> jstr list) list" where
  "chip_groups p s =
     flag_group ''search'' (s \<noteq> []) #
     map (\<lambda>k. (js (list_param k), sp_get_all p (js (list_param k))))
       [L_vendor, L_site_id, L_source, L_classification, L_installation, L_health] @
     flag_group ''maintenance'' (maintenance_mode p \<noteq> None) #
     map (\<lambda>k. (js (list_param k), sp_get_all p (js (list_param k)))) [L_mce, L_cluster] @
     map (\<lambda>f. flag_group (flag_param f) (flag_on p (js (flag_param f)))) flag_keys"

lemma map_chip_pair:
  "map chip_pair (flag_chip b k l) = map (Pair (js k)) (if b then [[]] else [])"
  "map chip_pair (map (\<lambda>v. value_chip k (f v) v) vs) = map (Pair (js k)) vs"
  by (simp_all add: flag_chip_def value_chip_def chip_pair_def)

lemma chips_in_groups:
  "map chip_pair (active_filters sites p s) = concat (map (\<lambda>(k, vs). map (Pair k) vs) (chip_groups p s))"
  unfolding active_filters_def map_append map_chip_pair
  by (simp add: chip_groups_def flag_group_def flag_keys_def)

lemma distinct_groups:
  "distinct (map fst gs) \<Longrightarrow> list_all (\<lambda>g. distinct (snd g)) gs \<Longrightarrow>
    distinct (concat (map (\<lambda>(k, vs). map (Pair k) vs) gs))"
  by (induction gs) (auto simp: distinct_map inj_on_def image_iff)

lemma chip_names:
  "map fst (chip_groups p s) = map js [''search'', ''vendor'', ''site_id'', ''source_provider'', ''installation_type'',
     ''openshift_state'', ''health_overall'', ''maintenance'', ''mce'', ''cluster'', ''stale'', ''duplicate'',
     ''contested'', ''name_mismatch'', ''donor'']"
  by (simp add: chip_groups_def flag_group_def flag_keys_def)

lemma chip_name_no_colon:
  assumes "c \<in> set (active_filters sites p s)"
  shows "58 \<notin> set (chip_key c)"
proof -
  have "chip_pair c \<in> set (map chip_pair (active_filters sites p s))" using assms by simp
  then have "chip_key c \<in> set (map fst (chip_groups p s))"
    unfolding chips_in_groups by (auto simp: chip_pair_def image_iff) force
  then show ?thesis unfolding chip_names by (auto simp: js_def)
qed

lemma chips_distinct:
  assumes "clean_url p"
  shows "distinct (map react_key (active_filters sites p s))"
proof -
  have colon: "js '':'' = [58]" by (simp add: js_def)
  have "list_all (\<lambda>g. distinct (snd g)) (chip_groups p s)"
    using clean_urlD [OF assms] by (simp add: chip_groups_def flag_group_def flag_keys_def clean_def del: list_param.simps)
  moreover have "distinct (map fst (chip_groups p s))" unfolding chip_names by simp
  ultimately have "distinct (map chip_pair (active_filters sites p s))"
    unfolding chips_in_groups by (intro distinct_groups)
  moreover have "chip_pair c = chip_pair d" if "react_key c = react_key d"
    "c \<in> set (active_filters sites p s)" "d \<in> set (active_filters sites p s)" for c d
    using append_sep_eq [OF chip_name_no_colon [OF that(2)] chip_name_no_colon [OF that(3)]] that(1)
    by (simp add: react_key_def chip_pair_def colon)
  ultimately show ?thesis unfolding distinct_map inj_on_def by blast
qed

section \<open>Properties\<close>

text \<open>
  C3: the URL handlers of the inventory page implement its abstract selection: after any sequence of
  typing, ticks, clears, toggles, chip clicks, sorts and page turns, what the page reads from the URL
  is the selection those events lead to, and once the search has settled the rows it lists are the
  fleet's rows that selection wants, sorted by it.
\<close>

theorem url_implements_selection:
  assumes "reads_page num_of" and "s = fold sel_step es (selection_of num_of p)"
    and "q = fold page_handle es p"
  shows "selection_of num_of q = s \<and>
    matched_rows pf rows q (search_input q) = sort_rows pf (filter (wanted pf rows s) rows) (fst (sl_sort s)) (snd (sl_sort s))"
proof -
  have e: "selection_of num_of q = s" using assms run_simulates by simp
  then have "sl_sort s = (sort_field_of q, sort_desc_of q)" by (auto simp: selection_of_def)
  then show ?thesis using e by (simp add: matched_rows_def filter_rows_wanted [of _ _ _ num_of])
qed

lemma url_implements_selection_witness:
  "sl_ticked (selection_of decimal_number (fold page_handle [Tick L_vendor (js ''hp''), Tick L_vendor (js ''dell''),
     Tick L_vendor (js ''hp''), Check F_donor True] [])) L_vendor = {js ''dell''}"
  using url_implements_selection [of decimal_number _ "[Tick L_vendor (js ''hp''), Tick L_vendor (js ''dell''),
     Tick L_vendor (js ''hp''), Check F_donor True]" "[]", OF _ refl refl] decimal_number_nat_text
  by (simp add: reads_page_def sel_tick_def sel_check_def flip_def selection_of_def js_def insert_Diff_if)

text \<open>
  C15: on the inventory page a value is ticked exactly when the clicks that flip it, in its list or on
  its chip, since the last clear of that list are odd in number, the ones it was opened with counting
  when nothing has cleared it since; no other event of the page matters.
\<close>

theorem ticked_by_parity:
  assumes "v \<noteq> []"
  shows "v \<in> set (sp_get_all (fold page_handle es p) (js (list_param k))) \<longleftrightarrow>
    odd (length (filter (flips k v) (since_clear k es))) \<noteq>
      (v \<in> set (sp_get_all p (js (list_param k))) \<and> \<not> list_ex (clears k) es)"
proof -
  have t: "set (sp_get_all q (js (list_param k))) = sl_ticked (selection_of decimal_number q) k" for q
    by (simp add: selection_of_def)
  have "reads_page decimal_number" by (simp add: reads_page_def decimal_number_nat_text)
  from ticked_run [OF assms] show ?thesis by (simp only: t run_simulates [OF \<open>reads_page decimal_number\<close>])
qed

lemma ticked_by_parity_witness:
  "js ''hub'' \<in> set (sp_get_all (fold page_handle
     [Tick L_mce (js ''hub''), Clear_filters, Tick L_mce (js ''hub''), Type_search (js ''x'')] []) (js ''mce''))"
  using ticked_by_parity [of "js ''hub''" "[Tick L_mce (js ''hub''), Clear_filters, Tick L_mce (js ''hub''), Type_search (js ''x'')]"
    "[]" L_mce]
  by (simp add: since_clear_def)

text \<open>
  C32: no sequence of events brings a URL that holds no value twice and no empty one to one that does,
  and from such a URL every chip that is drawn has a React key of its own.
\<close>

theorem chip_keys_distinct:
  assumes "clean_url p"
  shows "clean_url (fold page_handle es p) \<and> distinct (map react_key (active_filters sites (fold page_handle es p) s))"
  using clean_run [OF assms, of es] chips_distinct by blast

lemma chip_keys_distinct_witness:
  "distinct (map react_key (active_filters [] (fold page_handle [Tick L_mce (js ''a''), Tick L_cluster (js ''a'')] []) []))"
  using chip_keys_distinct [of "[]" "[Tick L_mce (js ''a''), Tick L_cluster (js ''a'')]" "[]" "[]"]
  by (simp add: clean_url_def list_all_iff)

end
