(* ===== verification/Timers.thy ===== *)
theory Timers
  imports Prelude
begin

text \<open>
  The parts that restart a timer on every event: the toast (\<^verbatim>\<open>src/lib/toast.ts\<close>), the debounced
  value (\<^verbatim>\<open>src/lib/useDebouncedValue.ts\<close>) and the copy button
  (\<^verbatim>\<open>src/components/CopyButton.tsx\<close>, \<^verbatim>\<open>src/lib/clipboard.ts\<close>). Times are milliseconds; a timer
  that is due fires before the next event. The locale states what the three share.
\<close>

section \<open>A value with one timer\<close>

text \<open>The value, and the instant at which the timer fires with the value it then sets.\<close>

record 'a timed =
  td_value :: 'a
  td_timer :: "(int \<times> 'a) option"

definition advance :: "int \<Rightarrow> 'a timed \<Rightarrow> 'a timed" where
  "advance now s = (case td_timer s of
     Some (due, v) \<Rightarrow> if due \<le> now then \<lparr>td_value = v, td_timer = None\<rparr> else s
   | None \<Rightarrow> s)"

definition timed_run :: "('e \<Rightarrow> int \<Rightarrow> 'a timed \<Rightarrow> 'a timed) \<Rightarrow> (int \<times> 'e) list \<Rightarrow> 'a timed \<Rightarrow> 'a timed" where
  "timed_run put evs s = fold (\<lambda>(t, e) s. put e t (advance t s)) evs s"

locale restarting =
  fixes put :: "'e \<Rightarrow> int \<Rightarrow> 'a timed \<Rightarrow> 'a timed" and delay :: int and final :: "'e \<Rightarrow> 'a"
  assumes put_timer: "td_timer (put e t s) = Some (t + delay, final e)"
begin

lemma run_timer:
  "evs \<noteq> [] \<Longrightarrow> td_timer (timed_run put evs s) = Some (fst (last evs) + delay, final (snd (last evs)))"
  by (induction evs rule: rev_induct) (auto simp: timed_run_def put_timer split: prod.splits)

text \<open>Once the delay has passed without an event the value is the last event's and stays it.\<close>

lemma settled:
  "evs \<noteq> [] \<Longrightarrow> fst (last evs) + delay \<le> now \<Longrightarrow>
    advance now (timed_run put evs s) = \<lparr>td_value = final (snd (last evs)), td_timer = None\<rparr>"
  by (simp add: advance_def run_timer)

text \<open>Until then the timer has not fired.\<close>

lemma unsettled:
  "evs \<noteq> [] \<Longrightarrow> now < fst (last evs) + delay \<Longrightarrow> advance now (timed_run put evs s) = timed_run put evs s"
  by (simp add: advance_def run_timer)

end

section \<open>The toast\<close>

record toast =
  to_title :: jstr
  to_detail :: jstr
  to_ok :: bool

definition VISIBLE_MS :: int where "VISIBLE_MS = 2000"

text \<open>The toast is kept when it closes.\<close>

definition toast_start :: "(toast option \<times> bool) timed" where
  "toast_start = \<lparr>td_value = (None, False), td_timer = None\<rparr>"

definition show_toast :: "toast \<Rightarrow> int \<Rightarrow> (toast option \<times> bool) timed \<Rightarrow> (toast option \<times> bool) timed" where
  "show_toast t now s = \<lparr>td_value = (Some t, True), td_timer = Some (now + VISIBLE_MS, (Some t, False))\<rparr>"

definition toaster :: "(toast option \<times> bool) timed \<Rightarrow> bool \<times> (bool \<times> jstr \<times> jstr) option" where
  "toaster s = (snd (td_value s), map_option (\<lambda>t. (to_ok t, to_title t, to_detail t)) (fst (td_value s)))"

interpretation toast: restarting show_toast VISIBLE_MS "\<lambda>t. (Some t, False)"
  by unfold_locales (simp add: show_toast_def)

section \<open>The debounced value\<close>

definition debounce_start :: "int \<Rightarrow> 'a \<Rightarrow> int \<Rightarrow> 'a timed" where
  "debounce_start delay v now = \<lparr>td_value = v, td_timer = Some (now + delay, v)\<rparr>"

definition debounce_change :: "int \<Rightarrow> 'a \<Rightarrow> int \<Rightarrow> 'a timed \<Rightarrow> 'a timed" where
  "debounce_change delay v now s = s\<lparr>td_timer := Some (now + delay, v)\<rparr>"

text \<open>The effect depends on the value: a render with the same value keeps the timer.\<close>

definition debounce_follow :: "int \<Rightarrow> int \<Rightarrow> 'a \<Rightarrow> 'a \<Rightarrow> 'a timed \<Rightarrow> 'a timed" where
  "debounce_follow delay now old new s = (if new = old then s else debounce_change delay new now s)"

interpretation debounce: restarting "debounce_change delay" delay "\<lambda>v. v" for delay
  by unfold_locales (simp add: debounce_change_def)

section \<open>The copy button\<close>

text \<open>
  \<open>writeText\<close> is absent outside a secure context, and may be refused; \<open>execCommand\<close> returns a
  Boolean or throws.
\<close>

datatype write_text = No_clipboard | Write_ok | Write_refused

datatype exec_copy = Exec_returns bool | Exec_throws

definition copy_text :: "write_text \<Rightarrow> exec_copy \<Rightarrow> bool" where
  "copy_text w e = (case w of
     Write_ok \<Rightarrow> True
   | _ \<Rightarrow> (case e of Exec_returns b \<Rightarrow> b | Exec_throws \<Rightarrow> False))"

datatype copy_state = Copy_idle | Copied | Copy_failed

definition RESET_AFTER_MS :: int where "RESET_AFTER_MS = 1600"

definition copy_start :: "copy_state timed" where
  "copy_start = \<lparr>td_value = Copy_idle, td_timer = None\<rparr>"

text \<open>The answer of one click's copy.\<close>

definition copy_answer :: "bool \<Rightarrow> int \<Rightarrow> copy_state timed \<Rightarrow> copy_state timed" where
  "copy_answer success now s =
     \<lparr>td_value = (if success then Copied else Copy_failed), td_timer = Some (now + RESET_AFTER_MS, Copy_idle)\<rparr>"

definition copy_toast :: "jstr \<Rightarrow> bool \<Rightarrow> toast" where
  "copy_toast text success =
     \<lparr>to_title = (if success then js ''Copied'' else js ''Couldn'' @ [39] @ js ''t copy''), to_detail = text, to_ok = success\<rparr>"

record copy_view =
  cw_check :: bool
  cw_hidden :: bool
  cw_status :: jstr

definition copy_render :: "bool \<Rightarrow> copy_state timed \<Rightarrow> copy_view" where
  "copy_render reveal_on_hover s = \<lparr>
     cw_check = (td_value s = Copied),
     cw_hidden = (reveal_on_hover \<and> td_value s = Copy_idle),
     cw_status = (case td_value s of Copied \<Rightarrow> js ''Copied'' | Copy_failed \<Rightarrow> js ''Copy failed'' | Copy_idle \<Rightarrow> [])\<rparr>"

interpretation copy: restarting copy_answer RESET_AFTER_MS "\<lambda>_. Copy_idle"
  by unfold_locales (simp add: copy_answer_def)

section \<open>What the three show\<close>

text \<open>A toast is visible for two seconds after the last one was shown, with that one's text.\<close>

lemma toast_visible:
  assumes "evs \<noteq> []"
  shows "toaster (advance now (timed_run show_toast evs toast_start)) =
    (now < fst (last evs) + VISIBLE_MS,
     Some (let t = snd (last evs) in (to_ok t, to_title t, to_detail t)))"
proof (cases "now < fst (last evs) + VISIBLE_MS")
  case True
  have "td_value (timed_run show_toast evs toast_start) = (Some (snd (last evs)), True)"
    using assms by (induction evs rule: rev_induct) (auto simp: timed_run_def show_toast_def split: prod.splits)
  with True assms show ?thesis by (simp add: toast.unsettled toaster_def Let_def)
next
  case False
  with assms show ?thesis by (simp add: toast.settled toaster_def Let_def)
qed

text \<open>The copy button's mark stays 1.6 seconds after the last answer.\<close>

lemma copy_mark:
  assumes "evs \<noteq> []"
  shows "cw_check (copy_render r (advance now (timed_run copy_answer evs copy_start))) \<longleftrightarrow>
    snd (last evs) \<and> now < fst (last evs) + RESET_AFTER_MS"
proof (cases "now < fst (last evs) + RESET_AFTER_MS")
  case True
  have "td_value (timed_run copy_answer evs copy_start) = (if snd (last evs) then Copied else Copy_failed)"
    using assms by (induction evs rule: rev_induct) (auto simp: timed_run_def copy_answer_def split: prod.splits)
  with True assms show ?thesis by (simp add: copy.unsettled copy_render_def)
next
  case False
  with assms show ?thesis by (simp add: copy.settled copy_render_def)
qed

text \<open>While every change comes before the delay has passed, the debounced value does not move.\<close>

fun quick :: "int \<Rightarrow> int \<Rightarrow> (int \<times> 'a) list \<Rightarrow> bool" where
  "quick delay t [] \<longleftrightarrow> True"
| "quick delay t ((u, v) # evs) \<longleftrightarrow> u < t + delay \<and> quick delay u evs"

lemma debounce_value: "td_value (debounce_change delay v now s) = td_value s"
  by (simp add: debounce_change_def)

lemma debounce_quiet:
  "quick delay t evs \<Longrightarrow> td_timer s = Some (t + delay, w) \<Longrightarrow>
    td_value (timed_run (debounce_change delay) evs s) = td_value s"
proof (induction evs arbitrary: t s w)
  case Nil
  then show ?case by (simp add: timed_run_def)
next
  case (Cons e evs)
  obtain u v where e: "e = (u, v)" by (cases e)
  have a: "advance u s = s" using Cons.prems by (simp add: advance_def e)
  have "timed_run (debounce_change delay) (e # evs) s =
      timed_run (debounce_change delay) evs (debounce_change delay v u s)"
    by (simp add: timed_run_def e a)
  moreover have "td_value (timed_run (debounce_change delay) evs (debounce_change delay v u s)) = td_value s"
    using Cons.IH [of u "debounce_change delay v u s" v] Cons.prems
    by (simp add: e debounce.put_timer debounce_value)
  ultimately show ?case by simp
qed

text \<open>
  The invariant of a debounced value: it is settled on \<open>v\<close>, or its timer will set \<open>v\<close> the delay after one
  of the instants \<open>C\<close>.
\<close>

definition tracks :: "int \<Rightarrow> int set \<Rightarrow> 'a \<Rightarrow> 'a timed \<Rightarrow> bool" where
  "tracks delay C v s \<longleftrightarrow> (case td_timer s of None \<Rightarrow> td_value s = v | Some due \<Rightarrow> \<exists>u \<in> C. due = (u + delay, v))"

named_theorems tracking

lemma tracks_start [tracking]: "t \<in> C \<Longrightarrow> tracks delay C v (debounce_start delay v t)"
  by (simp add: tracks_def debounce_start_def)

lemma tracks_advance [tracking]: "tracks delay C v s \<Longrightarrow> tracks delay C v (advance t s)"
  by (auto simp: tracks_def advance_def split: option.splits)

lemma tracks_follow [tracking]:
  "tracks delay C old s \<Longrightarrow> (if new = old then C else {now}) \<subseteq> D \<Longrightarrow>
    tracks delay D new (debounce_follow delay now old new s)"
  by (auto simp: tracks_def debounce_follow_def debounce_change_def split: option.splits if_splits)

lemma tracks_settled:
  "tracks delay C v s \<Longrightarrow> \<forall>u \<in> C. u + delay \<le> now \<Longrightarrow> td_value (advance now s) = v"
  by (auto simp: tracks_def advance_def split: option.splits)

section \<open>Properties\<close>

text \<open>
  The debounced value of a burst of changes, each before the delay of the one before has passed,
  always settles: it stays the first value until the delay has passed after the last change, and is the
  last value from that instant on.
\<close>

lemma debounced_value:
  assumes "evs \<noteq> []" "quick delay t evs"
  shows "td_value (advance now (timed_run (debounce_change delay) evs (debounce_start delay v t))) =
    (if fst (last evs) + delay \<le> now then snd (last evs) else v)"
  using assms debounce.settled [of evs delay now] debounce.unsettled [of evs now delay]
    debounce_quiet [of delay t evs "debounce_start delay v t" v]
  by (simp add: debounce_start_def)

lemma debounced_value_witness:
  "td_value (advance 500 (timed_run (debounce_change 300) [(100, js ''d''), (200, js ''de'')] (debounce_start 300 [] 0))) =
    js ''de''"
  using debounced_value [of "[(100, js ''d''), (200, js ''de'')]" 300 0 500 "[]"] by simp

end
