(* ===== verification/Csv.thy ===== *)
theory Csv
  imports Labels
begin

text \<open>
  The CSV export of the inventory (\<^verbatim>\<open>src/features/inventory/csvExport.ts\<close>), and a
  reader of RFC 4180 that it is checked against. \<open>downloadCsv\<close> only hands the text to the
  browser and is not modelled.
\<close>

section \<open>The export\<close>

definition CSV_COLUMNS :: "(jstr \<times> (server_row \<Rightarrow> jstr)) list" where
  "CSV_COLUMNS = [
     (js ''Name'', sr_name),
     (js ''Vendor'', \<lambda>r. vendor_text (sr_vendor r)),
     (js ''BMC address'', \<lambda>r. coalesce (sr_bmc_host r) []),
     (js ''Installation'', \<lambda>r. openshift_state_text (sr_openshift_state r)),
     (js ''Installing to'', \<lambda>r. if rs_held (sr_reservation r)
        then coalesce (rs_mce_cluster (sr_reservation r)) [] else []),
     (js ''MCE'', \<lambda>r. coalesce (sr_mce_name r) []),
     (js ''Cluster'', \<lambda>r. coalesce (sr_cluster_name r) []),
     (js ''OpenShift reported name'', \<lambda>r. coalesce (sr_openshift_reported_name r) []),
     (js ''Contested with'', \<lambda>r. coalesce (sr_contested_with r) []),
     (js ''Model'', \<lambda>r. coalesce (sr_model r) []),
     (js ''Serial'', \<lambda>r. coalesce (sr_serial r) []),
     (js ''SPT'', \<lambda>r. coalesce (sr_profile_template_name r) []),
     (js ''State'', \<lambda>r. severity_text (sr_health r))]"

definition csv_special :: "nat \<Rightarrow> bool" where
  "csv_special u \<longleftrightarrow> u \<in> {34, 44, 10, 13}"

definition csv_field :: "jstr \<Rightarrow> jstr" where
  "csv_field v =
     (if list_ex csv_special v
      then [34] @ concat (map (\<lambda>u. if u = 34 then [34, 34] else [u]) v) @ [34] else v)"

definition csv_line :: "(jstr \<times> (server_row \<Rightarrow> jstr)) list \<Rightarrow> server_row \<Rightarrow> jstr" where
  "csv_line cols r = join [44] (map (\<lambda>c. csv_field (snd c r)) cols)"

definition rows_to_csv :: "server_row list \<Rightarrow> jstr" where
  "rows_to_csv rows =
     join [13, 10] (fold (\<lambda>row lines. lines @ [csv_line CSV_COLUMNS row]) rows
       [join [44] (map (\<lambda>c. csv_field (fst c)) CSV_COLUMNS)])"

section \<open>A reader of RFC 4180\<close>

text \<open>
  At the start of a field, in a plain field, in quotes, after a quote that closes the field or
  doubles, and after a carriage return.
\<close>

datatype csv_mode = Start | Plain | Quoted | Closing | Return

fun csv_read :: "csv_mode \<Rightarrow> jstr \<Rightarrow> jstr list \<Rightarrow> jstr \<Rightarrow> jstr list list" where
  "csv_read m f r [] = [r @ [f]]"
| "csv_read m f r (u # s) =
     (if m = Quoted then
        (if u = 34 then csv_read Closing f r s else csv_read Quoted (f @ [u]) r s)
      else if u = 34 \<and> m = Start then csv_read Quoted f r s
      else if u = 34 \<and> m = Closing then csv_read Quoted (f @ [34]) r s
      else if u = 44 then csv_read Start [] (r @ [f]) s
      else if u = 13 then csv_read Return f r s
      else if u = 10 \<and> m = Return then (r @ [f]) # csv_read Start [] [] s
      else csv_read Plain (f @ [u]) r s)"

definition read_csv :: "jstr \<Rightarrow> jstr list list" where
  "read_csv s = csv_read Start [] [] s"

text \<open>What may follow a field: the end, a comma or a line end.\<close>

definition field_end :: "jstr \<Rightarrow> bool" where
  "field_end t \<longleftrightarrow> t = [] \<or> hd t = 44 \<or> prefix [13, 10] t"

lemma read_field_end:
  "field_end t \<Longrightarrow> m \<noteq> Quoted \<Longrightarrow> m' \<noteq> Quoted \<Longrightarrow> csv_read m f r t = csv_read m' f r t"
  by (cases t) (auto simp: field_end_def)

lemma read_plain:
  "\<forall>u \<in> set v. \<not> csv_special u \<Longrightarrow> csv_read Plain f r (v @ t) = csv_read Plain (f @ v) r t"
  by (induction v arbitrary: f) (auto simp: csv_special_def)

lemma read_start:
  "\<forall>u \<in> set v. \<not> csv_special u \<Longrightarrow> v \<noteq> [] \<Longrightarrow>
     csv_read Start [] r (v @ t) = csv_read Plain v r t"
  by (cases v) (auto simp: csv_special_def read_plain)

lemma read_quoted:
  "csv_read Quoted f r (concat (map (\<lambda>u. if u = 34 then [34, 34] else [u]) v) @ 34 # t)
     = csv_read Closing (f @ v) r t"
  by (induction v arbitrary: f) auto

lemma read_field:
  assumes "field_end t"
  shows "csv_read Start [] r (csv_field v @ t) = csv_read Plain v r t"
proof (cases "list_ex csv_special v")
  case True
  then have "csv_read Start [] r (csv_field v @ t) = csv_read Closing v r t"
    by (simp add: csv_field_def read_quoted)
  with assms show ?thesis by (simp add: read_field_end [of t Closing Plain])
next
  case False
  then have s: "csv_field v = v" "\<forall>u \<in> set v. \<not> csv_special u"
    by (simp_all add: csv_field_def list_ex_iff)
  show ?thesis
  proof (cases "v = []")
    case True
    with assms s show ?thesis by (simp add: read_field_end [of t Start Plain])
  next
    case False
    with s show ?thesis by (simp add: read_start)
  qed
qed

lemma read_fields:
  assumes "vs \<noteq> []" "t = [] \<or> prefix [13, 10] t"
  shows "csv_read Start [] r (join [44] (map csv_field vs) @ t) = csv_read Plain (last vs) (r @ butlast vs) t"
  using assms(1)
proof (induction vs arbitrary: r rule: induct_list012)
  case (2 v)
  then show ?case using assms(2) read_field [of t r v] by (auto simp: field_end_def)
next
  case (3 v w vs)
  have "csv_read Start [] r (csv_field v @ 44 # join [44] (map csv_field (w # vs)) @ t)
      = csv_read Start [] (r @ [v]) (join [44] (map csv_field (w # vs)) @ t)"
    by (subst read_field) (simp_all add: field_end_def)
  with 3 show ?case by simp
qed simp

lemma read_lines:
  "ls \<noteq> [] \<Longrightarrow> \<forall>l \<in> set ls. l \<noteq> [] \<Longrightarrow>
     read_csv (join [13, 10] (map (\<lambda>l. join [44] (map csv_field l)) ls)) = ls"
proof (induction ls rule: induct_list012)
  case (2 l)
  then show ?case using read_fields [of l "[]" "[]"] by (simp add: read_csv_def)
next
  case (3 l k ls)
  let ?rest = "join [13, 10] (map (\<lambda>l. join [44] (map csv_field l)) (k # ls))"
  have "csv_read Start [] [] (join [44] (map csv_field l) @ 13 # 10 # ?rest) = l # csv_read Start [] [] ?rest"
    using 3 read_fields [of l "13 # 10 # ?rest" "[]"] by simp
  with 3 show ?case by (simp add: read_csv_def)
qed simp

lemma rows_to_csv_lines:
  "rows_to_csv rows = join [13, 10] (map (\<lambda>l. join [44] (map csv_field l))
     (map fst CSV_COLUMNS # map (\<lambda>r. map (\<lambda>c. snd c r) CSV_COLUMNS) rows))"
proof -
  have "fold (\<lambda>row lines. lines @ [g row]) rows ls = ls @ map g rows" for g :: "server_row \<Rightarrow> jstr" and ls
    by (induction rows arbitrary: ls) auto
  then show ?thesis
    by (simp add: rows_to_csv_def csv_line_def comp_def)
qed

lemma csv_read_back:
  "read_csv (rows_to_csv rows) = map fst CSV_COLUMNS # map (\<lambda>r. map (\<lambda>c. snd c r) CSV_COLUMNS) rows"
  unfolding rows_to_csv_lines by (rule read_lines) (auto simp: CSV_COLUMNS_def)

section \<open>Properties\<close>


end
