(* ===== verification/Inventory_Live.thy ===== *)
theory Inventory_Live
  imports Selection Timers Csv Datetime
begin

text \<open>
  The inventory page in time (\<^verbatim>\<open>src/features/inventory/InventoryPage.tsx\<close>): its URL, the search
  text that follows it 300 ms later (\<^verbatim>\<open>src/lib/useDebouncedValue.ts\<close>) and the polled rows, with the
  export of what it lists (\<^verbatim>\<open>csvExport.ts\<close>). The properties compose \<open>Selection\<close>, \<open>Timers\<close>,
  \<open>Facets\<close> and \<open>Csv\<close>.
\<close>

section \<open>The page and its events\<close>

definition SEARCH_DELAY :: int where "SEARCH_DELAY = 300"

record live =
  lv_url :: params
  lv_debounce :: "jstr timed"
  lv_rows :: "server_rows_response query"

text \<open>An event of a control, a navigation to another URL of the page, or news of the polled query.\<close>

datatype live_event = On_page page_event | Open_url params | Rows_query "server_rows_response query"

definition live_mount :: "params \<Rightarrow> server_rows_response query \<Rightarrow> int \<Rightarrow> live" where
  "live_mount p rows now =
     \<lparr>lv_url = p, lv_debounce = debounce_start SEARCH_DELAY (search_input p) now, lv_rows = rows\<rparr>"

text \<open>A new URL restarts the timer exactly when its search text is another one.\<close>

definition live_goto :: "int \<Rightarrow> params \<Rightarrow> live \<Rightarrow> live" where
  "live_goto now p st = st\<lparr>lv_url := p,
     lv_debounce := debounce_follow SEARCH_DELAY now (search_input (lv_url st)) (search_input p)
       (advance now (lv_debounce st))\<rparr>"

fun live_step :: "int \<Rightarrow> live_event \<Rightarrow> live \<Rightarrow> live" where
  "live_step now (On_page e) st = live_goto now (page_handle e (lv_url st)) st"
| "live_step now (Open_url p) st = live_goto now p st"
| "live_step now (Rows_query q) st = st\<lparr>lv_rows := q\<rparr>"

definition live_run :: "(int \<times> live_event) list \<Rightarrow> live \<Rightarrow> live" where
  "live_run evs st = fold (\<lambda>(t, e). live_step t e) evs st"

text \<open>The search text the rows are filtered by at an instant, and what the page draws then.\<close>

definition drawn_search :: "int \<Rightarrow> live \<Rightarrow> jstr" where
  "drawn_search now st = td_value (advance now (lv_debounce st))"

definition live_view ::
  "platform \<Rightarrow> (jstr \<Rightarrow> jsnum) \<Rightarrow> (jstr \<Rightarrow> jstr) \<Rightarrow> site_stats list option \<Rightarrow> int \<Rightarrow> live \<Rightarrow> inventory_view" where
  "live_view pf num_of fmt sites now st =
     inventory_render pf num_of fmt sites (lv_rows st) (lv_url st) (drawn_search now st)"

text \<open>The instant at which the search text last changed.\<close>

fun changed_at :: "(int \<times> live_event) list \<Rightarrow> live \<Rightarrow> int \<Rightarrow> int" where
  "changed_at [] st t0 = t0"
| "changed_at ((t, e) # evs) st t0 =
     changed_at evs (live_step t e st)
       (if search_input (lv_url (live_step t e st)) = search_input (lv_url st) then t0 else t)"

section \<open>The export\<close>

text \<open>The file's name, from the day in UTC, and its content.\<close>

definition handle_export_csv :: "int \<Rightarrow> server_row list \<Rightarrow> jstr \<times> jstr" where
  "handle_export_csv now matched =
     (js ''inventory-'' @ take 10 (to_iso now) @ js ''.csv'', rows_to_csv matched)"

section \<open>The debounced text\<close>

text \<open>The timer is either done with the URL's text or due to set it 300 ms after the last change.\<close>

definition in_step :: "int \<Rightarrow> live \<Rightarrow> bool" where
  "in_step t st \<longleftrightarrow> tracks SEARCH_DELAY {t} (search_input (lv_url st)) (lv_debounce st)"

lemma in_step_mount: "in_step t (live_mount p rows t)"
  by (simp add: in_step_def live_mount_def tracking)

lemma in_step_goto:
  "in_step t st \<Longrightarrow> in_step (if search_input p = search_input (lv_url st) then t else now) (live_goto now p st)"
  by (auto simp: in_step_def live_goto_def intro!: tracking)

lemma in_step_step:
  "in_step t st \<Longrightarrow>
    in_step (if search_input (lv_url (live_step now e st)) = search_input (lv_url st) then t else now) (live_step now e st)"
proof (cases e)
  case (Rows_query q)
  then show "in_step t st \<Longrightarrow> ?thesis" by (simp add: in_step_def)
next
  case (On_page e')
  then show "in_step t st \<Longrightarrow> ?thesis"
    using in_step_goto [of t st "page_handle e' (lv_url st)" now] by (simp add: live_goto_def)
next
  case (Open_url p)
  then show "in_step t st \<Longrightarrow> ?thesis" using in_step_goto [of t st p now] by (simp add: live_goto_def)
qed

lemma in_step_run: "in_step t st \<Longrightarrow> in_step (changed_at evs st t) (live_run evs st)"
proof (induction evs arbitrary: st t)
  case Nil
  then show ?case by (simp add: live_run_def)
next
  case (Cons e evs)
  obtain u x where e: "e = (u, x)" by (cases e)
  show ?case using Cons.IH [OF in_step_step [OF Cons.prems, of u x]] by (simp add: e live_run_def)
qed

lemma in_step_drawn:
  "in_step t st \<Longrightarrow> t + SEARCH_DELAY \<le> now \<Longrightarrow> drawn_search now st = search_input (lv_url st)"
  by (simp add: in_step_def drawn_search_def tracks_settled)

text \<open>A burst of typing, each key before the delay of the one before has passed.\<close>

definition keystrokes :: "(int \<times> jstr) list \<Rightarrow> (int \<times> live_event) list" where
  "keystrokes burst = map (\<lambda>(t, q). (t, On_page (Type_search q))) burst"

lemma search_typed: "search_input (type_search q p) = q"
  by (cases "q = []") (simp_all add: search_input_def sp_get_hd type_search_def get_all_update_one)

lemma burst_runs_debounce:
  "distinct_adj (search_input (lv_url st) # map snd burst) \<Longrightarrow>
    lv_debounce (live_run (keystrokes burst) st) = timed_run (debounce_change SEARCH_DELAY) burst (lv_debounce st) \<and>
    search_input (lv_url (live_run (keystrokes burst) st)) = last (search_input (lv_url st) # map snd burst)"
proof (induction burst arbitrary: st)
  case Nil
  then show ?case by (simp add: live_run_def keystrokes_def timed_run_def)
next
  case (Cons e burst)
  obtain t q where e: "e = (t, q)" by (cases e)
  let ?st = "live_step t (On_page (Type_search q)) st"
  have u: "search_input (lv_url ?st) = q" by (simp add: live_goto_def search_typed)
  have d: "lv_debounce ?st = debounce_change SEARCH_DELAY q t (advance t (lv_debounce st))"
    using Cons.prems by (auto simp: live_goto_def debounce_follow_def search_typed e)
  have "distinct_adj (search_input (lv_url ?st) # map snd burst)"
    using Cons.prems by (simp only: u) (simp add: e)
  from Cons.IH [OF this] show ?case
    unfolding u d by (simp add: e keystrokes_def live_run_def timed_run_def)
qed

lemma burst_value:
  assumes "burst \<noteq> []" "quick delay (fst (hd burst)) (tl burst)" "fst (last burst) \<le> now"
    and "td_value (advance (fst (hd burst)) s) = q0"
  shows "td_value (advance now (timed_run (debounce_change delay) burst s)) =
    (if fst (last burst) + delay \<le> now then snd (last burst) else q0)"
proof (cases "fst (last burst) + delay \<le> now")
  case True
  then show ?thesis using debounce.settled [OF assms(1)] by simp
next
  case False
  obtain t q rest where b: "burst = (t, q) # rest" using assms(1) by (cases burst) auto
  let ?s = "debounce_change delay q t (advance t s)"
  have "timed_run (debounce_change delay) burst s = timed_run (debounce_change delay) rest ?s"
    by (simp add: b timed_run_def)
  moreover have "td_value (timed_run (debounce_change delay) rest ?s) = td_value ?s"
    using assms(2) debounce_quiet [of delay t rest ?s q] by (simp add: b debounce.put_timer)
  ultimately show ?thesis
    using False assms(4) debounce.unsettled [OF assms(1), of now delay s] by (simp add: b debounce_value)
qed

section \<open>Properties\<close>

text \<open>
  C18: a burst of typing in the search box of the inventory, each key within 300 ms of the one before, on
  a page whose search has settled, filters the rows once: the box shows the last text at once, the rows
  keep following the old text until 300 ms after the last key, and follow the last text from then on.
\<close>

theorem typing_filters_once:
  assumes "st = live_run evs (live_mount p rows t0)"
    and "changed_at evs (live_mount p rows t0) t0 + SEARCH_DELAY \<le> fst (hd burst)"
    and "burst \<noteq> []" "quick SEARCH_DELAY (fst (hd burst)) (tl burst)"
    and "distinct_adj (search_input (lv_url st) # map snd burst)" "fst (last burst) \<le> now"
  shows "iv_search (live_view pf num_of fmt sites now (live_run (keystrokes burst) st)) = snd (last burst) \<and>
    drawn_search now (live_run (keystrokes burst) st) =
      (if fst (last burst) + SEARCH_DELAY \<le> now then snd (last burst) else search_input (lv_url st))"
proof -
  have "in_step (changed_at evs (live_mount p rows t0) t0) st"
    unfolding assms(1) by (rule in_step_run [OF in_step_mount])
  from in_step_drawn [OF this assms(2)]
  have "td_value (advance (fst (hd burst)) (lv_debounce st)) = search_input (lv_url st)"
    by (simp add: drawn_search_def)
  from burst_value [OF assms(3,4,6) this] show ?thesis
    using burst_runs_debounce [OF assms(5)] assms(3)
    by (simp add: drawn_search_def live_view_def inventory_render_def Let_def last_map)
qed

lemma typing_filters_once_witness:
  "let st = live_run (keystrokes [(400, js ''d''), (500, js ''de'')]) (live_mount [] Pending 0) in
   drawn_search 799 st = [] \<and> drawn_search 800 st = js ''de''"
  using typing_filters_once [of "live_mount [] Pending 0" "[]" "[]" Pending 0 "[(400, js ''d''), (500, js ''de'')]" 799]
    typing_filters_once [of "live_mount [] Pending 0" "[]" "[]" Pending 0 "[(400, js ''d''), (500, js ''de'')]" 800]
  by (simp add: live_run_def live_mount_def SEARCH_DELAY_def search_input_def sp_get_def js_def)





end
