(* ===== verification/Describe_Event.thy ===== *)
theory Describe_Event
  imports Labels
begin

text \<open>
  The sentences and details of audit events (\<^verbatim>\<open>src/features/events/describeEvent.ts\<close>)
  and the timeline that shows them (\<^verbatim>\<open>EventTimeline.tsx\<close>). 8594 is the arrow, 8212 the
  em dash. What the browser computes is in the record \<open>text_env\<close>: \<open>toLowerCase\<close>, the text
  of a number, \<open>JSON.stringify\<close> and the text of a member of \<open>Object.prototype\<close>.
\<close>

record text_env =
  te_lower :: "jstr \<Rightarrow> jstr"
  te_number :: "rat \<Rightarrow> jstr"
  te_json :: "json \<Rightarrow> jstr"
  te_member :: "jstr \<Rightarrow> jstr"

text \<open>A concrete one, for witnesses.\<close>

definition ascii_env :: text_env where
  "ascii_env = \<lparr>te_lower = map ascii_lower, te_number = (\<lambda>q. int_text \<lfloor>q\<rfloor>), te_json = (\<lambda>_. []),
     te_member = (\<lambda>_. [])\<rparr>"

section \<open>Reading the data\<close>

definition WRITTEN_EVENT_TYPES :: "jstr list" where
  "WRITTEN_EVENT_TYPES = map js [''SERVER_CREATED'', ''SERVER_RENAMED'', ''SERVER_PRUNED'', ''HEALTH_CHANGED'',
     ''CLASSIFICATION_CHANGED'', ''OPENSHIFT_STATE_CHANGED'', ''MAINTENANCE_ENABLED'', ''MAINTENANCE_UPDATED'',
     ''MAINTENANCE_DISABLED'', ''SERVER_RESERVED'', ''SERVER_RESERVATION_REFUSED'', ''SERVER_RELEASED'',
     ''IDRAC_RESET'', ''AUDIT_PURGED'', ''LOGIN_SUCCEEDED'', ''LOGIN_DENIED'', ''TOKEN_CREATED'', ''TOKEN_REVOKED'',
     ''JOB_TRIGGERED'']"

text \<open>\<open>str(data.key)\<close>: a non-empty string, or null.\<close>

definition str_of :: "json option \<Rightarrow> jstr option" where
  "str_of v = (case v of Some (JStr s) \<Rightarrow> if s \<noteq> [] then Some s else None | _ \<Rightarrow> None)"

definition str_at :: "jobject \<Rightarrow> string \<Rightarrow> jstr option" where
  "str_at d k = str_of (map_of d (js k))"

definition count_text :: "text_env \<Rightarrow> json option \<Rightarrow> jstr" where
  "count_text te v = (case v of Some (JNum n) \<Rightarrow> te_number te n | _ \<Rightarrow> js ''?'')"

definition paren :: "jobject \<Rightarrow> string \<Rightarrow> jstr" where
  "paren d k = (case str_at d k of Some s \<Rightarrow> js '' ('' @ s @ js '')'' | None \<Rightarrow> [])"

definition or_q :: "jstr option \<Rightarrow> jstr" where
  "or_q s = coalesce s (js ''?'')"

definition change :: "jstr \<Rightarrow> jobject \<Rightarrow> jstr" where
  "change label d = label @ js '' '' @ or_q (str_at d ''from'') @ js '' -> '' @ or_q (str_at d ''to'')"

definition transition :: "jobject \<Rightarrow> jstr" where
  "transition d = or_q (str_at d ''from'') @ [32, 8594, 32] @ or_q (str_at d ''to'')"

section \<open>The sentence of an event\<close>

definition RESET_TRIGGER :: "(jstr \<times> jstr) list" where
  "RESET_TRIGGER = [(js ''disks'', js ''every disk''), (js ''nics'', js ''every NIC''),
     (js ''both'', js ''every disk and every NIC'')]"

definition idrac_reset :: "text_env \<Rightarrow> jobject \<Rightarrow> jstr" where
  "idrac_reset te d =
     (let why = (case table_get RESET_TRIGGER (coalesce (str_at d ''trigger'') []) of
            Some (Text t) \<Rightarrow> t | Some (Inherited k) \<Rightarrow> te_member te k | None \<Rightarrow> js ''disks or NICs'')
          @ js '' UNKNOWN'';
          detail = str_at d ''detail'';
          powered = map_of d (js ''powered_on'') = Some (JBool True);
          on = (if powered then js ''Host was off: powered on, then ''
            else if str_at d ''power_state'' = Some (js ''On'') then js ''Host was already on: only the ''
            else []);
          in_detail = (case detail of Some t \<Rightarrow> js '' ('' @ t @ js '')'' | None \<Rightarrow> []) in
      if str_at d ''outcome'' = Some (js ''requested'') then on @ js ''iDRAC restart requested: '' @ why
      else if str_at d ''outcome'' = Some (js ''unconfirmed'')
      then on @ js ''iDRAC restart sent, no reply (the iDRAC dropped the connection): '' @ why
      else if powered \<and> \<not> (case detail of Some t \<Rightarrow> contains t (js ''maintenance'') | None \<Rightarrow> False)
      then js ''Host was off: power-on sent, iDRAC not restarted'' @ in_detail @ js '': '' @ why
      else on @ js ''iDRAC restart failed'' @ in_detail @ js '': '' @ why)"

definition maintenance_sentence :: "audit_event \<Rightarrow> jstr" where
  "maintenance_sentence e =
     (let reason = str_at (ev_data e) ''reason'';
          lead = (if ev_event_type e = js ''MAINTENANCE_ENABLED'' then js ''Put into'' else js ''Updated'');
          by_whom = js '' by '' @ fst (actor_label (ev_actor e)) in
      if is_donor \<lparr>ms_enabled = True, ms_reason = reason, ms_created_by = None\<rparr>
      then js ''Marked as parts donor'' @ by_whom @ js '': '' @ coalesce reason []
      else lead @ js '' maintenance'' @ by_whom @ (case reason of Some r \<Rightarrow> js '': '' @ r | None \<Rightarrow> []))"

definition describe_event :: "text_env \<Rightarrow> audit_event \<Rightarrow> jstr" where
  "describe_event te e =
     (let d = ev_data e; t = ev_event_type e; lower = map_option (te_lower te) in
      if t = js ''SERVER_CREATED'' then js ''Server discovered''
      else if t = js ''SERVER_RENAMED''
      then js ''Renamed '' @ or_q (str_at d ''name_from'') @ [32, 8594, 32] @ or_q (str_at d ''name_to'')
      else if t = js ''SERVER_PRUNED'' then js ''Pruned: no longer listed by its manager''
      else if t = js ''LOGIN_SUCCEEDED'' then js ''Logged in as '' @ or_q (lower (str_at d ''role''))
      else if t = js ''LOGIN_DENIED''
      then js ''Login refused: authenticated, but in no admin, auditor or viewer list''
      else if t = js ''TOKEN_CREATED''
      then js ''Created a personal API token ('' @ or_q (lower (str_at d ''role'')) @ js '', expires ''
        @ or_q (map_option (take 10) (str_at d ''expires_at'')) @ js '')''
      else if t = js ''TOKEN_REVOKED''
      then (if map_of d (js ''by_admin'') = Some (JBool True)
        then js ''Personal API token of '' @ or_q (str_at d ''user'') @ js '' revoked by an admin''
        else js ''Revoked their personal API token'')
      else if t = js ''JOB_TRIGGERED''
      then js ''Ran CronJob '' @ or_q (str_at d ''cronjob'') @ js '' by hand as Job '' @ or_q (str_at d ''job'')
      else if t = js ''AUDIT_PURGED''
      then js ''Purged '' @ count_text te (map_of d (js ''deleted'')) @ js '' audit events older than ''
        @ count_text te (map_of d (js ''retention_days'')) @ js '' days''
      else if t = js ''HEALTH_CHANGED'' then transition d
      else if t = js ''CLASSIFICATION_CHANGED''
      then change (js ''Classification'') d @ (case (str_at d ''name_from'', str_at d ''name_to'') of
          (Some a, Some b) \<Rightarrow> js '' (renamed '' @ a @ js '' -> '' @ b @ js '')'' | _ \<Rightarrow> [])
      else if t = js ''IDRAC_RESET'' then idrac_reset te d
      else if t = js ''OPENSHIFT_STATE_CHANGED'' then change (js ''OpenShift state'') d @ paren d ''cluster_name''
      else if t = js ''MAINTENANCE_ENABLED'' \<or> t = js ''MAINTENANCE_UPDATED'' then maintenance_sentence e
      else if t = js ''MAINTENANCE_DISABLED'' then js ''Maintenance ended''
      else if t = js ''SERVER_RESERVED''
      then js ''Reserved by '' @ or_q (str_at d ''holder'')
        @ (case str_at d ''mce_cluster'' of Some m \<Rightarrow> js '' for '' @ m | None \<Rightarrow> [])
      else if t = js ''SERVER_RESERVATION_REFUSED''
      then js ''Reservation by '' @ or_q (str_at d ''requested_by'') @ js '' refused''
        @ (case str_at d ''reason'' of Some r \<Rightarrow> js '': '' @ r
           | None \<Rightarrow> (case str_at d ''held_by'' of Some h \<Rightarrow> js '': held by '' @ h | None \<Rightarrow> []))
      else if t = js ''SERVER_RELEASED''
      then js ''Released from '' @ or_q (str_at d ''holder'') @ paren d ''mce_cluster''
      else t)"

section \<open>Health reasons\<close>

record health_reason =
  hr_policy_key :: "jstr option"
  hr_policy_name :: "jstr option"
  hr_category :: "jstr option"
  hr_severity :: "jstr option"
  hr_message :: "jstr option"

text \<open>An array counts as an object, without any of the named keys.\<close>

definition reason_of :: "json \<Rightarrow> health_reason list" where
  "reason_of x =
     (let of_object = (\<lambda>d. \<lparr>hr_policy_key = str_at d ''policy_key'', hr_policy_name = str_at d ''policy_name'',
        hr_category = str_at d ''category'', hr_severity = str_at d ''severity'', hr_message = str_at d ''message''\<rparr>) in
      case x of JObj d \<Rightarrow> [of_object d] | JArr _ \<Rightarrow> [of_object []] | _ \<Rightarrow> [])"

definition reasons_at :: "jobject \<Rightarrow> string \<Rightarrow> health_reason list option" where
  "reasons_at d k = (case map_of d (js k) of
     Some (JArr xs) \<Rightarrow> Some (concat (map reason_of xs)) | _ \<Rightarrow> None)"

definition health_sections :: "jobject \<Rightarrow> health_reason list option \<times> health_reason list option" where
  "health_sections d = (reasons_at d ''from_reasons'',
     (case reasons_at d ''to_reasons'' of Some r \<Rightarrow> Some r | None \<Rightarrow> reasons_at d ''reasons''))"

definition reason_rank :: "health_reason \<Rightarrow> int" where
  "reason_rank r = (let i = find_index (\<lambda>s. Some (severity_text s) = hr_severity r) SEVERITY_ORDER in
     if i = - 1 then int (length SEVERITY_ORDER) else i)"

definition top_reason :: "health_reason list \<Rightarrow> health_reason option" where
  "top_reason reasons = fold (\<lambda>r best. case best of
     None \<Rightarrow> Some r | Some b \<Rightarrow> if reason_rank r < reason_rank b then Some r else Some b) reasons None"

section \<open>The details\<close>

definition LEGACY_DATA_KEYS :: "jstr list" where
  "LEGACY_DATA_KEYS = [js ''ticket'', js ''matched_rule_id'']"

definition visible_data :: "audit_event \<Rightarrow> jobject" where
  "visible_data e = filter (\<lambda>(k, v). k \<notin> set LEGACY_DATA_KEYS) (ev_data e)"

definition matched_rule :: "jobject \<Rightarrow> (jstr \<times> jstr option) option" where
  "matched_rule d = (case str_at d ''matched_rule'' of
     None \<Rightarrow> None
   | Some name \<Rightarrow> Some (name, (case (str_at d ''matched_field'', str_at d ''matched_pattern'') of
       (Some f, Some p) \<Rightarrow> Some (f @ js '' ~ '' @ p) | _ \<Rightarrow> None)))"

section \<open>The timeline\<close>

definition TYPE_TINT :: "(jstr \<times> jstr) list" where
  "TYPE_TINT = map (\<lambda>(a, b). (js a, js b)) [
     (''HEALTH_'', ''--tint-warning''), (''MAINTENANCE_'', ''--tint-maintenance''),
     (''SERVER_PRUNED'', ''--tint-critical''), (''AUDIT_PURGED'', ''--surface-hover''),
     (''IDRAC_RESET'', ''--tint-warning''), (''LOGIN_DENIED'', ''--tint-critical''), (''LOGIN_'', ''--tint-info''),
     (''TOKEN_'', ''--tint-info''), (''JOB_'', ''--tint-warning''),
     (''SERVER_RESERVATION_REFUSED'', ''--tint-critical''), (''SERVER_RES'', ''--tint-info''),
     (''SERVER_RELEASED'', ''--tint-info''), (''OPENSHIFT_'', ''--tint-info''),
     (''CLASSIFICATION_'', ''--tint-major''), (''SERVER_RENAMED'', ''--tint-info''),
     (''SERVER_CREATED'', ''--tint-healthy'')]"

definition tint_for :: "jstr \<Rightarrow> jstr" where
  "tint_for t = (case find (\<lambda>(p, _). starts_with t p) TYPE_TINT of
     Some (_, tint) \<Rightarrow> tint | None \<Rightarrow> js ''--surface-hover'')"

text \<open>\<open>s.split(sep)\<close> for a separator of several units: leftmost matches first.\<close>

fun split_text :: "nat \<Rightarrow> jstr \<Rightarrow> jstr \<Rightarrow> jstr list" where
  "split_text skip sep [] = [[]]"
| "split_text (Suc k) sep (u # s) = split_text k sep s"
| "split_text 0 sep (u # s) =
     (if prefix sep (u # s) then [] # split_text (length sep - 1) sep s
      else (case split_text 0 sep s of p # ps \<Rightarrow> (u # p) # ps | [] \<Rightarrow> [[u]]))"

text \<open>\<open>const [from, to] = label.split(" ARROW ")\<close>, with \<open>?? "?"\<close> for a missing piece.\<close>

definition health_transition :: "jobject \<Rightarrow> jstr \<times> jstr" where
  "health_transition d = (let ps = split_text 0 [32, 8594, 32] (transition d) in
     (if length ps > 0 then ps ! 0 else js ''?'', if length ps > 1 then ps ! 1 else js ''?''))"

text \<open>One reason, each field labelled; \<open>True\<close> marks a value drawn as a severity chip.\<close>

definition reason_block :: "health_reason \<Rightarrow> (jstr \<times> jstr \<times> bool) list" where
  "reason_block r = map (\<lambda>(l, v). (js l, coalesce v [8212], l = ''Severity'' \<and> truthy v))
     [(''Policy key'', hr_policy_key r), (''Policy name'', hr_policy_name r), (''Category'', hr_category r),
      (''Severity'', hr_severity r), (''Message'', hr_message r)]"

record health_side =
  hsd_label :: jstr
  hsd_severity :: jstr
  hsd_reason :: "(jstr \<times> jstr \<times> bool) list option"

definition health_side :: "string \<Rightarrow> jstr \<Rightarrow> health_reason list \<Rightarrow> health_side" where
  "health_side label severity reasons = \<lparr>hsd_label = js label, hsd_severity = severity,
     hsd_reason = map_option reason_block (top_reason reasons)\<rparr>"

definition health_why :: "jobject \<Rightarrow> health_side list" where
  "health_why d = (case health_sections d of (from, to) \<Rightarrow>
     (let (fs, ts) = health_transition d in
      (case from of Some rs \<Rightarrow> [health_side ''FROM'' fs rs] | None \<Rightarrow> [])
      @ (case to of Some rs \<Rightarrow> [health_side ''TO'' ts rs] | None \<Rightarrow> [])))"

text \<open>The transition of another status change, nothing when the event has none.\<close>

definition plain_transition :: "jobject \<Rightarrow> jstr option" where
  "plain_transition d = (case (map_of d (js ''from''), map_of d (js ''to'')) of
     (Some (JStr _), Some (JStr _)) \<Rightarrow> Some (transition d) | _ \<Rightarrow> None)"

datatype server_cell = Server_link jstr jstr | Unknown_server jstr | No_server

definition server_cell :: "audit_event \<Rightarrow> server_cell" where
  "server_cell e = (if truthy (ev_server_id e)
     then (if truthy (ev_server_name e) then Server_link (the (ev_server_id e)) (the (ev_server_name e))
       else Unknown_server (the (ev_server_id e)))
     else No_server)"

text \<open>\<open>toggle(id)\<close> on the set of open rows.\<close>

definition toggle_open :: "jstr \<Rightarrow> jstr list \<Rightarrow> jstr list" where
  "toggle_open i current = (let (was, rest) = set_delete i current in if was then rest else set_add i rest)"

datatype happened = Health_chips "jstr \<times> jstr" | Plain_text "jstr option"

datatype details = Details_health "health_side list" jstr
  | Details_sentence jstr "(jstr \<times> jstr option) option" jstr

record timeline_row =
  tr_server :: "server_cell option"
  tr_type :: jstr
  tr_tint :: jstr
  tr_happened :: happened
  tr_open :: bool
  tr_actor :: "jstr \<times> actor_kind"
  tr_details :: "details option"

definition timeline_row :: "text_env \<Rightarrow> bool \<Rightarrow> jstr list \<Rightarrow> audit_event \<Rightarrow> timeline_row" where
  "timeline_row te showServer is_open e =
     (let d = ev_data e; health = ev_event_type e = js ''HEALTH_CHANGED''; raw = te_json te (JObj (visible_data e)) in
      \<lparr>tr_server = (if showServer then Some (server_cell e) else None),
       tr_type = ev_event_type e,
       tr_tint = tint_for (ev_event_type e),
       tr_happened = (if health then Health_chips (health_transition d) else Plain_text (plain_transition d)),
       tr_open = (ev_id e \<in> set is_open),
       tr_actor = actor_label (ev_actor e),
       tr_details = (if ev_id e \<in> set is_open then Some (
           if health then Details_health (health_why d) raw
           else Details_sentence (describe_event te e)
             (if ev_event_type e = js ''CLASSIFICATION_CHANGED'' then matched_rule d else None) raw)
         else None)\<rparr>)"

section \<open>Laws\<close>

lemma top_reason_fold:
  "\<exists>b. fold (\<lambda>r best. case best of None \<Rightarrow> Some r
        | Some b \<Rightarrow> if reason_rank r < reason_rank b then Some r else Some b) rs (Some x) = Some b \<and>
     (b = x \<and> (\<forall>y \<in> set rs. reason_rank x \<le> reason_rank y) \<or>
      (\<exists>as bs. rs = as @ b # bs \<and> reason_rank b < reason_rank x \<and>
        (\<forall>a \<in> set as. reason_rank b < reason_rank a) \<and> (\<forall>c \<in> set bs. reason_rank b \<le> reason_rank c)))"
proof (induction rs arbitrary: x)
  case Nil
  then show ?case by simp
next
  case (Cons r rs)
  let ?y = "if reason_rank r < reason_rank x then r else x"
  obtain b where b: "fold (\<lambda>r best. case best of None \<Rightarrow> Some r
        | Some b \<Rightarrow> if reason_rank r < reason_rank b then Some r else Some b) rs (Some ?y) = Some b"
    and cases: "b = ?y \<and> (\<forall>z \<in> set rs. reason_rank ?y \<le> reason_rank z) \<or>
      (\<exists>as bs. rs = as @ b # bs \<and> reason_rank b < reason_rank ?y \<and>
        (\<forall>a \<in> set as. reason_rank b < reason_rank a) \<and> (\<forall>c \<in> set bs. reason_rank b \<le> reason_rank c))"
    using Cons.IH [of ?y] by blast
  have f: "fold (\<lambda>r best. case best of None \<Rightarrow> Some r
        | Some b \<Rightarrow> if reason_rank r < reason_rank b then Some r else Some b) (r # rs) (Some x) = Some b"
    using b by (simp split: if_splits)
  from cases show ?case
  proof
    assume l: "b = ?y \<and> (\<forall>z \<in> set rs. reason_rank ?y \<le> reason_rank z)"
    show ?case
    proof (cases "reason_rank r < reason_rank x")
      case True
      with l f show ?thesis by (intro exI [of _ b] conjI disjI2 exI [of _ "[]"] exI [of _ rs]) auto
    next
      case False
      with l f show ?thesis by (intro exI [of _ b] conjI disjI1) auto
    qed
  next
    assume "\<exists>as bs. rs = as @ b # bs \<and> reason_rank b < reason_rank ?y \<and>
        (\<forall>a \<in> set as. reason_rank b < reason_rank a) \<and> (\<forall>c \<in> set bs. reason_rank b \<le> reason_rank c)"
    then obtain as bs where r: "rs = as @ b # bs" "reason_rank b < reason_rank ?y"
        "\<forall>a \<in> set as. reason_rank b < reason_rank a" "\<forall>c \<in> set bs. reason_rank b \<le> reason_rank c" by blast
    with f show ?case
      by (intro exI [of _ b] conjI disjI2 exI [of _ "r # as"] exI [of _ bs]) (auto split: if_splits)
  qed
qed

lemma js_not_high: "256 \<le> u \<Longrightarrow> u \<notin> set (js s)"
  using js_ascii by fastforce

lemma append_js_eq: "js s @ t = js r \<longleftrightarrow> (\<exists>r'. r = s @ r' \<and> t = js r')"
proof
  assume a: "js s @ t = js r"
  then have "js (take (length s) r) = js s" by (metis append_eq_conv_conj js_def length_js take_map)
  then have "take (length s) r = s" by simp
  moreover have "t = js (drop (length s) r)" using a by (metis append_eq_conv_conj drop_map js_def length_js)
  ultimately show "\<exists>r'. r = s @ r' \<and> t = js r'" by (metis append_take_drop_id)
qed (auto simp: js_append)

lemma split_text_free:
  "sep \<noteq> [] \<Longrightarrow> hd sep \<notin> set s \<Longrightarrow> split_text 0 sep s = [s]"
proof (induction s)
  case (Cons u s)
  then have "\<not> prefix sep (u # s)" by (cases sep) auto
  with Cons show ?case by simp
qed simp

lemma split_text_skip: "split_text (length p) sep (p @ s) = split_text 0 sep s"
  by (induction p) simp_all

lemma split_text_sep:
  assumes "sep \<noteq> []"
  shows "split_text 0 sep (sep @ s) = [] # split_text 0 sep s"
proof (cases sep)
  case (Cons c sep')
  then show ?thesis using split_text_skip [of sep' sep s] by simp
qed (use assms in simp)

text \<open>Without the arrow in the text before it, the first piece is that text.\<close>

lemma split_arrow:
  "8594 \<notin> set a \<Longrightarrow> split_text 0 [32, 8594, 32] (a @ [32, 8594, 32] @ b) = a # split_text 0 [32, 8594, 32] b"
proof (induction a)
  case Nil
  then show ?case using split_text_sep [of "[32, 8594, 32]" b] by simp
next
  case (Cons u a)
  have "\<not> prefix [32, 8594, 32] (u # a @ [32, 8594, 32] @ b)"
    using Cons.prems by (cases a) auto
  with Cons show ?case by (simp del: split_text.simps(3) add: split_text.simps(3) [of _ u])
qed

lemma split_no_arrow: "8594 \<notin> set b \<Longrightarrow> split_text 0 [32, 8594, 32] b = [b]"
proof (induction b)
  case (Cons u b)
  have "\<not> prefix [32, 8594, 32] (u # b)" using Cons.prems by (cases b) auto
  with Cons show ?case by simp
qed simp

lemma space_in_js: "32 \<in> set (js s) \<longleftrightarrow> CHR '' '' \<in> set s"
proof -
  have "(32::nat) = of_char (CHR '' '')" by simp
  then show ?thesis unfolding js_def set_map by (metis (no_types, lifting) imageE imageI of_char_eq_iff)
qed

lemma idrac_reset_space: "32 \<in> set (idrac_reset te d)"
  by (simp add: idrac_reset_def Let_def space_in_js)

lemma maintenance_sentence_space: "32 \<in> set (maintenance_sentence e)"
  by (simp add: maintenance_sentence_def Let_def space_in_js)

lemma sentence_has_space:
  "ev_event_type e \<in> set WRITTEN_EVENT_TYPES \<Longrightarrow> 32 \<in> set (describe_event te e)"
  by (auto simp: WRITTEN_EVENT_TYPES_def describe_event_def Let_def space_in_js transition_def change_def
    idrac_reset_space maintenance_sentence_space)

lemma maintenance_sentence_donor:
  "prefix (js ''Marked as parts donor'') (maintenance_sentence e) \<longleftrightarrow>
    is_donor \<lparr>ms_enabled = True, ms_reason = str_at (ev_data e) ''reason'', ms_created_by = None\<rparr>"
proof -
  have p: "\<not> prefix (js ''Marked as parts donor'') (js ''Put into'' @ t)"
    "\<not> prefix (js ''Marked as parts donor'') (js ''Updated'' @ t)" for t
    by (simp_all add: js_def)
  show ?thesis by (simp add: maintenance_sentence_def Let_def p)
qed

section \<open>Properties\<close>

text \<open>
  The reason shown for a side of a health change is the most severe of those recorded, the
  first of them on a tie, and none only when none was recorded.
\<close>

lemma top_reason_is_worst_first:
  "case top_reason reasons of
     None \<Rightarrow> reasons = []
   | Some r \<Rightarrow> \<exists>as bs. reasons = as @ r # bs \<and> list_all (\<lambda>a. reason_rank r < reason_rank a) as \<and>
       list_all (\<lambda>b. reason_rank r \<le> reason_rank b) bs"
proof (cases reasons)
  case Nil
  then show ?thesis by (simp add: top_reason_def)
next
  case (Cons x rs)
  obtain b where b: "top_reason reasons = Some b" and
    c: "b = x \<and> (\<forall>y \<in> set rs. reason_rank x \<le> reason_rank y) \<or>
      (\<exists>as bs. rs = as @ b # bs \<and> reason_rank b < reason_rank x \<and>
        (\<forall>a \<in> set as. reason_rank b < reason_rank a) \<and> (\<forall>c \<in> set bs. reason_rank b \<le> reason_rank c))"
    using top_reason_fold [of rs x] by (auto simp: top_reason_def Cons)
  from c have "\<exists>as bs. reasons = as @ b # bs \<and> list_all (\<lambda>a. reason_rank b < reason_rank a) as \<and>
       list_all (\<lambda>c. reason_rank b \<le> reason_rank c) bs"
  proof
    assume "b = x \<and> (\<forall>y \<in> set rs. reason_rank x \<le> reason_rank y)"
    then show ?thesis by (intro exI [of _ "[]"] exI [of _ rs]) (simp add: Cons list_all_iff)
  next
    assume "\<exists>as bs. rs = as @ b # bs \<and> reason_rank b < reason_rank x \<and>
        (\<forall>a \<in> set as. reason_rank b < reason_rank a) \<and> (\<forall>c \<in> set bs. reason_rank b \<le> reason_rank c)"
    then obtain as bs where "rs = as @ b # bs" "reason_rank b < reason_rank x"
        "\<forall>a \<in> set as. reason_rank b < reason_rank a" "\<forall>c \<in> set bs. reason_rank b \<le> reason_rank c" by blast
    then show ?thesis by (intro exI [of _ "x # as"] exI [of _ bs]) (simp add: Cons list_all_iff)
  qed
  with b show ?thesis by simp
qed

text \<open>
  Every event type the backend writes has a sentence of its own: none of them falls back to
  the raw type name.
\<close>

lemma written_events_have_sentences:
  assumes "ev_event_type e \<in> set WRITTEN_EVENT_TYPES"
  shows "describe_event te e \<noteq> ev_event_type e"
proof -
  have "32 \<notin> set (ev_event_type e)"
    using assms by (auto simp: WRITTEN_EVENT_TYPES_def space_in_js)
  then show ?thesis using sentence_has_space [OF assms, of te] by metis
qed

lemma written_events_have_sentences_witness:
  "describe_event ascii_env \<lparr>ev_id = [], ev_event_type = js ''LOGIN_DENIED'', ev_server_id = None, ev_server_name = None,
     ev_actor = \<lparr>ac_type = SYSTEM, ac_id = [], ac_display = None\<rparr>, ev_request_id = None, ev_created_at = [],
     ev_data = []\<rparr> \<noteq> js ''LOGIN_DENIED''"
  using written_events_have_sentences [of "\<lparr>ev_id = [], ev_event_type = js ''LOGIN_DENIED'', ev_server_id = None,
     ev_server_name = None, ev_actor = \<lparr>ac_type = SYSTEM, ac_id = [], ac_display = None\<rparr>, ev_request_id = None,
     ev_created_at = [], ev_data = []\<rparr>" ascii_env]
  by (simp add: WRITTEN_EVENT_TYPES_def)

text \<open>
  The two chips of a health change are its FROM and TO, as long as the recorded texts hold no
  arrow of their own; an absent side reads as a question mark.
\<close>

lemma health_transition_sides:
  assumes "8594 \<notin> set (or_q (str_at d ''from''))" "8594 \<notin> set (or_q (str_at d ''to''))"
  shows "health_transition d = (or_q (str_at d ''from''), or_q (str_at d ''to''))"
  using split_arrow [OF assms(1)] split_no_arrow [OF assms(2)]
  by (simp add: health_transition_def transition_def)

lemma health_transition_sides_witness:
  "health_transition [(js ''from'', JStr (js ''HEALTHY'')), (js ''to'', JNull)] = (js ''HEALTHY'', js ''?'')"
  using health_transition_sides [of "[(js ''from'', JStr (js ''HEALTHY'')), (js ''to'', JNull)]"]
  by (simp add: str_at_def str_of_def or_q_def js_not_high)

text \<open>
  The sentence of a maintenance event calls it a parts donor exactly when the inventory's
  donor filter would count a maintenance with that reason.
\<close>

lemma donor_sentence:
  assumes "ev_event_type e \<in> {js ''MAINTENANCE_ENABLED'', js ''MAINTENANCE_UPDATED''}"
  shows "prefix (js ''Marked as parts donor'') (describe_event te e) \<longleftrightarrow>
    is_donor \<lparr>ms_enabled = True, ms_reason = str_at (ev_data e) ''reason'', ms_created_by = None\<rparr>"
proof -
  have "describe_event te e = maintenance_sentence e"
    using assms by (auto simp: describe_event_def Let_def)
  then show ?thesis by (simp only: maintenance_sentence_donor)
qed

lemma donor_sentence_witness:
  "\<not> prefix (js ''Marked as parts donor'') (describe_event ascii_env \<lparr>ev_id = [], ev_event_type = js ''MAINTENANCE_UPDATED'',
     ev_server_id = None, ev_server_name = None, ev_actor = \<lparr>ac_type = SYSTEM, ac_id = [], ac_display = None\<rparr>,
     ev_request_id = None, ev_created_at = [], ev_data = []\<rparr>)"
  by (subst donor_sentence) (simp_all add: str_at_def str_of_def is_donor_def)

end
