(* ===== verification/Events.thy ===== *)
theory Events
  imports Describe_Event Datetime Api_Client
begin

text \<open>
  The audit trail page: its filters (\<^verbatim>\<open>src/features/events/filters.ts\<close>,
  \<^verbatim>\<open>EventsPage.tsx\<close>), the query strings of \<^verbatim>\<open>src/api/events.ts\<close>, the pager
  (\<^verbatim>\<open>EventList.tsx\<close>, \<^verbatim>\<open>hooks.ts\<close>), the user field
  (\<^verbatim>\<open>ActorCombobox.tsx\<close>) and the history of one rule or policy
  (\<^verbatim>\<open>HistoryPanel.tsx\<close>).
\<close>

section \<open>Filters\<close>

definition RANGE_PRESETS :: "(jstr \<times> jstr \<times> int) list" where
  "RANGE_PRESETS = [(js ''1h'', js ''Last hour'', 3600000), (js ''24h'', js ''Last 24 hours'', 86400000),
     (js ''7d'', js ''Last 7 days'', 7 * 86400000), (js ''30d'', js ''Last 30 days'', 30 * 86400000)]"

definition LEGACY_EVENT_TYPES :: "(jstr \<times> jstr) list" where
  "LEGACY_EVENT_TYPES = [(js ''HEALTH_STATUS_CHANGED'', js ''HEALTH_CHANGED''),
     (js ''Health changes'', js ''HEALTH_CHANGED'')]"

definition normalize_event_type :: "jstr \<Rightarrow> jsval" where
  "normalize_event_type v = coalesce (table_get LEGACY_EVENT_TYPES v) (Text v)"

record event_filters =
  ef_server :: jstr
  ef_event_type :: jstr
  ef_actor_id :: jstr
  ef_range :: jstr
  ef_from :: jstr
  ef_to :: jstr

record event_params =
  epr_server_name :: "jstr option"
  epr_event_type :: "jstr option"
  epr_actor_id :: "jstr option"
  epr_since :: "jstr option"
  epr_until :: "jstr option"

definition when_set :: "jstr \<Rightarrow> jstr option" where
  "when_set s = (if s = [] then None else Some s)"

definition preset_since :: "int \<Rightarrow> int \<Rightarrow> int" where
  "preset_since now ms = now div 60000 * 60000 - ms"

definition filters_to_params :: "zone \<Rightarrow> event_filters \<Rightarrow> int \<Rightarrow> event_params" where
  "filters_to_params zone f now =
     (let base = \<lparr>epr_server_name = when_set (trim (ef_server f)), epr_event_type = when_set (ef_event_type f),
            epr_actor_id = when_set (ef_actor_id f), epr_since = None, epr_until = None\<rparr> in
      case map_of RANGE_PRESETS (ef_range f) of
        Some (_, ms) \<Rightarrow> base\<lparr>epr_since := Some (to_iso (preset_since now ms))\<rparr>
      | None \<Rightarrow>
          if ef_range f = js ''custom''
          then base\<lparr>epr_since := parse_israel_input zone (ef_from f), epr_until := parse_israel_input zone (ef_to f)\<rparr>
          else base)"

section \<open>Query strings\<close>

text \<open>\<open>buildSearchParams\<close>: absent and empty values are left out.\<close>

definition build_search_params :: "(jstr \<times> jstr option) list \<Rightarrow> params" where
  "build_search_params entries =
     fold (\<lambda>(k, v) p. if v = None \<or> v = Some [] then p else sp_set p k (the v)) entries []"

definition event_entries :: "event_params \<Rightarrow> jstr \<Rightarrow> nat option \<Rightarrow> (jstr \<times> jstr option) list" where
  "event_entries p cursor page_size =
     [(js ''server_name'', epr_server_name p), (js ''event_type'', epr_event_type p),
      (js ''actor_id'', epr_actor_id p), (js ''since'', epr_since p), (js ''until'', epr_until p),
      (js ''page_size'', map_option nat_text page_size), (js ''cursor'', when_set cursor)]"

definition list_events_url :: "(params \<Rightarrow> jstr) \<Rightarrow> event_params \<Rightarrow> jstr \<Rightarrow> nat option \<Rightarrow> jstr" where
  "list_events_url enc p cursor page_size =
     with_query enc (js ''/api/v1/events'') (build_search_params (event_entries p cursor page_size))"

definition list_server_events_url ::
  "(params \<Rightarrow> jstr) \<Rightarrow> (jstr \<Rightarrow> jstr) \<Rightarrow> jstr \<Rightarrow> jstr \<Rightarrow> nat option \<Rightarrow> jstr" where
  "list_server_events_url enc enc_uri server_id cursor page_size =
     with_query enc (js ''/api/v1/servers/'' @ enc_uri server_id @ js ''/events'')
       (build_search_params [(js ''page_size'', map_option nat_text page_size), (js ''cursor'', when_set cursor)])"

text \<open>\<open>getNextPageParam\<close>: the next cursor while there is more.\<close>

definition next_page_param :: "audit_event_page \<Rightarrow> jstr option" where
  "next_page_param pg = (if pg_has_more (ep_page pg) then pg_next_cursor (ep_page pg) else None)"

section \<open>The page's parameters\<close>

definition set_param :: "jstr \<Rightarrow> jstr \<Rightarrow> params \<Rightarrow> params" where
  "set_param key value live = (if value \<noteq> [] then sp_set live key value else sp_delete live key)"

definition page_filters :: "(jstr \<Rightarrow> jstr) \<Rightarrow> params \<Rightarrow> event_filters" where
  "page_filters member p =
     (let g = (\<lambda>k. coalesce (sp_get p (js k)) []) in
      \<lparr>ef_server = g ''server_name'',
       ef_event_type = (case normalize_event_type (g ''event_type'') of Text t \<Rightarrow> t | Inherited k \<Rightarrow> member k),
       ef_actor_id = g ''actor_id'', ef_range = g ''range'', ef_from = g ''from'', ef_to = g ''to''\<rparr>)"

definition bad_date :: "zone \<Rightarrow> jstr \<Rightarrow> bool" where
  "bad_date zone text \<longleftrightarrow> trim text \<noteq> [] \<and> parse_israel_input zone text = None"

text \<open>The custom bounds are drawn for the custom range only: label, value and whether it is refused.\<close>

definition custom_fields :: "zone \<Rightarrow> event_filters \<Rightarrow> (jstr \<times> jstr \<times> bool) list" where
  "custom_fields zone f = (if ef_range f = js ''custom'' then
     [(js ''From (Israel time)'', ef_from f, bad_date zone (ef_from f)),
      (js ''To (exclusive) (Israel time)'', ef_to f, bad_date zone (ef_to f))] else [])"

section \<open>The pager\<close>

text \<open>
  The list keeps the index of the shown page; the pages are the infinite query's. A click on Next
  beyond the last page asks for another one and, when the request has settled, moves to the page
  after the one of the click, whatever was clicked meanwhile. A request that fails leaves the pages
  as they were and puts the query in error until a later refetch answers.
\<close>

record pager_state =
  ps_pages :: "audit_event_page list"
  ps_index :: nat
  ps_fetching :: "nat option"
  ps_error :: bool

datatype pager_event = Prev | Next | Fetched audit_event_page | Fetch_failed | Refetched

definition has_next_page :: "pager_state \<Rightarrow> bool" where
  "has_next_page st \<longleftrightarrow> ps_pages st \<noteq> [] \<and> next_page_param (last (ps_pages st)) \<noteq> None"

definition pager_step :: "pager_event \<Rightarrow> pager_state \<Rightarrow> pager_state" where
  "pager_step e st = (case e of
     Prev \<Rightarrow> if ps_error st \<or> ps_index st \<le> 0 then st else st\<lparr>ps_index := ps_index st - 1\<rparr>
   | Next \<Rightarrow> if ps_error st \<or> ps_fetching st \<noteq> None then st
       else if ps_index st + 1 < length (ps_pages st) then st\<lparr>ps_index := ps_index st + 1\<rparr>
       else if has_next_page st then st\<lparr>ps_fetching := Some (ps_index st)\<rparr> else st
   | Fetched p \<Rightarrow> (case ps_fetching st of
       Some i \<Rightarrow> st\<lparr>ps_pages := ps_pages st @ [p], ps_index := i + 1, ps_fetching := None\<rparr> | None \<Rightarrow> st)
   | Fetch_failed \<Rightarrow> (case ps_fetching st of
       Some i \<Rightarrow> st\<lparr>ps_index := i + 1, ps_fetching := None, ps_error := True\<rparr> | None \<Rightarrow> st)
   | Refetched \<Rightarrow> st\<lparr>ps_error := False\<rparr>)"

record list_view =
  lv_events :: "audit_event list"
  lv_label :: jstr
  lv_prev_disabled :: bool
  lv_next_disabled :: bool

datatype list_render = List_failed | List_empty | List_page list_view

text \<open>\<open>Math.ceil(total / page_size)\<close> for the total of the first page, when it was sent.\<close>

definition event_page_count :: "pager_state \<Rightarrow> nat" where
  "event_page_count st = (case ps_pages st of
     [] \<Rightarrow> (if has_next_page st then 1 else 0)
   | first # _ \<Rightarrow> (case pg_total (ep_page first) of
       Some t \<Rightarrow> if t = 0 then length (ps_pages st) + (if has_next_page st then 1 else 0)
         else max 1 ((t + pg_page_size (ep_page first) - 1) div pg_page_size (ep_page first))
     | None \<Rightarrow> length (ps_pages st) + (if has_next_page st then 1 else 0)))"

definition list_render :: "pager_state \<Rightarrow> list_render" where
  "list_render st =
     (if ps_error st then List_failed
      else if ps_pages st \<noteq> [] \<and> ep_items (hd (ps_pages st)) = [] then List_empty
      else List_page \<lparr>
        lv_events = (if ps_index st < length (ps_pages st) then ep_items (ps_pages st ! ps_index st)
          else if ps_pages st \<noteq> [] then ep_items (hd (ps_pages st)) else []),
        lv_label = js ''Page '' @ nat_text (ps_index st + 1) @ js '' of '' @ nat_text (event_page_count st),
        lv_prev_disabled = (ps_index st \<le> 0),
        lv_next_disabled = (\<not> (ps_index st + 1 < length (ps_pages st) \<or> has_next_page st) \<or> ps_fetching st \<noteq> None)\<rparr>)"

section \<open>The user field\<close>

record choice =
  ch_id :: jstr
  ch_label :: jstr
  ch_count :: "nat option"

definition ALL_CHOICE :: choice where
  "ALL_CHOICE = \<lparr>ch_id = [], ch_label = js ''All'', ch_count = None\<rparr>"

record combo_state =
  cb_open :: bool
  cb_query :: "jstr option"
  cb_active :: int
  cb_value :: jstr

definition choices_of :: "event_actor list \<Rightarrow> choice list" where
  "choices_of actors = map (\<lambda>a. \<lparr>ch_id = ac_id (ea_actor a), ch_label = fst (actor_label (ea_actor a)),
     ch_count = Some (ea_event_count a)\<rparr>) actors"

definition visible_choices :: "(jstr \<Rightarrow> jstr) \<Rightarrow> choice list \<Rightarrow> jstr option \<Rightarrow> choice list" where
  "visible_choices lower choices query =
     (let needle = lower (trim (coalesce query [])) in
      if needle \<noteq> [] then filter (\<lambda>c. contains (lower (ch_label c)) needle \<or> contains (lower (ch_id c)) needle) choices
      else ALL_CHOICE # choices)"

definition combo_text :: "choice list \<Rightarrow> combo_state \<Rightarrow> jstr" where
  "combo_text choices st = coalesce (cb_query st)
     (coalesce (map_option ch_label (find (\<lambda>c. ch_id c = cb_value st) choices)) (cb_value st))"

definition pick :: "choice \<Rightarrow> combo_state \<Rightarrow> combo_state" where
  "pick c st = st\<lparr>cb_value := ch_id c, cb_query := None, cb_open := False\<rparr>"

datatype combo_event = Focus | Typed jstr | Arrow int | Enter | Escape | Click nat | Hover nat | Blur bool

text \<open>
  \<open>visible[active]\<close> may be out of range, then nothing is picked; \<open>Blur inside\<close> tells whether the
  focus stays in the field.
\<close>

definition choice_at :: "choice list \<Rightarrow> int \<Rightarrow> choice option" where
  "choice_at vs i = (if 0 \<le> i \<and> i < int (length vs) then Some (vs ! nat i) else None)"

definition combo_step :: "(jstr \<Rightarrow> jstr) \<Rightarrow> choice list \<Rightarrow> combo_event \<Rightarrow> combo_state \<Rightarrow> combo_state" where
  "combo_step lower choices e st =
     (let vs = visible_choices lower choices (cb_query st) in
      case e of
        Focus \<Rightarrow> st\<lparr>cb_open := True\<rparr>
      | Typed t \<Rightarrow> st\<lparr>cb_query := Some t, cb_active := 0, cb_open := True\<rparr>
      | Arrow step \<Rightarrow> st\<lparr>cb_open := True, cb_active := max 0 (min (int (length vs) - 1) (cb_active st + step))\<rparr>
      | Enter \<Rightarrow> if cb_open st then (case choice_at vs (cb_active st) of Some c \<Rightarrow> pick c st | None \<Rightarrow> st) else st
      | Escape \<Rightarrow> st\<lparr>cb_open := False, cb_query := None\<rparr>
      | Click i \<Rightarrow> if cb_open st \<and> i < length vs then pick (vs ! i) st else st
      | Hover i \<Rightarrow> if cb_open st \<and> i < length vs then st\<lparr>cb_active := int i\<rparr> else st
      | Blur inside \<Rightarrow> if inside then st
          else st\<lparr>cb_open := False, cb_value := (if cb_query st = Some [] then [] else cb_value st), cb_query := None\<rparr>)"

inductive combo_reach :: "(jstr \<Rightarrow> jstr) \<Rightarrow> choice list \<Rightarrow> jstr \<Rightarrow> combo_state \<Rightarrow> bool"
  for lower :: "jstr \<Rightarrow> jstr" and choices :: "choice list" and initial :: jstr where
  start: "combo_reach lower choices initial
    \<lparr>cb_open = False, cb_query = None, cb_active = 0, cb_value = initial\<rparr>"
| event: "combo_reach lower choices initial st \<Longrightarrow> e \<in> {Arrow 1, Arrow (- 1)} \<or> (\<forall>i. e \<noteq> Arrow i) \<Longrightarrow>
    combo_reach lower choices initial (combo_step lower choices e st)"

section \<open>The history of one rule or policy\<close>

text \<open>\<open>String(x)\<close> of an element of an array that \<open>join\<close> prints.\<close>

fun joined_text :: "text_env \<Rightarrow> json \<Rightarrow> jstr" where
  "joined_text te JNull = []"
| "joined_text te (JBool b) = (if b then js ''true'' else js ''false'')"
| "joined_text te (JNum n) = te_number te n"
| "joined_text te (JStr s) = s"
| "joined_text te (JArr xs) = join (js '','') (map (joined_text te) xs)"
| "joined_text te (JObj _) = js ''[object Object]''"

definition format_value :: "text_env \<Rightarrow> json \<Rightarrow> jstr" where
  "format_value te v = (case v of
     JArr xs \<Rightarrow> if xs \<noteq> [] then join (js '', '') (map (joined_text te) xs) else [8212]
   | JNull \<Rightarrow> [8212]
   | JStr s \<Rightarrow> s
   | JNum n \<Rightarrow> te_number te n
   | JBool b \<Rightarrow> if b then js ''true'' else js ''false''
   | JObj d \<Rightarrow> te_json te v)"

text \<open>One query per event type; a failed one may still hold an earlier answer.\<close>

record history_query =
  hq_pending :: bool
  hq_error :: "query_error option"
  hq_data :: "audit_event_page option"

text \<open>\<open>instant\<close> is \<open>new Date(text).getTime()\<close> on the dates the backend writes.\<close>

definition newest_first :: "(jstr \<Rightarrow> int) \<Rightarrow> audit_event \<Rightarrow> audit_event \<Rightarrow> int" where
  "newest_first instant a b = instant (ev_created_at b) - instant (ev_created_at a)"

definition history_events :: "(jstr \<Rightarrow> int) \<Rightarrow> jstr \<Rightarrow> jstr \<Rightarrow> history_query list \<Rightarrow> audit_event list" where
  "history_events instant id_field entity_id results =
     js_sort (newest_first instant)
       (filter (\<lambda>e. map_of (ev_data e) id_field = Some (JStr entity_id))
         (concat (map (\<lambda>r. case hq_data r of Some d \<Rightarrow> ep_items d | None \<Rightarrow> []) results)))"

record history_row =
  hrow_type :: jstr
  hrow_created_at :: jstr
  hrow_actor :: jstr
  hrow_data :: "(jstr \<times> jstr) list"

definition actor_type_text :: "actor_type \<Rightarrow> jstr" where
  "actor_type_text t = (case t of SYSTEM \<Rightarrow> js ''SYSTEM'' | USER \<Rightarrow> js ''USER'' | TOKEN \<Rightarrow> js ''TOKEN'')"

definition history_row :: "text_env \<Rightarrow> jstr \<Rightarrow> audit_event \<Rightarrow> history_row" where
  "history_row te id_field e = \<lparr>hrow_type = ev_event_type e, hrow_created_at = ev_created_at e,
     hrow_actor = coalesce (ac_display (ev_actor e)) (ac_id (ev_actor e))
       @ js '' ('' @ actor_type_text (ac_type (ev_actor e)) @ js '')'',
     hrow_data = map (\<lambda>(k, v). (k, format_value te v)) (filter (\<lambda>(k, _). k \<noteq> id_field) (ev_data e))\<rparr>"

record history_panel =
  hp_loading :: bool
  hp_error :: "jstr option"
  hp_empty :: bool
  hp_rows :: "history_row list"

definition history_panel :: "text_env \<Rightarrow> (jstr \<Rightarrow> int) \<Rightarrow> jstr \<Rightarrow> jstr \<Rightarrow> history_query list \<Rightarrow> history_panel" where
  "history_panel te instant id_field entity_id results =
     (let pending = list_ex hq_pending results;
          errored = find (\<lambda>r. hq_error r \<noteq> None) results;
          events = history_events instant id_field entity_id results in
      \<lparr>hp_loading = pending,
       hp_error = map_option (\<lambda>r. error_text (the (hq_error r)) (js ''Failed to load history.'')) errored,
       hp_empty = (\<not> pending \<and> errored = None \<and> events = []),
       hp_rows = (if \<not> pending \<and> errored = None then map (history_row te id_field) events else [])\<rparr>)"

text \<open>An event and a page with more to come, for concrete instances.\<close>

definition demo_event :: "audit_event" where
  "demo_event = \<lparr>ev_id = js ''e1'', ev_event_type = js ''SERVER_CREATED'', ev_server_id = None, ev_server_name = None,
     ev_actor = \<lparr>ac_type = SYSTEM, ac_id = [], ac_display = None\<rparr>, ev_request_id = None, ev_created_at = [],
     ev_data = []\<rparr>"

definition demo_page :: "audit_event list \<Rightarrow> audit_event_page" where
  "demo_page items = \<lparr>ep_items = items,
     ep_page = \<lparr>pg_next_cursor = Some (js ''c''), pg_has_more = True, pg_page_size = 50, pg_total = None\<rparr>\<rparr>"

section \<open>Laws\<close>

interpretation newest_first: comparator "newest_first instant" for instant
  by unfold_locales (auto simp: newest_first_def sgn_if)

lemma newest_first_stable:
  "filter (\<lambda>e. instant (ev_created_at e) = t) (js_sort (newest_first instant) xs) =
     filter (\<lambda>e. instant (ev_created_at e) = t) xs"
proof (cases "\<exists>k \<in> set xs. instant (ev_created_at k) = t")
  case True
  then obtain k :: audit_event where "instant (ev_created_at k) = t" by blast
  then have "newest_first instant k = (\<lambda>e. instant (ev_created_at e) - t)" by (auto simp: newest_first_def)
  then show ?thesis using newest_first.stable_js_sort [of instant k xs] by simp
next
  case False
  then show ?thesis by (simp add: filter_empty_conv filter_False)
qed

text \<open>The pager while no request has failed.\<close>

definition pager_ok :: "pager_state \<Rightarrow> bool" where
  "pager_ok st \<longleftrightarrow> ps_index st < length (ps_pages st) \<and> \<not> ps_error st \<and>
     (case ps_fetching st of None \<Rightarrow> True | Some i \<Rightarrow> i + 1 = length (ps_pages st))"

definition first_page :: "audit_event_page \<Rightarrow> pager_state" where
  "first_page p = \<lparr>ps_pages = [p], ps_index = 0, ps_fetching = None, ps_error = False\<rparr>"

lemma pager_ok_first [simp]: "pager_ok (first_page p)"
  by (simp add: pager_ok_def first_page_def)

lemma pager_ok_step: "pager_ok st \<Longrightarrow> e \<noteq> Fetch_failed \<Longrightarrow> pager_ok (pager_step e st)"
  by (cases e) (auto simp: pager_ok_def pager_step_def split: option.splits)

lemma pager_ok_run: "pager_ok st \<Longrightarrow> Fetch_failed \<notin> set es \<Longrightarrow> pager_ok (fold pager_step es st)"
  by (induction es arbitrary: st) (auto simp: pager_ok_step)

lemma pager_keeps_first:
  "ps_pages st \<noteq> [] \<Longrightarrow> ps_pages (pager_step e st) \<noteq> [] \<and> hd (ps_pages (pager_step e st)) = hd (ps_pages st)"
  by (cases e) (auto simp: pager_step_def split: option.splits)

definition combo_ok :: "(jstr \<Rightarrow> jstr) \<Rightarrow> choice list \<Rightarrow> jstr \<Rightarrow> combo_state \<Rightarrow> bool" where
  "combo_ok lower choices initial st \<longleftrightarrow>
     0 \<le> cb_active st \<and> (cb_active st = 0 \<or> cb_active st < int (length (visible_choices lower choices (cb_query st)))) \<and>
     cb_value st \<in> insert initial (insert [] (ch_id ` set choices))"

lemma visible_length: "lower [] = [] \<Longrightarrow> length (visible_choices lower choices q) \<le> length (visible_choices lower choices None)"
  by (auto simp: visible_choices_def Let_def le_SucI)

lemma visible_ids: "c \<in> set (visible_choices lower choices q) \<Longrightarrow> ch_id c \<in> insert [] (ch_id ` set choices)"
  by (auto simp: visible_choices_def Let_def ALL_CHOICE_def split: if_splits)


lemma combo_ok_step:
  assumes "lower [] = []" "combo_ok lower choices initial st" "e \<in> {Arrow 1, Arrow (- 1)} \<or> (\<forall>i. e \<noteq> Arrow i)"
  shows "combo_ok lower choices initial (combo_step lower choices e st)"
proof -
  let ?vs = "visible_choices lower choices (cb_query st)"
  have len: "length ?vs \<le> length (visible_choices lower choices None)"
    using assms(1) by (rule visible_length)
  have picked: "combo_ok lower choices initial (pick (?vs ! i) st)" if "i < length ?vs" for i
    using assms(2) len visible_ids [of "?vs ! i" lower choices "cb_query st"] that
    by (auto simp: combo_ok_def pick_def)
  show ?thesis
  proof (cases e)
    case (Arrow step)
    with assms show ?thesis by (auto simp: combo_ok_def combo_step_def)
  next
    case Enter
    with assms(2) picked show ?thesis
      by (auto simp: combo_step_def choice_at_def Let_def split: option.splits)
  next
    case (Click i)
    with assms(2) picked show ?thesis by (auto simp: combo_step_def Let_def)
  next
    case (Blur inside)
    with assms(2) len show ?thesis by (auto simp: combo_ok_def combo_step_def Let_def)
  qed (use assms(2) len in \<open>auto simp: combo_ok_def combo_step_def Let_def\<close>)
qed

lemma combo_ok_reach:
  "combo_reach lower choices initial st \<Longrightarrow> lower [] = [] \<Longrightarrow> combo_ok lower choices initial st"
proof (induction rule: combo_reach.induct)
  case start
  then show ?case by (simp add: combo_ok_def)
next
  case (event st e)
  then show ?case using combo_ok_step by blast
qed

section \<open>Properties\<close>

text \<open>
  A time-range preset asks for a window that starts on a whole minute, covers the preset and less
  than a minute more, and has no end; the custom bounds are not sent with it.
\<close>

lemma preset_window:
  assumes "(v, l, ms) \<in> set RANGE_PRESETS" "ef_range f = v"
  shows "\<exists>t. epr_since (filters_to_params zone f now) = Some (to_iso t) \<and> t \<le> now - ms \<and> now - ms < t + 60000
    \<and> t mod 60000 = 0 \<and> epr_until (filters_to_params zone f now) = None"
proof -
  have m: "map_of RANGE_PRESETS (ef_range f) = Some (l, ms)"
    using assms by (auto simp: RANGE_PRESETS_def)
  have d: "ms mod 60000 = 0" using assms(1) by (auto simp: RANGE_PRESETS_def)
  have w: "now div 60000 * 60000 \<le> now \<and> now < now div 60000 * 60000 + 60000"
    using pos_mod_bound [of 60000 now] div_mult_mod_eq [of now 60000] pos_mod_sign [of 60000 now] by linarith
  have "preset_since now ms mod 60000 = 0"
    using d by (simp add: preset_since_def mod_diff_eq [symmetric])
  moreover have "preset_since now ms \<le> now - ms \<and> now - ms < preset_since now ms + 60000"
    using w unfolding preset_since_def by linarith
  ultimately show ?thesis
    by (intro exI [of _ "preset_since now ms"]) (simp add: filters_to_params_def m Let_def)
qed

lemma preset_window_witness:
  "\<exists>t. epr_since (filters_to_params (fixed_zone 0) \<lparr>ef_server = [], ef_event_type = [], ef_actor_id = [],
      ef_range = js ''1h'', ef_from = js ''x'', ef_to = []\<rparr> 3690000) = Some (to_iso t) \<and> t \<le> 90000 \<and> 90000 < t + 60000"
  using preset_window [of "js ''1h''" "js ''Last hour''" 3600000 "\<lparr>ef_server = [], ef_event_type = [], ef_actor_id = [],
      ef_range = js ''1h'', ef_from = js ''x'', ef_to = []\<rparr>" "fixed_zone 0" 3690000]
  by (auto simp: RANGE_PRESETS_def)




text \<open>
  C28: in the user field Enter picks the highlighted user and nothing else, from every state its events
  can lead to; with no user to highlight it changes nothing.
\<close>

theorem combo_enter_picks_highlighted:
  assumes "combo_reach lower choices initial st" "lower [] = []" "cb_open st"
  shows "combo_step lower choices Enter st =
    (let vs = visible_choices lower choices (cb_query st) in
     if vs = [] then st else pick (vs ! nat (cb_active st)) st)"
proof -
  have "0 \<le> cb_active st"
    "cb_active st = 0 \<or> cb_active st < int (length (visible_choices lower choices (cb_query st)))"
    using combo_ok_reach [OF assms(1,2)] by (simp_all add: combo_ok_def)
  then show ?thesis using assms(3) by (auto simp: combo_step_def choice_at_def Let_def)
qed

lemma combo_enter_picks_highlighted_witness:
  "combo_step (map ascii_lower) [] Enter
     (combo_step (map ascii_lower) [] Focus \<lparr>cb_open = False, cb_query = None, cb_active = 0, cb_value = js ''x''\<rparr>)
   = \<lparr>cb_open = False, cb_query = None, cb_active = 0, cb_value = []\<rparr>"
  using combo_enter_picks_highlighted [OF combo_reach.event [OF combo_reach.start, of Focus "map ascii_lower" "[]" "js ''x''"]]
  by (simp add: combo_step_def visible_choices_def Let_def pick_def ALL_CHOICE_def)

text \<open>
  The filter the user field sets is always the one it started with, none, or the id of a user that
  has written events.
\<close>

lemma combo_value_known:
  assumes "combo_reach lower choices initial st" "lower [] = []"
  shows "cb_value st \<in> insert initial (insert [] (ch_id ` set choices))"
  using combo_ok_reach [OF assms] by (simp add: combo_ok_def)

lemma combo_value_known_witness:
  "cb_value (combo_step (map ascii_lower) [] (Typed (js ''eve'')) \<lparr>cb_open = False, cb_query = None, cb_active = 0,
     cb_value = js ''x''\<rparr>) \<in> {js ''x'', []}"
  using combo_value_known [OF combo_reach.event [OF combo_reach.start, of "Typed (js ''eve'')" "map ascii_lower" "[]" "js ''x''"]]
  by simp

text \<open>
  The history of a rule or policy holds exactly the fetched events about it, each once, newest
  first, events of the same instant in the order they were fetched.
\<close>

lemma history_newest_first:
  "mset (history_events instant f i rs) = filter_mset (\<lambda>e. map_of (ev_data e) f = Some (JStr i))
     (\<Sum>\<^sub># (mset (map (\<lambda>r. case hq_data r of Some d \<Rightarrow> mset (ep_items d) | None \<Rightarrow> {#}) rs))) \<and>
   sorted_wrt (\<lambda>a b. instant (ev_created_at b) \<le> instant (ev_created_at a)) (history_events instant f i rs) \<and>
   filter (\<lambda>e. instant (ev_created_at e) = t) (history_events instant f i rs) =
     filter (\<lambda>e. instant (ev_created_at e) = t) (filter (\<lambda>e. map_of (ev_data e) f = Some (JStr i))
       (concat (map (\<lambda>r. case hq_data r of Some d \<Rightarrow> ep_items d | None \<Rightarrow> []) rs)))"
proof (intro conjI)
  have m: "mset (concat (map (\<lambda>r. case hq_data r of Some d \<Rightarrow> ep_items d | None \<Rightarrow> []) rs)) =
      \<Sum>\<^sub># (mset (map (\<lambda>r. case hq_data r of Some d \<Rightarrow> mset (ep_items d) | None \<Rightarrow> {#}) rs))"
    by (induction rs) (auto split: option.splits)
  show "mset (history_events instant f i rs) = filter_mset (\<lambda>e. map_of (ev_data e) f = Some (JStr i))
     (\<Sum>\<^sub># (mset (map (\<lambda>r. case hq_data r of Some d \<Rightarrow> mset (ep_items d) | None \<Rightarrow> {#}) rs)))"
    by (simp only: history_events_def mset_js_sort mset_filter m)
  show "sorted_wrt (\<lambda>a b. instant (ev_created_at b) \<le> instant (ev_created_at a)) (history_events instant f i rs)"
    using newest_first.sorted_js_sort [of instant] by (simp add: history_events_def newest_first_def)
  show "filter (\<lambda>e. instant (ev_created_at e) = t) (history_events instant f i rs) =
     filter (\<lambda>e. instant (ev_created_at e) = t) (filter (\<lambda>e. map_of (ev_data e) f = Some (JStr i))
       (concat (map (\<lambda>r. case hq_data r of Some d \<Rightarrow> ep_items d | None \<Rightarrow> []) rs)))"
    unfolding history_events_def by (rule newest_first_stable)
qed

end
