(* ===== verification/Small_Pages.thy ===== *)
theory Small_Pages
  imports Events Session
begin

text \<open>
  The small pages: the diagrams (\<^verbatim>\<open>src/features/architecture\<close>), the readiness page
  (\<^verbatim>\<open>src/routes/StatusPage.tsx\<close>, \<^verbatim>\<open>src/api/platform.ts\<close>), the coloured badges of a severity, a link
  state and a label (\<^verbatim>\<open>HealthBadge.tsx\<close>, \<^verbatim>\<open>LinkStateBadge.tsx\<close>, \<^verbatim>\<open>Badge.tsx\<close>), and the
  requests of the two cursor-paged queries (\<^verbatim>\<open>src/features/events/hooks.ts\<close>). 8230 is the ellipsis.
\<close>

section \<open>Diagrams\<close>

record diagram_spec =
  dg_slug :: jstr
  dg_label :: jstr
  dg_description :: jstr

definition diagram :: "string \<Rightarrow> string \<Rightarrow> jstr \<Rightarrow> diagram_spec" where
  "diagram slug label description = \<lparr>dg_slug = js slug, dg_label = js label, dg_description = description\<rparr>"

definition DIAGRAMS :: "diagram_spec list" where
  "DIAGRAMS = [
     diagram ''runtime-architecture'' ''Full flow''
       (js ''Every collector through Mongo, the prune and nodes-status jobs, Redis, the API, Prometheus, AD login and the UI, in one diagram.''),
     diagram ''ucs-central'' ''Cisco UCS Central''
       (js ''Central login, per-domain UCS Manager sessions, the managed-object queries, then IngestService. Cisco BMCs are behind the fabric interconnects and are not probed.''),
     diagram ''intersight'' ''Cisco Intersight''
       (js ''API-key request signing, the owner-relation resource walk, then IngestService.''),
     diagram ''openmanage'' ''Dell OpenManage''
       (js ''OME for identity, each iDRAC'' @ [39] @ js ''s Redfish for hardware, joined before IngestService; a failed iDRAC becomes a stub with a reason.''),
     diagram ''oneview'' ''HPE OneView''
       (js ''The one HPE source regardless of iLO generation, plus an unauthenticated iLO reachability probe, then IngestService.''),
     diagram ''redfish-standalone'' ''Redfish Standalone''
       (js ''No manager: a fleet from an inventory file, one BMC at a time; every failed host becomes a stub, then IngestService.''),
     diagram ''nodes-status'' ''Nodes Status''
       (js ''The nodes-status jobs that write Server.openshift directly, bypassing IngestService.'')]"

definition active_diagram :: "params \<Rightarrow> diagram_spec" where
  "active_diagram p =
     (let requested = coalesce (sp_get p (js ''diagram'')) (dg_slug (hd DIAGRAMS)) in
      coalesce (find (\<lambda>d. dg_slug d = requested) DIAGRAMS) (hd DIAGRAMS))"

definition select_diagram :: "jstr \<Rightarrow> params \<Rightarrow> params" where
  "select_diagram slug live = sp_set live (js ''diagram'') slug"

record architecture_view =
  ac_tabs :: "(jstr \<times> bool) list"
  ac_description :: jstr
  ac_title :: jstr
  ac_src :: jstr

definition architecture_page :: "params \<Rightarrow> architecture_view" where
  "architecture_page p = (let active = active_diagram p in \<lparr>
     ac_tabs = map (\<lambda>d. (dg_label d, dg_slug d = dg_slug active)) DIAGRAMS,
     ac_description = dg_description active,
     ac_title = dg_label active @ js '' architecture diagram'',
     ac_src = js ''/architecture/'' @ dg_slug active @ js ''.html?theme=dark''\<rparr>)"

section \<open>Readiness\<close>

datatype readiness_status = Ready_ok | Ready_not
datatype mongo_status = Mongo_ok | Mongo_unreachable
datatype redis_status = Redis_ok | Redis_degraded

record readiness =
  rd_status :: readiness_status
  rd_mongo :: mongo_status
  rd_redis :: redis_status

definition readiness_rows :: "readiness \<Rightarrow> (jstr \<times> jstr) list" where
  "readiness_rows r = [
     (js ''status'', case rd_status r of Ready_ok \<Rightarrow> js ''ok'' | Ready_not \<Rightarrow> js ''not_ready''),
     (js ''mongo'', case rd_mongo r of Mongo_ok \<Rightarrow> js ''ok'' | Mongo_unreachable \<Rightarrow> js ''unreachable''),
     (js ''redis'', case rd_redis r of Redis_ok \<Rightarrow> js ''ok'' | Redis_degraded \<Rightarrow> js ''degraded'')]"

record status_view =
  st_checking :: bool
  st_alert :: "jstr option"
  st_rows :: "(jstr \<times> jstr) list option"

definition status_page :: "readiness query \<Rightarrow> status_view" where
  "status_page q = \<lparr>st_checking = (q = Pending),
     st_alert = (case q of
       Failed e _ \<Rightarrow> Some (js ''Could not reach the API: '' @ error_text e (js ''unknown error'')) | _ \<Rightarrow> None),
     st_rows = map_option readiness_rows (query_data q)\<rparr>"

section \<open>Coloured badges\<close>

text \<open>The hue of each; a badge draws the word itself.\<close>

definition health_badge :: "severity \<Rightarrow> jstr \<times> jstr" where
  "health_badge s = (severity_text s, case s of HEALTHY \<Rightarrow> js ''green'' | WARNING \<Rightarrow> js ''amber''
     | MAJOR \<Rightarrow> js ''orange'' | CRITICAL \<Rightarrow> js ''red'' | UNKNOWN \<Rightarrow> js ''gray'')"

definition link_state_badge :: "link_state \<Rightarrow> jstr \<times> jstr" where
  "link_state_badge s = (case s of LinkUp \<Rightarrow> (js ''UP'', js ''green'') | LinkDown \<Rightarrow> (js ''DOWN'', js ''red'')
     | LinkDisabled \<Rightarrow> (js ''DISABLED'', js ''gray'') | LinkUnknown \<Rightarrow> (js ''UNKNOWN'', js ''gray''))"

definition badge_tone :: "bool \<Rightarrow> jstr" where
  "badge_tone warning = (if warning then js ''amber'' else js ''gray'')"

section \<open>Cursor-paged queries\<close>

definition PAGE_SIZE :: nat where "PAGE_SIZE = 50"

text \<open>The first page's parameter is the empty text, which is no cursor.\<close>

definition events_page_url :: "(params \<Rightarrow> jstr) \<Rightarrow> event_params \<Rightarrow> jstr \<Rightarrow> jstr" where
  "events_page_url enc p page_param = list_events_url enc p page_param (Some PAGE_SIZE)"

definition server_events_page_url :: "(params \<Rightarrow> jstr) \<Rightarrow> (jstr \<Rightarrow> jstr) \<Rightarrow> jstr \<Rightarrow> jstr \<Rightarrow> jstr" where
  "server_events_page_url enc enc_uri server_id page_param =
     list_server_events_url enc enc_uri server_id page_param (Some PAGE_SIZE)"

text \<open>The query key of a server's history, and whether it is asked for at all.\<close>

definition server_events_key :: "jstr \<Rightarrow> query_key" where
  "server_events_key server_id = events_list [(js ''server_id'', server_id)] @ [kt ''server-infinite'']"

definition server_events_enabled :: "jstr \<Rightarrow> bool" where
  "server_events_enabled server_id \<longleftrightarrow> length server_id > 0"

section \<open>Laws\<close>

text \<open>Selecting a diagram shows it and leaves the other parameters; an unknown slug shows the first.\<close>

lemma slugs: "distinct (map dg_slug DIAGRAMS)"
  by (simp add: DIAGRAMS_def diagram_def)

lemma find_own_key: "distinct (map f xs) \<Longrightarrow> x \<in> set xs \<Longrightarrow> find (\<lambda>y. f y = f x) xs = Some x"
  by (induction xs) auto

lemma select_shows:
  assumes "d \<in> set DIAGRAMS"
  shows "active_diagram (select_diagram (dg_slug d) p) = d"
    "k \<noteq> js ''diagram'' \<Longrightarrow> sp_get_all (select_diagram (dg_slug d) p) k = sp_get_all p k"
  using find_own_key [OF slugs assms]
  by (simp_all add: active_diagram_def select_diagram_def sp_get_hd sp_get_all_set)

lemma find_or_hd: "xs \<noteq> [] \<Longrightarrow> coalesce (find P xs) (hd xs) \<in> set xs"
proof (cases "find P xs")
  case (Some y)
  then have "y \<in> set xs" by (auto simp: find_Some_iff)
  with Some show ?thesis by simp
qed simp

lemma filter_own_slug: "distinct (map f xs) \<Longrightarrow> x \<in> set xs \<Longrightarrow> length (filter (\<lambda>y. f y = f x) xs) = 1"
  by (induction xs) (auto simp: filter_empty_conv image_iff)

lemma active_listed: "active_diagram p \<in> set DIAGRAMS"
proof -
  have "DIAGRAMS \<noteq> []" unfolding DIAGRAMS_def by (rule list.distinct(2))
  then show ?thesis unfolding active_diagram_def Let_def by (rule find_or_hd)
qed

lemma one_tab_selected: "length (filter snd (ac_tabs (architecture_page p))) = 1"
  using filter_own_slug [OF slugs active_listed] by (simp add: architecture_page_def Let_def filter_map comp_def)

text \<open>A server's history is invalidated with the audit trail.\<close>

lemma server_events_registered: "registered events_all (server_events_key i)"
  unfolding server_events_key_def by (rule registered.intros)

section \<open>Walking through the pages\<close>

text \<open>
  What the back end promises of a cursor: the pages of \<open>per\<close> events of one list, each naming the
  position of the next while there is more. \<open>cur k\<close> is the cursor of position \<open>k\<close>.
\<close>

definition page_from :: "(nat \<Rightarrow> jstr) \<Rightarrow> nat \<Rightarrow> nat option \<Rightarrow> audit_event list \<Rightarrow> nat \<Rightarrow> audit_event_page" where
  "page_from cur per tot evs k = \<lparr>ep_items = take per (drop k evs),
     ep_page = \<lparr>pg_next_cursor = (if k + per < length evs then Some (cur (k + per)) else None),
       pg_has_more = (k + per < length evs), pg_page_size = per, pg_total = tot\<rparr>\<rparr>"

definition cursor_pages ::
  "(jstr \<Rightarrow> audit_event_page) \<Rightarrow> (nat \<Rightarrow> jstr) \<Rightarrow> nat \<Rightarrow> nat option \<Rightarrow> audit_event list \<Rightarrow> bool" where
  "cursor_pages srv cur per tot evs \<longleftrightarrow> srv [] = page_from cur per tot evs 0 \<and>
     (\<forall>k. 0 < k \<and> k < length evs \<longrightarrow> srv (cur k) = page_from cur per tot evs k)"

text \<open>A click on Next with the answer it waits for, if it asks for one.\<close>

definition press_next :: "(jstr \<Rightarrow> audit_event_page) \<Rightarrow> pager_state \<Rightarrow> pager_state" where
  "press_next srv st = (let st' = pager_step Next st in
     if ps_fetching st' = None then st'
     else pager_step (Fetched (srv (the (next_page_param (last (ps_pages st)))))) st')"

definition walk :: "(jstr \<Rightarrow> audit_event_page) \<Rightarrow> nat \<Rightarrow> pager_state" where
  "walk srv k = (press_next srv ^^ k) \<lparr>ps_pages = [srv []], ps_index = 0, ps_fetching = None, ps_error = False\<rparr>"

definition walked :: "(nat \<Rightarrow> jstr) \<Rightarrow> nat \<Rightarrow> nat option \<Rightarrow> audit_event list \<Rightarrow> nat \<Rightarrow> pager_state" where
  "walked cur per tot evs k =
     \<lparr>ps_pages = map (\<lambda>i. page_from cur per tot evs (i * per)) [0..<Suc k], ps_index = k, ps_fetching = None,
      ps_error = False\<rparr>"

lemma walked_last: "last (ps_pages (walked cur per tot evs k)) = page_from cur per tot evs (k * per)"
  by (simp add: walked_def)

lemma walked_param:
  "next_page_param (last (ps_pages (walked cur per tot evs k))) =
     (if Suc k * per < length evs then Some (cur (Suc k * per)) else None)"
  by (simp add: walked_last next_page_param_def page_from_def add.commute)

lemma walked_has_next: "has_next_page (walked cur per tot evs k) \<longleftrightarrow> Suc k * per < length evs"
  by (simp add: has_next_page_def walked_param) (simp add: walked_def)

lemma press_walked:
  assumes "cursor_pages srv cur per tot evs" "0 < per"
  shows "press_next srv (walked cur per tot evs k) =
    walked cur per tot evs (if Suc k * per < length evs then Suc k else k)"
proof (cases "Suc k * per < length evs")
  case True
  then have "srv (cur (Suc k * per)) = page_from cur per tot evs (Suc k * per)"
    using assms by (simp add: cursor_pages_def)
  with True show ?thesis
    unfolding press_next_def walked_param
    by (simp add: pager_step_def walked_has_next) (simp add: walked_def)
next
  case False
  then show ?thesis
    unfolding press_next_def by (simp add: pager_step_def walked_has_next) (simp add: walked_def)
qed

text \<open>The number of the last page, from 0.\<close>

definition last_page :: "nat \<Rightarrow> audit_event list \<Rightarrow> nat" where
  "last_page per evs = (length evs - 1) div per"

lemma next_page_exists: "0 < per \<Longrightarrow> evs \<noteq> [] \<Longrightarrow> Suc k * per < length evs \<longleftrightarrow> k < last_page per evs"
  using less_eq_div_iff_mult_less_eq [of per "Suc k" "length evs - 1"]
  by (cases evs) (auto simp: last_page_def less_Suc_eq_le Suc_le_eq)

lemma walk_eq:
  assumes "cursor_pages srv cur per tot evs" "0 < per" "evs \<noteq> []"
  shows "walk srv k = walked cur per tot evs (min k (last_page per evs))"
proof (induction k)
  case 0
  then show ?case using assms(1) by (simp add: walk_def walked_def cursor_pages_def)
next
  case (Suc k)
  have "walk srv (Suc k) = press_next srv (walk srv k)" by (simp add: walk_def)
  then show ?case
    by (auto simp: Suc press_walked [OF assms(1,2)] next_page_exists [OF assms(2,3)] min_def simp del: mult_Suc)
qed

lemma concat_pages: "concat (map (\<lambda>i. take per (drop (i * per) xs)) [0..<n]) = take (n * per) xs"
proof (induction n)
  case (Suc n)
  have "take (Suc n * per) xs = take (n * per) xs @ take per (drop (n * per) xs)"
    by (simp add: take_add add.commute [of per])
  with Suc show ?case by simp
qed simp

lemma walked_fields:
  "ps_pages (walked cur per tot evs k) ! k = page_from cur per tot evs (k * per)"
  "hd (ps_pages (walked cur per tot evs k)) = page_from cur per tot evs 0"
  "length (ps_pages (walked cur per tot evs k)) = Suc k" "ps_pages (walked cur per tot evs k) \<noteq> []"
  "ps_index (walked cur per tot evs k) = k" "ps_fetching (walked cur per tot evs k) = None"
  "\<not> ps_error (walked cur per tot evs k)"
  by (simp_all add: walked_def nth_append hd_map del: upt_Suc)

section \<open>Properties\<close>

text \<open>
  C23: clicking Next comes to an end and shows every event once: the \<open>k\<close>-th click shows the \<open>k\<close>-th page of
  the events, Next is disabled exactly on the last one, further clicks change nothing, and the pages
  that were loaded by then are all the events in order, if the back end's cursors keep their promise.
\<close>

theorem next_walks_every_page:
  assumes "cursor_pages srv cur per tot evs" "0 < per" "evs \<noteq> []"
  shows "(\<exists>v. list_render (walk srv k) = List_page v \<and>
      lv_events v = take per (drop (min k (last_page per evs) * per) evs) \<and>
      lv_prev_disabled v = (min k (last_page per evs) = 0) \<and>
      lv_next_disabled v = (last_page per evs \<le> k)) \<and>
    concat (map ep_items (ps_pages (walk srv k))) = take (Suc (min k (last_page per evs)) * per) evs \<and>
    concat (map ep_items (ps_pages (walk srv (last_page per evs)))) = evs \<and>
    press_next srv (walk srv (last_page per evs)) = walk srv (last_page per evs)"
proof -
  let ?l = "last_page per evs"
  note w = walk_eq [OF assms]
  have "take per evs \<noteq> []" using assms(2,3) by simp
  then have r: "list_render (walk srv k) = List_page \<lparr>
      lv_events = take per (drop (min k ?l * per) evs),
      lv_label = js ''Page '' @ nat_text (min k ?l + 1) @ js '' of '' @ nat_text (event_page_count (walk srv k)),
      lv_prev_disabled = (min k ?l = 0), lv_next_disabled = (?l \<le> k)\<rparr>"
    unfolding w list_render_def walked_has_next next_page_exists [OF assms(2,3)]
    by (auto simp: walked_fields) (simp_all add: page_from_def)
  have c: "concat (map ep_items (ps_pages (walked cur per tot evs n))) = take (Suc n * per) evs" for n
    using concat_pages [of per evs "Suc n"] by (simp add: walked_def page_from_def comp_def del: upt_Suc)
  have "\<not> Suc ?l * per < length evs" using next_page_exists [OF assms(2,3), of ?l] by simp
  then show ?thesis
    using r by (simp add: w c press_walked [OF assms(1,2)] del: mult_Suc)
qed

lemma next_walks_every_page_witness:
  "concat (map ep_items (ps_pages (walk (\<lambda>c. page_from (\<lambda>k. replicate k 99) 2 None [demo_event, demo_event, demo_event] (length c)) 1))) =
     [demo_event, demo_event, demo_event]"
  using next_walks_every_page [of "\<lambda>c. page_from (\<lambda>k. replicate k 99) 2 None [demo_event, demo_event, demo_event] (length c)"
    "\<lambda>k. replicate k 99" 2 None "[demo_event, demo_event, demo_event]" 0]
  by (simp add: cursor_pages_def last_page_def)

end
