(* ===== verification/Jobs.thy ===== *)
theory Jobs
  imports Session
begin

text \<open>
  The jobs page (\<^verbatim>\<open>src/features/jobs/JobsPage.tsx\<close>, the shapes of \<^verbatim>\<open>src/api/jobs.ts\<close>): what its
  cards, dialog and log pane show, and the page as a state machine over clicks and answers.
  183 is the middle dot, 8230 the ellipsis.
\<close>

section \<open>Jobs\<close>

datatype job_state = Job_active | Job_succeeded | Job_failed | Job_pending

definition job_state_text :: "job_state \<Rightarrow> jstr" where
  "job_state_text s = (case s of Job_active \<Rightarrow> js ''active'' | Job_succeeded \<Rightarrow> js ''succeeded''
     | Job_failed \<Rightarrow> js ''failed'' | Job_pending \<Rightarrow> js ''pending'')"

record job_pod =
  jp_name :: jstr
  jp_phase :: jstr
  jp_started_at :: "jstr option"

record job_run =
  jr_name :: jstr
  jr_created_at :: "jstr option"
  jr_started_at :: "jstr option"
  jr_finished_at :: "jstr option"
  jr_active :: nat
  jr_succeeded :: nat
  jr_failed :: nat
  jr_state :: job_state
  jr_manual :: bool
  jr_triggered_by :: "jstr option"
  jr_pods :: "job_pod list"

record cron_job =
  cj_name :: jstr
  cj_schedule :: jstr
  cj_suspend :: bool
  cj_last_schedule_time :: "jstr option"
  cj_last_successful_time :: "jstr option"
  cj_warning :: "jstr option"
  cj_active :: bool
  cj_enabled :: bool
  cj_deployed :: bool
  cj_jobs :: "job_run list"

datatype jobs_backend = Kubernetes | Fake | Off

record jobs_overview =
  jo_enabled :: bool
  jo_backend :: jobs_backend
  jo_namespace :: "jstr option"
  jo_cronjobs :: "cron_job list"

definition TAIL :: nat where "TAIL = 500"
definition LIST_POLL_MS :: nat where "LIST_POLL_MS = 5000"
definition LOG_POLL_MS :: nat where "LOG_POLL_MS = 3000"

definition STATE_TINT :: "job_state \<Rightarrow> jstr \<times> jstr" where
  "STATE_TINT s = (case s of
     Job_active \<Rightarrow> (js ''--tint-info'', js ''--text-on-info'')
   | Job_succeeded \<Rightarrow> (js ''--tint-healthy'', js ''--text-on-healthy'')
   | Job_failed \<Rightarrow> (js ''--tint-critical'', js ''--text-on-critical'')
   | Job_pending \<Rightarrow> (js ''--tint-unknown'', js ''--text-on-unknown''))"

record selected_pod =
  sp_cronjob :: jstr
  sp_job :: jstr
  sp_pod :: jstr

section \<open>What the parts draw\<close>

definition jobs_message :: "query_error \<Rightarrow> jstr" where
  "jobs_message e = error_text e (js ''That did not work.'')"

text \<open>\<open>name.slice(-5)\<close>.\<close>

definition last_five :: "jstr \<Rightarrow> jstr" where
  "last_five s = drop (length s - 5) s"

record pod_button =
  pb_text :: jstr
  pb_pressed :: bool
  pb_selects :: selected_pod

record job_row =
  jw_chip :: "jstr \<times> jstr \<times> jstr"
  jw_name :: jstr
  jw_by_hand :: "jstr option"
  jw_created :: "jstr option"
  jw_pods :: "pod_button list"

definition job_row :: "jstr \<Rightarrow> selected_pod option \<Rightarrow> job_run \<Rightarrow> job_row" where
  "job_row cronjob selected job = \<lparr>
     jw_chip = (let (tint, text) = STATE_TINT (jr_state job) in (tint, text, job_state_text (jr_state job))),
     jw_name = jr_name job,
     jw_by_hand = (if jr_manual job then Some (js ''by hand'' @
       (if truthy (jr_triggered_by job) then js '' ('' @ the (jr_triggered_by job) @ js '')'' else [])) else None),
     jw_created = (if truthy (jr_created_at job) then jr_created_at job else None),
     jw_pods = map (\<lambda>pod. \<lparr>
         pb_text = js ''Logs '' @ [183, 32] @ last_five (jp_name pod) @ [32, 183, 32] @ jp_phase pod,
         pb_pressed = (map_option sp_pod selected = Some (jp_name pod)),
         pb_selects = \<lparr>sp_cronjob = cronjob, sp_job = jr_name job, sp_pod = jp_name pod\<rparr>\<rparr>) (jr_pods job)\<rparr>"

record cron_card =
  cc_name :: jstr
  cc_suspended :: bool
  cc_enabled_text :: jstr
  cc_run_disabled :: bool
  cc_run_title :: "jstr option"
  cc_empty :: "jstr option"
  cc_rows :: "job_row list"

definition run_disabled :: "cron_job \<Rightarrow> bool" where
  "run_disabled c \<longleftrightarrow> cj_active c \<or> \<not> cj_deployed c"

definition cron_card :: "selected_pod option \<Rightarrow> cron_job \<Rightarrow> cron_card" where
  "cron_card selected c = \<lparr>cc_name = cj_name c, cc_suspended = cj_suspend c,
     cc_enabled_text = js ''enabled: '' @ (if cj_enabled c then js ''true'' else js ''false''),
     cc_run_disabled = run_disabled c,
     cc_run_title = (if \<not> cj_deployed c then Some (js ''Not deployed: turn it on in values.yaml first'')
       else if cj_active c then Some (js ''A Job of this CronJob is already running'') else None),
     cc_empty = (if length (cj_jobs c) = 0 then Some (if cj_deployed c then js ''No Jobs yet.''
       else js ''Not deployed: it is switched off in values.yaml.'') else None),
     cc_rows = map (job_row (cj_name c) selected) (cj_jobs c)\<rparr>"

text \<open>Whether the selected pod's Job is still running, read from the latest overview.\<close>

definition is_unfinished :: "cron_job list option \<Rightarrow> selected_pod \<Rightarrow> bool" where
  "is_unfinished cronjobs s =
     (case (case cronjobs of None \<Rightarrow> None
        | Some cs \<Rightarrow> (case find (\<lambda>c. cj_name c = sp_cronjob s) cs of None \<Rightarrow> None
            | Some c \<Rightarrow> find (\<lambda>j. jr_name j = sp_job s) (cj_jobs c))) of
        None \<Rightarrow> False | Some j \<Rightarrow> jr_state j = Job_active \<or> jr_state j = Job_pending)"

definition list_refetch_interval :: "jobs_overview option \<Rightarrow> nat" where
  "list_refetch_interval data = (case data of
     Some d \<Rightarrow> if list_ex cj_active (jo_cronjobs d) then LIST_POLL_MS else LIST_POLL_MS * 6
   | None \<Rightarrow> LIST_POLL_MS * 6)"

definition log_refetch_interval :: "bool \<Rightarrow> nat option" where
  "log_refetch_interval active = (if active then Some LOG_POLL_MS else None)"

text \<open>The log pane: its request and its text; the text of an answer may be empty.\<close>

record log_pane =
  lp_pod :: jstr
  lp_job :: jstr
  lp_note :: jstr
  lp_alert :: "jstr option"
  lp_text :: "jstr option"

definition log_pane :: "selected_pod \<Rightarrow> bool \<Rightarrow> jstr query \<Rightarrow> log_pane" where
  "log_pane s active logs = \<lparr>lp_pod = sp_pod s, lp_job = sp_job s,
     lp_note = js ''Last '' @ nat_text TAIL @ js '' lines''
       @ (if active then js '', refreshing every 3 s while the job runs'' else []) @ js ''.'',
     lp_alert = (case logs of Failed e _ \<Rightarrow> Some (jobs_message e) | _ \<Rightarrow> None),
     lp_text = (case logs of Failed _ _ \<Rightarrow> None
       | Loaded t \<Rightarrow> Some (if t \<noteq> [] then t else js ''(no output yet)'')
       | Pending \<Rightarrow> Some (js ''Loading'' @ [8230]))\<rparr>"

definition log_request :: "(jstr \<Rightarrow> jstr) \<Rightarrow> selected_pod \<Rightarrow> request" where
  "log_request enc_uri s = get_pod_logs enc_uri (sp_cronjob s) (sp_job s) (sp_pod s) TAIL"

section \<open>The page as a state machine\<close>

text \<open>
  The page asks about a CronJob, shows the logs of a pod, and watches at most one of the runs it has
  sent: \<open>run.mutate\<close> watches the new one, \<open>run.reset()\<close> none. A run that is no longer watched still
  settles, and its \<open>onSuccess\<close> still runs. \<open>js_flight\<close> holds the runs under way by number.
\<close>

datatype watch = Watch_none | Watch_pending nat | Watch_failed query_error | Watch_done

record jobs_state =
  js_asking :: "cron_job option"
  js_selected :: "selected_pod option"
  js_flight :: "(nat \<times> jstr) list"
  js_next :: nat
  js_watch :: watch

definition jobs_start :: jobs_state where
  "jobs_start = \<lparr>js_asking = None, js_selected = None, js_flight = [], js_next = 0, js_watch = Watch_none\<rparr>"

datatype jobs_event =
  Ask cron_job
| Cancel
| Confirm
| Select selected_pod
| Close_logs
| Run_ok nat job_run
| Run_failed nat query_error

definition select_first_pod :: "jstr \<Rightarrow> job_run \<Rightarrow> selected_pod option \<Rightarrow> selected_pod option" where
  "select_first_pod name job selected = (case jr_pods job of
     pod # _ \<Rightarrow> Some \<lparr>sp_cronjob = name, sp_job = jr_name job, sp_pod = jp_name pod\<rparr> | [] \<Rightarrow> selected)"

definition jobs_step :: "jobs_event \<Rightarrow> jobs_state \<Rightarrow> jobs_state" where
  "jobs_step e st = (case e of
     Ask c \<Rightarrow> if run_disabled c then st else st\<lparr>js_watch := Watch_none, js_asking := Some c\<rparr>
   | Cancel \<Rightarrow> st\<lparr>js_asking := None\<rparr>
   | Confirm \<Rightarrow> (case js_asking st of
       None \<Rightarrow> st
     | Some c \<Rightarrow> (case js_watch st of
         Watch_pending _ \<Rightarrow> st
       | _ \<Rightarrow> st\<lparr>js_flight := (js_next st, cj_name c) # js_flight st, js_next := js_next st + 1,
           js_watch := Watch_pending (js_next st)\<rparr>))
   | Select s \<Rightarrow> st\<lparr>js_selected := Some s\<rparr>
   | Close_logs \<Rightarrow> st\<lparr>js_selected := None\<rparr>
   | Run_ok i job \<Rightarrow> (case map_of (js_flight st) i of
       None \<Rightarrow> st
     | Some name \<Rightarrow> st\<lparr>js_flight := filter (\<lambda>(j, _). j \<noteq> i) (js_flight st), js_asking := None,
         js_selected := select_first_pod name job (js_selected st),
         js_watch := (if js_watch st = Watch_pending i then Watch_done else js_watch st)\<rparr>)
   | Run_failed i err \<Rightarrow> (case map_of (js_flight st) i of
       None \<Rightarrow> st
     | Some name \<Rightarrow> st\<lparr>js_flight := filter (\<lambda>(j, _). j \<noteq> i) (js_flight st),
         js_watch := (if js_watch st = Watch_pending i then Watch_failed err else js_watch st)\<rparr>))"

text \<open>What the confirm dialog shows: the CronJob, its warning, the alert and the disabled button.\<close>

record confirm_view =
  cv_name :: jstr
  cv_warning :: "jstr option"
  cv_alert :: "jstr option"
  cv_disabled :: bool

definition confirm_view :: "jobs_state \<Rightarrow> confirm_view option" where
  "confirm_view st = map_option (\<lambda>c. \<lparr>cv_name = cj_name c,
     cv_warning = (if truthy (cj_warning c) then cj_warning c else None),
     cv_alert = (case js_watch st of Watch_failed e \<Rightarrow> Some (jobs_message e) | _ \<Rightarrow> None),
     cv_disabled = (case js_watch st of Watch_pending _ \<Rightarrow> True | _ \<Rightarrow> False)\<rparr>) (js_asking st)"

record jobs_page =
  jv_simulated :: bool
  jv_alert :: "jstr option"
  jv_off :: bool
  jv_none :: bool
  jv_cards :: "cron_card list"

definition jobs_page :: "jobs_overview query \<Rightarrow> jobs_state \<Rightarrow> jobs_page" where
  "jobs_page q st = \<lparr>
     jv_simulated = (map_option jo_backend (query_data q) = Some Fake),
     jv_alert = (case q of Failed e _ \<Rightarrow> Some (jobs_message e) | _ \<Rightarrow> None),
     jv_off = (map_option jo_enabled (query_data q) = Some False),
     jv_none = (case query_data q of Some d \<Rightarrow> jo_enabled d \<and> length (jo_cronjobs d) = 0 | None \<Rightarrow> False),
     jv_cards = (case query_data q of Some d \<Rightarrow>
         if jo_enabled d then map (cron_card (js_selected st)) (jo_cronjobs d) else [] | None \<Rightarrow> [])\<rparr>"

text \<open>The runs a sequence of events sends, in order.\<close>

definition sent_by :: "jobs_event \<Rightarrow> jobs_state \<Rightarrow> jstr list" where
  "sent_by e st = (if js_next (jobs_step e st) = js_next st then []
     else [snd (hd (js_flight (jobs_step e st)))])"

text \<open>
  The page with its history: the name each run was sent for and the outcome of those that failed.
\<close>

inductive jobs_reach :: "jobs_state \<Rightarrow> (nat \<Rightarrow> jstr option) \<Rightarrow> (jstr \<times> query_error) set \<Rightarrow> bool" where
  start: "jobs_reach jobs_start Map.empty {}"
| quiet: "jobs_reach st sent failed \<Longrightarrow> e \<notin> range (case_prod Run_failed) \<Longrightarrow> js_next (jobs_step e st) = js_next st \<Longrightarrow>
    jobs_reach (jobs_step e st) sent failed"
| sends: "jobs_reach st sent failed \<Longrightarrow> js_asking st = Some c \<Longrightarrow> js_next (jobs_step Confirm st) \<noteq> js_next st \<Longrightarrow>
    jobs_reach (jobs_step Confirm st) (sent(js_next st \<mapsto> cj_name c)) failed"
| fails: "jobs_reach st sent failed \<Longrightarrow> map_of (js_flight st) i = Some name \<Longrightarrow>
    jobs_reach (jobs_step (Run_failed i e) st) sent (insert (name, e) failed)"
| stale: "jobs_reach st sent failed \<Longrightarrow> map_of (js_flight st) i = None \<Longrightarrow>
    jobs_reach (jobs_step (Run_failed i e) st) sent failed"

section \<open>Laws\<close>

definition jobs_ok :: "jobs_state \<Rightarrow> (nat \<Rightarrow> jstr option) \<Rightarrow> (jstr \<times> query_error) set \<Rightarrow> bool" where
  "jobs_ok st sent failed \<longleftrightarrow>
     (\<forall>(i, name) \<in> set (js_flight st). i < js_next st \<and> sent i = Some name) \<and>
     (\<forall>i c. js_watch st = Watch_pending i \<longrightarrow> i < js_next st \<and> (js_asking st = Some c \<longrightarrow> sent i = Some (cj_name c))) \<and>
     (\<forall>e c. js_watch st = Watch_failed e \<longrightarrow> js_asking st = Some c \<longrightarrow> (cj_name c, e) \<in> failed)"

lemma flight_sent: "jobs_ok st sent failed \<Longrightarrow> map_of (js_flight st) i = Some name \<Longrightarrow> sent i = Some name"
  using map_of_SomeD by (fastforce simp: jobs_ok_def)

lemma jobs_ok_quiet:
  assumes "jobs_ok st sent failed" "e \<notin> range (case_prod Run_failed)" "js_next (jobs_step e st) = js_next st"
  shows "jobs_ok (jobs_step e st) sent failed"
proof (cases e)
  case (Run_failed i err)
  then have "e = case_prod Run_failed (i, err)" by simp
  with assms(2) show ?thesis by blast
qed (use assms in \<open>auto simp: jobs_ok_def jobs_step_def split: option.splits watch.splits\<close>)

lemma jobs_ok_sends:
  assumes "jobs_ok st sent failed" "js_asking st = Some c" "js_next (jobs_step Confirm st) \<noteq> js_next st"
  shows "jobs_ok (jobs_step Confirm st) (sent(js_next st \<mapsto> cj_name c)) failed"
  using assms by (auto simp: jobs_ok_def jobs_step_def split: watch.splits)

lemma jobs_ok_fails:
  assumes "jobs_ok st sent failed" "map_of (js_flight st) i = Some name"
  shows "jobs_ok (jobs_step (Run_failed i e) st) sent (insert (name, e) failed)"
  using assms flight_sent [OF assms] by (auto simp: jobs_ok_def jobs_step_def)

lemma jobs_ok_reach: "jobs_reach st sent failed \<Longrightarrow> jobs_ok st sent failed"
proof (induction rule: jobs_reach.induct)
  case start
  then show ?case by (simp add: jobs_ok_def jobs_start_def)
next
  case (stale st sent failed i e)
  then show ?case by (simp add: jobs_step_def)
qed (use jobs_ok_quiet jobs_ok_sends jobs_ok_fails in blast)+

section \<open>Properties\<close>

text \<open>
  C31: the alert of the confirm dialog always reports a failed run of the very CronJob the dialog names,
  whatever was asked, cancelled and answered before, and in whatever order the runs settle.
\<close>

theorem dialog_alert_is_its_own:
  assumes "jobs_reach st sent failed" "confirm_view st = Some v" "cv_alert v = Some t"
  shows "\<exists>e. (cv_name v, e) \<in> failed \<and> t = jobs_message e"
  using jobs_ok_reach [OF assms(1)] assms(2,3)
  by (auto simp: confirm_view_def jobs_ok_def split: watch.splits)

definition demo_cron :: "string \<Rightarrow> cron_job" where
  "demo_cron n = \<lparr>cj_name = js n, cj_schedule = [], cj_suspend = False, cj_last_schedule_time = None,
     cj_last_successful_time = None, cj_warning = None, cj_active = False, cj_enabled = True, cj_deployed = True,
     cj_jobs = []\<rparr>"

lemma dialog_alert_is_its_own_witness:
  "\<exists>e. (js ''prune'', e) \<in> {(js ''prune'', Js_error (js ''down''))} \<and> js ''down'' = jobs_message e"
proof -
  let ?c = "demo_cron ''prune''"
  have a: "jobs_reach (jobs_step (Ask ?c) jobs_start) Map.empty {}"
    by (rule jobs_reach.quiet [OF jobs_reach.start]) (auto simp: jobs_step_def)
  have b: "jobs_reach (jobs_step Confirm (jobs_step (Ask ?c) jobs_start))
      (Map.empty(js_next (jobs_step (Ask ?c) jobs_start) \<mapsto> cj_name ?c)) {}"
    by (rule jobs_reach.sends [OF a]) (simp_all add: jobs_step_def run_disabled_def demo_cron_def jobs_start_def)
  have c: "jobs_reach (jobs_step (Run_failed 0 (Js_error (js ''down''))) (jobs_step Confirm (jobs_step (Ask ?c) jobs_start)))
      (Map.empty(js_next (jobs_step (Ask ?c) jobs_start) \<mapsto> cj_name ?c)) (insert (js ''prune'', Js_error (js ''down'')) {})"
    by (rule jobs_reach.fails [OF b]) (simp add: jobs_step_def run_disabled_def demo_cron_def jobs_start_def)
  show ?thesis
    using dialog_alert_is_its_own [OF c, of "\<lparr>cv_name = js ''prune'', cv_warning = None, cv_alert = Some (js ''down''),
        cv_disabled = False\<rparr>" "js ''down''"]
    by (simp add: confirm_view_def jobs_step_def run_disabled_def demo_cron_def jobs_start_def jobs_message_def
      error_text_def)
qed

text \<open>
  C37: a run whose dialog was cancelled and that is answered late closes the dialog that has been opened
  for another CronJob meanwhile, unconfirmed, and opens the logs of its own pod.
\<close>

theorem late_answer_closes_other_dialog:
  "let st = fold jobs_step [Ask (a\<lparr>cj_active := False, cj_deployed := True\<rparr>), Confirm, Cancel,
       Ask (b\<lparr>cj_active := False, cj_deployed := True\<rparr>)] jobs_start;
     st' = jobs_step (Run_ok 0 (job\<lparr>jr_pods := pod # pods\<rparr>)) st in
   map_option cv_name (confirm_view st) = Some (cj_name b) \<and> confirm_view st' = None \<and>
   js_selected st' = Some \<lparr>sp_cronjob = cj_name a, sp_job = jr_name job, sp_pod = jp_name pod\<rparr>"
  by (simp add: jobs_step_def jobs_start_def run_disabled_def confirm_view_def select_first_pod_def Let_def)

end
