(* ===== verification/Skill.thy ===== *)
theory Skill
  imports Badges Session Timers
begin

text \<open>
  The page of the Claude skill (\<^verbatim>\<open>src/features/skill\<close>): the two readers of its text
  (\<^verbatim>\<open>skillText.ts\<close>), the page (\<^verbatim>\<open>SkillPage.tsx\<close>), the personal token (\<^verbatim>\<open>TokenSection.tsx\<close>,
  \<^verbatim>\<open>src/api/personalToken.ts\<close>) and the MCP command (\<^verbatim>\<open>McpSection.tsx\<close>). \<open>upper\<close> is
  \<open>toUpperCase\<close>. 8230 is the ellipsis, 34 the quotation mark, 35 the hash, 40 the parenthesis.
\<close>

section \<open>Example prompts\<close>

text \<open>
  The groups \<open>matchAll(/"([^"]{8,80})"/g)\<close> finds: at a quotation mark the text up to the next one, if
  its length fits; the search goes on behind the closing mark, or behind the opening one otherwise.
\<close>

definition fits :: "jstr \<Rightarrow> bool" where
  "fits s \<longleftrightarrow> 8 \<le> length s \<and> length s \<le> 80"

function quoted :: "jstr \<Rightarrow> jstr list" where
  "quoted [] = []"
| "quoted (u # s) =
     (if u = 34 \<and> fits (takeWhile (\<lambda>x. x \<noteq> 34) s) \<and> dropWhile (\<lambda>x. x \<noteq> 34) s \<noteq> []
      then takeWhile (\<lambda>x. x \<noteq> 34) s # quoted (tl (dropWhile (\<lambda>x. x \<noteq> 34) s))
      else quoted s)"
  by pat_completeness auto
termination
  by (relation "measure length") (auto intro: le_imp_less_Suc order_trans [OF diff_le_self length_dropWhile_le])

definition prompt_of :: "(jstr \<Rightarrow> jstr) \<Rightarrow> jstr \<Rightarrow> jstr" where
  "prompt_of upper s = upper (take 1 (trim s)) @ drop 1 (trim s)"

definition extract_prompts :: "(jstr \<Rightarrow> jstr) \<Rightarrow> jstr list \<Rightarrow> jstr list" where
  "extract_prompts upper texts =
     take 6 (fold (\<lambda>text found. fold (\<lambda>m. set_add (prompt_of upper m)) (quoted text) found) texts [])"

text \<open>The toast of a chip's click, by the answer of the copy.\<close>

definition prompt_toast :: "jstr \<Rightarrow> bool \<Rightarrow> toast" where
  "prompt_toast prompt success =
     \<lparr>to_title = (if success then js ''Copied'' else js ''Copy failed''), to_detail = prompt, to_ok = success\<rparr>"

section \<open>Outline\<close>

record heading =
  hd_level :: nat
  hd_text :: jstr
  hd_line :: nat

text \<open>
  \<open>/^(#{2,3})\s+(.+?)\s*$/\<close>. The text is lazy and the white space around it is not, so the text is what
  is left of the line when it is trimmed; on a line of white space alone the match backtracks and gives
  the text its last unit that a dot matches, behind the first.
\<close>

definition heading_text :: "jstr \<Rightarrow> jstr option" where
  "heading_text rest = (case rest of
     [] \<Rightarrow> None
   | u # s \<Rightarrow>
       if \<not> is_ws u then None
       else if trim rest \<noteq> [] then (if list_all is_dot (trim rest) then Some (trim rest) else None)
       else if filter is_dot s = [] then None else Some [last (filter is_dot s)])"

definition heading_of :: "nat \<Rightarrow> jstr \<Rightarrow> heading option" where
  "heading_of index raw =
     (let n = length (takeWhile (\<lambda>u. u = 35) raw) in
      if n = 2 \<or> n = 3
      then map_option (\<lambda>t. \<lparr>hd_level = (if n = 2 then 2 else 3), hd_text = t, hd_line = index\<rparr>)
        (heading_text (drop n raw))
      else None)"

definition is_fence :: "jstr \<Rightarrow> bool" where
  "is_fence raw \<longleftrightarrow> starts_with raw (js ''```'')"

text \<open>The callback of \<open>forEach\<close> on the two variables of the function.\<close>

definition outline_line :: "nat \<times> jstr \<Rightarrow> bool \<times> heading list \<Rightarrow> bool \<times> heading list" where
  "outline_line = (\<lambda>(index, raw) (fenced, headings).
     if is_fence raw then (\<not> fenced, headings)
     else (case (if \<not> fenced then heading_of index raw else None) of
         Some h \<Rightarrow> (fenced, headings @ [h]) | None \<Rightarrow> (fenced, headings)))"

definition outline :: "jstr \<Rightarrow> heading list" where
  "outline content = snd (fold outline_line (List.enumerate 0 (split_on 10 content)) (False, []))"

section \<open>The token\<close>

datatype token_role = Token_viewer | Token_auditor

record personal_token =
  pt_username :: jstr
  pt_role :: token_role
  pt_prefix :: jstr
  pt_created_at :: jstr
  pt_expires_at :: jstr
  pt_last_used_at :: "jstr option"

record created_token =
  ct_token :: jstr
  ct_info :: personal_token

definition token_line_name :: "token_role \<Rightarrow> jstr" where
  "token_line_name r = (if r = Token_viewer then js ''VIEWER_TOKEN'' else js ''AUDITOR_TOKEN'')"

definition token_role_lower :: "token_role \<Rightarrow> jstr" where
  "token_role_lower r = (case r of Token_viewer \<Rightarrow> js ''viewer'' | Token_auditor \<Rightarrow> js ''auditor'')"

text \<open>
  The state the section works on: the created token the page holds (\<open>fresh\<close>), the answer to the token's
  query (\<open>undefined\<close> is \<open>None\<close>, \<open>null\<close> is \<open>Some None\<close>) and its two mutations.
\<close>

record token_state =
  ts_fresh :: "created_token option"
  ts_token :: "personal_token option option"
  ts_create :: mutation
  ts_revoke :: mutation

definition token_enabled :: "me option \<Rightarrow> bool" where
  "token_enabled me = (case me of Some m \<Rightarrow> me_login_required m \<and> me_authenticated m | None \<Rightarrow> False)"

datatype token_event =
  Create_click | Created created_token | Create_failed query_error
| Revoke_click | Revoked | Revoke_failed query_error
| Token_read "personal_token option"

text \<open>A step: the new state, the requests it sends and the queries it invalidates.\<close>

definition token_step :: "token_event \<Rightarrow> token_state \<Rightarrow> token_state \<times> request list \<times> query_key list" where
  "token_step e st = (case e of
     Create_click \<Rightarrow> if ts_create st = Mut_pending \<or> ts_token st = None then (st, [], [])
       else (st\<lparr>ts_create := Mut_pending\<rparr>, [create_my_token], [])
   | Created c \<Rightarrow> if ts_create st = Mut_pending
       then (st\<lparr>ts_create := Mut_success, ts_fresh := Some c\<rparr>, [], [token_all]) else (st, [], [])
   | Create_failed err \<Rightarrow> if ts_create st = Mut_pending then (st\<lparr>ts_create := Mut_error err\<rparr>, [], []) else (st, [], [])
   | Revoke_click \<Rightarrow> (case ts_token st of
       Some (Some _) \<Rightarrow> if ts_revoke st = Mut_pending then (st, [], [])
         else (st\<lparr>ts_revoke := Mut_pending\<rparr>, [revoke_my_token], [])
     | _ \<Rightarrow> (st, [], []))
   | Revoked \<Rightarrow> if ts_revoke st = Mut_pending
       then (st\<lparr>ts_revoke := Mut_success, ts_fresh := None\<rparr>, [], [token_all]) else (st, [], [])
   | Revoke_failed err \<Rightarrow> if ts_revoke st = Mut_pending then (st\<lparr>ts_revoke := Mut_error err\<rparr>, [], []) else (st, [], [])
   | Token_read t \<Rightarrow> (st\<lparr>ts_token := Some t\<rparr>, [], []))"

definition mut_failed :: "mutation \<Rightarrow> bool" where
  "mut_failed m = (case m of Mut_error _ \<Rightarrow> True | _ \<Rightarrow> False)"

record token_view =
  tk_username :: "jstr option"
  tk_fresh_line :: "jstr option"
  tk_facts :: "(jstr \<times> jstr) list option"
  tk_create_button :: "jstr \<times> bool"
  tk_revoke_disabled :: "bool option"
  tk_alert :: "jstr option"

definition token_section :: "display_env \<Rightarrow> me option \<Rightarrow> token_state \<Rightarrow> token_view option" where
  "token_section de me st = (case ts_token st of
     None \<Rightarrow> None
   | Some token \<Rightarrow>
       if \<not> token_enabled me then None
       else (let line = token_line_name (coalesce (map_option pt_role token)
             (if role_of me = Some VIEWER then Token_viewer else Token_auditor)) in
         Some \<lparr>tk_username = Option.bind me me_username,
           tk_fresh_line = map_option (\<lambda>c. line @ js ''='' @ ct_token c) (ts_fresh st),
           tk_facts = map_option (\<lambda>t. [
               (js ''Token'', pt_prefix t @ [8230]),
               (js ''Access'', token_role_lower (pt_role t)),
               (js ''Expires'', de_relative de (pt_expires_at t)),
               (js ''Last used'', if truthy (pt_last_used_at t) then de_relative de (the (pt_last_used_at t))
                 else js ''never'')]) token,
           tk_create_button = (if token \<noteq> None then js ''Replace my token'' else js ''Create my token'',
             ts_create st = Mut_pending),
           tk_revoke_disabled = (if token \<noteq> None then Some (ts_revoke st = Mut_pending) else None),
           tk_alert = (if mut_failed (ts_create st) \<or> mut_failed (ts_revoke st)
             then Some (js ''That did not work. Try again.'') else None)\<rparr>))"

section \<open>The MCP command\<close>

definition mcp_command :: "jstr \<Rightarrow> jstr option \<Rightarrow> jstr" where
  "mcp_command origin token = js ''claude mcp add --transport http server-scan '' @ origin @ js ''/mcp --header ''
     @ [34] @ js ''Authorization: Bearer '' @ coalesce token (js ''<your token>'') @ [34]"

definition mcp_section :: "jstr \<Rightarrow> jstr option \<Rightarrow> jstr \<times> jstr option" where
  "mcp_section origin token = (mcp_command origin token,
     if token = None then Some (js ''Create your token above and this command fills it in.'') else None)"

section \<open>The page\<close>

text \<open>\<open>allowed_tools.split(/\s+(?=\w+\()/)\<close>: split at the white space in front of a call.\<close>

definition is_call :: "jstr \<Rightarrow> bool" where
  "is_call t \<longleftrightarrow> takeWhile is_word t \<noteq> [] \<and> take 1 (dropWhile is_word t) = [40]"

function tool_split :: "jstr \<Rightarrow> jstr list" where
  "tool_split [] = [[]]"
| "tool_split (u # s) =
     (if is_ws u \<and> is_call (dropWhile is_ws s) then [] # tool_split (dropWhile is_ws s)
      else (case tool_split s of p # ps \<Rightarrow> (u # p) # ps | [] \<Rightarrow> [[u]]))"
  by pat_completeness auto
termination
  by (relation "measure length") (auto simp: le_imp_less_Suc length_dropWhile_le)

definition allowed_tools :: "jstr \<Rightarrow> jstr list" where
  "allowed_tools s = filter (\<lambda>t. t \<noteq> []) (tool_split s)"

record skill_file =
  sf_path :: jstr
  sf_content :: jstr

record skill =
  sk_name :: jstr
  sk_description :: jstr
  sk_when_to_use :: jstr
  sk_allowed_tools :: jstr
  sk_version :: jstr
  sk_updated_at :: jstr
  sk_files :: "skill_file list"

text \<open>The source of a skill with the selected path; at least one file, as the page checks.\<close>

record source_view =
  sv_tabs :: "(jstr \<times> bool) list"
  sv_outline :: "heading list"
  sv_count :: jstr
  sv_lines :: "(nat \<times> bool \<times> jstr) list"
  sv_copies :: jstr

definition source_file :: "jstr \<Rightarrow> skill_file list \<Rightarrow> skill_file" where
  "source_file path files = coalesce (find (\<lambda>f. sf_path f = path) files) (hd files)"

definition source_view :: "jstr \<Rightarrow> skill_file list \<Rightarrow> source_view" where
  "source_view path files =
     (let file = source_file path files; lines = split_on 10 (sf_content file) in \<lparr>
        sv_tabs = map (\<lambda>f. (sf_path f, sf_path f = sf_path file)) files,
        sv_outline = outline (sf_content file),
        sv_count = nat_text (length lines) @ js '' lines'',
        sv_lines = map (\<lambda>(i, l). (i + 1, starts_with l (js ''#''), if l \<noteq> [] then l else js '' '')) (List.enumerate 0 lines),
        sv_copies = sf_content file\<rparr>)"

record skill_view =
  kv_download :: jstr
  kv_unzip :: jstr
  kv_edit :: jstr
  kv_token_line :: jstr
  kv_prompts :: "jstr list"
  kv_mcp :: "jstr \<times> jstr option"
  kv_about :: "jstr list"
  kv_tools :: "jstr list"
  kv_source :: "source_view option"

datatype skill_page = Skill_loading | Skill_missing | Skill_shown skill_view

text \<open>\<open>path\<close> is the state of the source's tabs, \<open>None\<close> when they are just being mounted: it starts with the first path.\<close>

definition skill_page ::
  "(jstr \<Rightarrow> jstr) \<Rightarrow> (jstr \<Rightarrow> jstr) \<Rightarrow> jstr \<Rightarrow> me option \<Rightarrow> created_token option \<Rightarrow> jstr option \<Rightarrow> skill query \<Rightarrow> skill_page" where
  "skill_page upper enc_uri origin me fresh path q = (case q of
     Pending \<Rightarrow> Skill_loading
   | Failed _ _ \<Rightarrow> Skill_missing
   | Loaded k \<Rightarrow> Skill_shown \<lparr>
       kv_download = skill_download_url enc_uri origin,
       kv_unzip = js ''unzip -o ~/Downloads/'' @ sk_name k @ js ''.zip -d ~/.claude/skills'',
       kv_edit = js ''~/.claude/skills/'' @ sk_name k @ js ''/SKILL.md'',
       kv_token_line = (if role_of me = Some VIEWER then js ''VIEWER_TOKEN'' else js ''AUDITOR_TOKEN''),
       kv_prompts = extract_prompts upper [sk_description k, sk_when_to_use k],
       kv_mcp = mcp_section origin (map_option ct_token fresh),
       kv_about = sk_description k # (if sk_when_to_use k \<noteq> [] then [sk_when_to_use k] else []),
       kv_tools = allowed_tools (sk_allowed_tools k),
       kv_source = (case sk_files k of [] \<Rightarrow> None
         | f # fs \<Rightarrow> Some (source_view (coalesce path (sf_path f)) (f # fs)))\<rparr>)"

section \<open>Laws\<close>

text \<open>Marks that all fit are read in order; whatever stands between the pairs is passed over.\<close>

lemma quoted_skip: "34 \<notin> set a \<Longrightarrow> quoted (a @ s) = quoted s"
  by (induction a) auto

lemma run_before_mark:
  assumes "34 \<notin> set q"
  shows "takeWhile (\<lambda>x. x \<noteq> 34) (q @ 34 # s) = q" "dropWhile (\<lambda>x. x \<noteq> 34) (q @ 34 # s) = 34 # s"
  using assms by (induction q) auto

lemma quoted_hit: "34 \<notin> set q \<Longrightarrow> fits q \<Longrightarrow> quoted (34 # q @ 34 # s) = q # quoted s"
  by (simp add: run_before_mark)

lemma quoted_miss: "34 \<notin> set q \<Longrightarrow> \<not> fits q \<Longrightarrow> quoted (34 # q @ 34 # s) = quoted (34 # s)"
  using quoted_skip [of q "34 # s"] by (simp add: run_before_mark del: quoted.simps(2)) (simp add: run_before_mark)

lemma quoted_pairs:
  "list_all (\<lambda>(a, q). 34 \<notin> set a \<and> 34 \<notin> set q \<and> fits q) ps \<Longrightarrow>
    quoted (concat (map (\<lambda>(a, q). a @ 34 # q @ [34]) ps)) = map snd ps"
proof (induction ps)
  case (Cons p ps)
  obtain a q where "p = (a, q)" by (cases p)
  with Cons show ?case by (simp add: quoted_skip quoted_hit del: quoted.simps(2))
qed simp

text \<open>
  A quotation too short for a prompt turns the marks around: the prose up to the next quotation becomes a
  prompt, and that quotation is lost.
\<close>

lemma short_quote_turns_marks:
  assumes "34 \<notin> set q" "length q < 8" "34 \<notin> set prose" "fits prose" "34 \<notin> set r"
  shows "quoted (34 # q @ 34 # prose @ 34 # r @ [34]) = [prose]"
proof -
  have "\<not> fits q" using assms(2) by (simp add: fits_def)
  then have "quoted (34 # q @ 34 # prose @ 34 # r @ [34]) = prose # quoted (r @ [34])"
    using quoted_miss [OF assms(1)] quoted_hit [OF assms(3,4)] by (simp del: quoted.simps(2))
  then show ?thesis using assms(5) by (simp add: quoted_skip)
qed

text \<open>The chips are distinct, at most six, and in the order in which they are first quoted.\<close>

lemma extract_prompts_eq:
  "extract_prompts upper texts = take 6 (set_of_list (map (prompt_of upper) (concat (map quoted texts))))"
proof -
  have "fold (\<lambda>text found. fold (\<lambda>m. set_add (prompt_of upper m)) (quoted text) found) texts s =
      fold set_add (map (prompt_of upper) (concat (map quoted texts))) s" for s
    by (induction texts arbitrary: s) (simp_all add: fold_map comp_def)
  then show ?thesis by (simp add: extract_prompts_def set_of_list_def)
qed

lemma extract_prompts_bound: "distinct (extract_prompts upper texts) \<and> length (extract_prompts upper texts) \<le> 6"
  by (simp add: extract_prompts_eq)

text \<open>What the loop of the outline computes: the lines outside fences that are headings, each with its number.\<close>

definition fenced_before :: "jstr list \<Rightarrow> bool" where
  "fenced_before lines \<longleftrightarrow> odd (length (filter is_fence lines))"

definition outline_spec :: "jstr list \<Rightarrow> heading list" where
  "outline_spec lines = List.map_filter (\<lambda>i. if is_fence (lines ! i) \<or> fenced_before (take i lines) then None
     else heading_of i (lines ! i)) [0..<length lines]"

lemma map_filter_cong: "(\<And>x. x \<in> set xs \<Longrightarrow> f x = g x) \<Longrightarrow> List.map_filter f xs = List.map_filter g xs"
  by (induction xs) (auto simp: map_filter_simps split: option.splits)

lemma outline_spec_snoc:
  "outline_spec (lines @ [l]) = outline_spec lines @
     (if is_fence l \<or> fenced_before lines then [] else (case heading_of (length lines) l of Some h \<Rightarrow> [h] | None \<Rightarrow> []))"
proof -
  have "outline_spec (lines @ [l]) = List.map_filter (\<lambda>i. if is_fence ((lines @ [l]) ! i) \<or> fenced_before (take i (lines @ [l]))
      then None else heading_of i ((lines @ [l]) ! i)) [0..<length lines] @
      (if is_fence l \<or> fenced_before lines then [] else (case heading_of (length lines) l of Some h \<Rightarrow> [h] | None \<Rightarrow> []))"
    by (simp add: outline_spec_def map_filter_def split: option.splits)
  also have "List.map_filter (\<lambda>i. if is_fence ((lines @ [l]) ! i) \<or> fenced_before (take i (lines @ [l]))
      then None else heading_of i ((lines @ [l]) ! i)) [0..<length lines] = outline_spec lines"
    unfolding outline_spec_def by (rule map_filter_cong) (simp add: nth_append)
  finally show ?thesis .
qed

lemma outline_loop:
  "fold outline_line (List.enumerate 0 lines) (False, []) = (fenced_before lines, outline_spec lines)"
proof (induction lines rule: rev_induct)
  case Nil
  then show ?case by (simp add: fenced_before_def outline_spec_def map_filter_def)
next
  case (snoc l lines)
  have "fold outline_line (List.enumerate 0 (lines @ [l])) (False, []) =
      outline_line (length lines, l) (fenced_before lines, outline_spec lines)"
    by (simp add: enumerate_append_eq snoc)
  then show ?case
    by (auto simp: outline_line_def outline_spec_snoc fenced_before_def split: option.splits)
qed

lemma heading_of_line: "heading_of i raw = Some h \<Longrightarrow> hd_line h = i"
  by (auto simp: heading_of_def Let_def split: if_splits)

text \<open>The headings stand in the order of the lines, at most one to a line.\<close>

lemma subseq_sorted_wrt: "subseq xs ys \<Longrightarrow> sorted_wrt P ys \<Longrightarrow> sorted_wrt P xs"
  by (induction rule: list_emb.induct) (auto dest: list_emb_set)

lemma outline_lines_sorted: "sorted_wrt (<) (map hd_line (outline_spec lines))"
proof -
  have "subseq (map hd_line (List.map_filter (\<lambda>i. if P i then None else heading_of i (lines ! i)) xs)) xs" for P xs
    by (induction xs) (auto simp: map_filter_simps dest: heading_of_line split: option.splits)
  then have "subseq (map hd_line (outline_spec lines)) [0..<length lines]"
    by (simp only: outline_spec_def)
  then show ?thesis by (rule subseq_sorted_wrt) simp
qed

text \<open>
  The comment excludes the frontmatter, the code does not: a comment of two hashes between its marks is a
  heading.
\<close>

lemma frontmatter_is_read:
  "outline (join [10] [js ''---'', js ''## tools'', js ''---'']) = [\<lparr>hd_level = 2, hd_text = js ''tools'', hd_line = 1\<rparr>]"
proof -
  have p: "split_on 10 (join [10] [js ''---'', js ''## tools'', js ''---'']) = [js ''---'', js ''## tools'', js ''---'']"
    by (rule split_join) (simp_all add: js_def)
  have "is_fence (js ''---'') = False" "is_fence (js ''## tools'') = False"
    by (simp_all add: is_fence_def starts_with_def js_def)
  moreover have "heading_of i (js ''---'') = None" for i by (simp add: heading_of_def js_def)
  moreover have "heading_of 1 (js ''## tools'') = Some \<lparr>hd_level = 2, hd_text = js ''tools'', hd_line = 1\<rparr>"
    by (simp add: heading_of_def heading_text_def js_def is_ws_def is_dot_def trim_def trim_start_def)
  ultimately show ?thesis
    unfolding outline_def p by (simp add: outline_line_def)
qed

text \<open>A list of calls written with spaces between them is split into them.\<close>

lemma tool_split_call: "list_all (\<lambda>u. \<not> is_ws u) t \<Longrightarrow> tool_split (t @ s) =
    (case tool_split s of p # ps \<Rightarrow> (t @ p) # ps | [] \<Rightarrow> [t])"
proof (induction t)
  case Nil
  have "tool_split s \<noteq> []" by (cases s) (auto split: list.splits)
  then show ?case by (cases "tool_split s") auto
qed (auto split: list.splits)

lemma call_head: "is_call t \<Longrightarrow> \<exists>u s. t = u # s \<and> is_word u \<and> \<not> is_ws u"
  by (cases t) (auto simp: is_call_def is_word_def is_digit_def is_ws_def split: if_splits)

lemma is_call_append: "is_call t \<Longrightarrow> is_call (t @ s)"
proof -
  assume a: "is_call t"
  let ?w = "takeWhile is_word t"
  have "dropWhile is_word t \<noteq> []"
  proof
    assume "dropWhile is_word t = []"
    with a show False by (simp only: is_call_def) simp
  qed
  then have "\<exists>x \<in> set t. \<not> is_word x" by (simp only: dropWhile_eq_Nil_conv) blast
  then obtain x where x: "x \<in> set t" "\<not> is_word x" by blast
  then have "dropWhile is_word (t @ s) = dropWhile is_word t @ s" "takeWhile is_word (t @ s) = takeWhile is_word t"
    by (simp_all add: dropWhile_append1 takeWhile_append1)
  with a show ?thesis by (cases "dropWhile is_word t") (simp_all only: is_call_def, simp_all)
qed

lemma tools_read_back:
  "list_all (\<lambda>t. list_all (\<lambda>u. \<not> is_ws u) t \<and> is_call t) ts \<Longrightarrow> ts \<noteq> [] \<Longrightarrow> allowed_tools (join [32] ts) = ts"
proof -
  have "list_all (\<lambda>t. list_all (\<lambda>u. \<not> is_ws u) t \<and> is_call t) ts \<Longrightarrow> ts \<noteq> [] \<Longrightarrow> tool_split (join [32] ts) = ts"
  proof (induction "[32::nat]" ts rule: join.induct)
    case (2 t)
    then show ?case using tool_split_call [of t "[]"] by simp
  next
    case (3 t t' ts)
    let ?s = "join [32] (t' # ts)"
    have c: "is_call ?s"
      using 3(2) is_call_append [of t'] by (cases ts) auto
    then have "tool_split (32 # ?s) = [] # tool_split ?s"
      using call_head [OF c] by (auto simp: is_ws_def)
    then show ?case using 3 tool_split_call [of t "32 # ?s"] by simp
  qed simp
  moreover have "t \<noteq> []" if "is_call t" for t using call_head [OF that] by auto
  ultimately show "list_all (\<lambda>t. list_all (\<lambda>u. \<not> is_ws u) t \<and> is_call t) ts \<Longrightarrow> ts \<noteq> [] \<Longrightarrow> allowed_tools (join [32] ts) = ts"
    by (auto simp: allowed_tools_def list_all_iff filter_id_conv)
qed

section \<open>Properties\<close>


end
