(* ===== verification/Queries.thy ===== *)
theory Queries
  imports Small_Pages Jobs Skill
begin

text \<open>
  Every query the components register with the query library: its key, the request it sends and its
  options (the hooks of \<^verbatim>\<open>src/features\<close> and the defaults of \<^verbatim>\<open>src/lib/query-client.ts\<close>), and which
  of them a settled mutation or an expired session makes stale. A key is stored by its JSON text, with
  the members of an object in one order and the absent ones left out; a number in it appears as a text.
\<close>

section \<open>The members of a key\<close>

definition present :: "(jstr \<times> jstr option) list \<Rightarrow> (jstr \<times> jstr) list" where
  "present entries = map (\<lambda>(k, v). (k, the v)) (filter (\<lambda>(k, v). v \<noteq> None) entries)"

definition enabled_member :: "bool option \<Rightarrow> (jstr \<times> jstr) list" where
  "enabled_member e = present [(js ''enabled'', map_option (\<lambda>b. if b then js ''true'' else js ''false'') e)]"

definition TYPE_HISTORY_SIZE :: nat where "TYPE_HISTORY_SIZE = 200"

definition type_history_params :: "jstr \<Rightarrow> event_params" where
  "type_history_params t = \<lparr>epr_server_name = None, epr_event_type = Some t, epr_actor_id = None,
     epr_since = None, epr_until = None\<rparr>"

section \<open>Options\<close>

record query_options =
  qo_enabled :: bool
  qo_stale_ms :: nat
  qo_retry :: nat
  qo_focus :: bool
  qo_poll_ms :: "nat option"
  qo_poll_hidden :: bool

definition default_options :: query_options where
  "default_options = \<lparr>qo_enabled = True, qo_stale_ms = 30000, qo_retry = 1, qo_focus = False,
     qo_poll_ms = None, qo_poll_hidden = False\<rparr>"

definition REFRESH_MS :: nat where "REFRESH_MS = 60000"

section \<open>The hooks\<close>

text \<open>
  What a hook registers: its key, the request it sends, for a cursor-paged query that of the page after
  a cursor, and its options.
\<close>

record hook =
  hk_key :: query_key
  hk_request :: "jstr \<Rightarrow> request"
  hk_options :: query_options

definition use_auth :: hook where
  "use_auth = \<lparr>hk_key = auth_me, hk_request = (\<lambda>_. get_me), hk_options = default_options\<rparr>"

definition use_server_rows :: hook where
  "use_server_rows = \<lparr>hk_key = servers_rows, hk_request = (\<lambda>_. list_server_rows),
     hk_options = default_options\<lparr>qo_poll_ms := Some 30000, qo_poll_hidden := True\<rparr>\<rparr>"

definition use_server_detail :: "(jstr \<Rightarrow> jstr) \<Rightarrow> jstr \<Rightarrow> hook" where
  "use_server_detail enc_uri i = \<lparr>hk_key = servers_detail i, hk_request = (\<lambda>_. get_server enc_uri i),
     hk_options = default_options\<lparr>qo_enabled := (length i > 0)\<rparr>\<rparr>"

definition use_classification_rules :: "(params \<Rightarrow> jstr) \<Rightarrow> bool option \<Rightarrow> hook" where
  "use_classification_rules enc e = \<lparr>hk_key = rules_list (enabled_member e),
     hk_request = (\<lambda>_. list_classification_rules enc e), hk_options = default_options\<rparr>"

definition use_health_policies :: "(params \<Rightarrow> jstr) \<Rightarrow> bool option \<Rightarrow> hook" where
  "use_health_policies enc e = \<lparr>hk_key = policies_list (enabled_member e),
     hk_request = (\<lambda>_. list_health_policies enc e), hk_options = default_options\<rparr>"

definition use_sites :: hook where
  "use_sites = \<lparr>hk_key = sites_list, hk_request = (\<lambda>_. list_sites), hk_options = default_options\<rparr>"

definition use_skill :: hook where
  "use_skill = \<lparr>hk_key = skill_all, hk_request = (\<lambda>_. get_skill),
     hk_options = default_options\<lparr>qo_stale_ms := 0, qo_poll_ms := Some REFRESH_MS, qo_focus := True\<rparr>\<rparr>"

definition use_token :: "me option \<Rightarrow> hook" where
  "use_token me = \<lparr>hk_key = token_all, hk_request = (\<lambda>_. get_my_token),
     hk_options = default_options\<lparr>qo_enabled := token_enabled me\<rparr>\<rparr>"

definition use_jobs :: "jobs_overview option \<Rightarrow> hook" where
  "use_jobs data = \<lparr>hk_key = jobs_all, hk_request = (\<lambda>_. get_jobs),
     hk_options = default_options\<lparr>qo_poll_ms := Some (list_refetch_interval data)\<rparr>\<rparr>"

text \<open>The logs of a pod are polled while its Job is unfinished in the latest overview.\<close>

definition use_logs :: "(jstr \<Rightarrow> jstr) \<Rightarrow> bool \<Rightarrow> selected_pod \<Rightarrow> hook" where
  "use_logs enc_uri active s = \<lparr>hk_key = jobs_logs (sp_cronjob s) (sp_job s) (sp_pod s),
     hk_request = (\<lambda>_. log_request enc_uri s),
     hk_options = default_options\<lparr>qo_poll_ms := log_refetch_interval active\<rparr>\<rparr>"

definition use_events :: "(params \<Rightarrow> jstr) \<Rightarrow> event_params \<Rightarrow> hook" where
  "use_events enc p = \<lparr>hk_key = events_list (present (event_entries p [] None)) @ [kt ''infinite''],
     hk_request = (\<lambda>cursor. get (events_page_url enc p cursor)), hk_options = default_options\<rparr>"

definition use_server_events :: "(params \<Rightarrow> jstr) \<Rightarrow> (jstr \<Rightarrow> jstr) \<Rightarrow> jstr \<Rightarrow> hook" where
  "use_server_events enc enc_uri i = \<lparr>hk_key = server_events_key i,
     hk_request = (\<lambda>cursor. get (server_events_page_url enc enc_uri i cursor)),
     hk_options = default_options\<lparr>qo_enabled := server_events_enabled i\<rparr>\<rparr>"

definition use_type_history :: "(params \<Rightarrow> jstr) \<Rightarrow> jstr \<Rightarrow> hook" where
  "use_type_history enc t =
     \<lparr>hk_key = events_list (present (event_entries (type_history_params t) [] (Some TYPE_HISTORY_SIZE))),
      hk_request = (\<lambda>_. get (list_events_url enc (type_history_params t) [] (Some TYPE_HISTORY_SIZE))),
      hk_options = default_options\<lparr>qo_stale_ms := 0\<rparr>\<rparr>"

definition use_event_actors :: hook where
  "use_event_actors = \<lparr>hk_key = events_actors, hk_request = (\<lambda>_. get (js ''/api/v1/events/actors'')),
     hk_options = default_options\<lparr>qo_stale_ms := 60000\<rparr>\<rparr>"

definition use_readiness :: hook where
  "use_readiness = \<lparr>hk_key = platform_readiness, hk_request = (\<lambda>_. get_readiness), hk_options = default_options\<rparr>"

section \<open>All the queries of the app\<close>

text \<open>What the hooks read: the browser's encoders, the session and the latest overview of the jobs.\<close>

record query_env =
  qe_enc :: "params \<Rightarrow> jstr"
  qe_uri :: "jstr \<Rightarrow> jstr"
  qe_me :: "me option"
  qe_jobs :: "jobs_overview option"

datatype app_query =
  Q_session
| Q_rows
| Q_server jstr
| Q_rules "bool option"
| Q_policies "bool option"
| Q_skill
| Q_jobs
| Q_logs selected_pod
| Q_token
| Q_sites
| Q_trail event_params
| Q_server_trail jstr
| Q_type_history jstr
| Q_actors
| Q_readiness

fun hook_of :: "query_env \<Rightarrow> app_query \<Rightarrow> hook" where
  "hook_of e Q_session = use_auth"
| "hook_of e Q_rows = use_server_rows"
| "hook_of e (Q_server i) = use_server_detail (qe_uri e) i"
| "hook_of e (Q_rules b) = use_classification_rules (qe_enc e) b"
| "hook_of e (Q_policies b) = use_health_policies (qe_enc e) b"
| "hook_of e Q_skill = use_skill"
| "hook_of e Q_jobs = use_jobs (qe_jobs e)"
| "hook_of e (Q_logs s) = use_logs (qe_uri e) (is_unfinished (map_option jo_cronjobs (qe_jobs e)) s) s"
| "hook_of e Q_token = use_token (qe_me e)"
| "hook_of e Q_sites = use_sites"
| "hook_of e (Q_trail p) = use_events (qe_enc e) p"
| "hook_of e (Q_server_trail i) = use_server_events (qe_enc e) (qe_uri e) i"
| "hook_of e (Q_type_history t) = use_type_history (qe_enc e) t"
| "hook_of e Q_actors = use_event_actors"
| "hook_of e Q_readiness = use_readiness"

section \<open>What becomes stale\<close>

definition reached :: "query_env \<Rightarrow> query_key list \<Rightarrow> app_query \<Rightarrow> bool" where
  "reached e keys q \<longleftrightarrow> list_ex (\<lambda>k. invalidates k (hk_key (hook_of e q))) keys"

text \<open>The keys the answer of a run and a logout invalidate, and those the maintenance answer adds.\<close>

definition run_answer_keys :: "jobs_event \<Rightarrow> jobs_state \<Rightarrow> query_key list" where
  "run_answer_keys e st = (case e of
     Run_ok i _ \<Rightarrow> (case map_of (js_flight st) i of None \<Rightarrow> [] | Some _ \<Rightarrow> [jobs_all]) | _ \<Rightarrow> [])"

definition logout_keys :: "query_key list" where
  "logout_keys = [auth_me]"

definition maintenance_keys :: "server_detail \<Rightarrow> cache \<Rightarrow> query_key list" where
  "maintenance_keys d c = drop (length (ch_stale c)) (ch_stale (maintenance_success d c))"

section \<open>Laws\<close>

lemma present_simps [simp]:
  "present [] = []" "present ((k, None) # es) = present es" "present ((k, Some v) # es) = (k, v) # present es"
  by (simp_all add: present_def)

lemma present_names: "fst ` set (present es) \<subseteq> fst ` set es"
  by (force simp: present_def)

text \<open>The entries of an object with distinct names determine it.\<close>

lemma present_map_of: "distinct (map fst es) \<Longrightarrow> map_of (present es) k = (case map_of es k of Some v \<Rightarrow> v | None \<Rightarrow> None)"
proof (induction es)
  case (Cons e es)
  obtain k' v where e: "e = (k', v)" by (cases e)
  have "map_of (present es) k' = None" "map_of es k' = None"
    using Cons.prems present_names [of es] by (auto simp: e map_of_eq_None_iff)
  with Cons show ?case by (cases v; cases "k = k'") (simp_all add: e)
qed simp

lemma trail_params_inj:
  "present (event_entries p [] n) = present (event_entries q [] n) \<longleftrightarrow> p = q"
proof
  assume e: "present (event_entries p [] n) = present (event_entries q [] n)"
  have "map_of (present (event_entries p [] n)) k = map_of (present (event_entries q [] n)) k" for k
    by (simp only: e)
  moreover have "distinct (map fst (event_entries r [] n))" for r
    by (simp add: event_entries_def)
  ultimately have "(case map_of (event_entries p [] n) k of Some v \<Rightarrow> v | None \<Rightarrow> None) =
      (case map_of (event_entries q [] n) k of Some v \<Rightarrow> v | None \<Rightarrow> None)" for k
    by (simp add: present_map_of)
  from this [of "js ''server_name''"] this [of "js ''event_type''"] this [of "js ''actor_id''"]
    this [of "js ''since''"] this [of "js ''until''"]
  show "p = q" by (simp add: event_entries_def)
qed simp

lemma type_history_inj: "type_history_params t = type_history_params u \<longleftrightarrow> t = u"
  by (simp add: type_history_params_def)

lemma enabled_member_inj: "enabled_member e = enabled_member e' \<longleftrightarrow> e = e'"
  by (cases e; cases e') (auto simp: enabled_member_def)

lemmas use_defs = use_auth_def use_server_rows_def use_server_detail_def use_classification_rules_def
  use_health_policies_def use_sites_def use_skill_def use_token_def use_jobs_def use_logs_def use_events_def
  use_server_events_def use_type_history_def use_event_actors_def use_readiness_def

lemma hook_key_inj: "hk_key (hook_of e q) = hk_key (hook_of e' q') \<longleftrightarrow> q = q'"
proof
  show "hk_key (hook_of e q) = hk_key (hook_of e' q') \<Longrightarrow> q = q'"
    by (cases q; cases q';
      simp add: use_defs key_defs server_events_key_def enabled_member_inj trail_params_inj type_history_inj)
next
  show "q = q' \<Longrightarrow> hk_key (hook_of e q) = hk_key (hook_of e' q')"
    by (cases q') (simp_all add: use_defs)
qed

lemma invalidates_queries:
  "invalidates servers_all (hk_key (hook_of e q)) = (q = Q_rows \<or> (\<exists>i. q = Q_server i))"
  "invalidates sites_all (hk_key (hook_of e q)) = (q = Q_sites)"
  "invalidates jobs_all (hk_key (hook_of e q)) = (q = Q_jobs \<or> (\<exists>s. q = Q_logs s))"
  "invalidates token_all (hk_key (hook_of e q)) = (q = Q_token)"
  "invalidates auth_me (hk_key (hook_of e q)) = (q = Q_session)"
  by (cases q; simp add: invalidates_def use_defs key_defs server_events_key_def)+

text \<open>What every query asks for, and how a path starts whatever its query string.\<close>

lemmas path_defs = get_def get_me_def list_server_rows_def get_server_def list_classification_rules_def
  list_health_policies_def get_skill_def get_jobs_def log_request_def get_pod_logs_def get_my_token_def list_sites_def
  events_page_url_def list_events_url_def server_events_page_url_def list_server_events_url_def get_readiness_def

lemma with_query_cases: obtains y where "with_query enc path p = path @ y"
  using that [of "[]"] that [of "js ''?'' @ enc p"] by (cases "enc p = []") (simp_all add: with_query_def)

lemma starts_with_query: "(\<And>y. starts_with (path @ y) pre) \<Longrightarrow> starts_with (with_query enc path p) pre"
  by (rule with_query_cases [of enc path p]) simp

lemma not_starts_with_query: "(\<And>y. \<not> starts_with (path @ y) pre) \<Longrightarrow> \<not> starts_with (with_query enc path p) pre"
  by (rule with_query_cases [of enc path p]) simp

lemma auth_requests:
  "starts_with (rq_path (hk_request (hook_of e q) c)) (js ''/api/v1/auth/'') \<longleftrightarrow> q = Q_session \<or> q = Q_token"
proof -
  have n: "\<not> starts_with (js ''/api/v1/events'' @ x) (js ''/api/v1/auth/'')"
    "\<not> starts_with (js ''/api/v1/servers/'' @ x) (js ''/api/v1/auth/'')"
    "\<not> starts_with (js ''/api/v1/classification-rules'' @ x) (js ''/api/v1/auth/'')"
    "\<not> starts_with (js ''/api/v1/health-policies'' @ x) (js ''/api/v1/auth/'')"
    "\<not> starts_with (js ''/api/v1/jobs/'' @ x) (js ''/api/v1/auth/'')" for x
    by (simp_all add: starts_with_def js_def)
  show ?thesis
    by (cases q) (simp_all add: use_defs path_defs not_starts_with_query n, simp_all add: starts_with_def js_def)
qed

section \<open>Properties\<close>

text \<open>
  C16: two queries of the app share a cache entry only when they are the same query, whatever the session
  and the data they follow: the key tells the resource, its id and its filters apart, so one key stands
  for one request and no page is drawn from the answer to another.
\<close>

theorem keys_tell_queries_apart:
  "(hk_key (hook_of e q) = hk_key (hook_of e' q')) = (q = q') \<and>
   {hk_request (hook_of e r) |r. hk_key (hook_of e r) = hk_key (hook_of e' q)} = {hk_request (hook_of e q)}"
  by (simp add: hook_key_inj)

text \<open>
  C33: what a settled mutation makes stale is exactly what it changes: a maintenance answer the fleet's
  rows, every server and the sites, the answer of a run the jobs with their logs, a new or revoked
  token the token, a login or a logout the session. None of them reaches the audit trail.
\<close>

theorem mutations_refresh:
  "reached e (maintenance_keys d c) q = (q = Q_rows \<or> q = Q_sites \<or> (\<exists>i. q = Q_server i)) \<and>
   reached e (run_answer_keys (Run_ok i job) st) q =
     (map_of (js_flight st) i \<noteq> None \<and> (q = Q_jobs \<or> (\<exists>s. q = Q_logs s))) \<and>
   reached e (snd (snd (token_step (Created t) ts))) q = (ts_create ts = Mut_pending \<and> q = Q_token) \<and>
   reached e (snd (snd (token_step Revoked ts))) q = (ts_revoke ts = Mut_pending \<and> q = Q_token) \<and>
   reached e (snd (snd (login_step Accepted f))) q = (lf_mutation f = Mut_pending \<and> q = Q_session) \<and>
   reached e logout_keys q = (q = Q_session)"
proof -
  have m: "maintenance_keys d c = [servers_all, sites_all]"
    by (simp add: maintenance_keys_def maintenance_success_def)
  show ?thesis
    by (auto simp: reached_def m invalidates_queries run_answer_keys_def token_step_def login_step_def logout_keys_def
      split: option.splits)
qed

text \<open>
  C20: when the session has expired, the next request of any page, polls included, has it checked again
  and nothing else: a 401 makes the session's query stale and no other one, except a 401 on the session
  itself or on the personal token; and once the check answers that a login is needed, the layout shows
  the login form instead of the page.
\<close>

theorem expired_session_is_noticed:
  "{q'. reached e (snd (api_fetch m (hk_request (hook_of e q) c) (Reply 401 b))) q'} =
     (if q = Q_session \<or> q = Q_token then {} else {Q_session}) \<and>
   app_layout (Loaded \<lparr>me_login_required = True, me_authenticated = False, me_username = u, me_role = r\<rparr>) = Layout_login"
  by (auto simp: api_fetch_def auth_requests is_ok_def reached_def invalidates_queries app_layout_def query_data_def)

end
