(* ===== verification/Trail_Page.thy ===== *)
theory Trail_Page
  imports Events Timers
begin

text \<open>
  The events page as a whole (\<^verbatim>\<open>src/features/events/EventsPage.tsx\<close>): its form, the three debounced
  fields, the memoised parameters of its request and the list that is mounted anew when they change;
  with the drawn list of users (\<^verbatim>\<open>ActorCombobox.tsx\<close>) and the parts of the timeline's table
  (\<^verbatim>\<open>EventTimeline.tsx\<close>). 9656 and 9662 are the marks of a closed and an open row.
\<close>

section \<open>The form\<close>

text \<open>A select with its value and options, a text input, or the user field.\<close>

datatype form_field =
  Select_field jstr jstr "(jstr \<times> jstr) list"
| Text_field jstr jstr "jstr option"
| User_field jstr jstr

definition DATE_HINT :: jstr where "DATE_HINT = js ''DD/MM/YYYY HH:MM''"

definition type_options :: "(jstr \<times> jstr) list" where
  "type_options = ([], js ''All'') # map (\<lambda>t. (t, t)) WRITTEN_EVENT_TYPES"

definition range_options :: "(jstr \<times> jstr) list" where
  "range_options = ([], js ''Any time'') # map (\<lambda>(v, l, _). (v, l)) RANGE_PRESETS @ [(js ''custom'', js ''Custom'')]"

text \<open>The last part of a text field is the hint under it.\<close>

definition events_form :: "zone \<Rightarrow> event_filters \<Rightarrow> form_field list" where
  "events_form zone f =
     [Select_field (js ''Event type'') (ef_event_type f) type_options,
      Text_field (js ''Server'') (ef_server f) None,
      User_field (js ''User'') (ef_actor_id f),
      Select_field (js ''Time range'') (ef_range f) range_options]
     @ map (\<lambda>(l, v, bad). Text_field l v (if bad then Some (js ''Use '' @ DATE_HINT) else None)) (custom_fields zone f)"

text \<open>The open list of users: a text when nobody matches, or the choices with their marks.\<close>

record user_option =
  uo_label :: jstr
  uo_count :: "nat option"
  uo_selected :: bool
  uo_active :: bool

datatype user_list = Users_closed | Users_none | Users_listed "user_option list"

definition user_list :: "(jstr \<Rightarrow> jstr) \<Rightarrow> choice list \<Rightarrow> combo_state \<Rightarrow> user_list" where
  "user_list lower choices st =
     (let vs = visible_choices lower choices (cb_query st) in
      if \<not> cb_open st then Users_closed
      else if length vs = 0 then Users_none
      else Users_listed (map (\<lambda>(i, c). \<lparr>uo_label = ch_label c, uo_count = ch_count c,
        uo_selected = (ch_id c = cb_value st), uo_active = (int i = cb_active st)\<rparr>) (enumerate 0 vs)))"

section \<open>The timeline's table\<close>

definition SEVERITY_TINT :: "(jstr \<times> jstr) list" where
  "SEVERITY_TINT = map (\<lambda>(a, b). (js a, js b)) [(''CRITICAL'', ''--tint-critical''), (''MAJOR'', ''--tint-major''),
     (''WARNING'', ''--tint-warning''), (''HEALTHY'', ''--tint-healthy'')]"

text \<open>A severity chip: the word as it came and its tint.\<close>

definition tint_chip :: "jstr \<Rightarrow> jstr \<times> jsval" where
  "tint_chip severity = (severity, coalesce (table_get SEVERITY_TINT severity) (Text (js ''--surface-hover'')))"

definition classification_why :: "jobject \<Rightarrow> (jstr \<times> jstr) list" where
  "classification_why d = (case matched_rule d of
     None \<Rightarrow> []
   | Some (name, matched_on) \<Rightarrow> (js ''Matched rule'', name) #
       (if truthy matched_on then [(js ''Matched on'', the matched_on)] else []))"

definition KIND_TINT :: "actor_kind \<Rightarrow> jstr" where
  "KIND_TINT k = (case k of KindUser \<Rightarrow> js ''--tint-info'' | KindToken \<Rightarrow> js ''--tint-major''
     | KindSystem \<Rightarrow> js ''--surface-hover'')"

definition kind_text :: "actor_kind \<Rightarrow> jstr" where
  "kind_text k = (case k of KindUser \<Rightarrow> js ''user'' | KindToken \<Rightarrow> js ''token'' | KindSystem \<Rightarrow> js ''system'')"

text \<open>An actor's label, its kind and the kind's tint.\<close>

definition actor_cell :: "actor \<Rightarrow> jstr \<times> jstr \<times> jstr" where
  "actor_cell a = (let (label, kind) = actor_label a in (label, kind_text kind, KIND_TINT kind))"

definition timeline_headers :: "bool \<Rightarrow> jstr list" where
  "timeline_headers show_server =
     (if show_server then [js ''Server''] else []) @ map js [''What happened'', ''When'', ''User'']"

definition timeline_columns :: "bool \<Rightarrow> nat" where
  "timeline_columns show_server = (if show_server then 4 else 3)"

text \<open>The time cell: the instant, its hover text and its text, both the browser's forms of an instant.\<close>

definition when_cell :: "(jstr \<Rightarrow> jstr) \<Rightarrow> (jstr \<Rightarrow> jstr) \<Rightarrow> audit_event \<Rightarrow> jstr \<times> jstr \<times> jstr" where
  "when_cell relative fmt e = (ev_created_at e, relative (ev_created_at e), fmt (ev_created_at e))"

definition details_button :: "bool \<Rightarrow> jstr" where
  "details_button is_open = (if is_open then [9662] @ js '' Hide details'' else [9656] @ js '' Details'')"

record timeline_view =
  tv_headers :: "jstr list"
  tv_columns :: nat
  tv_rows :: "(timeline_row \<times> (jstr \<times> jstr \<times> jstr) \<times> jstr) list"

definition event_timeline ::
  "text_env \<Rightarrow> (jstr \<Rightarrow> jstr) \<Rightarrow> (jstr \<Rightarrow> jstr) \<Rightarrow> bool \<Rightarrow> jstr list \<Rightarrow> audit_event list \<Rightarrow> timeline_view" where
  "event_timeline te relative fmt show_server is_open events = \<lparr>
     tv_headers = timeline_headers show_server, tv_columns = timeline_columns show_server,
     tv_rows = map (\<lambda>e. (timeline_row te show_server is_open e, when_cell relative fmt e,
       details_button (ev_id e \<in> set is_open))) events\<rparr>"

section \<open>The page in time\<close>

definition FIELD_DELAY :: int where "FIELD_DELAY = 300"

text \<open>
  The URL, the three debounced texts, the filters the parameters were last computed from with those
  parameters, and the index of the list's page.
\<close>

record trail =
  tl_url :: params
  tl_server :: "jstr timed"
  tl_from :: "jstr timed"
  tl_to :: "jstr timed"
  tl_deps :: event_filters
  tl_params :: event_params
  tl_index :: nat

text \<open>What the page reads: the time zone's data and the members objects inherit.\<close>

record trail_env =
  tn_zone :: zone
  tn_member :: "jstr \<Rightarrow> jstr"

definition form_of :: "trail_env \<Rightarrow> trail \<Rightarrow> event_filters" where
  "form_of env st = page_filters (tn_member env) (tl_url st)"

definition current_deps :: "trail_env \<Rightarrow> trail \<Rightarrow> event_filters" where
  "current_deps env st = (form_of env st)\<lparr>ef_server := td_value (tl_server st),
     ef_from := td_value (tl_from st), ef_to := td_value (tl_to st)\<rparr>"

text \<open>
  The memo: the parameters are computed again only when a dependency has changed, with the clock of that
  render; other parameters mount another list, which starts at its first page.
\<close>

definition render_params :: "trail_env \<Rightarrow> int \<Rightarrow> trail \<Rightarrow> trail" where
  "render_params env now st =
     (let deps = current_deps env st in
      if deps = tl_deps st then st
      else (let p = filters_to_params (tn_zone env) deps now in
        st\<lparr>tl_deps := deps, tl_params := p, tl_index := (if p = tl_params st then tl_index st else 0)\<rparr>))"

definition trail_mount :: "trail_env \<Rightarrow> params \<Rightarrow> int \<Rightarrow> trail" where
  "trail_mount env p now =
     (let f = page_filters (tn_member env) p in
      \<lparr>tl_url = p, tl_server = debounce_start FIELD_DELAY (ef_server f) now,
       tl_from = debounce_start FIELD_DELAY (ef_from f) now, tl_to = debounce_start FIELD_DELAY (ef_to f) now,
       tl_deps = f, tl_params = filters_to_params (tn_zone env) f now, tl_index = 0\<rparr>)"

text \<open>The timers that are due by an instant fire in their order, each with a render.\<close>

definition due_by :: "int \<Rightarrow> 'a timed \<Rightarrow> int option" where
  "due_by t s = (case td_timer s of Some (due, _) \<Rightarrow> if due \<le> t then Some due else None | None \<Rightarrow> None)"

definition fire_at :: "trail_env \<Rightarrow> int \<Rightarrow> trail \<Rightarrow> trail" where
  "fire_at env d st = render_params env d (st\<lparr>tl_server := advance d (tl_server st),
     tl_from := advance d (tl_from st), tl_to := advance d (tl_to st)\<rparr>)"

definition trail_settle :: "trail_env \<Rightarrow> int \<Rightarrow> trail \<Rightarrow> trail" where
  "trail_settle env t st =
     fold (fire_at env) (sort (List.map_filter (due_by t) [tl_server st, tl_from st, tl_to st])) st"

datatype trail_event = Edit jstr jstr | Turn_to nat | Wake

definition trail_edit :: "trail_env \<Rightarrow> int \<Rightarrow> params \<Rightarrow> trail \<Rightarrow> trail" where
  "trail_edit env now p st =
     (let f = form_of env st; f' = page_filters (tn_member env) p in
      render_params env now (st\<lparr>tl_url := p,
        tl_server := debounce_follow FIELD_DELAY now (ef_server f) (ef_server f') (tl_server st),
        tl_from := debounce_follow FIELD_DELAY now (ef_from f) (ef_from f') (tl_from st),
        tl_to := debounce_follow FIELD_DELAY now (ef_to f) (ef_to f') (tl_to st)\<rparr>))"

fun trail_step :: "trail_env \<Rightarrow> int \<Rightarrow> trail_event \<Rightarrow> trail \<Rightarrow> trail" where
  "trail_step env now (Edit k v) st = (let s = trail_settle env now st in trail_edit env now (set_param k v (tl_url s)) s)"
| "trail_step env now (Turn_to n) st = (trail_settle env now st)\<lparr>tl_index := n\<rparr>"
| "trail_step env now Wake st = trail_settle env now st"

definition trail_run :: "trail_env \<Rightarrow> (int \<times> trail_event) list \<Rightarrow> trail \<Rightarrow> trail" where
  "trail_run env evs st = fold (\<lambda>(t, e). trail_step env t e) evs st"

text \<open>The times of the events that changed one of the three texts.\<close>

definition texts :: "event_filters \<Rightarrow> jstr \<times> jstr \<times> jstr" where
  "texts f = (ef_server f, ef_from f, ef_to f)"

fun text_edits :: "trail_env \<Rightarrow> (int \<times> trail_event) list \<Rightarrow> trail \<Rightarrow> int list" where
  "text_edits env [] st = []"
| "text_edits env ((t, e) # evs) st =
     (let st' = trail_step env t e st in
      (if texts (form_of env st') = texts (form_of env st) then [] else [t]) @ text_edits env evs st')"

section \<open>Timers that fire in order\<close>

lemma fold_advance:
  "\<forall>d \<in> set ds. d \<le> t \<Longrightarrow> (\<And>due v. td_timer s = Some (due, v) \<Longrightarrow> due \<le> t \<Longrightarrow> due \<in> set ds) \<Longrightarrow>
    fold advance ds s = advance t s"
proof (induction ds arbitrary: s)
  case Nil
  then show ?case by (fastforce simp: advance_def split: option.splits)
next
  case (Cons d ds)
  show ?case
  proof (cases "\<exists>due v. td_timer s = Some (due, v) \<and> due \<le> d")
    case True
    then obtain due v where t: "td_timer s = Some (due, v)" "due \<le> d" by blast
    then have a: "advance d s = \<lparr>td_value = v, td_timer = None\<rparr>" "advance t s = \<lparr>td_value = v, td_timer = None\<rparr>"
      using Cons.prems(1) by (simp_all add: advance_def)
    have "fold advance ds \<lparr>td_value = v, td_timer = None\<rparr> = advance t \<lparr>td_value = v, td_timer = None\<rparr>"
      using Cons.prems(1) by (intro Cons.IH) simp_all
    then show ?thesis by (simp add: a) (simp add: advance_def)
  next
    case False
    then have "advance d s = s" by (auto simp: advance_def split: option.splits)
    moreover have "fold advance ds s = advance t s"
      using Cons.prems False by (intro Cons.IH) auto
    ultimately show ?thesis by simp
  qed
qed

lemma render_fields [simp]:
  "tl_url (render_params env now st) = tl_url st" "tl_server (render_params env now st) = tl_server st"
  "tl_from (render_params env now st) = tl_from st" "tl_to (render_params env now st) = tl_to st"
  by (simp_all add: render_params_def Let_def)

lemma fold_fire:
  "tl_url (fold (fire_at env) ds st) = tl_url st" "tl_server (fold (fire_at env) ds st) = fold advance ds (tl_server st)"
  "tl_from (fold (fire_at env) ds st) = fold advance ds (tl_from st)"
  "tl_to (fold (fire_at env) ds st) = fold advance ds (tl_to st)"
  by (induction ds arbitrary: st) (simp_all add: fire_at_def)

lemma due_times:
  "d \<in> set (List.map_filter (due_by t) ss) \<longleftrightarrow> (\<exists>s \<in> set ss. \<exists>v. td_timer s = Some (d, v) \<and> d \<le> t)"
  by (force simp: List.map_filter_def due_by_def split: option.splits if_splits)

lemma fold_due: "s \<in> set ss \<Longrightarrow> fold advance (sort (List.map_filter (due_by t) ss)) s = advance t s"
  by (rule fold_advance) (auto simp: due_times)

lemma settle_fields:
  "tl_url (trail_settle env t st) = tl_url st"
  "tl_server (trail_settle env t st) = advance t (tl_server st)"
  "tl_from (trail_settle env t st) = advance t (tl_from st)"
  "tl_to (trail_settle env t st) = advance t (tl_to st)"
  unfolding trail_settle_def fold_fire by (simp_all only: fold_due list.set_intros insert_iff list.set simp_thms)

section \<open>The parameters follow the form\<close>

definition trail_inv :: "trail_env \<Rightarrow> int set \<Rightarrow> trail \<Rightarrow> bool" where
  "trail_inv env C st \<longleftrightarrow>
     tracks FIELD_DELAY C (ef_server (form_of env st)) (tl_server st) \<and> tracks FIELD_DELAY C (ef_from (form_of env st)) (tl_from st) \<and>
     tracks FIELD_DELAY C (ef_to (form_of env st)) (tl_to st) \<and> tl_deps st = current_deps env st \<and>
     (\<exists>u. tl_params st = filters_to_params (tn_zone env) (tl_deps st) u)"

lemma form_render [simp]: "form_of env (render_params env' now st) = form_of env st"
  by (simp add: form_of_def)

lemma deps_render: "tl_deps (render_params env now st) = current_deps env (render_params env now st)"
  by (simp add: render_params_def current_deps_def form_of_def Let_def)

lemma params_render:
  "\<exists>u. tl_params st = filters_to_params (tn_zone env) (tl_deps st) u \<Longrightarrow>
    \<exists>u. tl_params (render_params env now st) = filters_to_params (tn_zone env) (tl_deps (render_params env now st)) u"
  by (auto simp: render_params_def Let_def)

lemma inv_fire: "trail_inv env C st \<Longrightarrow> trail_inv env C (fire_at env d st)"
proof -
  assume i: "trail_inv env C st"
  let ?s = "st\<lparr>tl_server := advance d (tl_server st), tl_from := advance d (tl_from st), tl_to := advance d (tl_to st)\<rparr>"
  have f: "form_of env ?s = form_of env st" by (simp add: form_of_def)
  have "\<exists>u. tl_params st = filters_to_params (tn_zone env) (tl_deps st) u" using i unfolding trail_inv_def by blast
  then have "\<exists>u. tl_params ?s = filters_to_params (tn_zone env) (tl_deps ?s) u" by simp
  then show ?thesis
    using i deps_render [of env d ?s] params_render [of ?s env d]
    by (auto simp: trail_inv_def fire_at_def f intro!: tracking)
qed

lemma inv_settle: "trail_inv env C st \<Longrightarrow> trail_inv env C (trail_settle env t st)"
proof -
  have "trail_inv env C st \<Longrightarrow> trail_inv env C (fold (fire_at env) ds st)" for ds
    by (induction ds arbitrary: st) (simp_all add: inv_fire)
  then show "trail_inv env C st \<Longrightarrow> ?thesis" by (simp add: trail_settle_def)
qed

lemma inv_edit:
  assumes "trail_inv env C st" "C \<subseteq> D"
    and "texts (page_filters (tn_member env) p) = texts (form_of env st) \<or> now \<in> D"
  shows "trail_inv env D (trail_edit env now p st)"
proof -
  let ?f = "form_of env st" and ?f' = "page_filters (tn_member env) p"
  let ?s = "st\<lparr>tl_url := p, tl_server := debounce_follow FIELD_DELAY now (ef_server ?f) (ef_server ?f') (tl_server st),
    tl_from := debounce_follow FIELD_DELAY now (ef_from ?f) (ef_from ?f') (tl_from st), tl_to := debounce_follow FIELD_DELAY now (ef_to ?f) (ef_to ?f') (tl_to st)\<rparr>"
  have e: "trail_edit env now p st = render_params env now ?s" by (simp add: trail_edit_def Let_def)
  have f: "form_of env ?s = ?f'" by (simp add: form_of_def)
  have one: "tracks FIELD_DELAY D new (debounce_follow FIELD_DELAY now old new s)"
    if "tracks FIELD_DELAY C old s" "new = old \<or> now \<in> D" for old new s
    using that assms(2) by (auto intro!: tracks_follow split: if_splits)
  have same: "texts ?f' = texts ?f \<Longrightarrow> ef_server ?f' = ef_server ?f \<and> ef_from ?f' = ef_from ?f \<and> ef_to ?f' = ef_to ?f"
    by (simp add: texts_def)
  have "\<exists>u. tl_params st = filters_to_params (tn_zone env) (tl_deps st) u" using assms(1) unfolding trail_inv_def by blast
  then have "\<exists>u. tl_params ?s = filters_to_params (tn_zone env) (tl_deps ?s) u" by simp
  then have "\<exists>u. tl_params (render_params env now ?s) =
      filters_to_params (tn_zone env) (tl_deps (render_params env now ?s)) u" by (rule params_render)
  then show ?thesis
    using assms(1,3) same deps_render [of env now ?s]
    unfolding e trail_inv_def form_render f by (auto intro!: one)
qed

lemma form_settle [simp]: "form_of env (trail_settle env' t st) = form_of env st"
  by (simp add: form_of_def settle_fields)

lemma form_edit: "form_of env (trail_edit env' now p st) = page_filters (tn_member env) p"
  by (simp add: form_of_def trail_edit_def Let_def)

lemma inv_index: "trail_inv env C (st\<lparr>tl_index := n\<rparr>) = trail_inv env C st"
  by (simp add: trail_inv_def current_deps_def form_of_def)

lemma inv_step:
  assumes "trail_inv env C st"
  shows "trail_inv env (C \<union> (if texts (form_of env (trail_step env t e st)) = texts (form_of env st) then {} else {t}))
    (trail_step env t e st)"
proof (cases e)
  case (Edit k v)
  let ?s = "trail_settle env t st"
  show ?thesis
    using inv_settle [OF assms, of t] by (auto simp: Edit Let_def form_edit intro!: inv_edit [of _ C])
next
  case (Turn_to n)
  then show ?thesis using inv_settle [OF assms, of t] by (simp add: inv_index form_of_def settle_fields)
next
  case Wake
  then show ?thesis using inv_settle [OF assms, of t] by simp
qed

lemma inv_run: "trail_inv env C st \<Longrightarrow> trail_inv env (C \<union> set (text_edits env evs st)) (trail_run env evs st)"
proof (induction evs arbitrary: C st)
  case Nil
  then show ?case by (simp add: trail_run_def)
next
  case (Cons x evs)
  obtain t e where x: "x = (t, e)" by (cases x)
  have "set (text_edits env (x # evs) st) =
      (if texts (form_of env (trail_step env t e st)) = texts (form_of env st) then {} else {t}) \<union>
      set (text_edits env evs (trail_step env t e st))"
    by (simp add: x Let_def)
  moreover have "trail_run env (x # evs) st = trail_run env evs (trail_step env t e st)"
    by (simp add: x trail_run_def)
  ultimately show ?case using Cons.IH [OF inv_step [OF Cons.prems, of t e]] by (simp only: Un_assoc)
qed

lemma inv_mount: "trail_inv env {t} (trail_mount env p t)"
  by (auto simp: trail_inv_def trail_mount_def Let_def form_of_def current_deps_def tracking) (simp_all add: debounce_start_def)

text \<open>The form shows in each field the value last set in it.\<close>

lemma get_set_param:
  "sp_get (set_param k v p) k' = (if k' = k then (if v = [] then None else Some v) else sp_get p k')"
  by (simp add: set_param_def sp_get_hd sp_get_all_set sp.get_del)

lemma form_after_edits:
  "tl_url (trail_run env evs st) = fold (\<lambda>(_, e). case e of Edit k v \<Rightarrow> set_param k v | _ \<Rightarrow> (\<lambda>p. p)) evs (tl_url st)"
proof (induction evs arbitrary: st)
  case (Cons x evs)
  have "tl_url (trail_step env t e st) = (case e of Edit k v \<Rightarrow> set_param k v | _ \<Rightarrow> (\<lambda>p. p)) (tl_url st)" for t e
    by (cases e) (simp_all add: settle_fields trail_edit_def Let_def)
  with Cons show ?case by (cases x) (simp add: trail_run_def)
qed (simp add: trail_run_def)

section \<open>Properties\<close>



end
