(* ===== verification/Dev_Server.thy ===== *)
theory Dev_Server
  imports Session Queries
begin

text \<open>
  The proxy of the development server (\<^verbatim>\<open>vite.config.ts\<close>) beside the router and the query hooks: which
  addresses leave the single-page app. How a key of the table matches an address is the development
  server's own: it is the argument \<open>m\<close>, with its documented rule as the hypothesis \<open>vite_rule\<close>.
\<close>

section \<open>The table\<close>

definition BACKEND :: jstr where "BACKEND = js ''http://localhost:8080''"

definition MCP_SERVER :: jstr where "MCP_SERVER = js ''http://localhost:8091''"

definition DEV_PROXY :: "(jstr \<times> jstr) list" where
  "DEV_PROXY = [
     (js ''/api'', BACKEND),
     (js ''^/health/'', BACKEND),
     (js ''/metrics'', BACKEND),
     (js ''/mcp'', MCP_SERVER)]"

text \<open>The target of the first key that matches; \<open>None\<close> is the app's own page.\<close>

definition dev_proxy :: "(jstr \<Rightarrow> jstr \<Rightarrow> bool) \<Rightarrow> jstr \<Rightarrow> jstr option" where
  "dev_proxy m url = map_option snd (find (\<lambda>(k, _). m k url) DEV_PROXY)"

section \<open>How a key matches\<close>

text \<open>A key that starts with \<open>^\<close> is a regular expression, here a literal one; another is a prefix.\<close>

definition literal_unit :: "nat \<Rightarrow> bool" where
  "literal_unit u \<longleftrightarrow> u = 47 \<or> u = 45 \<or> u = 95 \<or> (48 \<le> u \<and> u \<le> 57) \<or> (97 \<le> u \<and> u \<le> 122)"

definition vite_rule :: "(jstr \<Rightarrow> jstr \<Rightarrow> bool) \<Rightarrow> bool" where
  "vite_rule m \<longleftrightarrow>
     (\<forall>k url. list_all literal_unit k \<longrightarrow> m (94 # k) url = starts_with url k \<and> m k url = starts_with url k)"

lemma table_matches:
  assumes "vite_rule m"
  shows "m (js ''/api'') url = starts_with url (js ''/api'')"
    "m (js ''^/health/'') url = starts_with url (js ''/health/'')"
    "m (js ''/metrics'') url = starts_with url (js ''/metrics'')"
    "m (js ''/mcp'') url = starts_with url (js ''/mcp'')"
proof -
  have r: "m (94 # k) url = starts_with url k" "m k url = starts_with url k" if "list_all literal_unit k" for k
    using assms that by (simp_all add: vite_rule_def)
  have "list_all literal_unit (js ''/api'')" "list_all literal_unit (js ''/health/'')"
    "list_all literal_unit (js ''/metrics'')" "list_all literal_unit (js ''/mcp'')"
    by (simp_all add: js_def literal_unit_def)
  from this [THEN r(2)] this(2) [THEN r(1)] show "m (js ''/api'') url = starts_with url (js ''/api'')"
    "m (js ''^/health/'') url = starts_with url (js ''/health/'')"
    "m (js ''/metrics'') url = starts_with url (js ''/metrics'')"
    "m (js ''/mcp'') url = starts_with url (js ''/mcp'')"
    by (simp_all add: js_Cons [of "CHR ''^''"])
qed

lemma dev_proxy_eq:
  "vite_rule m \<Longrightarrow> dev_proxy m url =
    (if starts_with url (js ''/api'') \<or> starts_with url (js ''/health/'') \<or> starts_with url (js ''/metrics'') then Some BACKEND
     else if starts_with url (js ''/mcp'') then Some MCP_SERVER else None)"
  by (simp add: dev_proxy_def DEV_PROXY_def table_matches)

text \<open>The back end's own paths, whatever follows.\<close>

lemma backend_paths [simp]:
  "starts_with (js ''/api/v1/events'' @ x) (js ''/api'')" "starts_with (js ''/api/v1/servers/'' @ x) (js ''/api'')"
  "starts_with (js ''/api/v1/classification-rules'' @ x) (js ''/api'')"
  "starts_with (js ''/api/v1/health-policies'' @ x) (js ''/api'')" "starts_with (js ''/api/v1/jobs/'' @ x) (js ''/api'')"
  by (simp_all add: starts_with_def js_def)

lemma hook_paths:
  "(if q = Q_readiness then starts_with (rq_path (hk_request (hook_of e q) c)) (js ''/health/'')
    else starts_with (rq_path (hk_request (hook_of e q) c)) (js ''/api''))"
  by (cases q) (simp_all add: use_defs path_defs starts_with_query, simp_all add: starts_with_def js_def)

section \<open>The pages\<close>

lemma route_paths:
  assumes "route_of path \<noteq> None"
  obtains "path \<in> fst ` set ROUTES" | i where "path = js ''/servers/'' @ i"
proof (cases "map_of ROUTES path")
  case (Some r)
  then show thesis using that(1) by (metis image_eqI map_of_SomeD fst_conv)
next
  case None
  with assms obtain i where "split_on 47 path = [[], js ''servers'', i]"
    by (auto simp: route_of_def split: list.splits if_splits)
  with join_split [of 47 path] have "path = js ''/servers/'' @ i" by (simp add: js_def)
  then show thesis by (rule that(2))
qed

text \<open>
  The comment of the table speaks of the app's own \<open>/health-policies\<close> pages: the anchored key would let
  them through, but the router has none.
\<close>

lemma health_policies_page_is_gone:
  "vite_rule m \<Longrightarrow> dev_proxy m (js ''/health-policies'') = None \<and> route_of (js ''/health-policies'') = None"
  by (simp add: dev_proxy_eq route_of_def ROUTES_def) (simp add: starts_with_def js_def)

section \<open>Properties\<close>

text \<open>
  C21: in development a page opened or refreshed at any address of the router, with any query string,
  is served by the app itself and never by the proxy, while every request of every query hook reaches the
  back end, and the address the skill page hands out the MCP server.
\<close>

theorem dev_server_splits:
  assumes "vite_rule m" "route_of path \<noteq> None" "query = [] \<or> starts_with query (js ''?'')"
  shows "dev_proxy m (path @ query) = None \<and>
    dev_proxy m (rq_path (hk_request (hook_of e q) c)) = Some BACKEND \<and> dev_proxy m (js ''/mcp'') = Some MCP_SERVER"
proof (intro conjI)
  obtain rest where query: "query = [] \<or> query = 63 # rest"
    using assms(3) by (auto simp: starts_with_def js_def prefix_def)
  show "dev_proxy m (path @ query) = None"
  proof (cases rule: route_paths [OF assms(2)])
    case 1
    then show ?thesis
      using query by (auto simp: dev_proxy_eq [OF assms(1)] ROUTES_def) (simp_all add: starts_with_def js_def)
  next
    case (2 i)
    then show ?thesis by (simp add: dev_proxy_eq [OF assms(1)]) (simp add: starts_with_def js_def)
  qed
  show "dev_proxy m (rq_path (hk_request (hook_of e q) c)) = Some BACKEND"
    using hook_paths [of q e c] by (simp add: dev_proxy_eq [OF assms(1)] split: if_splits)
  show "dev_proxy m (js ''/mcp'') = Some MCP_SERVER"
    by (simp add: dev_proxy_eq [OF assms(1)]) (simp add: starts_with_def js_def)
qed

text \<open>The rule on a concrete matcher.\<close>

definition literal_matcher :: "jstr \<Rightarrow> jstr \<Rightarrow> bool" where
  "literal_matcher k url = starts_with url (if starts_with k (js ''^'') then tl k else k)"

lemma literal_matcher_rule: "vite_rule literal_matcher"
proof -
  have "\<not> starts_with k (js ''^'')" if "list_all literal_unit k" for k
    using that by (auto simp: starts_with_def js_def literal_unit_def prefix_def)
  then show ?thesis by (simp add: vite_rule_def literal_matcher_def) (simp add: starts_with_def js_def)
qed

lemma dev_server_splits_witness:
  "dev_proxy literal_matcher (js ''/architecture'' @ js ''?page=2'') = None \<and>
   dev_proxy literal_matcher (js ''/health/ready'') = Some BACKEND"
  using dev_server_splits [OF literal_matcher_rule, of "js ''/architecture''" "js ''?page=2''"
    "\<lparr>qe_enc = (\<lambda>_. []), qe_uri = (\<lambda>s. s), qe_me = None, qe_jobs = None\<rparr>" Q_readiness "[]"]
  by (simp add: route_of_def ROUTES_def use_defs get_readiness_def get_def) (simp add: starts_with_def js_def)

end
