(* ===== verification/Placement.thy ===== *)
theory Placement
  imports Prelude
begin

text \<open>
  Where the page puts the two boxes it measures: the card that asks for the reason of a maintenance
  (\<^verbatim>\<open>src/features/inventory/MaintenanceToggle.tsx\<close>) and the sidebar of the clusters
  (\<^verbatim>\<open>ClusterSidebar.tsx\<close>). Lengths are CSS pixels, fractions of a pixel included.
\<close>

section \<open>The card\<close>

text \<open>What \<open>getBoundingClientRect\<close> says of the button, from the top left of the window.\<close>

record rect =
  rc_top :: rat
  rc_bottom :: rat
  rc_right :: rat

record window =
  wi_width :: rat
  wi_height :: rat

text \<open>The card's distance from the right edge, and from the top or from the bottom edge.\<close>

datatype edge = From_top rat | From_bottom rat

type_synonym card_style = "(rat \<times> edge) option"

definition CARD_HEIGHT_ESTIMATE :: rat where "CARD_HEIGHT_ESTIMATE = 280"

definition fits_below :: "rect \<Rightarrow> window \<Rightarrow> bool" where
  "fits_below r w \<longleftrightarrow> rc_bottom r + CARD_HEIGHT_ESTIMATE < wi_height w"

text \<open>The effect of a change of \<open>asking\<close>; the style stays when nothing is asked or the button is gone.\<close>

definition place_card :: "bool \<Rightarrow> rect option \<Rightarrow> window \<Rightarrow> card_style \<Rightarrow> card_style" where
  "place_card asking rect w style = (case rect of
     None \<Rightarrow> style
   | Some r \<Rightarrow>
       if \<not> asking then style
       else Some (max 8 (wi_width w - rc_right r),
         if fits_below r w then From_top (rc_bottom r + 4) else From_bottom (wi_height w - rc_top r + 4)))"

section \<open>The sidebar\<close>

text \<open>The box may be as high as what the window shows below its top, at least 160 pixels.\<close>

definition sidebar_max_height :: "rat option \<Rightarrow> rat \<Rightarrow> rat option \<Rightarrow> rat option" where
  "sidebar_max_height top_edge inner_height old = (case top_edge of
     None \<Rightarrow> old
   | Some t \<Rightarrow> Some (max 160 (inner_height - max t 16 - 16)))"

section \<open>What they show\<close>

text \<open>The top and the bottom of a card of a height.\<close>

definition card_span :: "rat \<Rightarrow> window \<Rightarrow> edge \<Rightarrow> rat \<times> rat" where
  "card_span height w e = (case e of From_top t \<Rightarrow> (t, t + height) | From_bottom b \<Rightarrow> (wi_height w - b - height, wi_height w - b))"

text \<open>
  The card stays eight pixels inside the right edge and never covers its button; one as high as the
  estimate that is placed below overlaps the window's bottom by less than four pixels.
\<close>

lemma card_clears_button:
  assumes "place_card True (Some r) w s = Some (right, e)" "card_span height w e = (upper, lower)"
  shows "8 \<le> right \<and> (rc_bottom r + 4 = upper \<or> lower + 4 = rc_top r) \<and>
    (height \<le> CARD_HEIGHT_ESTIMATE \<and> fits_below r w \<longrightarrow> lower < wi_height w + 4)"
  using assms by (auto simp: place_card_def card_span_def fits_below_def split: if_splits)

lemma card_kept_when_closed: "place_card False r w s = s"
  by (simp add: place_card_def split: option.split)

text \<open>Below a top that leaves 176 pixels, the box ends at least 16 pixels above the window's bottom.\<close>

lemma sidebar_ends_in_window:
  assumes "sidebar_max_height (Some t) h old = Some m" "max t 16 + 176 \<le> h"
  shows "t + m \<le> h - 16 \<and> 160 \<le> m"
  using assms by (auto simp: sidebar_max_height_def max_def split: if_splits)

end
