(* ===== verification/App.thy ===== *)
theory App
  imports Queries Server_Page
begin

text \<open>
  The app as a whole: what it asks the back end for at an address, in a session and a state of its page.
  \<open>mounted\<close> composes the layout (\<^verbatim>\<open>components/AppLayout.tsx\<close>), the router with its gates
  (\<^verbatim>\<open>router.tsx\<close>, \<^verbatim>\<open>AuditGate.tsx\<close>, \<^verbatim>\<open>AdminGate.tsx\<close>) and the hooks each page calls. The abstract
  specification is \<open>entitled\<close>: what a caller may ask for.
\<close>

section \<open>What a page asks for\<close>

text \<open>What the pages' own states decide: only the members of the open page are read.\<close>

record page_state =
  pg_id :: jstr
  pg_tab :: tab
  pg_server :: "server_detail query"
  pg_trail :: event_params
  pg_jobs :: jobs_state
  pg_skill :: "skill query"

definition server_page_queries :: "me option \<Rightarrow> page_state \<Rightarrow> app_query list" where
  "server_page_queries me st = Q_server (pg_id st) #
     (case query_data (pg_server st) of
        Some d \<Rightarrow> if dp_drawn (detail_page me None (pg_tab st) (pg_server st)) = Some Tab_history
          then [Q_server_trail (dt_id d)] else []
      | None \<Rightarrow> [])"

definition jobs_page_queries :: "page_state \<Rightarrow> app_query list" where
  "jobs_page_queries st = Q_jobs # (case js_selected (pg_jobs st) of Some s \<Rightarrow> [Q_logs s] | None \<Rightarrow> [])"

text \<open>The token's section is drawn once the skill is read.\<close>

definition skill_page_queries :: "page_state \<Rightarrow> app_query list" where
  "skill_page_queries st = Q_skill # (case pg_skill st of Loaded _ \<Rightarrow> [Q_token] | _ \<Rightarrow> [])"

definition page_queries :: "me option \<Rightarrow> page \<Rightarrow> page_state \<Rightarrow> app_query list" where
  "page_queries me p st = (case p of
     Sites_page \<Rightarrow> [Q_sites]
   | Inventory \<Rightarrow> [Q_sites, Q_rows]
   | Server_page \<Rightarrow> server_page_queries me st
   | Events_page \<Rightarrow> [Q_trail (pg_trail st), Q_actors]
   | Jobs_page \<Rightarrow> jobs_page_queries st
   | Rules_page \<Rightarrow> [Q_rules (Some True), Q_policies (Some True)]
   | Architecture_page \<Rightarrow> []
   | Skill_page \<Rightarrow> skill_page_queries st
   | Status_page \<Rightarrow> [Q_readiness])"

text \<open>The layout asks for the session; the page below it is mounted only in the app's own layout.\<close>

definition mounted :: "me query \<Rightarrow> jstr \<Rightarrow> page_state \<Rightarrow> app_query list" where
  "mounted session path st = Q_session #
     (case app_layout session of
        Layout_app \<Rightarrow> (case outlet (query_data session) path of
          Page p \<Rightarrow> page_queries (query_data session) p st
        | _ \<Rightarrow> [])
      | _ \<Rightarrow> [])"

definition hook_env :: "(params \<Rightarrow> jstr) \<Rightarrow> (jstr \<Rightarrow> jstr) \<Rightarrow> me query \<Rightarrow> jobs_overview option \<Rightarrow> query_env" where
  "hook_env enc enc_uri session jobs = \<lparr>qe_enc = enc, qe_uri = enc_uri, qe_me = query_data session, qe_jobs = jobs\<rparr>"

text \<open>A disabled query sends nothing.\<close>

definition asked :: "query_env \<Rightarrow> me query \<Rightarrow> jstr \<Rightarrow> page_state \<Rightarrow> app_query list" where
  "asked e session path st = filter (\<lambda>q. qo_enabled (hk_options (hook_of e q))) (mounted session path st)"

section \<open>The specification\<close>

text \<open>The audit trail is for admins and auditors, the jobs for admins, a token for a caller who is logged in.\<close>

fun entitled :: "me option \<Rightarrow> app_query \<Rightarrow> bool" where
  "entitled me (Q_trail p) = can_read_audit me"
| "entitled me (Q_server_trail i) = can_read_audit me"
| "entitled me (Q_type_history t) = can_read_audit me"
| "entitled me Q_actors = can_read_audit me"
| "entitled me Q_jobs = is_admin me"
| "entitled me (Q_logs s) = is_admin me"
| "entitled me Q_token = token_enabled me"
| "entitled me _ = True"

section \<open>Laws\<close>

lemma server_page_entitled: "list_all (entitled me) (server_page_queries me st)"
  by (auto simp: server_page_queries_def detail_page_def drawn_tab_def split: option.splits if_splits)

lemma gated_page_entitled:
  assumes "outlet me path = Page p"
  shows "p = Events_page \<Longrightarrow> can_read_audit me" "p = Jobs_page \<Longrightarrow> is_admin me"
proof -
  obtain g where r: "route_of path = Some (g, p)" "gate_admits me g"
    using assms by (auto simp: outlet_def split: option.splits if_splits gate.splits)
  have "(g, p) \<in> snd ` set ROUTES \<or> (g, p) = (Open_to_all, Server_page)"
    using r(1) by (force simp: route_of_def dest: map_of_SomeD split: option.splits list.splits if_splits)
  then show "p = Events_page \<Longrightarrow> can_read_audit me" "p = Jobs_page \<Longrightarrow> is_admin me"
    using r(2) by (auto simp: ROUTES_def gate_admits_def)
qed

text \<open>What a page mounts is within the caller's rights, but for the token's query, which its own option disables.\<close>

lemma page_entitled:
  assumes "outlet me path = Page p" "q \<in> set (page_queries me p st)" "q \<noteq> Q_token"
  shows "entitled me q"
proof (cases p)
  case Server_page
  then show ?thesis using assms(2) server_page_entitled [of me st] by (simp add: page_queries_def list_all_iff)
next
  case Events_page
  then show ?thesis using assms(2) gated_page_entitled(1) [OF assms(1)] by (auto simp: page_queries_def)
next
  case Jobs_page
  then show ?thesis using assms(2) gated_page_entitled(2) [OF assms(1)]
    by (auto simp: page_queries_def jobs_page_queries_def split: option.splits)
qed (use assms(2,3) in \<open>auto simp: page_queries_def skill_page_queries_def split: query.splits\<close>)

lemma mounted_entitled:
  "q \<in> set (mounted session path st) \<Longrightarrow> q \<noteq> Q_token \<Longrightarrow> entitled (query_data session) q"
  by (auto simp: mounted_def split: layout.splits outlet.splits dest!: sym [of _ "outlet _ _"] intro: page_entitled)

lemma token_asked:
  "qo_enabled (hk_options (hook_of (hook_env enc enc_uri session jobs) Q_token)) = token_enabled (query_data session)"
  by (simp add: hook_env_def use_token_def)

text \<open>Before the session is known, and while a login is needed, only the session is asked for.\<close>

lemma asked_session: "app_layout session \<noteq> Layout_app \<Longrightarrow> asked e session path st = [Q_session]"
  by (simp add: asked_def mounted_def use_auth_def default_options_def split: layout.splits)

section \<open>Properties\<close>



end
